(* ===== verification/Rust_Prelude.thy ===== *)
theory Rust_Prelude
  imports Main "HOL-Library.Word" "HOL-Library.Signed_Division" "HOL-Library.Monad_Syntax"
begin

text \<open>
  Shared vocabulary of the development: the machine integers of Rust as words of
  their width, the arithmetic of the standard library that the sources call
  (\<open>saturating_\<close>, \<open>checked_\<close> and \<open>wrapping_\<close> operations), indexing that may
  panic, and the little-endian byte order.

  Conventions used by every other theory:
  \<^item> \<open>u8\<close> \dots \<open>u128\<close> and \<open>i16\<close> \dots \<open>i128\<close> are words; a signed
    type is the same bit pattern, read with \<open>sint\<close>. Rust's \<open>as\<close> between
    integer types is \<open>ucast\<close> (truncation, zero extension) or \<open>scast\<close> (sign
    extension, when the source type is signed);
  \<^item> a slice length or an index into a slice (a Rust \<open>usize\<close> that is bounded by
    the size of an allocation) is a \<open>nat\<close>; where the code saturates a \<open>usize\<close>
    the bound \<open>usize_max\<close> is written out;
  \<^item> \<open>'a option\<close> as the result of a computation means that \<open>None\<close> is a panic
    (an index out of range, a division by zero, an arithmetic overflow with
    overflow checks on, a failed assertion); errors that the code returns are
    values of a sum type, with \<open>Inl\<close> for \<open>Err\<close>.
\<close>

unbundle bit_operations_syntax

named_theorems rust_simps \<open>unfolding of the standard-library arithmetic\<close>
named_theorems opcode_val \<open>numeric values of the operation codes\<close>

section \<open>Machine integers\<close>

type_synonym u8 = "8 word"
type_synonym u16 = "16 word"
type_synonym u32 = "32 word"
type_synonym u64 = "64 word"
type_synonym u128 = "128 word"
type_synonym i8 = "8 word"
type_synonym i16 = "16 word"
type_synonym i32 = "32 word"
type_synonym i64 = "64 word"
type_synonym i128 = "128 word"

abbreviation usize_max :: nat where
  "usize_max \<equiv> 18446744073709551615"

definition usize_saturating_add :: "nat \<Rightarrow> nat \<Rightarrow> nat" where [rust_simps]:
  "usize_saturating_add a b = min (a + b) usize_max"

definition usize_saturating_mul :: "nat \<Rightarrow> nat \<Rightarrow> nat" where [rust_simps]:
  "usize_saturating_mul a b = min (a * b) usize_max"

definition usize_saturating_sub :: "nat \<Rightarrow> nat \<Rightarrow> nat" where [rust_simps]:
  "usize_saturating_sub a b = a - b"

definition saturating_add :: "'a::len word \<Rightarrow> 'a word \<Rightarrow> 'a word" where [rust_simps]:
  "saturating_add a b = (if unat a + unat b < 2 ^ LENGTH('a) then a + b else - 1)"

definition saturating_mul :: "'a::len word \<Rightarrow> 'a word \<Rightarrow> 'a word" where [rust_simps]:
  "saturating_mul a b = (if unat a * unat b < 2 ^ LENGTH('a) then a * b else - 1)"

definition saturating_sub :: "'a::len word \<Rightarrow> 'a word \<Rightarrow> 'a word" where [rust_simps]:
  "saturating_sub a b = (if b \<le> a then a - b else 0)"

definition checked_add :: "'a::len word \<Rightarrow> 'a word \<Rightarrow> 'a word option" where [rust_simps]:
  "checked_add a b = (if unat a + unat b < 2 ^ LENGTH('a) then Some (a + b) else None)"

definition checked_sub :: "'a::len word \<Rightarrow> 'a word \<Rightarrow> 'a word option" where [rust_simps]:
  "checked_sub a b = (if b \<le> a then Some (a - b) else None)"

definition checked_shl :: "'a::len word \<Rightarrow> nat \<Rightarrow> 'a word option" where [rust_simps]:
  "checked_shl a n = (if n < LENGTH('a) then Some (push_bit n a) else None)"

definition checked_shr :: "'a::len word \<Rightarrow> nat \<Rightarrow> 'a word option" where [rust_simps]:
  "checked_shr a n = (if n < LENGTH('a) then Some (drop_bit n a) else None)"

definition wrapping_shl :: "'a::len word \<Rightarrow> u32 \<Rightarrow> 'a word" where [rust_simps]:
  "wrapping_shl a n = push_bit (unat n mod LENGTH('a)) a"

definition wrapping_shr :: "'a::len word \<Rightarrow> u32 \<Rightarrow> 'a word" where [rust_simps]:
  "wrapping_shr a n = drop_bit (unat n mod LENGTH('a)) a"

definition wrapping_sshr :: "'a::len word \<Rightarrow> u32 \<Rightarrow> 'a word" where [rust_simps]:
  "wrapping_sshr a n = signed_drop_bit (unat n mod LENGTH('a)) a"

text \<open>\<open>i64::saturating_add\<close> and \<open>i64::saturating_sub\<close>: the two's complement value is clamped.\<close>

definition int_clamp :: "'a::len itself \<Rightarrow> int \<Rightarrow> int" where
  "int_clamp _ k = max (- (2 ^ (LENGTH('a) - 1))) (min (2 ^ (LENGTH('a) - 1) - 1) k)"

definition signed_saturating_add :: "'a::len word \<Rightarrow> 'a word \<Rightarrow> 'a word" where [rust_simps]:
  "signed_saturating_add a b = word_of_int (int_clamp TYPE('a) (sint a + sint b))"

definition signed_saturating_sub :: "'a::len word \<Rightarrow> 'a word \<Rightarrow> 'a word" where [rust_simps]:
  "signed_saturating_sub a b = word_of_int (int_clamp TYPE('a) (sint a - sint b))"

text \<open>Signed division and remainder truncate towards zero.\<close>

definition word_sdiv :: "'a::len word \<Rightarrow> 'a word \<Rightarrow> 'a word" where [rust_simps]:
  "word_sdiv a b = word_of_int (sint a sdiv sint b)"

definition word_srem :: "'a::len word \<Rightarrow> 'a word \<Rightarrow> 'a word" where [rust_simps]:
  "word_srem a b = word_of_int (sint a smod sint b)"

definition word_smin :: "'a::len word" where [rust_simps]:
  "word_smin = word_of_int (- (2 ^ (LENGTH('a) - 1)))"

lemma unat_bound: "unat (w :: 'a::len word) < 2 ^ LENGTH('a)"
  by (rule unsigned_less)

lemma ucast_scast_id:
  "LENGTH('a::len) \<le> LENGTH('b::len) \<Longrightarrow> ucast (scast (w :: 'a word) :: 'b word) = w"
  by (rule bit_word_eqI) (auto simp: bit_simps)

lemma scast_eq_0_iff:
  assumes "LENGTH('a::len) \<le> LENGTH('b::len)"
  shows "(scast (w :: 'a word) :: 'b word) = 0 \<longleftrightarrow> w = 0"
  using ucast_scast_id [OF assms, of w] by (metis scast_0 ucast_0)

lemma ucast_ucast_up_id:
  "LENGTH('a::len) \<le> LENGTH('b::len) \<Longrightarrow> ucast (ucast (w :: 'a word) :: 'b word) = w"
  by (rule bit_word_eqI) (auto simp: bit_simps)

lemma ucast_eq_0_iff:
  assumes "LENGTH('a::len) \<le> LENGTH('b::len)"
  shows "(ucast (w :: 'a word) :: 'b word) = 0 \<longleftrightarrow> w = 0"
  using ucast_ucast_up_id [OF assms, of w] by (metis ucast_0)

text \<open>The signed and the unsigned reading agree on the lower half of the range.\<close>

lemma sint_eq_uint_small:
  assumes "uint (w :: 'a::len word) < 2 ^ (LENGTH('a) - 1)"
  shows "sint w = uint w"
  using assms order_trans [of "- (2 ^ (LENGTH('a) - 1))" 0 "uint w"]
  by (simp add: sint_uint signed_take_bit_int_eq_self)

lemma uint_eq_sint_nonneg:
  assumes "0 \<le> sint (w :: 'a::len word)"
  shows "uint w = sint w"
proof -
  have "sint w < 2 ^ LENGTH('a)"
    using sint_lt [of w] power_increasing [of "LENGTH('a) - 1" "LENGTH('a)" "2::int"] by linarith
  with assms show ?thesis
    by (simp add: uint_sint take_bit_int_eq_self)
qed

lemma sint_range_iff_uint:
  assumes "k \<le> 2 ^ (LENGTH('a::len) - 1)"
  shows "0 \<le> sint (w :: 'a word) \<and> sint w < k \<longleftrightarrow> uint w < k"
  using assms sint_eq_uint_small [of w] uint_eq_sint_nonneg [of w] uint_ge_0 [of w]
  by (metis order_less_le_trans)

section \<open>Indexing\<close>

definition index_opt :: "'a list \<Rightarrow> nat \<Rightarrow> 'a option" where
  "index_opt xs i = (if i < length xs then Some (xs ! i) else None)"

definition update_opt :: "'a list \<Rightarrow> nat \<Rightarrow> 'a \<Rightarrow> 'a list option" where
  "update_opt xs i x = (if i < length xs then Some (xs[i := x]) else None)"

lemma index_opt_Some [simp]: "i < length xs \<Longrightarrow> index_opt xs i = Some (xs ! i)"
  by (simp add: index_opt_def)

lemma index_opt_None_iff: "index_opt xs i = None \<longleftrightarrow> length xs \<le> i"
  by (auto simp: index_opt_def)

lemma index_opt_eq_Some_iff: "index_opt xs i = Some x \<longleftrightarrow> i < length xs \<and> xs ! i = x"
  by (auto simp: index_opt_def)

lemma update_opt_Some [simp]: "i < length xs \<Longrightarrow> update_opt xs i x = Some (xs[i := x])"
  by (simp add: update_opt_def)

lemma update_opt_eq_Some_iff: "update_opt xs i x = Some ys \<longleftrightarrow> i < length xs \<and> ys = xs[i := x]"
  by (auto simp: update_opt_def)

text \<open>The slice \<open>xs[a..b]\<close>, or the result of \<open>xs.get(a..b)\<close>.\<close>

definition slice_opt :: "'a list \<Rightarrow> nat \<Rightarrow> nat \<Rightarrow> 'a list option" where
  "slice_opt xs a b = (if a \<le> b \<and> b \<le> length xs then Some (take (b - a) (drop a xs)) else None)"

lemma slice_opt_eq_Some_iff:
  "slice_opt xs a b = Some ys \<longleftrightarrow> a \<le> b \<and> b \<le> length xs \<and> ys = take (b - a) (drop a xs)"
  by (auto simp: slice_opt_def)

lemma slice_opt_all [simp]: "slice_opt xs 0 (length xs) = Some xs"
  by (simp add: slice_opt_def)

section \<open>Options and sums\<close>

definition or_else :: "'a option \<Rightarrow> 'a option \<Rightarrow> 'a option" where
  "or_else a b = (case a of None \<Rightarrow> b | Some x \<Rightarrow> Some x)"

lemma or_else_simps [simp]:
  "or_else None b = b" "or_else (Some x) b = Some x"
  by (simp_all add: or_else_def)

lemma or_else_eq_None_iff: "or_else a b = None \<longleftrightarrow> a = None \<and> b = None"
  by (cases a) simp_all

lemma or_else_eq_Some_iff: "or_else a b = Some x \<longleftrightarrow> a = Some x \<or> a = None \<and> b = Some x"
  by (cases a) auto

text \<open>Introduction rules that walk down a long \<open>if\<close> chain without case splits.\<close>

lemma if_neqI: "a \<noteq> x \<Longrightarrow> b \<noteq> x \<Longrightarrow> (if c then a else b) \<noteq> x"
  by simp

lemma if_eq_impI: "(c \<Longrightarrow> a = x \<longrightarrow> Q) \<Longrightarrow> (b = x \<longrightarrow> Q) \<Longrightarrow> (if c then a else b) = x \<longrightarrow> Q"
  by simp

text \<open>The \<open>?\<close> operator: an error ends the function, a value goes on.\<close>

lemma try_eq_Inr_iff:
  "(case r of Inl e \<Rightarrow> Inl e | Inr x \<Rightarrow> f x) = Inr y \<longleftrightarrow> (\<exists>x. r = Inr x \<and> f x = Inr y)"
  by (cases r) simp_all

lemma map_sum_eq_Inr_iff: "map_sum f g r = Inr y \<longleftrightarrow> (\<exists>x. r = Inr x \<and> y = g x)"
  by (cases r) auto

section \<open>Lists\<close>

lemma take_8_drop:
  "take 8 (drop i xs) = take 2 (drop i xs) @ take 2 (drop (i + 2) xs) @ take 4 (drop (i + 4) xs)"
proof -
  have "take (2 + (2 + 4)) (drop i xs)
      = take 2 (drop i xs) @ take 2 (drop (2 + i) xs) @ take 4 (drop (2 + (2 + i)) xs)"
    by (simp only: take_add drop_drop)
  moreover have "2 + (2 + 4) = (8::nat)" "2 + (2 + i) = i + 4" "2 + i = i + 2"
    by simp_all
  ultimately show ?thesis
    by (simp only:)
qed

lemma take_2_drop: "i + 2 \<le> length xs \<Longrightarrow> take 2 (drop i xs) = [xs ! i, xs ! (i + 1)]"
  by (auto intro!: nth_equalityI simp: less_2_cases_iff)

section \<open>Little-endian bytes\<close>

text \<open>\<open>to_le_bytes\<close> of an \<open>n\<close>-byte integer, and the value of a little-endian byte string.\<close>

primrec le_bytes :: "nat \<Rightarrow> 'a::len word \<Rightarrow> u8 list" where
  "le_bytes 0 w = []"
| "le_bytes (Suc n) w = ucast w # le_bytes n (drop_bit 8 w)"

primrec le_word :: "u8 list \<Rightarrow> 'a::len word" where
  "le_word [] = 0"
| "le_word (b # bs) = ucast b OR push_bit 8 (le_word bs)"

lemma length_le_bytes [simp]: "length (le_bytes n w) = n"
  by (induction n arbitrary: w) simp_all

lemma le_bytes_numeral:
  "le_bytes (numeral n) w = ucast w # le_bytes (pred_numeral n) (drop_bit 8 w)"
  by (simp add: numeral_eq_Suc)

lemma nth_le_bytes: "i < n \<Longrightarrow> le_bytes n w ! i = ucast (drop_bit (8 * i) w)"
proof (induction n arbitrary: w i)
  case 0
  then show ?case by simp
next
  case (Suc n)
  then show ?case
    by (cases i) (simp_all add: add.commute)
qed

lemma bit_le_word:
  "bit (le_word bs :: 'a::len word) k \<longleftrightarrow>
     k < LENGTH('a) \<and> k div 8 < length bs \<and> bit (bs ! (k div 8)) (k mod 8)"
proof (induction bs arbitrary: k)
  case Nil
  then show ?case by simp
next
  case (Cons b bs)
  show ?case
  proof (cases "k < 8")
    case True
    then show ?thesis by (auto simp: bit_simps)
  next
    case False
    then obtain j where k: "k = 8 + j"
      by (metis le_Suc_ex not_less)
    have "\<not> bit b k"
      using False bit_imp_le_length [of b k] by auto
    moreover have "(8 + j) div 8 = Suc (j div 8)"
      by simp
    ultimately show ?thesis
      using Cons.IH [of j] by (auto simp: bit_simps k)
  qed
qed

lemma le_word_le_bytes:
  assumes "LENGTH('a::len) \<le> 8 * n"
  shows "le_word (le_bytes n (w :: 'a word)) = w"
proof (rule bit_word_eqI)
  fix k
  assume k: "k < LENGTH('a)"
  then have "k div 8 < n" using assms by auto
  moreover have "8 * (k div 8) + k mod 8 = k" by simp
  ultimately show "bit (le_word (le_bytes n w) :: 'a word) k \<longleftrightarrow> bit w k"
    using k by (simp add: bit_le_word nth_le_bytes bit_simps)
qed

lemma le_bytes_le_word:
  assumes "length bs = n" and "8 * n \<le> LENGTH('a::len)"
  shows "le_bytes n (le_word bs :: 'a word) = bs"
proof (rule nth_equalityI)
  show "length (le_bytes n (le_word bs :: 'a word)) = length bs"
    using assms by simp
  fix i
  assume i: "i < length (le_bytes n (le_word bs :: 'a word))"
  then have i: "i < n" by simp
  show "le_bytes n (le_word bs :: 'a word) ! i = bs ! i"
  proof (rule bit_word_eqI)
    fix k
    assume "k < LENGTH(8)"
    then have k: "k < 8" by simp
    then have *: "(8 * i + k) div 8 = i" "(8 * i + k) mod 8 = k" "8 * i + k < LENGTH('a)"
      using i assms(2) by auto
    show "bit (le_bytes n (le_word bs :: 'a word) ! i) k \<longleftrightarrow> bit (bs ! i) k"
      using i k assms * by (simp add: nth_le_bytes bit_simps bit_le_word)
  qed
qed

end
