(* ===== verification/Errors.thy ===== *)
theory Errors
  imports Rust_Prelude
begin

text \<open>
  The error values of the virtual machine: \<open>ElfError\<close> of \<^verbatim>\<open>elf.rs\<close>,
  \<open>VerifierError\<close> of \<^verbatim>\<open>verifier.rs\<close>, \<open>AccessType\<close> of
  \<^verbatim>\<open>memory_region.rs\<close>, and \<open>EbpfError\<close> and \<open>StableResult\<close> of
  \<^verbatim>\<open>error.rs\<close>. The boxed error of a syscall is observed through its message
  only, so it is a string here. \<open>discriminant\<close>, which reads the memory of the enum
  through a raw pointer, is given by the declared layout \<open>repr(C, u64)\<close>: the
  constructors are numbered in their order.
\<close>

section \<open>Error types\<close>

datatype ElfError =
    FailedToParse string
  | EntrypointOutOfBounds
  | InvalidEntrypoint
  | FailedToGetSection string
  | UnresolvedSymbol string nat nat
  | SectionNotFound string
  | RelativeJumpOutOfBounds nat
  | SymbolHashCollision u32
  | WrongEndianess
  | WrongAbi
  | WrongMachine
  | WrongClass
  | NotOneTextSection
  | WritableSectionNotSupported string
  | AddressOutsideLoadableSection u64
  | InvalidVirtualAddress u64
  | UnknownRelocation u32
  | FailedToReadRelocationInfo
  | WrongType
  | UnknownSymbol nat
  | ValueOutOfBounds
  | UnsupportedSBPFVersion
  | InvalidProgramHeader

datatype VerifierError =
    ProgramLengthNotMultiple
  | ProgramTooLarge nat
  | NoProgram
  | DivisionByZero nat
  | UnsupportedLEBEArgument nat
  | LDDWCannotBeLast
  | IncompleteLDDW nat
  | InfiniteLoop nat
  | JumpOutOfCode nat nat
  | JumpToMiddleOfLDDW nat nat
  | InvalidSourceRegister nat
  | CannotWriteR10 nat
  | InvalidDestinationRegister nat
  | UnknownOpCode u8 nat
  | ShiftWithOverflow u64 u64 nat
  | InvalidRegister nat
  | InvalidFunction nat
  | InvalidSyscall u32
  | UnalignedImmediate nat

datatype AccessType = Load | Store

datatype EbpfError =
    ElfError ElfError
  | FunctionAlreadyRegistered nat
  | CallDepthExceeded
  | ExitRootCallFrame
  | DivideByZero
  | DivideOverflow
  | ExecutionOverrun
  | CallOutsideTextSegment
  | ExceededMaxInstructions
  | JitNotCompiled
  | InvalidMemoryRegion nat
  | AccessViolation AccessType u64 u64 string
  | StackAccessViolation AccessType u64 u64 i64
  | InvalidInstruction
  | UnsupportedInstruction
  | ExhaustedTextSegment nat
  | LibcInvocationFailed string "string list" i32
  | VerifierError VerifierError
  | SyscallError string

section \<open>Stable results\<close>

datatype ('t, 'e) StableResult = Ok 't | Err 'e

type_synonym ProgramResult = "(u64, EbpfError) StableResult"

fun is_ok :: "('t, 'e) StableResult \<Rightarrow> bool" where
  "is_ok (Ok _) = True"
| "is_ok (Err _) = False"

fun is_err :: "('t, 'e) StableResult \<Rightarrow> bool" where
  "is_err (Ok _) = False"
| "is_err (Err _) = True"

fun unwrap :: "('t, 'e) StableResult \<Rightarrow> 't option" where
  "unwrap (Ok value) = Some value"
| "unwrap (Err error) = None"

fun unwrap_err :: "('t, 'e) StableResult \<Rightarrow> 'e option" where
  "unwrap_err (Ok value) = None"
| "unwrap_err (Err error) = Some error"

fun result_map :: "('t \<Rightarrow> 'u) \<Rightarrow> ('t, 'e) StableResult \<Rightarrow> ('u, 'e) StableResult" where
  "result_map f (Ok value) = Ok (f value)"
| "result_map f (Err error) = Err error"

fun map_err :: "('e \<Rightarrow> 'f) \<Rightarrow> ('t, 'e) StableResult \<Rightarrow> ('t, 'f) StableResult" where
  "map_err f (Ok value) = Ok value"
| "map_err f (Err error) = Err (f error)"

fun discriminant :: "('t, 'e) StableResult \<Rightarrow> u64" where
  "discriminant (Ok _) = 0"
| "discriminant (Err _) = 1"

fun to_result :: "('t, 'e) StableResult \<Rightarrow> 'e + 't" where
  "to_result (Ok value) = Inr value"
| "to_result (Err value) = Inl value"

fun from_result :: "'e + 't \<Rightarrow> ('t, 'e) StableResult" where
  "from_result (Inr value) = Ok value"
| "from_result (Inl value) = Err value"

section \<open>Lemmas\<close>

lemma is_err_is_ok [simp]: "is_err r \<longleftrightarrow> \<not> is_ok r"
  by (cases r) simp_all

lemma is_ok_iff: "is_ok r \<longleftrightarrow> (\<exists>v. r = Ok v)"
  by (cases r) simp_all

lemma unwrap_eq_None_iff: "unwrap r = None \<longleftrightarrow> \<not> is_ok r"
  by (cases r) simp_all

lemma from_to_result [simp]: "from_result (to_result r) = r"
  by (cases r) simp_all

lemma to_from_result [simp]: "to_result (from_result r) = r"
  by (cases r) simp_all

lemma discriminant_eq_0_iff: "discriminant r = 0 \<longleftrightarrow> is_ok r"
  by (cases r) simp_all

end
