(* ===== verification/Sbpf_Version.thy ===== *)
theory Sbpf_Version
  imports Errors
begin

text \<open>
  The bytecode versions of \<^verbatim>\<open>program.rs\<close> with their derived order, the feature
  predicates that the verifier, the interpreter and the loader consult, and the target of a
  call with an immediate operand.
\<close>

section \<open>Definitions\<close>

datatype SBPFVersion = V0 | V1 | V2 | V3 | V4 | Reserved

fun version_rank :: "SBPFVersion \<Rightarrow> nat" where
  "version_rank V0 = 0"
| "version_rank V1 = 1"
| "version_rank V2 = 2"
| "version_rank V3 = 3"
| "version_rank V4 = 4"
| "version_rank Reserved = 5"

lemma version_rank_inject: "version_rank v = version_rank w \<longleftrightarrow> v = w"
  by (cases v; cases w) simp_all

instantiation SBPFVersion :: linorder
begin

definition less_eq_SBPFVersion :: "SBPFVersion \<Rightarrow> SBPFVersion \<Rightarrow> bool" where
  "less_eq_SBPFVersion v w \<longleftrightarrow> version_rank v \<le> version_rank w"

definition less_SBPFVersion :: "SBPFVersion \<Rightarrow> SBPFVersion \<Rightarrow> bool" where
  "less_SBPFVersion v w \<longleftrightarrow> version_rank v < version_rank w"

instance
  by standard (auto simp: less_eq_SBPFVersion_def less_SBPFVersion_def version_rank_inject)

end

definition manual_stack_frame_bump :: "SBPFVersion \<Rightarrow> bool" where
  "manual_stack_frame_bump v \<longleftrightarrow> v = V1 \<or> v = V2"

definition stack_frame_gaps :: "SBPFVersion \<Rightarrow> bool" where
  "stack_frame_gaps v \<longleftrightarrow> v = V0"

definition enable_pqr :: "SBPFVersion \<Rightarrow> bool" where
  "enable_pqr v \<longleftrightarrow> v = V2"

definition explicit_sign_extension_of_results :: "SBPFVersion \<Rightarrow> bool" where
  "explicit_sign_extension_of_results v \<longleftrightarrow> v = V2"

definition swap_sub_reg_imm_operands :: "SBPFVersion \<Rightarrow> bool" where
  "swap_sub_reg_imm_operands v \<longleftrightarrow> v = V2"

definition disable_neg :: "SBPFVersion \<Rightarrow> bool" where
  "disable_neg v \<longleftrightarrow> v = V2"

definition callx_uses_src_reg :: "SBPFVersion \<Rightarrow> bool" where
  "callx_uses_src_reg v \<longleftrightarrow> v = V2"

definition disable_lddw :: "SBPFVersion \<Rightarrow> bool" where
  "disable_lddw v \<longleftrightarrow> v = V2"

definition disable_le :: "SBPFVersion \<Rightarrow> bool" where
  "disable_le v \<longleftrightarrow> v = V2"

definition move_memory_instruction_classes :: "SBPFVersion \<Rightarrow> bool" where
  "move_memory_instruction_classes v \<longleftrightarrow> v = V2"

definition static_syscalls :: "SBPFVersion \<Rightarrow> bool" where
  "static_syscalls v \<longleftrightarrow> V3 \<le> v"

definition enable_stricter_elf_headers :: "SBPFVersion \<Rightarrow> bool" where
  "enable_stricter_elf_headers v \<longleftrightarrow> V3 \<le> v"

definition enable_lower_rodata_vaddr :: "SBPFVersion \<Rightarrow> bool" where
  "enable_lower_rodata_vaddr v \<longleftrightarrow> V3 \<le> v"

definition enable_jmp32 :: "SBPFVersion \<Rightarrow> bool" where
  "enable_jmp32 v \<longleftrightarrow> V3 \<le> v"

definition callx_uses_dst_reg :: "SBPFVersion \<Rightarrow> bool" where
  "callx_uses_dst_reg v \<longleftrightarrow> V3 \<le> v"

definition calculate_call_imm_target_pc :: "SBPFVersion \<Rightarrow> nat \<Rightarrow> i64 \<Rightarrow> u32" where
  "calculate_call_imm_target_pc v pc imm =
     (if static_syscalls v
      then ucast (signed_saturating_add (signed_saturating_add (of_nat pc :: i64) imm) 1)
      else ucast imm)"

lemmas version_features =
  manual_stack_frame_bump_def stack_frame_gaps_def enable_pqr_def
  explicit_sign_extension_of_results_def swap_sub_reg_imm_operands_def disable_neg_def
  callx_uses_src_reg_def disable_lddw_def disable_le_def move_memory_instruction_classes_def
  static_syscalls_def enable_stricter_elf_headers_def enable_lower_rodata_vaddr_def
  enable_jmp32_def callx_uses_dst_reg_def

section \<open>Lemmas\<close>

lemma version_order [simp]:
  "V3 \<le> V0 \<longleftrightarrow> False" "V3 \<le> V1 \<longleftrightarrow> False" "V3 \<le> V2 \<longleftrightarrow> False"
  "V3 \<le> V4" "V3 \<le> Reserved"
  by (simp_all add: less_eq_SBPFVersion_def)

lemma V3_le_iff: "V3 \<le> v \<longleftrightarrow> v \<notin> {V0, V1, V2}"
  by (cases v) simp_all

lemma sint_of_nat_i64: "n < 2 ^ 63 \<Longrightarrow> sint (of_nat n :: i64) = int n"
  by (simp add: signed_of_nat signed_take_bit_int_eq_self_iff)

lemma signed_saturating_add_exact:
  fixes a b :: i64
  assumes "- (2 ^ 63) \<le> sint a + sint b" and "sint a + sint b < 2 ^ 63"
  shows "signed_saturating_add a b = a + b"
proof -
  have "signed_saturating_add a b = word_of_int (sint a + sint b)"
    using assms by (simp add: signed_saturating_add_def int_clamp_def)
  then show ?thesis
    by simp
qed

text \<open>
  With static syscalls the target is relative to the instruction after the call. It is exact
  whenever the program counter and the immediate are in the range of the encoding.
\<close>

lemma calculate_call_imm_target_pc_static:
  assumes "static_syscalls v" and "pc < 2 ^ 62" and "- (2 ^ 31) \<le> sint imm" and "sint imm < 2 ^ 31"
  shows "calculate_call_imm_target_pc v pc imm = word_of_int (int pc + 1 + sint imm)"
proof -
  have pc: "sint (of_nat pc :: i64) = int pc"
    using assms(2) by (intro sint_of_nat_i64) simp
  have int_pc: "int pc < 2 ^ 62"
    using assms(2) by (metis of_nat_less_iff of_nat_numeral of_nat_power)
  have first: "signed_saturating_add (of_nat pc) imm = of_nat pc + imm"
    using assms(3,4) int_pc by (intro signed_saturating_add_exact) (simp_all add: pc)
  have "sint (of_nat pc + imm :: i64) = int pc + sint imm"
    using assms(3,4) int_pc by (simp add: sint_word_ariths pc signed_take_bit_int_eq_self_iff)
  then have "signed_saturating_add (of_nat pc + imm) 1 = of_nat pc + imm + 1"
    using assms(3,4) int_pc by (intro signed_saturating_add_exact) simp_all
  moreover have "of_nat pc + imm + 1 = (word_of_int (int pc + 1 + sint imm) :: i64)"
    by simp
  moreover have "ucast (word_of_int k :: i64) = (word_of_int k :: u32)" for k
    by (rule bit_word_eqI) (auto simp: bit_simps)
  ultimately show ?thesis
    using assms(1) first by (simp only: calculate_call_imm_target_pc_def if_True)
qed

end
