(* ===== verification/Vm_Config.thy ===== *)
theory Vm_Config
  imports Sbpf_Version
begin

text \<open>
  The configuration of the virtual machine (\<open>Config\<close> of \<^verbatim>\<open>vm.rs\<close>), with the
  defaults of a build without the \<open>conf-stack-frame-size\<close> feature.
\<close>

record Config =
  max_call_depth :: nat
  stack_frame_size :: nat
  enable_address_translation :: bool
  enable_stack_frame_gaps :: bool
  instruction_meter_checkpoint_distance :: nat
  enable_instruction_meter :: bool
  enable_register_tracing :: bool
  enable_symbol_and_section_labels :: bool
  reject_broken_elfs :: bool
  noop_instruction_rate :: u32
  sanitize_user_provided_values :: bool
  optimize_rodata :: bool
  allow_memory_region_zero :: bool
  aligned_memory_mapping :: bool
  enabled_sbpf_versions :: "SBPFVersion \<times> SBPFVersion"

definition get_stack_frame_size :: nat where
  "get_stack_frame_size = 4096"

definition Config_default :: Config where
  "Config_default =
     \<lparr>max_call_depth = 64,
      stack_frame_size = get_stack_frame_size,
      enable_address_translation = True,
      enable_stack_frame_gaps = True,
      instruction_meter_checkpoint_distance = 10000,
      enable_instruction_meter = True,
      enable_register_tracing = False,
      enable_symbol_and_section_labels = False,
      reject_broken_elfs = False,
      noop_instruction_rate = 256,
      sanitize_user_provided_values = True,
      optimize_rodata = True,
      allow_memory_region_zero = True,
      aligned_memory_mapping = False,
      enabled_sbpf_versions = (V0, V4)\<rparr>"

text \<open>The product panics when it does not fit a \<open>usize\<close>.\<close>

definition stack_size :: "Config \<Rightarrow> nat option" where
  "stack_size config =
     (let size = stack_frame_size config * max_call_depth config
      in if size \<le> usize_max then Some size else None)"

end
