(* ===== verification/Btree_Map.thy ===== *)
theory Btree_Map
  imports Rust_Prelude
begin

text \<open>
  The ordered map \<open>std::collections::BTreeMap\<close> as the program uses it: an association
  list in strictly ascending key order. The locale \<open>ordered_map\<close> states what the
  clients rely on (lookup after insertion and removal, iteration in ascending key order),
  and its lemmas on searching the values hold for every implementation of it.
\<close>

section \<open>Definitions\<close>

type_synonym ('k, 'v) btree = "('k \<times> 'v) list"

definition bt_inv :: "('k::linorder, 'v) btree \<Rightarrow> bool" where
  "bt_inv m \<longleftrightarrow> sorted_wrt (<) (map fst m)"

primrec bt_get :: "('k, 'v) btree \<Rightarrow> 'k \<Rightarrow> 'v option" where
  "bt_get [] k = None"
| "bt_get (e # m) k = (if fst e = k then Some (snd e) else bt_get m k)"

primrec bt_insert :: "'k::linorder \<Rightarrow> 'v \<Rightarrow> ('k, 'v) btree \<Rightarrow> ('k, 'v) btree" where
  "bt_insert k v [] = [(k, v)]"
| "bt_insert k v (e # m) =
     (if k < fst e then (k, v) # e # m
      else if k = fst e then (k, v) # m
      else e # bt_insert k v m)"

definition bt_remove :: "'k \<Rightarrow> ('k, 'v) btree \<Rightarrow> ('k, 'v) btree" where
  "bt_remove k m = filter (\<lambda>e. fst e \<noteq> k) m"

section \<open>The interface\<close>

locale ordered_map =
  fixes get :: "'m \<Rightarrow> 'k::linorder \<Rightarrow> 'v option"
    and insert_entry :: "'k \<Rightarrow> 'v \<Rightarrow> 'm \<Rightarrow> 'm"
    and remove_entry :: "'k \<Rightarrow> 'm \<Rightarrow> 'm"
    and entries :: "'m \<Rightarrow> ('k \<times> 'v) list"
    and inv :: "'m \<Rightarrow> bool"
  assumes inv_insert: "inv m \<Longrightarrow> inv (insert_entry k v m)"
    and inv_remove: "inv m \<Longrightarrow> inv (remove_entry k m)"
    and get_insert: "inv m \<Longrightarrow> get (insert_entry k v m) k' = (if k' = k then Some v else get m k')"
    and get_remove: "inv m \<Longrightarrow> get (remove_entry k m) k' = (if k' = k then None else get m k')"
    and entries_ascending: "inv m \<Longrightarrow> sorted_wrt (<) (map fst (entries m))"
    and get_entries: "inv m \<Longrightarrow> get m k = Some v \<longleftrightarrow> (k, v) \<in> set (entries m)"
begin

lemma get_eq_map_of: "inv m \<Longrightarrow> get m k = map_of (entries m) k"
proof -
  assume inv: "inv m"
  have "distinct (map fst (entries m))"
    using entries_ascending [OF inv] by (simp add: strict_sorted_iff)
  then have "map_of (entries m) k = Some v \<longleftrightarrow> get m k = Some v" for v
    using get_entries [OF inv] by simp
  then show "get m k = map_of (entries m) k"
    by (metis option.exhaust)
qed

lemma find_entry_least:
  assumes inv: "inv m" and found: "find (\<lambda>(_, v). P v) (entries m) = Some (k, v)"
  shows "get m k = Some v \<and> P v \<and> (\<forall>k' v'. get m k' = Some v' \<and> P v' \<longrightarrow> k \<le> k')"
proof -
  from found obtain i where i: "i < length (entries m)" "entries m ! i = (k, v)" "P v"
      "\<And>j. j < i \<Longrightarrow> \<not> (case entries m ! j of (_, v) \<Rightarrow> P v)"
    by (auto simp: find_Some_iff)
  have "k \<le> k'" if "get m k' = Some v'" "P v'" for k' v'
  proof -
    obtain j where j: "j < length (entries m)" "entries m ! j = (k', v')"
      using \<open>get m k' = Some v'\<close> get_entries [OF inv] by (auto simp: in_set_conv_nth)
    then have "i \<le> j"
      using i(4) [of j] \<open>P v'\<close> by (auto simp: not_less [symmetric])
    then show "k \<le> k'"
      using sorted_wrt_nth_less [OF entries_ascending [OF inv], of i j] i(1,2) j
      by (cases "i = j") simp_all
  qed
  moreover have "get m k = Some v"
    using i get_entries [OF inv] by (metis nth_mem)
  ultimately show ?thesis
    using i(3) by blast
qed

lemma find_entry_None:
  assumes "inv m"
  shows "find (\<lambda>(_, v). P v) (entries m) = None \<longleftrightarrow> (\<forall>k v. get m k = Some v \<longrightarrow> \<not> P v)"
  using get_entries [OF assms] by (auto simp: find_None_iff)

end

section \<open>The association list implements it\<close>

lemma bt_inv_Cons: "bt_inv (e # m) \<longleftrightarrow> bt_inv m \<and> (\<forall>k \<in> fst ` set m. fst e < k)"
  by (auto simp: bt_inv_def)

lemma bt_inv_Nil [simp]: "bt_inv []"
  by (simp add: bt_inv_def)

lemma fst_bt_insert: "fst ` set (bt_insert k v m) = insert k (fst ` set m)"
  by (induction m) auto

lemma bt_inv_insert: "bt_inv m \<Longrightarrow> bt_inv (bt_insert k v m)"
  by (induction m) (auto simp: bt_inv_Cons fst_bt_insert simp flip: ball_simps(9) dest: bspec less_trans)

lemma bt_get_None: "k \<notin> fst ` set m \<Longrightarrow> bt_get m k = None"
  by (induction m) auto

lemma bt_get_insert:
  "bt_inv m \<Longrightarrow> bt_get (bt_insert k v m) k' = (if k' = k then Some v else bt_get m k')"
  by (induction m) (auto simp: bt_inv_Cons)

lemma bt_get_remove: "bt_get (bt_remove k m) k' = (if k' = k then None else bt_get m k')"
  by (induction m) (auto simp: bt_remove_def)

lemma bt_inv_remove: "bt_inv m \<Longrightarrow> bt_inv (bt_remove k m)"
  by (simp add: bt_inv_def bt_remove_def sorted_wrt_map sorted_wrt_filter)

lemma bt_get_Some_iff: "bt_inv m \<Longrightarrow> bt_get m k = Some v \<longleftrightarrow> (k, v) \<in> set m"
  by (induction m) (force simp: bt_inv_Cons)+

interpretation bt: ordered_map bt_get bt_insert bt_remove "\<lambda>m. m" bt_inv
  by unfold_locales
    (auto simp: bt_inv_insert bt_inv_remove bt_get_insert bt_get_remove bt_get_Some_iff,
     simp add: bt_inv_def)

end
