(* ===== verification/Program.thy ===== *)
theory Program
  imports Vm_Config Btree_Map
begin

text \<open>
  Function registries and built-in programs of \<^verbatim>\<open>program.rs\<close>. A registry is
  an ordered map from 32-bit keys to a name and a value; an operation that may fail returns
  its result together with the registry afterwards. A function pointer is its address, so
  that the equality test of \<open>register_function\<close> compares addresses as in the source. The
  hash of a symbol name (\<open>ebpf::hash_symbol_name\<close>, a call into the \<open>hash32\<close> package)
  is a parameter.

  The locale \<open>function_table\<close> states what loaders rely on; its lemmas describe a
  sequence of registrations. \<open>mem_size\<close> depends on the allocator's choice of capacities and
  is left out.
\<close>

section \<open>Function registries\<close>

record 't FunctionRegistry =
  reg_map :: "(u32, u8 list \<times> 't) btree"

definition FunctionRegistry_default :: "'t FunctionRegistry" where
  "FunctionRegistry_default = \<lparr>reg_map = []\<rparr>"

definition registry_inv :: "'t FunctionRegistry \<Rightarrow> bool" where
  "registry_inv r \<longleftrightarrow> bt_inv (reg_map r)"

definition register_function ::
    "u32 \<Rightarrow> u8 list \<Rightarrow> 't \<Rightarrow> 't FunctionRegistry \<Rightarrow> (ElfError + unit) \<times> 't FunctionRegistry" where
  "register_function key name v r =
     (case bt_get (reg_map r) key of
        None \<Rightarrow> (Inr (), r\<lparr>reg_map := bt_insert key (name, v) (reg_map r)\<rparr>)
      | Some entry \<Rightarrow>
          if snd entry \<noteq> v then (Inl (SymbolHashCollision key), r) else (Inr (), r))"

definition unregister_function :: "u32 \<Rightarrow> 't FunctionRegistry \<Rightarrow> bool \<times> 't FunctionRegistry" where
  "unregister_function key r =
     (bt_get (reg_map r) key \<noteq> None, r\<lparr>reg_map := bt_remove key (reg_map r)\<rparr>)"

definition registry_keys :: "'t FunctionRegistry \<Rightarrow> u32 list" where
  "registry_keys r = map fst (reg_map r)"

definition registry_iter :: "'t FunctionRegistry \<Rightarrow> (u32 \<times> (u8 list \<times> 't)) list" where
  "registry_iter r = map (\<lambda>(key, (name, v)). (key, (name, v))) (reg_map r)"

definition lookup_by_key :: "'t FunctionRegistry \<Rightarrow> u32 \<Rightarrow> (u8 list \<times> 't) option" where
  "lookup_by_key r key = map_option (\<lambda>(function_name, v). (function_name, v)) (bt_get (reg_map r) key)"

definition lookup_by_name :: "'t FunctionRegistry \<Rightarrow> u8 list \<Rightarrow> (u8 list \<times> 't) option" where
  "lookup_by_name r name =
     map_option (\<lambda>(function_name, v). (function_name, v))
       (find (\<lambda>(function_name, _). function_name = name) (map snd (reg_map r)))"

section \<open>Built-in programs\<close>

type_synonym BuiltinFunction = u64
type_synonym BuiltinCodegen = u64

record BuiltinProgram =
  bp_config :: "Config option"
  sparse_registry :: "(BuiltinFunction \<times> BuiltinCodegen) FunctionRegistry"

definition new_loader :: "Config \<Rightarrow> BuiltinProgram" where
  "new_loader config = \<lparr>bp_config = Some config, sparse_registry = FunctionRegistry_default\<rparr>"

definition new_builtin :: BuiltinProgram where
  "new_builtin = \<lparr>bp_config = None, sparse_registry = FunctionRegistry_default\<rparr>"

definition new_mock :: BuiltinProgram where
  "new_mock = \<lparr>bp_config = Some Config_default, sparse_registry = FunctionRegistry_default\<rparr>"

definition get_config :: "BuiltinProgram \<Rightarrow> Config option" where
  "get_config bp = bp_config bp"

definition get_function_registry ::
    "BuiltinProgram \<Rightarrow> (BuiltinFunction \<times> BuiltinCodegen) FunctionRegistry" where
  "get_function_registry bp = sparse_registry bp"

definition str_bytes :: "string \<Rightarrow> u8 list" where
  "str_bytes s = map of_char s"

definition bp_register_function ::
    "(u8 list \<Rightarrow> u32) \<Rightarrow> string \<Rightarrow> BuiltinFunction \<times> BuiltinCodegen \<Rightarrow> BuiltinProgram
       \<Rightarrow> (ElfError + unit) \<times> BuiltinProgram" where
  "bp_register_function hash_symbol_name name entry bp =
     (let key = hash_symbol_name (str_bytes name);
          (res, registry) = register_function key (str_bytes name) entry (sparse_registry bp)
      in (res, bp\<lparr>sparse_registry := registry\<rparr>))"

definition bp_unregister_function ::
    "(u8 list \<Rightarrow> u32) \<Rightarrow> string \<Rightarrow> BuiltinProgram \<Rightarrow> bool \<times> BuiltinProgram" where
  "bp_unregister_function hash_symbol_name name bp =
     (let key = hash_symbol_name (str_bytes name);
          (res, registry) = unregister_function key (sparse_registry bp)
      in (res, bp\<lparr>sparse_registry := registry\<rparr>))"

text \<open>
  The registration of a function under the hash of its position, for the versions before
  static syscalls. \<open>usize_from\<close> is the conversion \<open>usize::from\<close> of the value type. A
  loader without configuration panics.
\<close>

definition register_function_hashed_legacy ::
    "(u8 list \<Rightarrow> u32) \<Rightarrow> ('t \<Rightarrow> u64) \<Rightarrow> BuiltinProgram \<Rightarrow> bool \<Rightarrow> u8 list \<Rightarrow> 't \<Rightarrow> 't FunctionRegistry
       \<Rightarrow> ((ElfError + u32) \<times> 't FunctionRegistry) option" where
  "register_function_hashed_legacy hash_symbol_name usize_from loader hash_name name v r =
     do {
       config \<leftarrow> get_config loader;
       let hash = (if name = str_bytes ''entrypoint''
                   then hash_symbol_name (str_bytes ''entrypoint'')
                   else hash_symbol_name (le_bytes 8 (usize_from v)));
       if hash_name \<and> lookup_by_key (get_function_registry loader) hash \<noteq> None
       then Some (Inl (SymbolHashCollision hash), r)
       else
         let key = (if hash_name then hash else ucast (usize_from v));
             (res, r') =
               register_function key
                 (if enable_symbol_and_section_labels config \<or> name = str_bytes ''entrypoint''
                  then name else [])
                 v r
         in Some (case res of Inl err \<Rightarrow> Inl err | Inr _ \<Rightarrow> Inr key, r')
     }"

section \<open>The interface of a function table\<close>

text \<open>A sequence of registrations, which stops at the first error.\<close>

primrec register_all ::
    "('k \<Rightarrow> 'n \<Rightarrow> 't \<Rightarrow> 'r \<Rightarrow> (ElfError + unit) \<times> 'r) \<Rightarrow> ('k \<times> 'n \<times> 't) list \<Rightarrow> 'r \<Rightarrow> (ElfError + unit) \<times> 'r" where
  "register_all register [] r = (Inr (), r)"
| "register_all register (e # es) r =
     (case register (fst e) (fst (snd e)) (snd (snd e)) r of
        (Inl err, r') \<Rightarrow> (Inl err, r')
      | (Inr _, r') \<Rightarrow> register_all register es r')"

locale function_table =
  fixes lookup :: "'r \<Rightarrow> u32 \<Rightarrow> ('n \<times> 't) option"
    and register :: "u32 \<Rightarrow> 'n \<Rightarrow> 't \<Rightarrow> 'r \<Rightarrow> (ElfError + unit) \<times> 'r"
    and unregister :: "u32 \<Rightarrow> 'r \<Rightarrow> bool \<times> 'r"
    and inv :: "'r \<Rightarrow> bool"
  assumes inv_register: "inv r \<Longrightarrow> inv (snd (register k n v r))"
    and inv_unregister: "inv r \<Longrightarrow> inv (snd (unregister k r))"
    and register_vacant: "inv r \<Longrightarrow> lookup r k = None \<Longrightarrow>
          fst (register k n v r) = Inr () \<and>
          lookup (snd (register k n v r)) = (lookup r)(k \<mapsto> (n, v))"
    and register_occupied: "lookup r k = Some (n', v') \<Longrightarrow>
          register k n v r = (if v' = v then Inr () else Inl (SymbolHashCollision k), r)"
    and unregister_lookup: "inv r \<Longrightarrow> lookup (snd (unregister k r)) = (lookup r)(k := None)"
    and unregister_result: "fst (unregister k r) \<longleftrightarrow> lookup r k \<noteq> None"
begin

lemma register_keeps:
  assumes "inv r" and "lookup r k' = Some e"
  shows "lookup (snd (register k n v r)) k' = Some e"
  using assms register_vacant [OF assms(1), of k n v] register_occupied [of r k _ _ n v]
  by (cases "lookup r k") auto

lemma register_ok_iff:
  assumes "inv r"
  shows "fst (register k n v r) = Inr () \<longleftrightarrow> (\<forall>n' v'. lookup r k = Some (n', v') \<longrightarrow> v' = v)"
  using assms register_vacant [of r k n v] register_occupied [of r k _ _ n v]
  by (cases "lookup r k") (auto split: if_splits)

lemma register_value:
  assumes "inv r" and "fst (register k n v r) = Inr ()"
  shows "\<exists>n'. lookup (snd (register k n v r)) k = Some (n', v)"
  using assms register_vacant [of r k n v] register_occupied [of r k _ _ n v]
  by (cases "lookup r k") (auto split: if_splits)

lemma register_all_keeps:
  assumes "inv r" and "lookup r k = Some e"
  shows "lookup (snd (register_all register es r)) k = Some e"
  using assms
proof (induction es arbitrary: r)
  case Nil
  then show ?case by simp
next
  case (Cons a es)
  then show ?case
    using register_keeps [OF Cons.prems, of "fst a" "fst (snd a)" "snd (snd a)"]
      inv_register [OF Cons.prems(1), of "fst a" "fst (snd a)" "snd (snd a)"]
    by (auto split: prod.splits sum.splits)
qed

lemma register_all_value:
  assumes "inv r" and "fst (register_all register es r) = Inr ()" and "(k, n, v) \<in> set es"
  shows "\<exists>n'. lookup (snd (register_all register es r)) k = Some (n', v)"
  using assms
proof (induction es arbitrary: r)
  case Nil
  then show ?case by simp
next
  case (Cons a es)
  obtain res r' where a: "register (fst a) (fst (snd a)) (snd (snd a)) r = (res, r')"
    by fastforce
  then have ok: "res = Inr ()" and rest: "fst (register_all register es r') = Inr ()"
    using Cons.prems(2) by (cases res; simp)+
  have inv': "inv r'"
    using inv_register [OF Cons.prems(1)] a by (metis snd_conv)
  show ?case
  proof (cases "a = (k, n, v)")
    case True
    then obtain n' where "lookup r' k = Some (n', v)"
      using register_value [OF Cons.prems(1), of k n v] a ok by auto
    then show ?thesis
      using register_all_keeps [OF inv'] a ok by fastforce
  next
    case False
    then show ?thesis
      using Cons.IH [OF inv' rest] Cons.prems(3) a ok by simp
  qed
qed

lemma unregister_register:
  assumes "inv r" and "lookup r k = None"
  shows "lookup (snd (unregister k (snd (register k n v r)))) = lookup r"
  using assms register_vacant [of r k n v] unregister_lookup [OF inv_register, of r k k n v]
  by auto

end

section \<open>The registry implements the function table\<close>

lemma lookup_by_key_eq: "lookup_by_key r key = bt_get (reg_map r) key"
  by (simp add: lookup_by_key_def option.map_ident_strong case_prod_beta)

interpretation registry: function_table lookup_by_key register_function unregister_function registry_inv
proof unfold_locales
  fix r :: "'t FunctionRegistry" and k :: u32 and n :: "u8 list" and v :: 't
  show "registry_inv r \<Longrightarrow> registry_inv (snd (register_function k n v r))"
    by (simp add: registry_inv_def register_function_def bt.inv_insert split: option.split)
  show "registry_inv r \<Longrightarrow> registry_inv (snd (unregister_function k r))"
    by (simp add: registry_inv_def unregister_function_def bt.inv_remove)
  show "registry_inv r \<Longrightarrow> lookup_by_key r k = None \<Longrightarrow>
      fst (register_function k n v r) = Inr () \<and>
      lookup_by_key (snd (register_function k n v r)) = (lookup_by_key r)(k \<mapsto> (n, v))"
    by (auto simp: registry_inv_def register_function_def lookup_by_key_eq fun_eq_iff bt.get_insert)
  show "registry_inv r \<Longrightarrow> lookup_by_key (snd (unregister_function k r)) = (lookup_by_key r)(k := None)"
    by (simp add: registry_inv_def unregister_function_def lookup_by_key_eq fun_eq_iff bt.get_remove)
  show "fst (unregister_function k r) \<longleftrightarrow> lookup_by_key r k \<noteq> None"
    by (simp add: unregister_function_def lookup_by_key_eq)
next
  fix r :: "'t FunctionRegistry" and k :: u32 and n n' :: "u8 list" and v v' :: 't
  show "lookup_by_key r k = Some (n', v') \<Longrightarrow>
      register_function k n v r = (if v' = v then Inr () else Inl (SymbolHashCollision k), r)"
    by (auto simp: register_function_def lookup_by_key_eq)
qed

section \<open>Lemmas\<close>

lemma registry_inv_default [simp]: "registry_inv FunctionRegistry_default"
  by (simp add: registry_inv_def FunctionRegistry_default_def)

lemma find_map: "find P (map f xs) = map_option f (find (\<lambda>x. P (f x)) xs)"
  by (induction xs) simp_all

lemma lookup_by_name_find:
  "lookup_by_name r name = map_option snd (find (\<lambda>(_, nv). fst nv = name) (reg_map r))"
  by (simp add: lookup_by_name_def find_map case_prod_unfold option.map_comp comp_def)

lemma lookup_by_name_Some:
  assumes "registry_inv r" and "lookup_by_name r name = Some (n, v)"
  shows "n = name \<and> (\<exists>k. lookup_by_key r k = Some (name, v) \<and>
           (\<forall>k' v'. lookup_by_key r k' = Some (name, v') \<longrightarrow> k \<le> k'))"
proof -
  obtain k where "find (\<lambda>(_, nv). fst nv = name) (reg_map r) = Some (k, (n, v))"
    using assms(2) by (auto simp: lookup_by_name_find)
  from bt.find_entry_least [OF _ this] assms(1) show ?thesis
    by (auto simp: registry_inv_def lookup_by_key_eq)
qed

lemma lookup_by_name_None:
  assumes "registry_inv r"
  shows "lookup_by_name r name = None \<longleftrightarrow> (\<forall>k v. lookup_by_key r k \<noteq> Some (name, v))"
  using bt.find_entry_None [of "reg_map r" "\<lambda>nv. fst nv = name"] assms
  by (auto simp: lookup_by_name_find registry_inv_def lookup_by_key_eq)

end
