(* ===== verification/Ebpf_Opcodes.thy ===== *)
theory Ebpf_Opcodes
  imports Rust_Prelude
begin

text \<open>
  The constants of \<^verbatim>\<open>ebpf.rs\<close>: sizes and register numbers, the virtual address
  space layout (\<open>MM_\<close>), and the operation codes, each written with the same
  disjunction of class, size, mode, source and operation bits as the source.
  \<open>opcode_values\<close> evaluates all of them once; the collection \<open>opcode_val\<close>
  carries the values into the proofs of the other theories.
\<close>

definition PROG_MAX_INSNS :: nat where [simp]:
  "PROG_MAX_INSNS = 65536"

definition INSN_SIZE :: nat where [simp]:
  "INSN_SIZE = 8"

definition FRAME_PTR_REG :: nat where [simp]:
  "FRAME_PTR_REG = 10"

definition FIRST_SCRATCH_REG :: nat where [simp]:
  "FIRST_SCRATCH_REG = 6"

definition SCRATCH_REGS :: nat where [simp]:
  "SCRATCH_REGS = 4"

definition HOST_ALIGN :: nat where [simp]:
  "HOST_ALIGN = 16"

definition VIRTUAL_ADDRESS_BITS :: nat where [simp]:
  "VIRTUAL_ADDRESS_BITS = 32"

definition MM_REGION_SIZE :: u64 where
  "MM_REGION_SIZE = push_bit VIRTUAL_ADDRESS_BITS 1"

definition MM_RODATA_START :: u64 where
  "MM_RODATA_START = 0"

definition MM_BYTECODE_START :: u64 where
  "MM_BYTECODE_START = MM_REGION_SIZE"

definition MM_STACK_START :: u64 where
  "MM_STACK_START = MM_REGION_SIZE * 2"

definition MM_HEAP_START :: u64 where
  "MM_HEAP_START = MM_REGION_SIZE * 3"

definition MM_INPUT_START :: u64 where
  "MM_INPUT_START = MM_REGION_SIZE * 4"

definition BPF_LD :: u8 where
  "BPF_LD = 0x00"

definition BPF_LDX :: u8 where
  "BPF_LDX = 0x01"

definition BPF_ST :: u8 where
  "BPF_ST = 0x02"

definition BPF_STX :: u8 where
  "BPF_STX = 0x03"

definition BPF_ALU32_LOAD :: u8 where
  "BPF_ALU32_LOAD = 0x04"

definition BPF_JMP64 :: u8 where
  "BPF_JMP64 = 0x05"

definition BPF_JMP32 :: u8 where
  "BPF_JMP32 = 0x06"

definition BPF_PQR :: u8 where
  "BPF_PQR = 0x06"

definition BPF_ALU64_STORE :: u8 where
  "BPF_ALU64_STORE = 0x07"

definition BPF_W :: u8 where
  "BPF_W = 0x00"

definition BPF_H :: u8 where
  "BPF_H = 0x08"

definition BPF_B :: u8 where
  "BPF_B = 0x10"

definition BPF_DW :: u8 where
  "BPF_DW = 0x18"

definition BPF_1B :: u8 where
  "BPF_1B = 0x20"

definition BPF_2B :: u8 where
  "BPF_2B = 0x30"

definition BPF_4B :: u8 where
  "BPF_4B = 0x80"

definition BPF_8B :: u8 where
  "BPF_8B = 0x90"

definition BPF_IMM :: u8 where
  "BPF_IMM = 0x00"

definition BPF_ABS :: u8 where
  "BPF_ABS = 0x20"

definition BPF_IND :: u8 where
  "BPF_IND = 0x40"

definition BPF_MEM :: u8 where
  "BPF_MEM = 0x60"

definition BPF_K :: u8 where
  "BPF_K = 0x00"

definition BPF_X :: u8 where
  "BPF_X = 0x08"

definition BPF_ADD :: u8 where
  "BPF_ADD = 0x00"

definition BPF_SUB :: u8 where
  "BPF_SUB = 0x10"

definition BPF_MUL :: u8 where
  "BPF_MUL = 0x20"

definition BPF_DIV :: u8 where
  "BPF_DIV = 0x30"

definition BPF_OR :: u8 where
  "BPF_OR = 0x40"

definition BPF_AND :: u8 where
  "BPF_AND = 0x50"

definition BPF_LSH :: u8 where
  "BPF_LSH = 0x60"

definition BPF_RSH :: u8 where
  "BPF_RSH = 0x70"

definition BPF_NEG :: u8 where
  "BPF_NEG = 0x80"

definition BPF_MOD :: u8 where
  "BPF_MOD = 0x90"

definition BPF_XOR :: u8 where
  "BPF_XOR = 0xa0"

definition BPF_MOV :: u8 where
  "BPF_MOV = 0xb0"

definition BPF_ARSH :: u8 where
  "BPF_ARSH = 0xc0"

definition BPF_END :: u8 where
  "BPF_END = 0xd0"

definition BPF_HOR :: u8 where
  "BPF_HOR = 0xf0"

definition BPF_UHMUL :: u8 where
  "BPF_UHMUL = 0x20"

definition BPF_UDIV :: u8 where
  "BPF_UDIV = 0x40"

definition BPF_UREM :: u8 where
  "BPF_UREM = 0x60"

definition BPF_LMUL :: u8 where
  "BPF_LMUL = 0x80"

definition BPF_SHMUL :: u8 where
  "BPF_SHMUL = 0xa0"

definition BPF_SDIV :: u8 where
  "BPF_SDIV = 0xc0"

definition BPF_SREM :: u8 where
  "BPF_SREM = 0xe0"

definition BPF_JA :: u8 where
  "BPF_JA = 0x00"

definition BPF_JEQ :: u8 where
  "BPF_JEQ = 0x10"

definition BPF_JGT :: u8 where
  "BPF_JGT = 0x20"

definition BPF_JGE :: u8 where
  "BPF_JGE = 0x30"

definition BPF_JSET :: u8 where
  "BPF_JSET = 0x40"

definition BPF_JNE :: u8 where
  "BPF_JNE = 0x50"

definition BPF_JSGT :: u8 where
  "BPF_JSGT = 0x60"

definition BPF_JSGE :: u8 where
  "BPF_JSGE = 0x70"

definition BPF_CALL :: u8 where
  "BPF_CALL = 0x80"

definition BPF_EXIT :: u8 where
  "BPF_EXIT = 0x90"

definition BPF_JLT :: u8 where
  "BPF_JLT = 0xa0"

definition BPF_JLE :: u8 where
  "BPF_JLE = 0xb0"

definition BPF_JSLT :: u8 where
  "BPF_JSLT = 0xc0"

definition BPF_JSLE :: u8 where
  "BPF_JSLE = 0xd0"

definition LD_DW_IMM :: u8 where
  "LD_DW_IMM = BPF_LD OR BPF_IMM OR BPF_DW"

definition LD_B_REG :: u8 where
  "LD_B_REG = BPF_LDX OR BPF_MEM OR BPF_B"

definition LD_H_REG :: u8 where
  "LD_H_REG = BPF_LDX OR BPF_MEM OR BPF_H"

definition LD_W_REG :: u8 where
  "LD_W_REG = BPF_LDX OR BPF_MEM OR BPF_W"

definition LD_DW_REG :: u8 where
  "LD_DW_REG = BPF_LDX OR BPF_MEM OR BPF_DW"

definition ST_B_IMM :: u8 where
  "ST_B_IMM = BPF_ST OR BPF_MEM OR BPF_B"

definition ST_H_IMM :: u8 where
  "ST_H_IMM = BPF_ST OR BPF_MEM OR BPF_H"

definition ST_W_IMM :: u8 where
  "ST_W_IMM = BPF_ST OR BPF_MEM OR BPF_W"

definition ST_DW_IMM :: u8 where
  "ST_DW_IMM = BPF_ST OR BPF_MEM OR BPF_DW"

definition ST_B_REG :: u8 where
  "ST_B_REG = BPF_STX OR BPF_MEM OR BPF_B"

definition ST_H_REG :: u8 where
  "ST_H_REG = BPF_STX OR BPF_MEM OR BPF_H"

definition ST_W_REG :: u8 where
  "ST_W_REG = BPF_STX OR BPF_MEM OR BPF_W"

definition ST_DW_REG :: u8 where
  "ST_DW_REG = BPF_STX OR BPF_MEM OR BPF_DW"

definition LD_1B_REG :: u8 where
  "LD_1B_REG = BPF_ALU32_LOAD OR BPF_X OR BPF_1B"

definition LD_2B_REG :: u8 where
  "LD_2B_REG = BPF_ALU32_LOAD OR BPF_X OR BPF_2B"

definition LD_4B_REG :: u8 where
  "LD_4B_REG = BPF_ALU32_LOAD OR BPF_X OR BPF_4B"

definition LD_8B_REG :: u8 where
  "LD_8B_REG = BPF_ALU32_LOAD OR BPF_X OR BPF_8B"

definition ST_1B_IMM :: u8 where
  "ST_1B_IMM = BPF_ALU64_STORE OR BPF_K OR BPF_1B"

definition ST_2B_IMM :: u8 where
  "ST_2B_IMM = BPF_ALU64_STORE OR BPF_K OR BPF_2B"

definition ST_4B_IMM :: u8 where
  "ST_4B_IMM = BPF_ALU64_STORE OR BPF_K OR BPF_4B"

definition ST_8B_IMM :: u8 where
  "ST_8B_IMM = BPF_ALU64_STORE OR BPF_K OR BPF_8B"

definition ST_1B_REG :: u8 where
  "ST_1B_REG = BPF_ALU64_STORE OR BPF_X OR BPF_1B"

definition ST_2B_REG :: u8 where
  "ST_2B_REG = BPF_ALU64_STORE OR BPF_X OR BPF_2B"

definition ST_4B_REG :: u8 where
  "ST_4B_REG = BPF_ALU64_STORE OR BPF_X OR BPF_4B"

definition ST_8B_REG :: u8 where
  "ST_8B_REG = BPF_ALU64_STORE OR BPF_X OR BPF_8B"

definition ADD32_IMM :: u8 where
  "ADD32_IMM = BPF_ALU32_LOAD OR BPF_K OR BPF_ADD"

definition ADD32_REG :: u8 where
  "ADD32_REG = BPF_ALU32_LOAD OR BPF_X OR BPF_ADD"

definition SUB32_IMM :: u8 where
  "SUB32_IMM = BPF_ALU32_LOAD OR BPF_K OR BPF_SUB"

definition SUB32_REG :: u8 where
  "SUB32_REG = BPF_ALU32_LOAD OR BPF_X OR BPF_SUB"

definition MUL32_IMM :: u8 where
  "MUL32_IMM = BPF_ALU32_LOAD OR BPF_K OR BPF_MUL"

definition MUL32_REG :: u8 where
  "MUL32_REG = BPF_ALU32_LOAD OR BPF_X OR BPF_MUL"

definition DIV32_IMM :: u8 where
  "DIV32_IMM = BPF_ALU32_LOAD OR BPF_K OR BPF_DIV"

definition DIV32_REG :: u8 where
  "DIV32_REG = BPF_ALU32_LOAD OR BPF_X OR BPF_DIV"

definition OR32_IMM :: u8 where
  "OR32_IMM = BPF_ALU32_LOAD OR BPF_K OR BPF_OR"

definition OR32_REG :: u8 where
  "OR32_REG = BPF_ALU32_LOAD OR BPF_X OR BPF_OR"

definition AND32_IMM :: u8 where
  "AND32_IMM = BPF_ALU32_LOAD OR BPF_K OR BPF_AND"

definition AND32_REG :: u8 where
  "AND32_REG = BPF_ALU32_LOAD OR BPF_X OR BPF_AND"

definition LSH32_IMM :: u8 where
  "LSH32_IMM = BPF_ALU32_LOAD OR BPF_K OR BPF_LSH"

definition LSH32_REG :: u8 where
  "LSH32_REG = BPF_ALU32_LOAD OR BPF_X OR BPF_LSH"

definition RSH32_IMM :: u8 where
  "RSH32_IMM = BPF_ALU32_LOAD OR BPF_K OR BPF_RSH"

definition RSH32_REG :: u8 where
  "RSH32_REG = BPF_ALU32_LOAD OR BPF_X OR BPF_RSH"

definition NEG32 :: u8 where
  "NEG32 = BPF_ALU32_LOAD OR BPF_NEG"

definition MOD32_IMM :: u8 where
  "MOD32_IMM = BPF_ALU32_LOAD OR BPF_K OR BPF_MOD"

definition MOD32_REG :: u8 where
  "MOD32_REG = BPF_ALU32_LOAD OR BPF_X OR BPF_MOD"

definition XOR32_IMM :: u8 where
  "XOR32_IMM = BPF_ALU32_LOAD OR BPF_K OR BPF_XOR"

definition XOR32_REG :: u8 where
  "XOR32_REG = BPF_ALU32_LOAD OR BPF_X OR BPF_XOR"

definition MOV32_IMM :: u8 where
  "MOV32_IMM = BPF_ALU32_LOAD OR BPF_K OR BPF_MOV"

definition MOV32_REG :: u8 where
  "MOV32_REG = BPF_ALU32_LOAD OR BPF_X OR BPF_MOV"

definition ARSH32_IMM :: u8 where
  "ARSH32_IMM = BPF_ALU32_LOAD OR BPF_K OR BPF_ARSH"

definition ARSH32_REG :: u8 where
  "ARSH32_REG = BPF_ALU32_LOAD OR BPF_X OR BPF_ARSH"

definition LMUL32_IMM :: u8 where
  "LMUL32_IMM = BPF_PQR OR BPF_K OR BPF_LMUL"

definition LMUL32_REG :: u8 where
  "LMUL32_REG = BPF_PQR OR BPF_X OR BPF_LMUL"

definition UDIV32_IMM :: u8 where
  "UDIV32_IMM = BPF_PQR OR BPF_K OR BPF_UDIV"

definition UDIV32_REG :: u8 where
  "UDIV32_REG = BPF_PQR OR BPF_X OR BPF_UDIV"

definition UREM32_IMM :: u8 where
  "UREM32_IMM = BPF_PQR OR BPF_K OR BPF_UREM"

definition UREM32_REG :: u8 where
  "UREM32_REG = BPF_PQR OR BPF_X OR BPF_UREM"

definition SDIV32_IMM :: u8 where
  "SDIV32_IMM = BPF_PQR OR BPF_K OR BPF_SDIV"

definition SDIV32_REG :: u8 where
  "SDIV32_REG = BPF_PQR OR BPF_X OR BPF_SDIV"

definition SREM32_IMM :: u8 where
  "SREM32_IMM = BPF_PQR OR BPF_K OR BPF_SREM"

definition SREM32_REG :: u8 where
  "SREM32_REG = BPF_PQR OR BPF_X OR BPF_SREM"

definition LE :: u8 where
  "LE = BPF_ALU32_LOAD OR BPF_K OR BPF_END"

definition BE :: u8 where
  "BE = BPF_ALU32_LOAD OR BPF_X OR BPF_END"

definition ADD64_IMM :: u8 where
  "ADD64_IMM = BPF_ALU64_STORE OR BPF_K OR BPF_ADD"

definition ADD64_REG :: u8 where
  "ADD64_REG = BPF_ALU64_STORE OR BPF_X OR BPF_ADD"

definition SUB64_IMM :: u8 where
  "SUB64_IMM = BPF_ALU64_STORE OR BPF_K OR BPF_SUB"

definition SUB64_REG :: u8 where
  "SUB64_REG = BPF_ALU64_STORE OR BPF_X OR BPF_SUB"

definition MUL64_IMM :: u8 where
  "MUL64_IMM = BPF_ALU64_STORE OR BPF_K OR BPF_MUL"

definition MUL64_REG :: u8 where
  "MUL64_REG = BPF_ALU64_STORE OR BPF_X OR BPF_MUL"

definition DIV64_IMM :: u8 where
  "DIV64_IMM = BPF_ALU64_STORE OR BPF_K OR BPF_DIV"

definition DIV64_REG :: u8 where
  "DIV64_REG = BPF_ALU64_STORE OR BPF_X OR BPF_DIV"

definition OR64_IMM :: u8 where
  "OR64_IMM = BPF_ALU64_STORE OR BPF_K OR BPF_OR"

definition OR64_REG :: u8 where
  "OR64_REG = BPF_ALU64_STORE OR BPF_X OR BPF_OR"

definition AND64_IMM :: u8 where
  "AND64_IMM = BPF_ALU64_STORE OR BPF_K OR BPF_AND"

definition AND64_REG :: u8 where
  "AND64_REG = BPF_ALU64_STORE OR BPF_X OR BPF_AND"

definition LSH64_IMM :: u8 where
  "LSH64_IMM = BPF_ALU64_STORE OR BPF_K OR BPF_LSH"

definition LSH64_REG :: u8 where
  "LSH64_REG = BPF_ALU64_STORE OR BPF_X OR BPF_LSH"

definition RSH64_IMM :: u8 where
  "RSH64_IMM = BPF_ALU64_STORE OR BPF_K OR BPF_RSH"

definition RSH64_REG :: u8 where
  "RSH64_REG = BPF_ALU64_STORE OR BPF_X OR BPF_RSH"

definition NEG64 :: u8 where
  "NEG64 = BPF_ALU64_STORE OR BPF_NEG"

definition MOD64_IMM :: u8 where
  "MOD64_IMM = BPF_ALU64_STORE OR BPF_K OR BPF_MOD"

definition MOD64_REG :: u8 where
  "MOD64_REG = BPF_ALU64_STORE OR BPF_X OR BPF_MOD"

definition XOR64_IMM :: u8 where
  "XOR64_IMM = BPF_ALU64_STORE OR BPF_K OR BPF_XOR"

definition XOR64_REG :: u8 where
  "XOR64_REG = BPF_ALU64_STORE OR BPF_X OR BPF_XOR"

definition MOV64_IMM :: u8 where
  "MOV64_IMM = BPF_ALU64_STORE OR BPF_K OR BPF_MOV"

definition MOV64_REG :: u8 where
  "MOV64_REG = BPF_ALU64_STORE OR BPF_X OR BPF_MOV"

definition ARSH64_IMM :: u8 where
  "ARSH64_IMM = BPF_ALU64_STORE OR BPF_K OR BPF_ARSH"

definition ARSH64_REG :: u8 where
  "ARSH64_REG = BPF_ALU64_STORE OR BPF_X OR BPF_ARSH"

definition HOR64_IMM :: u8 where
  "HOR64_IMM = BPF_ALU64_STORE OR BPF_K OR BPF_HOR"

definition LMUL64_IMM :: u8 where
  "LMUL64_IMM = BPF_PQR OR BPF_B OR BPF_K OR BPF_LMUL"

definition LMUL64_REG :: u8 where
  "LMUL64_REG = BPF_PQR OR BPF_B OR BPF_X OR BPF_LMUL"

definition UHMUL64_IMM :: u8 where
  "UHMUL64_IMM = BPF_PQR OR BPF_B OR BPF_K OR BPF_UHMUL"

definition UHMUL64_REG :: u8 where
  "UHMUL64_REG = BPF_PQR OR BPF_B OR BPF_X OR BPF_UHMUL"

definition UDIV64_IMM :: u8 where
  "UDIV64_IMM = BPF_PQR OR BPF_B OR BPF_K OR BPF_UDIV"

definition UDIV64_REG :: u8 where
  "UDIV64_REG = BPF_PQR OR BPF_B OR BPF_X OR BPF_UDIV"

definition UREM64_IMM :: u8 where
  "UREM64_IMM = BPF_PQR OR BPF_B OR BPF_K OR BPF_UREM"

definition UREM64_REG :: u8 where
  "UREM64_REG = BPF_PQR OR BPF_B OR BPF_X OR BPF_UREM"

definition SHMUL64_IMM :: u8 where
  "SHMUL64_IMM = BPF_PQR OR BPF_B OR BPF_K OR BPF_SHMUL"

definition SHMUL64_REG :: u8 where
  "SHMUL64_REG = BPF_PQR OR BPF_B OR BPF_X OR BPF_SHMUL"

definition SDIV64_IMM :: u8 where
  "SDIV64_IMM = BPF_PQR OR BPF_B OR BPF_K OR BPF_SDIV"

definition SDIV64_REG :: u8 where
  "SDIV64_REG = BPF_PQR OR BPF_B OR BPF_X OR BPF_SDIV"

definition SREM64_IMM :: u8 where
  "SREM64_IMM = BPF_PQR OR BPF_B OR BPF_K OR BPF_SREM"

definition SREM64_REG :: u8 where
  "SREM64_REG = BPF_PQR OR BPF_B OR BPF_X OR BPF_SREM"

definition JEQ32_IMM :: u8 where
  "JEQ32_IMM = BPF_JMP32 OR BPF_K OR BPF_JEQ"

definition JEQ32_REG :: u8 where
  "JEQ32_REG = BPF_JMP32 OR BPF_X OR BPF_JEQ"

definition JGT32_IMM :: u8 where
  "JGT32_IMM = BPF_JMP32 OR BPF_K OR BPF_JGT"

definition JGT32_REG :: u8 where
  "JGT32_REG = BPF_JMP32 OR BPF_X OR BPF_JGT"

definition JGE32_IMM :: u8 where
  "JGE32_IMM = BPF_JMP32 OR BPF_K OR BPF_JGE"

definition JGE32_REG :: u8 where
  "JGE32_REG = BPF_JMP32 OR BPF_X OR BPF_JGE"

definition JLT32_IMM :: u8 where
  "JLT32_IMM = BPF_JMP32 OR BPF_K OR BPF_JLT"

definition JLT32_REG :: u8 where
  "JLT32_REG = BPF_JMP32 OR BPF_X OR BPF_JLT"

definition JLE32_IMM :: u8 where
  "JLE32_IMM = BPF_JMP32 OR BPF_K OR BPF_JLE"

definition JLE32_REG :: u8 where
  "JLE32_REG = BPF_JMP32 OR BPF_X OR BPF_JLE"

definition JSET32_IMM :: u8 where
  "JSET32_IMM = BPF_JMP32 OR BPF_K OR BPF_JSET"

definition JSET32_REG :: u8 where
  "JSET32_REG = BPF_JMP32 OR BPF_X OR BPF_JSET"

definition JNE32_IMM :: u8 where
  "JNE32_IMM = BPF_JMP32 OR BPF_K OR BPF_JNE"

definition JNE32_REG :: u8 where
  "JNE32_REG = BPF_JMP32 OR BPF_X OR BPF_JNE"

definition JSGT32_IMM :: u8 where
  "JSGT32_IMM = BPF_JMP32 OR BPF_K OR BPF_JSGT"

definition JSGT32_REG :: u8 where
  "JSGT32_REG = BPF_JMP32 OR BPF_X OR BPF_JSGT"

definition JSGE32_IMM :: u8 where
  "JSGE32_IMM = BPF_JMP32 OR BPF_K OR BPF_JSGE"

definition JSGE32_REG :: u8 where
  "JSGE32_REG = BPF_JMP32 OR BPF_X OR BPF_JSGE"

definition JSLT32_IMM :: u8 where
  "JSLT32_IMM = BPF_JMP32 OR BPF_K OR BPF_JSLT"

definition JSLT32_REG :: u8 where
  "JSLT32_REG = BPF_JMP32 OR BPF_X OR BPF_JSLT"

definition JSLE32_IMM :: u8 where
  "JSLE32_IMM = BPF_JMP32 OR BPF_K OR BPF_JSLE"

definition JSLE32_REG :: u8 where
  "JSLE32_REG = BPF_JMP32 OR BPF_X OR BPF_JSLE"

definition JA :: u8 where
  "JA = BPF_JMP64 OR BPF_JA"

definition JEQ64_IMM :: u8 where
  "JEQ64_IMM = BPF_JMP64 OR BPF_K OR BPF_JEQ"

definition JEQ64_REG :: u8 where
  "JEQ64_REG = BPF_JMP64 OR BPF_X OR BPF_JEQ"

definition JGT64_IMM :: u8 where
  "JGT64_IMM = BPF_JMP64 OR BPF_K OR BPF_JGT"

definition JGT64_REG :: u8 where
  "JGT64_REG = BPF_JMP64 OR BPF_X OR BPF_JGT"

definition JGE64_IMM :: u8 where
  "JGE64_IMM = BPF_JMP64 OR BPF_K OR BPF_JGE"

definition JGE64_REG :: u8 where
  "JGE64_REG = BPF_JMP64 OR BPF_X OR BPF_JGE"

definition JLT64_IMM :: u8 where
  "JLT64_IMM = BPF_JMP64 OR BPF_K OR BPF_JLT"

definition JLT64_REG :: u8 where
  "JLT64_REG = BPF_JMP64 OR BPF_X OR BPF_JLT"

definition JLE64_IMM :: u8 where
  "JLE64_IMM = BPF_JMP64 OR BPF_K OR BPF_JLE"

definition JLE64_REG :: u8 where
  "JLE64_REG = BPF_JMP64 OR BPF_X OR BPF_JLE"

definition JSET64_IMM :: u8 where
  "JSET64_IMM = BPF_JMP64 OR BPF_K OR BPF_JSET"

definition JSET64_REG :: u8 where
  "JSET64_REG = BPF_JMP64 OR BPF_X OR BPF_JSET"

definition JNE64_IMM :: u8 where
  "JNE64_IMM = BPF_JMP64 OR BPF_K OR BPF_JNE"

definition JNE64_REG :: u8 where
  "JNE64_REG = BPF_JMP64 OR BPF_X OR BPF_JNE"

definition JSGT64_IMM :: u8 where
  "JSGT64_IMM = BPF_JMP64 OR BPF_K OR BPF_JSGT"

definition JSGT64_REG :: u8 where
  "JSGT64_REG = BPF_JMP64 OR BPF_X OR BPF_JSGT"

definition JSGE64_IMM :: u8 where
  "JSGE64_IMM = BPF_JMP64 OR BPF_K OR BPF_JSGE"

definition JSGE64_REG :: u8 where
  "JSGE64_REG = BPF_JMP64 OR BPF_X OR BPF_JSGE"

definition JSLT64_IMM :: u8 where
  "JSLT64_IMM = BPF_JMP64 OR BPF_K OR BPF_JSLT"

definition JSLT64_REG :: u8 where
  "JSLT64_REG = BPF_JMP64 OR BPF_X OR BPF_JSLT"

definition JSLE64_IMM :: u8 where
  "JSLE64_IMM = BPF_JMP64 OR BPF_K OR BPF_JSLE"

definition JSLE64_REG :: u8 where
  "JSLE64_REG = BPF_JMP64 OR BPF_X OR BPF_JSLE"

definition CALL_IMM :: u8 where
  "CALL_IMM = BPF_JMP64 OR BPF_CALL"

definition CALL_REG :: u8 where
  "CALL_REG = BPF_JMP64 OR BPF_X OR BPF_CALL"

definition EXIT :: u8 where
  "EXIT = BPF_JMP64 OR BPF_EXIT"

definition BPF_CLS_MASK :: u8 where
  "BPF_CLS_MASK = 0x07"

definition BPF_ALU_OP_MASK :: u8 where
  "BPF_ALU_OP_MASK = 0xf0"

section \<open>Values\<close>

lemmas opcode_defs =
    MM_REGION_SIZE_def MM_RODATA_START_def MM_BYTECODE_START_def MM_STACK_START_def
    MM_HEAP_START_def MM_INPUT_START_def BPF_LD_def BPF_LDX_def BPF_ST_def BPF_STX_def
    BPF_ALU32_LOAD_def BPF_JMP64_def BPF_JMP32_def BPF_PQR_def BPF_ALU64_STORE_def BPF_W_def
    BPF_H_def BPF_B_def BPF_DW_def BPF_1B_def BPF_2B_def BPF_4B_def BPF_8B_def BPF_IMM_def
    BPF_ABS_def BPF_IND_def BPF_MEM_def BPF_K_def BPF_X_def BPF_ADD_def BPF_SUB_def
    BPF_MUL_def BPF_DIV_def BPF_OR_def BPF_AND_def BPF_LSH_def BPF_RSH_def BPF_NEG_def
    BPF_MOD_def BPF_XOR_def BPF_MOV_def BPF_ARSH_def BPF_END_def BPF_HOR_def BPF_UHMUL_def
    BPF_UDIV_def BPF_UREM_def BPF_LMUL_def BPF_SHMUL_def BPF_SDIV_def BPF_SREM_def BPF_JA_def
    BPF_JEQ_def BPF_JGT_def BPF_JGE_def BPF_JSET_def BPF_JNE_def BPF_JSGT_def BPF_JSGE_def
    BPF_CALL_def BPF_EXIT_def BPF_JLT_def BPF_JLE_def BPF_JSLT_def BPF_JSLE_def LD_DW_IMM_def
    LD_B_REG_def LD_H_REG_def LD_W_REG_def LD_DW_REG_def ST_B_IMM_def ST_H_IMM_def
    ST_W_IMM_def ST_DW_IMM_def ST_B_REG_def ST_H_REG_def ST_W_REG_def ST_DW_REG_def
    LD_1B_REG_def LD_2B_REG_def LD_4B_REG_def LD_8B_REG_def ST_1B_IMM_def ST_2B_IMM_def
    ST_4B_IMM_def ST_8B_IMM_def ST_1B_REG_def ST_2B_REG_def ST_4B_REG_def ST_8B_REG_def
    ADD32_IMM_def ADD32_REG_def SUB32_IMM_def SUB32_REG_def MUL32_IMM_def MUL32_REG_def
    DIV32_IMM_def DIV32_REG_def OR32_IMM_def OR32_REG_def AND32_IMM_def AND32_REG_def
    LSH32_IMM_def LSH32_REG_def RSH32_IMM_def RSH32_REG_def NEG32_def MOD32_IMM_def
    MOD32_REG_def XOR32_IMM_def XOR32_REG_def MOV32_IMM_def MOV32_REG_def ARSH32_IMM_def
    ARSH32_REG_def LMUL32_IMM_def LMUL32_REG_def UDIV32_IMM_def UDIV32_REG_def UREM32_IMM_def
    UREM32_REG_def SDIV32_IMM_def SDIV32_REG_def SREM32_IMM_def SREM32_REG_def LE_def BE_def
    ADD64_IMM_def ADD64_REG_def SUB64_IMM_def SUB64_REG_def MUL64_IMM_def MUL64_REG_def
    DIV64_IMM_def DIV64_REG_def OR64_IMM_def OR64_REG_def AND64_IMM_def AND64_REG_def
    LSH64_IMM_def LSH64_REG_def RSH64_IMM_def RSH64_REG_def NEG64_def MOD64_IMM_def
    MOD64_REG_def XOR64_IMM_def XOR64_REG_def MOV64_IMM_def MOV64_REG_def ARSH64_IMM_def
    ARSH64_REG_def HOR64_IMM_def LMUL64_IMM_def LMUL64_REG_def UHMUL64_IMM_def UHMUL64_REG_def
    UDIV64_IMM_def UDIV64_REG_def UREM64_IMM_def UREM64_REG_def SHMUL64_IMM_def
    SHMUL64_REG_def SDIV64_IMM_def SDIV64_REG_def SREM64_IMM_def SREM64_REG_def JEQ32_IMM_def
    JEQ32_REG_def JGT32_IMM_def JGT32_REG_def JGE32_IMM_def JGE32_REG_def JLT32_IMM_def
    JLT32_REG_def JLE32_IMM_def JLE32_REG_def JSET32_IMM_def JSET32_REG_def JNE32_IMM_def
    JNE32_REG_def JSGT32_IMM_def JSGT32_REG_def JSGE32_IMM_def JSGE32_REG_def JSLT32_IMM_def
    JSLT32_REG_def JSLE32_IMM_def JSLE32_REG_def JA_def JEQ64_IMM_def JEQ64_REG_def
    JGT64_IMM_def JGT64_REG_def JGE64_IMM_def JGE64_REG_def JLT64_IMM_def JLT64_REG_def
    JLE64_IMM_def JLE64_REG_def JSET64_IMM_def JSET64_REG_def JNE64_IMM_def JNE64_REG_def
    JSGT64_IMM_def JSGT64_REG_def JSGE64_IMM_def JSGE64_REG_def JSLT64_IMM_def JSLT64_REG_def
    JSLE64_IMM_def JSLE64_REG_def CALL_IMM_def CALL_REG_def EXIT_def BPF_CLS_MASK_def
    BPF_ALU_OP_MASK_def

lemma opcode_values [opcode_val]:
  "MM_REGION_SIZE = 4294967296"
  "MM_RODATA_START = 0"
  "MM_BYTECODE_START = 4294967296"
  "MM_STACK_START = 8589934592"
  "MM_HEAP_START = 12884901888"
  "MM_INPUT_START = 17179869184"
  "BPF_LD = 0"
  "BPF_LDX = 1"
  "BPF_ST = 2"
  "BPF_STX = 3"
  "BPF_ALU32_LOAD = 4"
  "BPF_JMP64 = 5"
  "BPF_JMP32 = 6"
  "BPF_PQR = 6"
  "BPF_ALU64_STORE = 7"
  "BPF_W = 0"
  "BPF_H = 8"
  "BPF_B = 16"
  "BPF_DW = 24"
  "BPF_1B = 32"
  "BPF_2B = 48"
  "BPF_4B = 128"
  "BPF_8B = 144"
  "BPF_IMM = 0"
  "BPF_ABS = 32"
  "BPF_IND = 64"
  "BPF_MEM = 96"
  "BPF_K = 0"
  "BPF_X = 8"
  "BPF_ADD = 0"
  "BPF_SUB = 16"
  "BPF_MUL = 32"
  "BPF_DIV = 48"
  "BPF_OR = 64"
  "BPF_AND = 80"
  "BPF_LSH = 96"
  "BPF_RSH = 112"
  "BPF_NEG = 128"
  "BPF_MOD = 144"
  "BPF_XOR = 160"
  "BPF_MOV = 176"
  "BPF_ARSH = 192"
  "BPF_END = 208"
  "BPF_HOR = 240"
  "BPF_UHMUL = 32"
  "BPF_UDIV = 64"
  "BPF_UREM = 96"
  "BPF_LMUL = 128"
  "BPF_SHMUL = 160"
  "BPF_SDIV = 192"
  "BPF_SREM = 224"
  "BPF_JA = 0"
  "BPF_JEQ = 16"
  "BPF_JGT = 32"
  "BPF_JGE = 48"
  "BPF_JSET = 64"
  "BPF_JNE = 80"
  "BPF_JSGT = 96"
  "BPF_JSGE = 112"
  "BPF_CALL = 128"
  "BPF_EXIT = 144"
  "BPF_JLT = 160"
  "BPF_JLE = 176"
  "BPF_JSLT = 192"
  "BPF_JSLE = 208"
  "LD_DW_IMM = 24"
  "LD_B_REG = 113"
  "LD_H_REG = 105"
  "LD_W_REG = 97"
  "LD_DW_REG = 121"
  "ST_B_IMM = 114"
  "ST_H_IMM = 106"
  "ST_W_IMM = 98"
  "ST_DW_IMM = 122"
  "ST_B_REG = 115"
  "ST_H_REG = 107"
  "ST_W_REG = 99"
  "ST_DW_REG = 123"
  "LD_1B_REG = 44"
  "LD_2B_REG = 60"
  "LD_4B_REG = 140"
  "LD_8B_REG = 156"
  "ST_1B_IMM = 39"
  "ST_2B_IMM = 55"
  "ST_4B_IMM = 135"
  "ST_8B_IMM = 151"
  "ST_1B_REG = 47"
  "ST_2B_REG = 63"
  "ST_4B_REG = 143"
  "ST_8B_REG = 159"
  "ADD32_IMM = 4"
  "ADD32_REG = 12"
  "SUB32_IMM = 20"
  "SUB32_REG = 28"
  "MUL32_IMM = 36"
  "MUL32_REG = 44"
  "DIV32_IMM = 52"
  "DIV32_REG = 60"
  "OR32_IMM = 68"
  "OR32_REG = 76"
  "AND32_IMM = 84"
  "AND32_REG = 92"
  "LSH32_IMM = 100"
  "LSH32_REG = 108"
  "RSH32_IMM = 116"
  "RSH32_REG = 124"
  "NEG32 = 132"
  "MOD32_IMM = 148"
  "MOD32_REG = 156"
  "XOR32_IMM = 164"
  "XOR32_REG = 172"
  "MOV32_IMM = 180"
  "MOV32_REG = 188"
  "ARSH32_IMM = 196"
  "ARSH32_REG = 204"
  "LMUL32_IMM = 134"
  "LMUL32_REG = 142"
  "UDIV32_IMM = 70"
  "UDIV32_REG = 78"
  "UREM32_IMM = 102"
  "UREM32_REG = 110"
  "SDIV32_IMM = 198"
  "SDIV32_REG = 206"
  "SREM32_IMM = 230"
  "SREM32_REG = 238"
  "LE = 212"
  "BE = 220"
  "ADD64_IMM = 7"
  "ADD64_REG = 15"
  "SUB64_IMM = 23"
  "SUB64_REG = 31"
  "MUL64_IMM = 39"
  "MUL64_REG = 47"
  "DIV64_IMM = 55"
  "DIV64_REG = 63"
  "OR64_IMM = 71"
  "OR64_REG = 79"
  "AND64_IMM = 87"
  "AND64_REG = 95"
  "LSH64_IMM = 103"
  "LSH64_REG = 111"
  "RSH64_IMM = 119"
  "RSH64_REG = 127"
  "NEG64 = 135"
  "MOD64_IMM = 151"
  "MOD64_REG = 159"
  "XOR64_IMM = 167"
  "XOR64_REG = 175"
  "MOV64_IMM = 183"
  "MOV64_REG = 191"
  "ARSH64_IMM = 199"
  "ARSH64_REG = 207"
  "HOR64_IMM = 247"
  "LMUL64_IMM = 150"
  "LMUL64_REG = 158"
  "UHMUL64_IMM = 54"
  "UHMUL64_REG = 62"
  "UDIV64_IMM = 86"
  "UDIV64_REG = 94"
  "UREM64_IMM = 118"
  "UREM64_REG = 126"
  "SHMUL64_IMM = 182"
  "SHMUL64_REG = 190"
  "SDIV64_IMM = 214"
  "SDIV64_REG = 222"
  "SREM64_IMM = 246"
  "SREM64_REG = 254"
  "JEQ32_IMM = 22"
  "JEQ32_REG = 30"
  "JGT32_IMM = 38"
  "JGT32_REG = 46"
  "JGE32_IMM = 54"
  "JGE32_REG = 62"
  "JLT32_IMM = 166"
  "JLT32_REG = 174"
  "JLE32_IMM = 182"
  "JLE32_REG = 190"
  "JSET32_IMM = 70"
  "JSET32_REG = 78"
  "JNE32_IMM = 86"
  "JNE32_REG = 94"
  "JSGT32_IMM = 102"
  "JSGT32_REG = 110"
  "JSGE32_IMM = 118"
  "JSGE32_REG = 126"
  "JSLT32_IMM = 198"
  "JSLT32_REG = 206"
  "JSLE32_IMM = 214"
  "JSLE32_REG = 222"
  "JA = 5"
  "JEQ64_IMM = 21"
  "JEQ64_REG = 29"
  "JGT64_IMM = 37"
  "JGT64_REG = 45"
  "JGE64_IMM = 53"
  "JGE64_REG = 61"
  "JLT64_IMM = 165"
  "JLT64_REG = 173"
  "JLE64_IMM = 181"
  "JLE64_REG = 189"
  "JSET64_IMM = 69"
  "JSET64_REG = 77"
  "JNE64_IMM = 85"
  "JNE64_REG = 93"
  "JSGT64_IMM = 101"
  "JSGT64_REG = 109"
  "JSGE64_IMM = 117"
  "JSGE64_REG = 125"
  "JSLT64_IMM = 197"
  "JSLT64_REG = 205"
  "JSLE64_IMM = 213"
  "JSLE64_REG = 221"
  "CALL_IMM = 133"
  "CALL_REG = 141"
  "EXIT = 149"
  "BPF_CLS_MASK = 7"
  "BPF_ALU_OP_MASK = 240"
  by (simp_all add: opcode_defs)

end
