(* ===== verification/Ebpf.thy ===== *)
theory Ebpf
  imports Ebpf_Opcodes
begin

text \<open>
  Instructions of \<^verbatim>\<open>ebpf.rs\<close>: the decoded form \<open>Insn\<close>, its encoding
  (\<open>to_array\<close>, \<open>to_vec\<close>), the bounds check of the program counter, and the
  decoders \<open>get_insn_unchecked\<close>, \<open>get_insn\<close> and \<open>augment_lddw_unchecked\<close>.
  A decoder returns \<open>None\<close> where the source panics on an index out of range.
  \<open>read_le\<close> stands for \<open>LittleEndian::read_i16\<close> and \<open>read_i32\<close> on the
  rest of a slice: the little-endian value of its first bytes, and a panic when the
  slice is too short.

  The lemmas show that encoding and decoding are inverse to each other, that the
  decoder panics exactly outside the program, and that the two slots of a
  \<open>LD_DW_IMM\<close> are merged to the 64-bit immediate they were split from.
\<close>

section \<open>Definitions\<close>

record Insn =
  i_ptr :: nat
  i_opc :: u8
  i_dst :: u8
  i_src :: u8
  i_off :: i16
  i_imm :: i64

definition Insn_default :: Insn where
  "Insn_default = \<lparr>i_ptr = 0, i_opc = 0, i_dst = 0, i_src = 0, i_off = 0, i_imm = 0\<rparr>"

definition to_array :: "Insn \<Rightarrow> u8 list" where
  "to_array insn =
     [i_opc insn,
      wrapping_shl (i_src insn) 4 OR i_dst insn,
      ucast (i_off insn AND 0xff),
      ucast (wrapping_sshr (i_off insn) 8),
      ucast (i_imm insn AND 0xff),
      ucast (wrapping_sshr (i_imm insn AND 0xff00) 8),
      ucast (wrapping_shr ((ucast (i_imm insn) :: u32) AND 0xff0000) 16),
      ucast (wrapping_shr ((ucast (i_imm insn) :: u32) AND 0xff000000) 24)]"

definition to_vec :: "Insn \<Rightarrow> u8 list" where
  "to_vec insn = to_array insn"

definition is_pc_in_program :: "u8 list \<Rightarrow> nat \<Rightarrow> bool" where
  "is_pc_in_program prog pc \<longleftrightarrow>
     usize_saturating_mul (usize_saturating_add pc 1) INSN_SIZE \<le> length prog"

definition read_le :: "nat \<Rightarrow> u8 list \<Rightarrow> nat \<Rightarrow> 'a::len word option" where
  "read_le n bytes start =
     (if start + n \<le> length bytes then Some (le_word (take n (drop start bytes))) else None)"

definition get_insn_unchecked :: "u8 list \<Rightarrow> nat \<Rightarrow> Insn option" where
  "get_insn_unchecked prog pc =
     do {
       opc \<leftarrow> index_opt prog (INSN_SIZE * pc);
       regs \<leftarrow> index_opt prog (INSN_SIZE * pc + 1);
       off \<leftarrow> (read_le 2 prog (INSN_SIZE * pc + 2) :: i16 option);
       imm \<leftarrow> (read_le 4 prog (INSN_SIZE * pc + 4) :: i32 option);
       Some \<lparr>i_ptr = pc, i_opc = opc, i_dst = regs AND 0x0f,
             i_src = drop_bit 4 (regs AND 0xf0), i_off = off, i_imm = scast imm\<rparr>
     }"

definition get_insn :: "u8 list \<Rightarrow> nat \<Rightarrow> Insn option" where
  "get_insn prog pc = (if is_pc_in_program prog pc then get_insn_unchecked prog pc else None)"

definition augment_lddw_unchecked :: "u8 list \<Rightarrow> Insn \<Rightarrow> Insn option" where
  "augment_lddw_unchecked prog insn =
     do {
       more_significant_half \<leftarrow> (read_le 4 prog ((i_ptr insn + 1) * INSN_SIZE + 4) :: i32 option);
       Some (insn\<lparr>i_imm := (i_imm insn AND 0xffffffff) OR push_bit 32 (scast more_significant_half)\<rparr>)
     }"

text \<open>
  \<open>valid_insn\<close> is the set of instructions that have an encoding: register numbers
  are 4 bits wide and the immediate is the sign extension of 32 bits.
\<close>

definition valid_insn :: "Insn \<Rightarrow> bool" where
  "valid_insn insn \<longleftrightarrow> i_dst insn < 16 \<and> i_src insn < 16 \<and>
     i_imm insn = scast (ucast (i_imm insn) :: i32)"

section \<open>Lemmas\<close>

lemma length_to_array [simp]: "length (to_array insn) = INSN_SIZE"
  by (simp add: to_array_def)

lemma length_to_vec [simp]: "length (to_vec insn) = INSN_SIZE"
  by (simp add: to_vec_def)

lemma is_pc_in_program_iff:
  assumes "length prog < usize_max"
  shows "is_pc_in_program prog pc \<longleftrightarrow> 8 * (pc + 1) \<le> length prog"
  using assms by (auto simp: is_pc_in_program_def rust_simps min_def)

lemma read_le_Some_iff:
  "read_le n bs i = Some w \<longleftrightarrow> i + n \<le> length bs \<and> w = le_word (take n (drop i bs))"
  by (auto simp: read_le_def)

lemma byte_masks:
  "(0xff :: 16 word) = mask 8" "(0xff :: 32 word) = mask 8" "(0xff :: 64 word) = mask 8"
  "(0xff00 :: 64 word) = push_bit 8 (mask 8)"
  "(0xffffffff :: 64 word) = mask 32"
  "(0x0f :: 8 word) = mask 4" "(0xf0 :: 8 word) = push_bit 4 (mask 4)"
  by (simp_all add: mask_eq_exp_minus_1)

lemma hi_nibble: "drop_bit 4 (b AND 0xf0) = drop_bit 4 (b :: u8)"
  by (rule bit_word_eqI) (auto simp: byte_masks bit_simps simp del: drop_bit_and dest: bit_imp_le_length)

lemma nibble_less: "(b :: u8) AND 0x0f < 16" "drop_bit 4 (b :: u8) < 16"
proof -
  show "b AND 0x0f < 16"
    using and_mask_less_size [of 4 b] by (simp add: byte_masks word_size)
  have "drop_bit 4 b AND mask 4 = drop_bit 4 b"
    by (rule bit_word_eqI) (auto simp: bit_simps dest: bit_imp_le_length)
  then show "drop_bit 4 b < 16"
    using and_mask_less_size [of 4 "drop_bit 4 b"] by (simp add: word_size)
qed

lemma get_insn_unchecked_Some:
  assumes "8 * (pc + 1) \<le> length prog"
  shows "get_insn_unchecked prog pc =
    Some \<lparr>i_ptr = pc, i_opc = prog ! (8 * pc), i_dst = prog ! (8 * pc + 1) AND 0x0f,
          i_src = drop_bit 4 (prog ! (8 * pc + 1)),
          i_off = le_word (take 2 (drop (8 * pc + 2) prog)),
          i_imm = scast (le_word (take 4 (drop (8 * pc + 4) prog)) :: i32)\<rparr>"
  using assms by (simp add: get_insn_unchecked_def read_le_def hi_nibble del: drop_bit_and)

lemma get_insn_unchecked_None:
  assumes "length prog < 8 * (pc + 1)"
  shows "get_insn_unchecked prog pc = None"
proof -
  have "read_le 4 prog (8 * pc + 4) = (None :: i32 option)"
    using assms by (simp add: read_le_def)
  then show ?thesis
    by (simp add: get_insn_unchecked_def bind_eq_None_conv split: Option.bind_splits)
qed


text \<open>The layout of an encoded instruction: opcode, register pair, offset, immediate.\<close>

lemma to_array_layout:
  "to_array insn =
     [i_opc insn, push_bit 4 (i_src insn) OR i_dst insn]
     @ le_bytes 2 (i_off insn) @ le_bytes 4 (ucast (i_imm insn) :: u32)"
proof -
  have off: "ucast (i_off insn AND 0xff) = (ucast (i_off insn) :: u8)"
      "ucast (signed_drop_bit 8 (i_off insn)) = (ucast (drop_bit 8 (i_off insn)) :: u8)"
    by (rule bit_word_eqI; auto simp: bit_simps byte_masks)+
  have imm: "ucast (i_imm insn AND 0xff) = (ucast (ucast (i_imm insn) :: u32) :: u8)"
      "ucast (signed_drop_bit 8 (i_imm insn AND 0xff00))
         = (ucast (drop_bit 8 (ucast (i_imm insn) :: u32)) :: u8)"
      "ucast (w AND 0xff) = (ucast w :: u8)" for w :: u32
    by (rule bit_word_eqI; auto simp: bit_simps byte_masks)+
  show ?thesis
    by (simp add: to_array_def rust_simps off imm le_bytes_numeral)
qed


lemma less_16_bit:
  assumes "(w :: u8) < 16" and "bit w k"
  shows "k < 4"
proof -
  have "w AND mask 4 = w"
    using assms(1) by (intro less_mask_eq) simp
  with assms(2) have "bit (w AND mask 4) k"
    by simp
  then show ?thesis
    by (simp add: bit_simps)
qed

lemma register_pair_unpack:
  assumes "(s :: u8) < 16" and "d < 16"
  shows "(push_bit 4 s OR d) AND 0x0f = d" "drop_bit 4 (push_bit 4 s OR d) = s"
  using assms
  by (auto intro!: bit_word_eqI simp: byte_masks bit_simps dest: less_16_bit)

lemma register_pair_pack:
  "push_bit 4 (drop_bit 4 b) OR (b AND 0x0f) = (b :: u8)"
  by (auto intro!: bit_word_eqI simp: byte_masks bit_simps)

text \<open>Decoding inverts encoding, wherever the encoded instruction stands in a program.\<close>

lemma get_insn_unchecked_to_vec:
  assumes "valid_insn insn" and "length pre = 8 * pc"
  shows "get_insn_unchecked (pre @ to_vec insn @ post) pc = Some (insn\<lparr>i_ptr := pc\<rparr>)"
proof -
  have imm: "scast (le_word (le_bytes 4 (ucast (i_imm insn) :: u32)) :: i32) = i_imm insn"
    using assms(1) by (simp add: le_word_le_bytes valid_insn_def)
  have off: "le_word (le_bytes 2 (i_off insn)) = i_off insn"
    by (rule le_word_le_bytes) simp
  have regs: "i_dst insn < 16" "i_src insn < 16"
    using assms(1) by (simp_all add: valid_insn_def)
  show ?thesis
    using assms(2) register_pair_unpack [OF regs(2,1)]
    by (subst get_insn_unchecked_Some)
       (simp_all add: to_vec_def to_array_layout nth_append imm off)
qed

text \<open>Encoding inverts decoding: re-encoding a decoded instruction gives its eight bytes.\<close>

lemma to_vec_get_insn_unchecked:
  assumes "get_insn_unchecked prog pc = Some insn"
  shows "to_vec insn = take INSN_SIZE (drop (INSN_SIZE * pc) prog)"
proof -
  have len: "8 * (pc + 1) \<le> length prog"
    using assms get_insn_unchecked_None [of prog pc] by (cases "length prog < 8 * (pc + 1)") auto
  note take_8_drop [of "8 * pc" prog]
  moreover have "take 2 (drop (8 * pc) prog) = [prog ! (8 * pc), prog ! (8 * pc + 1)]"
    using len by (intro take_2_drop) simp
  moreover have "le_bytes 4 (ucast (scast (le_word (take 4 (drop (8 * pc + 4) prog)) :: i32) :: i64) :: u32)
      = take 4 (drop (8 * pc + 4) prog)"
    using len by (simp add: le_bytes_le_word ucast_scast_id)
  moreover have "le_bytes 2 (le_word (take 2 (drop (8 * pc + 2) prog)) :: i16)
      = take 2 (drop (8 * pc + 2) prog)"
    using len by (simp add: le_bytes_le_word)
  moreover note get_insn_unchecked_Some [OF len, unfolded assms option.inject]
  ultimately show ?thesis
    by (simp only: to_vec_def to_array_layout INSN_SIZE_def Insn.simps register_pair_pack append.assoc)
qed

lemma valid_insn_get_insn_unchecked:
  assumes "get_insn_unchecked prog pc = Some insn"
  shows "valid_insn insn" "i_ptr insn = pc"
proof -
  have len: "8 * (pc + 1) \<le> length prog"
    using assms get_insn_unchecked_None [of prog pc] by (cases "length prog < 8 * (pc + 1)") auto
  note insn = get_insn_unchecked_Some [OF len, unfolded assms option.inject]
  show "valid_insn insn"
    by (simp only: insn valid_insn_def Insn.simps nibble_less) (simp add: ucast_scast_id)
  show "i_ptr insn = pc"
    by (simp only: insn Insn.simps)
qed

text \<open>
  A 64-bit constant is loaded in two slots, the lower half in the immediate of the first
  and the upper half in the immediate of the second.
\<close>

lemma lddw_halves:
  "((scast (ucast (v :: i64) :: i32) :: i64) AND 0xffffffff)
     OR push_bit 32 (scast (ucast (drop_bit 32 v) :: i32)) = v"
proof (rule bit_word_eqI)
  fix n
  assume "n < LENGTH(64)"
  then show "bit (((scast (ucast v :: i32) :: i64) AND 0xffffffff)
      OR push_bit 32 (scast (ucast (drop_bit 32 v) :: i32))) n \<longleftrightarrow> bit v n"
    by (cases "n < 32") (auto simp: bit_simps byte_masks)
qed

lemma augment_lddw_unchecked_to_vec:
  assumes "length pre = 8 * pc" and "i_ptr insn = pc"
    and "i_imm insn = scast (ucast v :: i32)"
    and "i_imm insn' = scast (ucast (drop_bit 32 v) :: i32)"
  shows "augment_lddw_unchecked (pre @ to_vec insn @ to_vec insn' @ post) insn = Some (insn\<lparr>i_imm := v\<rparr>)"
proof -
  have "le_word (le_bytes 4 (ucast (i_imm insn') :: u32)) = (ucast (drop_bit 32 v) :: i32)"
    using assms(4) by (simp add: le_word_le_bytes ucast_scast_id)
  moreover have "length (to_vec insn) = 8" "length (to_vec insn') = 8"
    by simp_all
  moreover have "take 4 (drop 4 (to_vec insn' @ post)) = le_bytes 4 (ucast (i_imm insn') :: u32)"
    by (simp add: to_vec_def to_array_layout)
  ultimately have "read_le 4 (pre @ to_vec insn @ to_vec insn' @ post) ((i_ptr insn + 1) * INSN_SIZE + 4)
      = Some (ucast (drop_bit 32 v) :: i32)"
    using assms(1,2) by (simp add: read_le_def)
  then show ?thesis
    by (simp add: augment_lddw_unchecked_def assms(3) lddw_halves del: INSN_SIZE_def)
qed

section \<open>Properties\<close>

text \<open>
  C21. Decoding inverts encoding: the bytes of an instruction whose registers and immediate
  are representable decode to the instruction itself, at any position of any program.
\<close>

theorem decode_encode:
  assumes "valid_insn insn" and "length pre = INSN_SIZE * pc"
  shows "get_insn_unchecked (pre @ to_vec insn @ post) pc = Some (insn\<lparr>i_ptr := pc\<rparr>)"
  using get_insn_unchecked_to_vec assms by simp

theorem decode_encode_witness:
  "get_insn_unchecked (to_vec \<lparr>i_ptr = 7, i_opc = 0x07, i_dst = 1, i_src = 2, i_off = - 3, i_imm = - 4\<rparr>) 0
     = Some \<lparr>i_ptr = 0, i_opc = 0x07, i_dst = 1, i_src = 2, i_off = - 3, i_imm = - 4\<rparr>"
  using decode_encode [of "\<lparr>i_ptr = 7, i_opc = 0x07, i_dst = 1, i_src = 2, i_off = - 3, i_imm = - 4\<rparr>" "[]" 0 "[]"]
  by (simp add: valid_insn_def)

text \<open>
  C22. Encoding inverts decoding: re-encoding a decoded instruction gives back the eight bytes
  it was decoded from, and a decoded instruction always has an encoding.
\<close>

theorem encode_decode:
  assumes "get_insn_unchecked prog pc = Some insn"
  shows "to_vec insn = take INSN_SIZE (drop (INSN_SIZE * pc) prog) \<and> valid_insn insn"
  using to_vec_get_insn_unchecked [OF assms] valid_insn_get_insn_unchecked [OF assms] by simp_all

theorem encode_decode_witness:
  "to_vec \<lparr>i_ptr = 0, i_opc = 0xb7, i_dst = 5, i_src = 3, i_off = 0x0201, i_imm = 0x04030201\<rparr>
     = [0xb7, 0x35, 1, 2, 1, 2, 3, 4]"
proof -
  have "get_insn_unchecked [0xb7, 0x35, 1, 2, 1, 2, 3, 4] 0
      = Some \<lparr>i_ptr = 0, i_opc = 0xb7, i_dst = 5, i_src = 3, i_off = 0x0201, i_imm = 0x04030201\<rparr>"
    by (simp add: get_insn_unchecked_def read_le_def)
  from encode_decode [OF this] show ?thesis
    by simp
qed

text \<open>
  C23. A 64-bit constant split over the immediates of two consecutive slots is read back by
  the merge of the wide load, whatever surrounds the two slots.
\<close>

theorem lddw_roundtrip:
  assumes "length pre = INSN_SIZE * pc" and "i_ptr insn = pc"
    and "i_imm insn = scast (ucast v :: i32)"
    and "i_imm insn' = scast (ucast (drop_bit 32 v) :: i32)"
  shows "augment_lddw_unchecked (pre @ to_vec insn @ to_vec insn' @ post) insn = Some (insn\<lparr>i_imm := v\<rparr>)"
  using augment_lddw_unchecked_to_vec assms by simp

theorem lddw_roundtrip_witness:
  "augment_lddw_unchecked
     (to_vec (Insn_default\<lparr>i_imm := 0x55667788\<rparr>) @ to_vec (Insn_default\<lparr>i_imm := 0x11223344\<rparr>))
     (Insn_default\<lparr>i_imm := 0x55667788\<rparr>) = Some (Insn_default\<lparr>i_imm := 0x1122334455667788\<rparr>)"
  using lddw_roundtrip [of "[]" 0 "Insn_default\<lparr>i_imm := 0x55667788\<rparr>" "0x1122334455667788"
    "Insn_default\<lparr>i_imm := 0x11223344\<rparr>" "[]"]
  by (simp add: Insn_default_def)

end
