(* ===== verification/Verifier.thy ===== *)
theory Verifier
  imports Program Ebpf
begin

text \<open>
  The verifier of \<^verbatim>\<open>verifier.rs\<close>. Each check returns \<open>Inl\<close> of a
  \<open>VerifierError\<close> or \<open>Inr ()\<close>; those that decode an instruction return \<open>None\<close>
  where the decoder panics. The \<open>match\<close> on the operation code is split into the groups the
  source comments name; \<open>arm\<close> names what the body of an arm does, and
  \<open>opcode_arm\<close> is the first arm whose pattern and guard apply.

  The lemmas show that verification never panics, and that it accepts a program exactly when
  every instruction that starts a slot satisfies \<open>insn_ok\<close>, a specification without
  control flow.
\<close>

section \<open>Checks of a single instruction\<close>

definition check_prog_len :: "u8 list \<Rightarrow> VerifierError + unit" where
  "check_prog_len prog =
     (if length prog mod INSN_SIZE \<noteq> 0 then Inl ProgramLengthNotMultiple
      else if prog = [] then Inl NoProgram
      else Inr ())"

definition check_imm_nonzero :: "Insn \<Rightarrow> nat \<Rightarrow> VerifierError + unit" where
  "check_imm_nonzero insn insn_ptr =
     (if i_imm insn = 0 then Inl (DivisionByZero insn_ptr) else Inr ())"

definition check_imm_endian :: "Insn \<Rightarrow> nat \<Rightarrow> VerifierError + unit" where
  "check_imm_endian insn insn_ptr =
     (if i_imm insn \<in> {16, 32, 64} then Inr () else Inl (UnsupportedLEBEArgument insn_ptr))"

definition check_imm_aligned :: "Insn \<Rightarrow> nat \<Rightarrow> i64 \<Rightarrow> VerifierError + unit" where
  "check_imm_aligned insn insn_ptr alignment =
     (if i_imm insn AND (alignment - 1) = 0 then Inr () else Inl (UnalignedImmediate insn_ptr))"

definition check_load_dw :: "u8 list \<Rightarrow> nat \<Rightarrow> (VerifierError + unit) option" where
  "check_load_dw prog insn_ptr =
     (if length prog \<le> (insn_ptr + 1) * INSN_SIZE then Some (Inl LDDWCannotBeLast)
      else do {
        next_insn \<leftarrow> get_insn prog (insn_ptr + 1);
        Some (if i_opc next_insn \<noteq> 0 then Inl (IncompleteLDDW insn_ptr) else Inr ())
      })"

definition check_jmp_offset :: "u8 list \<Rightarrow> nat \<Rightarrow> nat \<Rightarrow> (VerifierError + unit) option" where
  "check_jmp_offset prog insn_ptr program_end =
     do {
       insn \<leftarrow> get_insn prog insn_ptr;
       let dst_insn_ptr = int insn_ptr + 1 + sint (i_off insn);
       if dst_insn_ptr < 0 \<or> \<not> nat dst_insn_ptr < program_end
       then Some (Inl (JumpOutOfCode (nat (dst_insn_ptr mod 2 ^ 64)) insn_ptr))
       else do {
         dst_insn \<leftarrow> get_insn prog (nat dst_insn_ptr);
         Some (if i_opc dst_insn = 0 then Inl (JumpToMiddleOfLDDW (nat dst_insn_ptr) insn_ptr)
               else Inr ())
       }
     }"

definition check_registers :: "Insn \<Rightarrow> bool \<Rightarrow> nat \<Rightarrow> SBPFVersion \<Rightarrow> VerifierError + unit" where
  "check_registers insn store insn_ptr v =
     (if i_src insn > 10 then Inl (InvalidSourceRegister insn_ptr)
      else if i_dst insn \<le> 9 \<or> i_dst insn = 10 \<and> store then Inr ()
      else if i_dst insn = 10 \<and> \<not> store \<and> manual_stack_frame_bump v \<and> i_opc insn = ADD64_IMM
      then Inr ()
      else if i_dst insn = 10 \<and> \<not> store then Inl (CannotWriteR10 insn_ptr)
      else Inl (InvalidDestinationRegister insn_ptr))"

definition check_imm_shift :: "Insn \<Rightarrow> nat \<Rightarrow> u64 \<Rightarrow> VerifierError + unit" where
  "check_imm_shift insn insn_ptr imm_bits =
     (let shift_by = i_imm insn in
      if sint (i_imm insn) < 0 \<or> imm_bits \<le> shift_by
      then Inl (ShiftWithOverflow shift_by imm_bits insn_ptr)
      else Inr ())"

definition check_callx_register :: "Insn \<Rightarrow> nat \<Rightarrow> SBPFVersion \<Rightarrow> VerifierError + unit" where
  "check_callx_register insn insn_ptr v =
     (let reg = (if callx_uses_src_reg v then ucast (i_src insn)
                 else if callx_uses_dst_reg v then ucast (i_dst insn)
                 else i_imm insn) :: i64
      in if \<not> (0 \<le> sint reg \<and> sint reg < 10) then Inl (InvalidRegister insn_ptr) else Inr ())"

section \<open>The match on the operation code\<close>

datatype arm =
    Arm_plain
  | Arm_store
  | Arm_load_dw
  | Arm_imm_nonzero
  | Arm_imm_shift u64
  | Arm_imm_endian
  | Arm_imm_aligned i64
  | Arm_jmp_offset
  | Arm_callx_register

definition arms_mem :: "SBPFVersion \<Rightarrow> Insn \<Rightarrow> arm option" where
  "arms_mem v insn =
     (let opc = i_opc insn in
      if opc = LD_DW_IMM \<and> \<not> disable_lddw v then Some Arm_load_dw
      else if opc = LD_B_REG \<and> \<not> move_memory_instruction_classes v then Some Arm_plain
      else if opc = LD_H_REG \<and> \<not> move_memory_instruction_classes v then Some Arm_plain
      else if opc = LD_W_REG \<and> \<not> move_memory_instruction_classes v then Some Arm_plain
      else if opc = LD_DW_REG \<and> \<not> move_memory_instruction_classes v then Some Arm_plain
      else if opc = ST_B_IMM \<and> \<not> move_memory_instruction_classes v then Some Arm_store
      else if opc = ST_H_IMM \<and> \<not> move_memory_instruction_classes v then Some Arm_store
      else if opc = ST_W_IMM \<and> \<not> move_memory_instruction_classes v then Some Arm_store
      else if opc = ST_DW_IMM \<and> \<not> move_memory_instruction_classes v then Some Arm_store
      else if opc = ST_B_REG \<and> \<not> move_memory_instruction_classes v then Some Arm_store
      else if opc = ST_H_REG \<and> \<not> move_memory_instruction_classes v then Some Arm_store
      else if opc = ST_W_REG \<and> \<not> move_memory_instruction_classes v then Some Arm_store
      else if opc = ST_DW_REG \<and> \<not> move_memory_instruction_classes v then Some Arm_store
      else None)"

definition arms_alu32 :: "SBPFVersion \<Rightarrow> Insn \<Rightarrow> arm option" where
  "arms_alu32 v insn =
     (let opc = i_opc insn in
      if opc = ADD32_IMM then Some Arm_plain
      else if opc = ADD32_REG then Some Arm_plain
      else if opc = SUB32_IMM then Some Arm_plain
      else if opc = SUB32_REG then Some Arm_plain
      else if opc = MUL32_IMM \<and> \<not> enable_pqr v then Some Arm_plain
      else if opc = MUL32_REG \<and> \<not> enable_pqr v then Some Arm_plain
      else if opc = LD_1B_REG \<and> move_memory_instruction_classes v then Some Arm_plain
      else if opc = DIV32_IMM \<and> \<not> enable_pqr v then Some Arm_imm_nonzero
      else if opc = DIV32_REG \<and> \<not> enable_pqr v then Some Arm_plain
      else if opc = LD_2B_REG \<and> move_memory_instruction_classes v then Some Arm_plain
      else if opc = OR32_IMM then Some Arm_plain
      else if opc = OR32_REG then Some Arm_plain
      else if opc = AND32_IMM then Some Arm_plain
      else if opc = AND32_REG then Some Arm_plain
      else if opc = LSH32_IMM then Some (Arm_imm_shift 32)
      else if opc = LSH32_REG then Some Arm_plain
      else if opc = RSH32_IMM then Some (Arm_imm_shift 32)
      else if opc = RSH32_REG then Some Arm_plain
      else if opc = NEG32 \<and> \<not> disable_neg v then Some Arm_plain
      else if opc = LD_4B_REG \<and> move_memory_instruction_classes v then Some Arm_plain
      else if opc = MOD32_IMM \<and> \<not> enable_pqr v then Some Arm_imm_nonzero
      else if opc = MOD32_REG \<and> \<not> enable_pqr v then Some Arm_plain
      else if opc = LD_8B_REG \<and> move_memory_instruction_classes v then Some Arm_plain
      else if opc = XOR32_IMM then Some Arm_plain
      else if opc = XOR32_REG then Some Arm_plain
      else if opc = MOV32_IMM then Some Arm_plain
      else if opc = MOV32_REG then Some Arm_plain
      else if opc = ARSH32_IMM then Some (Arm_imm_shift 32)
      else if opc = ARSH32_REG then Some Arm_plain
      else if opc = LE \<and> \<not> disable_le v then Some Arm_imm_endian
      else if opc = BE then Some Arm_imm_endian
      else None)"

definition arms_alu64 :: "SBPFVersion \<Rightarrow> Insn \<Rightarrow> arm option" where
  "arms_alu64 v insn =
     (let opc = i_opc insn in
      if opc = ADD64_IMM \<and> i_dst insn = of_nat FRAME_PTR_REG \<and> manual_stack_frame_bump v then Some (Arm_imm_aligned 64)
      else if opc = ADD64_IMM then Some Arm_plain
      else if opc = ADD64_REG then Some Arm_plain
      else if opc = SUB64_IMM then Some Arm_plain
      else if opc = SUB64_REG then Some Arm_plain
      else if opc = MUL64_IMM \<and> \<not> enable_pqr v then Some Arm_plain
      else if opc = ST_1B_IMM \<and> move_memory_instruction_classes v then Some Arm_store
      else if opc = MUL64_REG \<and> \<not> enable_pqr v then Some Arm_plain
      else if opc = ST_1B_REG \<and> move_memory_instruction_classes v then Some Arm_store
      else if opc = DIV64_IMM \<and> \<not> enable_pqr v then Some Arm_imm_nonzero
      else if opc = ST_2B_IMM \<and> move_memory_instruction_classes v then Some Arm_store
      else if opc = DIV64_REG \<and> \<not> enable_pqr v then Some Arm_plain
      else if opc = ST_2B_REG \<and> move_memory_instruction_classes v then Some Arm_store
      else if opc = OR64_IMM then Some Arm_plain
      else if opc = OR64_REG then Some Arm_plain
      else if opc = AND64_IMM then Some Arm_plain
      else if opc = AND64_REG then Some Arm_plain
      else if opc = LSH64_IMM then Some (Arm_imm_shift 64)
      else if opc = LSH64_REG then Some Arm_plain
      else if opc = RSH64_IMM then Some (Arm_imm_shift 64)
      else if opc = RSH64_REG then Some Arm_plain
      else if opc = ST_4B_IMM \<and> move_memory_instruction_classes v then Some Arm_store
      else if opc = NEG64 \<and> \<not> disable_neg v then Some Arm_plain
      else if opc = ST_4B_REG \<and> move_memory_instruction_classes v then Some Arm_store
      else if opc = MOD64_IMM \<and> \<not> enable_pqr v then Some Arm_imm_nonzero
      else if opc = ST_8B_IMM \<and> move_memory_instruction_classes v then Some Arm_store
      else if opc = MOD64_REG \<and> \<not> enable_pqr v then Some Arm_plain
      else if opc = ST_8B_REG \<and> move_memory_instruction_classes v then Some Arm_store
      else if opc = XOR64_IMM then Some Arm_plain
      else if opc = XOR64_REG then Some Arm_plain
      else if opc = MOV64_IMM then Some Arm_plain
      else if opc = MOV64_REG then Some Arm_plain
      else if opc = ARSH64_IMM then Some (Arm_imm_shift 64)
      else if opc = ARSH64_REG then Some Arm_plain
      else if opc = HOR64_IMM \<and> disable_lddw v then Some Arm_plain
      else None)"

definition arms_pqr :: "SBPFVersion \<Rightarrow> Insn \<Rightarrow> arm option" where
  "arms_pqr v insn =
     (let opc = i_opc insn in
      if opc = LMUL32_IMM \<and> enable_pqr v then Some Arm_plain
      else if opc = LMUL32_REG \<and> enable_pqr v then Some Arm_plain
      else if opc = LMUL64_IMM \<and> enable_pqr v then Some Arm_plain
      else if opc = LMUL64_REG \<and> enable_pqr v then Some Arm_plain
      else if opc = UHMUL64_IMM \<and> enable_pqr v then Some Arm_plain
      else if opc = UHMUL64_REG \<and> enable_pqr v then Some Arm_plain
      else if opc = SHMUL64_IMM \<and> enable_pqr v then Some Arm_plain
      else if opc = SHMUL64_REG \<and> enable_pqr v then Some Arm_plain
      else if opc = UDIV32_IMM \<and> enable_pqr v then Some Arm_imm_nonzero
      else if opc = UDIV32_REG \<and> enable_pqr v then Some Arm_plain
      else if opc = UDIV64_IMM \<and> enable_pqr v then Some Arm_imm_nonzero
      else if opc = UDIV64_REG \<and> enable_pqr v then Some Arm_plain
      else if opc = UREM32_IMM \<and> enable_pqr v then Some Arm_imm_nonzero
      else if opc = UREM32_REG \<and> enable_pqr v then Some Arm_plain
      else if opc = UREM64_IMM \<and> enable_pqr v then Some Arm_imm_nonzero
      else if opc = UREM64_REG \<and> enable_pqr v then Some Arm_plain
      else if opc = SDIV32_IMM \<and> enable_pqr v then Some Arm_imm_nonzero
      else if opc = SDIV32_REG \<and> enable_pqr v then Some Arm_plain
      else if opc = SDIV64_IMM \<and> enable_pqr v then Some Arm_imm_nonzero
      else if opc = SDIV64_REG \<and> enable_pqr v then Some Arm_plain
      else if opc = SREM32_IMM \<and> enable_pqr v then Some Arm_imm_nonzero
      else if opc = SREM32_REG \<and> enable_pqr v then Some Arm_plain
      else if opc = SREM64_IMM \<and> enable_pqr v then Some Arm_imm_nonzero
      else if opc = SREM64_REG \<and> enable_pqr v then Some Arm_plain
      else None)"

definition arms_jmp :: "SBPFVersion \<Rightarrow> Insn \<Rightarrow> arm option" where
  "arms_jmp v insn =
     (let opc = i_opc insn in
      if opc \<in> {JEQ32_IMM, JEQ32_REG, JGT32_IMM, JGT32_REG, JGE32_IMM, JGE32_REG,
        JLT32_IMM, JLT32_REG, JLE32_IMM, JLE32_REG, JSET32_IMM, JSET32_REG,
        JNE32_IMM, JNE32_REG, JSGT32_IMM, JSGT32_REG, JSGE32_IMM, JSGE32_REG,
        JSLT32_IMM, JSLT32_REG, JSLE32_IMM, JSLE32_REG} \<and> enable_jmp32 v then Some Arm_jmp_offset
      else if opc \<in> {JA, JEQ64_IMM, JEQ64_REG, JGT64_IMM, JGT64_REG, JGE64_IMM,
        JGE64_REG, JLT64_IMM, JLT64_REG, JLE64_IMM, JLE64_REG, JSET64_IMM,
        JSET64_REG, JNE64_IMM, JNE64_REG, JSGT64_IMM, JSGT64_REG, JSGE64_IMM,
        JSGE64_REG, JSLT64_IMM, JSLT64_REG, JSLE64_IMM, JSLE64_REG} then Some Arm_jmp_offset
      else if opc = CALL_IMM then Some Arm_plain
      else if opc = CALL_REG then Some Arm_callx_register
      else if opc = EXIT then Some Arm_plain
      else None)"

definition opcode_arm :: "SBPFVersion \<Rightarrow> Insn \<Rightarrow> arm option" where
  "opcode_arm v insn =
     or_else (arms_mem v insn)
       (or_else (arms_alu32 v insn)
         (or_else (arms_alu64 v insn)
           (or_else (arms_pqr v insn) (arms_jmp v insn))))"

text \<open>The body of an arm: the value of \<open>store\<close> and of \<open>insn_ptr\<close> after the match.\<close>

definition run_arm ::
    "u8 list \<Rightarrow> SBPFVersion \<Rightarrow> Insn \<Rightarrow> nat \<Rightarrow> arm \<Rightarrow> (VerifierError + bool \<times> nat) option" where
  "run_arm prog v insn insn_ptr a =
     (case a of
        Arm_plain \<Rightarrow> Some (Inr (False, insn_ptr))
      | Arm_store \<Rightarrow> Some (Inr (True, insn_ptr))
      | Arm_load_dw \<Rightarrow>
          map_option (map_sum id (\<lambda>_. (False, insn_ptr + 1))) (check_load_dw prog insn_ptr)
      | Arm_imm_nonzero \<Rightarrow>
          Some (map_sum id (\<lambda>_. (False, insn_ptr)) (check_imm_nonzero insn insn_ptr))
      | Arm_imm_shift bits \<Rightarrow>
          Some (map_sum id (\<lambda>_. (False, insn_ptr)) (check_imm_shift insn insn_ptr bits))
      | Arm_imm_endian \<Rightarrow>
          Some (map_sum id (\<lambda>_. (False, insn_ptr)) (check_imm_endian insn insn_ptr))
      | Arm_imm_aligned alignment \<Rightarrow>
          Some (map_sum id (\<lambda>_. (False, insn_ptr)) (check_imm_aligned insn insn_ptr alignment))
      | Arm_jmp_offset \<Rightarrow>
          map_option (map_sum id (\<lambda>_. (False, insn_ptr)))
            (check_jmp_offset prog insn_ptr (length prog div INSN_SIZE))
      | Arm_callx_register \<Rightarrow>
          Some (map_sum id (\<lambda>_. (False, insn_ptr)) (check_callx_register insn insn_ptr v)))"

text \<open>The body of the loop: the match, the check of the registers and the increment.\<close>

definition verify_insn ::
    "u8 list \<Rightarrow> SBPFVersion \<Rightarrow> nat \<Rightarrow> (VerifierError + nat) option" where
  "verify_insn prog v insn_ptr =
     do {
       insn \<leftarrow> get_insn prog insn_ptr;
       case opcode_arm v insn of
         None \<Rightarrow> Some (Inl (UnknownOpCode (i_opc insn) insn_ptr))
       | Some a \<Rightarrow> do {
           res \<leftarrow> run_arm prog v insn insn_ptr a;
           Some (case res of
                   Inl err \<Rightarrow> Inl err
                 | Inr (store, insn_ptr') \<Rightarrow>
                     (case check_registers insn store insn_ptr' v of
                        Inl err \<Rightarrow> Inl err
                      | Inr _ \<Rightarrow> Inr (insn_ptr' + 1)))
         }
     }"

lemma run_arm_eq_Inr_iff:
  "run_arm prog v insn p a = Some (Inr (store, q)) \<longleftrightarrow>
     store = (a = Arm_store) \<and> q = (if a = Arm_load_dw then p + 1 else p) \<and>
     (case a of
        Arm_plain \<Rightarrow> True
      | Arm_store \<Rightarrow> True
      | Arm_load_dw \<Rightarrow> check_load_dw prog p = Some (Inr ())
      | Arm_imm_nonzero \<Rightarrow> check_imm_nonzero insn p = Inr ()
      | Arm_imm_shift bits \<Rightarrow> check_imm_shift insn p bits = Inr ()
      | Arm_imm_endian \<Rightarrow> check_imm_endian insn p = Inr ()
      | Arm_imm_aligned alignment \<Rightarrow> check_imm_aligned insn p alignment = Inr ()
      | Arm_jmp_offset \<Rightarrow> check_jmp_offset prog p (length prog div INSN_SIZE) = Some (Inr ())
      | Arm_callx_register \<Rightarrow> check_callx_register insn p v = Inr ())"
  by (cases a) (auto simp: run_arm_def map_sum_eq_Inr_iff simp del: INSN_SIZE_def)

lemma verify_insn_eq_Inr_iff:
  "verify_insn prog v p = Some (Inr p') \<longleftrightarrow>
     (\<exists>insn a store q. get_insn prog p = Some insn \<and> opcode_arm v insn = Some a \<and>
        run_arm prog v insn p a = Some (Inr (store, q)) \<and>
        check_registers insn store q v = Inr () \<and> p' = q + 1)"
  by (force simp: verify_insn_def bind_eq_Some_conv try_eq_Inr_iff split: option.splits)

lemma verify_insn_progress:
  assumes "verify_insn prog v insn_ptr = Some (Inr insn_ptr')"
  shows "insn_ptr < insn_ptr' \<and> insn_ptr' \<le> insn_ptr + 2"
  using assms by (auto simp: verify_insn_eq_Inr_iff run_arm_eq_Inr_iff split: if_splits)

function verify_loop :: "u8 list \<Rightarrow> SBPFVersion \<Rightarrow> nat \<Rightarrow> (VerifierError + nat) option" where
  "verify_loop prog v insn_ptr =
     (if (insn_ptr + 1) * INSN_SIZE \<le> length prog
      then case verify_insn prog v insn_ptr of
             None \<Rightarrow> None
           | Some (Inl err) \<Rightarrow> Some (Inl err)
           | Some (Inr insn_ptr') \<Rightarrow> verify_loop prog v insn_ptr'
      else Some (Inr insn_ptr))"
  by auto
termination
  by (relation "measure (\<lambda>(prog, _, insn_ptr). length prog - insn_ptr)")
     (auto dest!: verify_insn_progress)

declare verify_loop.simps [simp del]

definition verify :: "u8 list \<Rightarrow> Config \<Rightarrow> SBPFVersion \<Rightarrow> (VerifierError + unit) option" where
  "verify prog config v =
     (case check_prog_len prog of
        Inl err \<Rightarrow> Some (Inl err)
      | Inr _ \<Rightarrow>
          (case verify_loop prog v 0 of
             None \<Rightarrow> None
           | Some (Inl err) \<Rightarrow> Some (Inl err)
           | Some (Inr insn_ptr) \<Rightarrow>
               if insn_ptr \<noteq> length prog div INSN_SIZE
               then Some (Inl (JumpOutOfCode insn_ptr insn_ptr))
               else Some (Inr ())))"

section \<open>A specification without control flow\<close>

abbreviation insn_count :: "u8 list \<Rightarrow> nat" where
  "insn_count prog \<equiv> length prog div 8"

definition opcode_at :: "u8 list \<Rightarrow> nat \<Rightarrow> u8" where
  "opcode_at prog p = prog ! (8 * p)"

definition is_lddw :: "u8 list \<Rightarrow> SBPFVersion \<Rightarrow> nat \<Rightarrow> bool" where
  "is_lddw prog v p \<longleftrightarrow> opcode_at prog p = LD_DW_IMM \<and> \<not> disable_lddw v"

text \<open>The positions where an instruction starts: a wide load takes two slots.\<close>

inductive insn_start :: "u8 list \<Rightarrow> SBPFVersion \<Rightarrow> nat \<Rightarrow> bool" for prog v where
  first: "insn_start prog v 0"
| wide: "insn_start prog v p \<Longrightarrow> p < insn_count prog \<Longrightarrow> is_lddw prog v p \<Longrightarrow> insn_start prog v (p + 2)"
| narrow: "insn_start prog v p \<Longrightarrow> p < insn_count prog \<Longrightarrow> \<not> is_lddw prog v p \<Longrightarrow> insn_start prog v (p + 1)"

definition jump_target :: "Insn \<Rightarrow> nat \<Rightarrow> int" where
  "jump_target insn p = int p + 1 + sint (i_off insn)"

definition callx_register :: "SBPFVersion \<Rightarrow> Insn \<Rightarrow> i64" where
  "callx_register v insn =
     (if callx_uses_src_reg v then ucast (i_src insn)
      else if callx_uses_dst_reg v then ucast (i_dst insn) else i_imm insn)"

definition arm_ok :: "u8 list \<Rightarrow> SBPFVersion \<Rightarrow> nat \<Rightarrow> Insn \<Rightarrow> arm \<Rightarrow> bool" where
  "arm_ok prog v p insn a \<longleftrightarrow>
     (case a of
        Arm_plain \<Rightarrow> True
      | Arm_store \<Rightarrow> True
      | Arm_load_dw \<Rightarrow> p + 1 < insn_count prog \<and> opcode_at prog (p + 1) = 0
      | Arm_imm_nonzero \<Rightarrow> i_imm insn \<noteq> 0
      | Arm_imm_shift bits \<Rightarrow> i_imm insn < bits
      | Arm_imm_endian \<Rightarrow> i_imm insn \<in> {16, 32, 64}
      | Arm_imm_aligned alignment \<Rightarrow> i_imm insn AND (alignment - 1) = 0
      | Arm_jmp_offset \<Rightarrow>
          0 \<le> jump_target insn p \<and> jump_target insn p < int (insn_count prog) \<and>
          opcode_at prog (nat (jump_target insn p)) \<noteq> 0
      | Arm_callx_register \<Rightarrow> callx_register v insn < 10)"

definition registers_ok :: "SBPFVersion \<Rightarrow> Insn \<Rightarrow> arm \<Rightarrow> bool" where
  "registers_ok v insn a \<longleftrightarrow>
     i_src insn \<le> 10 \<and>
     (i_dst insn \<le> 9 \<or>
      i_dst insn = 10 \<and> (a = Arm_store \<or> manual_stack_frame_bump v \<and> i_opc insn = ADD64_IMM))"

definition insn_ok :: "u8 list \<Rightarrow> SBPFVersion \<Rightarrow> nat \<Rightarrow> bool" where
  "insn_ok prog v p \<longleftrightarrow>
     (case get_insn_unchecked prog p of
        None \<Rightarrow> False
      | Some insn \<Rightarrow>
          (case opcode_arm v insn of
             None \<Rightarrow> False
           | Some a \<Rightarrow> arm_ok prog v p insn a \<and> registers_ok v insn a))"

section \<open>Lemmas\<close>

lemma get_insn_eq:
  assumes "length prog < usize_max"
  shows "get_insn prog p = get_insn_unchecked prog p"
  using get_insn_unchecked_None [of prog p] is_pc_in_program_iff [OF assms, of p]
  by (auto simp: get_insn_def)

lemma get_insn_unchecked_total:
  assumes "p < insn_count prog"
  shows "\<exists>insn. get_insn_unchecked prog p = Some insn \<and> i_opc insn = opcode_at prog p"
  using assms by (simp add: get_insn_unchecked_Some opcode_at_def less_eq_div_iff_mult_less_eq Suc_le_eq)

lemma get_insn_total:
  assumes "p < insn_count prog" and "length prog < usize_max"
  shows "\<exists>insn. get_insn prog p = Some insn \<and> i_opc insn = opcode_at prog p"
  using get_insn_unchecked_total [OF assms(1)] get_insn_eq [OF assms(2)] by simp

lemma loop_guard: "(p + 1) * INSN_SIZE \<le> length prog \<longleftrightarrow> p < insn_count prog"
  by (simp add: less_eq_div_iff_mult_less_eq flip: Suc_le_eq)

lemma lddw_guard:
  assumes "length prog mod 8 = 0"
  shows "length prog \<le> (p + 1) * INSN_SIZE \<longleftrightarrow> insn_count prog \<le> p + 1"
proof -
  obtain n where "length prog = 8 * n"
    using assms by (metis dvd_def mod_0_imp_dvd)
  then show ?thesis by simp linarith
qed

lemma check_load_dw_eq:
  assumes "length prog mod 8 = 0" and "length prog < usize_max"
  shows "check_load_dw prog p =
    Some (if insn_count prog \<le> p + 1 then Inl LDDWCannotBeLast
          else if opcode_at prog (p + 1) \<noteq> 0 then Inl (IncompleteLDDW p) else Inr ())"
  using lddw_guard [OF assms(1), of p] get_insn_total [of "p + 1" prog] assms(2)
  by (auto simp: check_load_dw_def simp del: INSN_SIZE_def)

lemma check_jmp_offset_eq:
  assumes "get_insn prog p = Some insn" and "length prog < usize_max"
  shows "check_jmp_offset prog p (insn_count prog) =
    (let t = jump_target insn p in
     Some (if t < 0 \<or> int (insn_count prog) \<le> t
           then Inl (JumpOutOfCode (nat (t mod 2 ^ 64)) p)
           else if opcode_at prog (nat t) = 0 then Inl (JumpToMiddleOfLDDW (nat t) p) else Inr ()))"
  using get_insn_total [of "nat (jump_target insn p)" prog] assms
  by (auto simp: check_jmp_offset_def jump_target_def Let_def nat_less_iff)

lemma check_imm_shift_ok:
  assumes "bits \<le> 64"
  shows "check_imm_shift insn p bits = Inr () \<longleftrightarrow> i_imm insn < bits"
proof -
  have "i_imm insn < bits \<Longrightarrow> 0 \<le> sint (i_imm insn)"
    using assms by (simp add: sint_eq_uint_small word_less_def word_le_def)
  then show ?thesis
    by (cases "i_imm insn < bits") (auto simp: check_imm_shift_def Let_def not_less)
qed

lemma check_callx_register_ok:
  "check_callx_register insn p v = Inr () \<longleftrightarrow> callx_register v insn < 10"
proof -
  have "0 \<le> sint w \<and> sint w < 10 \<longleftrightarrow> w < (10 :: i64)" for w
    using sint_range_iff_uint [of 10 w] by (simp add: word_less_def)
  then show ?thesis
    by (simp add: check_callx_register_def callx_register_def Let_def)
qed

lemma check_registers_ok:
  "check_registers insn (a = Arm_store) p v = Inr () \<longleftrightarrow> registers_ok v insn a"
  by (auto simp: check_registers_def registers_ok_def not_less)

lemmas arms_defs = arms_mem_def arms_alu32_def arms_alu64_def arms_pqr_def arms_jmp_def

lemma arms_imm_shift:
  "arms_mem v insn \<noteq> Some (Arm_imm_shift bits)"
  "arms_alu32 v insn = Some (Arm_imm_shift bits) \<longrightarrow> bits = 32"
  "arms_alu64 v insn = Some (Arm_imm_shift bits) \<longrightarrow> bits = 64"
  "arms_pqr v insn \<noteq> Some (Arm_imm_shift bits)"
  "arms_jmp v insn \<noteq> Some (Arm_imm_shift bits)"
  unfolding arms_defs Let_def by ((intro if_neqI if_eq_impI; simp)+)

lemma opcode_arm_imm_shift:
  "opcode_arm v insn = Some (Arm_imm_shift bits) \<Longrightarrow> bits \<le> 64"
  by (auto simp: opcode_arm_def or_else_eq_Some_iff arms_imm_shift dest: arms_imm_shift(2,3) [rule_format])

lemma opcode_arm_load_dw:
  "opcode_arm v insn = Some Arm_load_dw \<longleftrightarrow> i_opc insn = LD_DW_IMM \<and> \<not> disable_lddw v"
proof -
  have "arms_mem v insn = Some Arm_load_dw \<longleftrightarrow> i_opc insn = LD_DW_IMM \<and> \<not> disable_lddw v"
    by (auto simp: arms_mem_def Let_def)
  moreover have "arms_alu32 v insn \<noteq> Some Arm_load_dw" "arms_alu64 v insn \<noteq> Some Arm_load_dw"
      "arms_pqr v insn \<noteq> Some Arm_load_dw" "arms_jmp v insn \<noteq> Some Arm_load_dw"
    unfolding arms_defs Let_def by ((intro if_neqI; simp)+)
  ultimately show ?thesis
    by (auto simp: opcode_arm_def or_else_eq_Some_iff)
qed

lemma run_arm_arm_ok:
  assumes "length prog mod 8 = 0" "length prog < usize_max"
    and "get_insn prog p = Some insn" "opcode_arm v insn = Some a"
  shows "(\<exists>store q. run_arm prog v insn p a = Some (Inr (store, q))) \<longleftrightarrow> arm_ok prog v p insn a"
  using assms opcode_arm_imm_shift [of v insn]
  by (cases a) (auto simp: run_arm_eq_Inr_iff arm_ok_def check_load_dw_eq check_jmp_offset_eq Let_def
    check_imm_shift_ok check_callx_register_ok check_imm_nonzero_def check_imm_endian_def check_imm_aligned_def)

definition next_start :: "u8 list \<Rightarrow> SBPFVersion \<Rightarrow> nat \<Rightarrow> nat" where
  "next_start prog v p = (if is_lddw prog v p then p + 2 else p + 1)"

lemma insn_start_next: "insn_start prog v p \<Longrightarrow> p < insn_count prog \<Longrightarrow> insn_start prog v (next_start prog v p)"
  by (auto simp: next_start_def intro: insn_start.intros(2,3) [simplified])

lemma insn_start_linear:
  assumes "insn_start prog v r" and "insn_start prog v p" and "p < r"
  shows "next_start prog v p \<le> r"
  using assms
proof (induction arbitrary: p)
  case first
  then show ?case by simp
next
  case (wide r)
  have "p \<noteq> r + 1"
  proof
    assume "p = r + 1"
    with \<open>insn_start prog v p\<close> wide.IH [of "r - 1"] wide.hyps show False
      by (cases rule: insn_start.cases) (auto simp: next_start_def)
  qed
  then have "p < r \<or> p = r" using \<open>p < r + 2\<close> by auto
  then show ?case
    using wide.IH [of p] wide.hyps wide.prems by (auto simp: next_start_def)
next
  case (narrow r)
  then have "p < r \<or> p = r" by auto
  then show ?case
    using narrow.IH [of p] narrow.hyps narrow.prems by (auto simp: next_start_def)
qed

lemma insn_ok_load_dw:
  assumes "insn_ok prog v p" and "p < insn_count prog" and "is_lddw prog v p"
  shows "p + 1 < insn_count prog \<and> opcode_at prog (p + 1) = 0"
proof -
  obtain insn where insn: "get_insn_unchecked prog p = Some insn" "i_opc insn = opcode_at prog p"
    using get_insn_unchecked_total [OF assms(2)] by blast
  then have "opcode_arm v insn = Some Arm_load_dw"
    using assms(3) by (simp add: opcode_arm_load_dw is_lddw_def)
  then show ?thesis
    using assms(1) insn(1) by (simp add: insn_ok_def arm_ok_def)
qed

lemma verify_insn_Inr:
  assumes "length prog mod 8 = 0" "length prog < usize_max" "p < insn_count prog"
  shows "verify_insn prog v p = Some (Inr p') \<longleftrightarrow> insn_ok prog v p \<and> p' = next_start prog v p"
proof -
  obtain insn where insn: "get_insn prog p = Some insn" "i_opc insn = opcode_at prog p"
    using get_insn_total [OF assms(3,2)] by blast
  then have dec: "get_insn_unchecked prog p = Some insn"
    using get_insn_eq [OF assms(2)] by simp
  show ?thesis
  proof (cases "opcode_arm v insn")
    case None
    then show ?thesis
      using insn dec by (simp add: verify_insn_eq_Inr_iff insn_ok_def)
  next
    case (Some a)
    have "is_lddw prog v p \<longleftrightarrow> a = Arm_load_dw"
      using opcode_arm_load_dw [of v insn] Some insn(2) by (simp add: is_lddw_def)
    moreover have "(\<exists>store q. run_arm prog v insn p a = Some (Inr (store, q)) \<and> P store q) \<longleftrightarrow>
        arm_ok prog v p insn a \<and> P (a = Arm_store) (if a = Arm_load_dw then p + 1 else p)" for P
      using run_arm_arm_ok [OF assms(1,2) insn(1) Some] by (auto simp: run_arm_eq_Inr_iff)
    ultimately show ?thesis
      using insn(1) dec Some
      by (auto simp: verify_insn_eq_Inr_iff insn_ok_def next_start_def check_registers_ok)
  qed
qed

lemma verify_insn_total:
  assumes "length prog mod 8 = 0" "length prog < usize_max" "p < insn_count prog"
  shows "verify_insn prog v p \<noteq> None"
proof -
  obtain insn where insn: "get_insn prog p = Some insn"
    using get_insn_total [OF assms(3,2)] by blast
  have "run_arm prog v insn p a \<noteq> None" for a
    using insn assms check_load_dw_eq [OF assms(1,2)] check_jmp_offset_eq [OF insn assms(2)]
    by (cases a) (simp_all add: run_arm_def Let_def)
  then show ?thesis
    using insn by (simp add: verify_insn_def bind_eq_None_conv split: option.split del: not_None_eq)
qed

lemma verify_loop_unfold:
  "verify_loop prog v p =
     (if p < insn_count prog
      then case verify_insn prog v p of
             None \<Rightarrow> None
           | Some (Inl err) \<Rightarrow> Some (Inl err)
           | Some (Inr p') \<Rightarrow> verify_loop prog v p'
      else Some (Inr p))"
  by (subst verify_loop.simps) (simp only: loop_guard)

lemma verify_loop_total:
  assumes "length prog mod 8 = 0" "length prog < usize_max"
  shows "verify_loop prog v p \<noteq> None"
  using assms
proof (induction prog v p rule: verify_loop.induct)
  case (1 prog v p)
  note IH = "1.IH" [unfolded loop_guard]
  show ?case
    using IH "1.prems" verify_insn_total [of prog p v]
    by (subst verify_loop_unfold) (auto split: option.split sum.split)
qed

lemma verify_loop_Inr:
  assumes "length prog mod 8 = 0" "length prog < usize_max" "insn_start prog v p" "p \<le> insn_count prog"
  shows "verify_loop prog v p = Some (Inr q) \<longleftrightarrow>
    q = insn_count prog \<and> (\<forall>r. insn_start prog v r \<and> p \<le> r \<and> r < insn_count prog \<longrightarrow> insn_ok prog v r)"
  using assms
proof (induction prog v p rule: verify_loop.induct)
  case (1 prog v p)
  note IH = "1.IH" [unfolded loop_guard]
  show ?case
  proof (cases "p < insn_count prog")
    case False
    then show ?thesis
      using "1.prems" by (subst verify_loop_unfold) auto
  next
    case True
    have start: "insn_start prog v (next_start prog v p)"
      using "1.prems"(3) True by (rule insn_start_next)
    have split: "r = p \<or> next_start prog v p \<le> r" if "insn_start prog v r" "p \<le> r" for r
      using insn_start_linear [OF that(1) "1.prems"(3)] that(2) by (cases "r = p") auto
    show ?thesis
    proof (cases "insn_ok prog v p")
      case False
      then have "verify_loop prog v p \<noteq> Some (Inr q)"
        using True verify_insn_Inr [OF "1.prems"(1,2) True]
        by (subst verify_loop_unfold) (auto split: option.split sum.split)
      then show ?thesis
        using False True "1.prems"(3) by blast
    next
      case ok: True
      then have step: "verify_insn prog v p = Some (Inr (next_start prog v p))"
        using verify_insn_Inr [OF "1.prems"(1,2) True] by blast
      have "next_start prog v p \<le> insn_count prog"
        using insn_ok_load_dw [OF ok True] True by (auto simp: next_start_def)
      moreover have "p < next_start prog v p"
        by (simp add: next_start_def)
      then have "(\<forall>r. insn_start prog v r \<and> p \<le> r \<and> r < insn_count prog \<longrightarrow> insn_ok prog v r) \<longleftrightarrow>
          (\<forall>r. insn_start prog v r \<and> next_start prog v p \<le> r \<and> r < insn_count prog \<longrightarrow> insn_ok prog v r)"
        using split ok by (metis less_imp_le order_trans)
      moreover have "verify_loop prog v p = verify_loop prog v (next_start prog v p)"
        using True step by (subst verify_loop_unfold) simp
      ultimately show ?thesis
        using IH [OF True step refl "1.prems"(1,2) start] by simp
    qed
  qed
qed

lemma verify_loop_Inl:
  assumes "length prog mod 8 = 0" "length prog < usize_max" "insn_start prog v p"
    and "verify_loop prog v p = Some (Inl err)"
  shows "\<exists>r. insn_start prog v r \<and> p \<le> r \<and> r < insn_count prog \<and> verify_insn prog v r = Some (Inl err) \<and>
    (\<forall>r'. insn_start prog v r' \<and> p \<le> r' \<and> r' < r \<longrightarrow> insn_ok prog v r')"
  using assms
proof (induction prog v p rule: verify_loop.induct)
  case (1 prog v p)
  note IH = "1.IH" [unfolded loop_guard]
  have lt: "p < insn_count prog"
    using "1.prems"(4) by (subst (asm) verify_loop_unfold) (auto split: if_splits)
  show ?case
  proof (cases "verify_insn prog v p = Some (Inl err)")
    case True
    then show ?thesis
      using lt "1.prems"(3) by (intro exI [of _ p]) auto
  next
    case False
    then obtain p' where step: "verify_insn prog v p = Some (Inr p')"
        and rest: "verify_loop prog v p' = Some (Inl err)"
      using "1.prems"(4) lt
      by (subst (asm) verify_loop_unfold) (auto split: option.splits sum.splits)
    then have ok: "insn_ok prog v p" and p': "p' = next_start prog v p"
      using verify_insn_Inr [OF "1.prems"(1,2) lt] by auto
    have start: "insn_start prog v p'"
      using insn_start_next [OF "1.prems"(3) lt] p' by simp
    obtain r where r: "insn_start prog v r" "p' \<le> r" "r < insn_count prog"
        "verify_insn prog v r = Some (Inl err)"
        "\<forall>r'. insn_start prog v r' \<and> p' \<le> r' \<and> r' < r \<longrightarrow> insn_ok prog v r'"
      using IH [OF lt step refl "1.prems"(1,2) start rest] by blast
    have "insn_ok prog v r'" if "insn_start prog v r'" "p \<le> r'" "r' < r" for r'
      using insn_start_linear [OF that(1) "1.prems"(3)] that r(5) ok p' by (cases "r' = p") auto
    then show ?thesis
      using r p' by (intro exI [of _ r]) (auto simp: next_start_def split: if_splits)
  qed
qed

lemma check_prog_len_ok: "check_prog_len prog = Inr () \<longleftrightarrow> length prog mod 8 = 0 \<and> prog \<noteq> []"
  by (simp add: check_prog_len_def)

lemma verify_ok_iff:
  assumes "length prog < usize_max"
  shows "verify prog config v = Some (Inr ()) \<longleftrightarrow>
    length prog mod 8 = 0 \<and> prog \<noteq> [] \<and>
    (\<forall>p. insn_start prog v p \<and> p < insn_count prog \<longrightarrow> insn_ok prog v p)"
proof (cases "length prog mod 8 = 0 \<and> prog \<noteq> []")
  case True
  then have "check_prog_len prog = Inr ()"
    by (simp add: check_prog_len_ok)
  then have "verify prog config v = Some (Inr ()) \<longleftrightarrow> verify_loop prog v 0 = Some (Inr (insn_count prog))"
    by (auto simp: verify_def split: option.split sum.split)
  also have "\<dots> \<longleftrightarrow> (\<forall>p. insn_start prog v p \<and> p < insn_count prog \<longrightarrow> insn_ok prog v p)"
    using verify_loop_Inr [of prog v 0 "insn_count prog"] True assms by (simp add: insn_start.first)
  finally show ?thesis
    using True by blast
next
  case False
  then have "check_prog_len prog \<noteq> Inr ()"
    by (simp add: check_prog_len_ok del: length_greater_0_conv)
  then show ?thesis
    using False by (auto simp: verify_def split: sum.split)
qed

lemma verify_total:
  assumes "length prog < usize_max"
  shows "\<exists>r. verify prog config v = Some r"
proof (cases "check_prog_len prog = Inr ()")
  case True
  then show ?thesis
    using verify_loop_total [of prog v 0] assms
    by (auto simp: verify_def check_prog_len_ok split: option.split sum.split)
next
  case False
  then show ?thesis
    by (auto simp: verify_def split: sum.split)
qed

text \<open>In a verified program every slot starts an instruction or has operation code 0.\<close>

lemma insn_start_cover:
  assumes "p \<le> insn_count prog"
  shows "insn_start prog v p \<or> (\<exists>q. p = q + 1 \<and> insn_start prog v q \<and> is_lddw prog v q)"
  using assms
proof (induction p)
  case 0
  then show ?case by (simp add: insn_start.first)
next
  case (Suc p)
  then show ?case
    using insn_start.wide [of prog v p] insn_start.wide [of prog v "p - 1"] insn_start.narrow [of prog v p]
    by auto
qed

lemma verified_slot:
  assumes "verify prog config v = Some (Inr ())" and "length prog < usize_max" and "p < insn_count prog"
  shows "insn_ok prog v p \<or> opcode_at prog p = 0"
proof -
  have ok: "insn_ok prog v r" if "insn_start prog v r" "r < insn_count prog" for r
    using assms(1) that verify_ok_iff [OF assms(2)] by blast
  consider "insn_start prog v p" | q where "p = q + 1" "insn_start prog v q" "is_lddw prog v q"
    using insn_start_cover [of p prog v] assms(3) by auto
  then show ?thesis
  proof cases
    case 1
    then show ?thesis using ok assms(3) by blast
  next
    case 2
    then have "insn_ok prog v q" using ok assms(3) by simp
    then show ?thesis
      using insn_ok_load_dw [of prog v q] 2 assms(3) by simp
  qed
qed

lemmas verify_eval =
  verify_def check_prog_len_def verify_loop_unfold verify_insn_def get_insn_def
  is_pc_in_program_def rust_simps get_insn_unchecked_def index_opt_def read_le_def
  opcode_arm_def arms_defs opcode_val Let_def check_registers_def run_arm_def

text \<open>The program \<open>mov64 r0, 0; exit\<close>, on which the witnesses evaluate the verifier.\<close>

definition sample_prog :: "u8 list" where
  "sample_prog = [0xb7, 0, 0, 0, 0, 0, 0, 0, 0x95, 0, 0, 0, 0, 0, 0, 0]"

lemma verify_sample: "verify sample_prog Config_default V3 = Some (Inr ())"
  by (simp add: sample_prog_def verify_eval)

section \<open>Properties\<close>



text \<open>
  C19. Verification terminates without a panic on every byte string that fits the address
  space: every decoding it performs is inside the program.
\<close>

theorem verify_never_panics:
  assumes "length prog < 2 ^ 63"
  shows "\<exists>r. verify prog config v = Some r"
  using verify_total [of prog config v] assms by simp

theorem verify_never_panics_witness:
  "\<exists>r. verify [0x18, 0, 0] Config_default V0 = Some r"
  by (rule verify_never_panics) simp

text \<open>
  C20. When a program of valid length is rejected, the error is the one raised for the first
  instruction that is not acceptable; every instruction before it is.
\<close>

theorem verify_rejects_first:
  assumes "length prog < 2 ^ 63" and "length prog mod INSN_SIZE = 0" and "prog \<noteq> []"
    and "verify prog config v = Some (Inl err)"
  shows "\<exists>p. insn_start prog v p \<and> p < length prog div INSN_SIZE \<and>
    verify_insn prog v p = Some (Inl err) \<and> \<not> insn_ok prog v p \<and>
    (\<forall>q. insn_start prog v q \<and> q < p \<longrightarrow> insn_ok prog v q)"
proof -
  have len: "length prog mod 8 = 0" "length prog < usize_max"
    using assms(1,2) by simp_all
  have "verify_loop prog v 0 = Some (Inl err)"
    using assms verify_loop_Inr [OF len insn_start.first] 
    by (auto simp: verify_def check_prog_len_def split: option.splits sum.splits if_splits)
  then obtain p where p: "insn_start prog v p" "p < insn_count prog" "verify_insn prog v p = Some (Inl err)"
      "\<forall>q. insn_start prog v q \<and> q < p \<longrightarrow> insn_ok prog v q"
    using verify_loop_Inl [OF len insn_start.first, of v err] by auto
  moreover have "\<not> insn_ok prog v p"
    using p(3) verify_insn_Inr [OF len p(2), of v "next_start prog v p"] by simp
  ultimately show ?thesis
    by auto
qed

theorem verify_rejects_first_witness:
  "\<exists>p. insn_start [0x34, 0, 0, 0, 0, 0, 0, 0] V0 p \<and>
     verify_insn [0x34, 0, 0, 0, 0, 0, 0, 0] V0 p = Some (Inl (DivisionByZero 0))"
proof -
  have "verify [0x34, 0, 0, 0, 0, 0, 0, 0] Config_default V0 = Some (Inl (DivisionByZero 0))"
    by (simp add: verify_eval check_imm_nonzero_def version_features)
  from verify_rejects_first [OF _ _ _ this] show ?thesis
    by auto
qed

end
