(* ===== verification/Memory_Region.thy ===== *)
theory Memory_Region
  imports Vm_Config Ebpf_Opcodes
begin

text \<open>
  A memory region of \<^verbatim>\<open>memory_region.rs\<close>: a range of host memory that is visible
  to the program at a virtual address, either contiguously (\<open>vm_gap_shift = 63\<close>) or as
  frames of size \<open>2 ^ vm_gap_shift\<close> separated by gaps of the same size.

  The lemmas describe \<open>vm_to_host\<close> arithmetically: which accesses are translated, to which
  host address, and that a translated access never leaves the host memory of the region.
\<close>

section \<open>Definitions\<close>

record HostMemoryObject =
  host_address :: u64
  byte_length :: nat
  WRITABLE :: bool

record MemoryRegion =
  host_addr :: u64
  vm_addr :: u64
  mr_len :: u64
  vm_gap_shift :: u8
  writable :: bool
  access_violation_handler_payload :: "u16 option"

definition MemoryRegion_default :: MemoryRegion where
  "MemoryRegion_default =
     \<lparr>host_addr = 0, vm_addr = 0, mr_len = 0, vm_gap_shift = 0, writable = False,
      access_violation_handler_payload = None\<rparr>"

text \<open>\<open>u64::leading_zeros\<close>: the number of zero bits above the highest set bit.\<close>

definition leading_zeros :: "'a::len word \<Rightarrow> nat" where
  "leading_zeros w = length (takeWhile (\<lambda>i. \<not> bit w i) (rev [0..<LENGTH('a)]))"

text \<open>The assertion that the gap size is a power of two panics otherwise.\<close>

definition new_internal :: "u64 \<Rightarrow> nat \<Rightarrow> u64 \<Rightarrow> u64 \<Rightarrow> bool \<Rightarrow> MemoryRegion option" where
  "new_internal address len vm_address vm_gap_size is_writable =
     (let shift0 = saturating_sub (saturating_mul (8 :: u8) 8) 1;
          shift = (if vm_gap_size > 0
                   then saturating_sub shift0 (of_nat (leading_zeros vm_gap_size)) else shift0)
      in if vm_gap_size > 0 \<and> Some vm_gap_size \<noteq> checked_shl 1 (unat shift) then None
         else Some \<lparr>host_addr = address, vm_addr = vm_address, mr_len = of_nat len,
                    vm_gap_shift = shift, writable = is_writable,
                    access_violation_handler_payload = None\<rparr>)"

definition region_new :: "HostMemoryObject \<Rightarrow> u64 \<Rightarrow> MemoryRegion option" where
  "region_new host vm_address =
     new_internal (host_address host) (byte_length host) vm_address 0 (WRITABLE host)"

definition new_gapped :: "HostMemoryObject \<Rightarrow> u64 \<Rightarrow> u64 \<Rightarrow> MemoryRegion option" where
  "new_gapped host vm_address vm_gap_size =
     new_internal (host_address host) (byte_length host) vm_address vm_gap_size (WRITABLE host)"

definition vm_addr_range :: "MemoryRegion \<Rightarrow> u64 \<times> u64" where
  "vm_addr_range r =
     (if vm_gap_shift r = 63 then (vm_addr r, saturating_add (vm_addr r) (mr_len r))
      else (vm_addr r, saturating_add (vm_addr r) (saturating_mul (mr_len r) 2)))"

definition vm_to_host :: "MemoryRegion \<Rightarrow> AccessType \<Rightarrow> u64 \<Rightarrow> u64 \<Rightarrow> u64 option" where
  "vm_to_host r access_type addr len =
     (if access_type = Store \<and> \<not> writable r then None
      else if addr < vm_addr r then None
      else
        let begin_offset = saturating_sub addr (vm_addr r) in
        if vm_gap_shift r = 63 then
          case checked_add begin_offset len of
            None \<Rightarrow> None
          | Some end_offset \<Rightarrow>
              if end_offset \<le> mr_len r then Some (saturating_add (host_addr r) begin_offset) else None
        else
          let is_in_gap =
                ((case checked_shr begin_offset (unat (vm_gap_shift r)) of None \<Rightarrow> 0 | Some w \<Rightarrow> w) AND 1 = 1);
              gap_mask = (case checked_shl (- 1) (unat (vm_gap_shift r)) of None \<Rightarrow> 0 | Some w \<Rightarrow> w);
              gapped_offset =
                (case checked_shr (begin_offset AND gap_mask) 1 of None \<Rightarrow> 0 | Some w \<Rightarrow> w)
                OR (begin_offset AND NOT gap_mask)
          in case checked_add gapped_offset len of
               None \<Rightarrow> None
             | Some end_offset \<Rightarrow>
                 if end_offset \<le> mr_len r \<and> \<not> is_in_gap
                 then Some (saturating_add (host_addr r) gapped_offset) else None)"

section \<open>Lemmas\<close>

text \<open>
  The offset into the host memory that a guest offset stands for, and the offsets that lie in
  a frame. For a contiguous region both are trivial.
\<close>

definition host_offset :: "nat \<Rightarrow> nat \<Rightarrow> nat" where
  "host_offset shift off = (if shift = 63 then off else off div 2 ^ Suc shift * 2 ^ shift + off mod 2 ^ shift)"

definition in_frame :: "nat \<Rightarrow> nat \<Rightarrow> bool" where
  "in_frame shift off \<longleftrightarrow> shift = 63 \<or> even (off div 2 ^ shift)"

text \<open>The range of the gap shift that \<open>new_internal\<close> produces.\<close>

definition region_inv :: "MemoryRegion \<Rightarrow> bool" where
  "region_inv r \<longleftrightarrow> vm_gap_shift r \<le> 63"

lemma host_offset_le: "host_offset shift off \<le> off"
proof (cases "shift = 63")
  case False
  have "off div 2 ^ Suc shift * 2 ^ shift \<le> off div 2 ^ shift * 2 ^ shift"
    by (intro mult_le_mono1 div_le_mono2) simp_all
  then have "host_offset shift off \<le> off div 2 ^ shift * 2 ^ shift + off mod 2 ^ shift"
    using False by (simp add: host_offset_def)
  also have "\<dots> = off"
    by (rule div_mult_mod_eq)
  finally show ?thesis .
qed (simp add: host_offset_def)

lemma gap_offset_word:
  fixes w :: u64
  assumes "\<not> bit w s"
  shows "drop_bit 1 (w AND push_bit s (- 1)) OR (w AND NOT (push_bit s (- 1)))
      = push_bit s (drop_bit (Suc s) w) OR take_bit s w"
proof (rule bit_word_eqI)
  fix n
  show "bit (drop_bit 1 (w AND push_bit s (- 1)) OR (w AND NOT (push_bit s (- 1)))) n
     = bit (push_bit s (drop_bit (Suc s) w) OR take_bit s w) n"
    using assms by (cases "Suc n = s") (auto simp: bit_simps not_le not_less dest: bit_imp_le_length)
qed

lemma nat_push_or_take:
  "push_bit s (a :: nat) OR take_bit s b = a * 2 ^ s + b mod 2 ^ s"
proof -
  have "push_bit s a AND take_bit s b = 0"
    by (rule bit_eqI) (auto simp: bit_simps)
  then show ?thesis
    by (simp add: disjunctive_add_eq_or [symmetric] push_bit_eq_mult take_bit_eq_mod)
qed

lemma gap_offset_unat:
  fixes w :: u64
  assumes "\<not> bit w s" "s < 64"
  shows "unat (drop_bit 1 (w AND push_bit s (- 1)) OR (w AND NOT (push_bit s (- 1)))) =
    unat w div 2 ^ Suc s * 2 ^ s + unat w mod 2 ^ s"
proof -
  let ?d = "unat w div 2 ^ Suc s"
  have "?d * 2 ^ s \<le> unat w div 2 ^ s * 2 ^ s"
    by (intro mult_le_mono1 div_le_mono2) simp_all
  also have "\<dots> \<le> unat w"
    by simp
  finally have lt: "?d * 2 ^ s < 2 ^ 64"
    using unat_bound [of w] by simp
  have "unat (push_bit s (drop_bit (Suc s) w)) = push_bit s ?d"
    by (simp only: unsigned_push_bit_eq unat_drop_bit_eq)
      (use lt in \<open>simp add: drop_bit_eq_div push_bit_eq_mult take_bit_nat_eq_self\<close>)
  then show ?thesis
    by (simp only: gap_offset_word [OF assms(1)] unsigned_or_eq unsigned_take_bit_eq nat_push_or_take)
qed
lemma bit_unat_odd: "bit (w :: 'a::len word) s \<longleftrightarrow> odd (unat w div 2 ^ s)"
proof -
  have "bit (unat w) s \<longleftrightarrow> bit w s"
    by (simp add: bit_unsigned_iff)
  then show ?thesis
    by (simp add: bit_iff_odd)
qed

lemma in_gap_iff: "drop_bit s (w :: 'a::len word) AND 1 = 1 \<longleftrightarrow> bit w s"
  by (simp add: and_one_eq odd_iff_mod_2_eq_one bit_iff_odd_drop_bit)

text \<open>What is translated, and to what.\<close>

definition translatable :: "MemoryRegion \<Rightarrow> AccessType \<Rightarrow> u64 \<Rightarrow> u64 \<Rightarrow> bool" where
  "translatable r access_type addr len \<longleftrightarrow>
     (access_type = Store \<longrightarrow> writable r) \<and> vm_addr r \<le> addr \<and>
     in_frame (unat (vm_gap_shift r)) (unat (addr - vm_addr r)) \<and>
     host_offset (unat (vm_gap_shift r)) (unat (addr - vm_addr r)) + unat len \<le> unat (mr_len r)"

lemma checked_add_bound:
  fixes a b c :: u64
  shows "(case checked_add a b of None \<Rightarrow> None | Some e \<Rightarrow> if e \<le> c \<and> Q then Some x else None)
    = (if unat a + unat b \<le> unat c \<and> Q then Some x else None)"
proof (cases "unat a + unat b < 2 ^ 64")
  case True
  then have "unat (a + b) = unat a + unat b"
    by (intro unat_add_lem [THEN iffD1]) simp
  then show ?thesis
    using True by (simp add: checked_add_def word_le_nat_alt)
next
  case False
  then show ?thesis
    using unat_bound [of c] by (simp add: checked_add_def)
qed

lemma checked_add_bound':
  fixes a b c :: u64
  shows "(case checked_add a b of None \<Rightarrow> None | Some e \<Rightarrow> if e \<le> c then Some x else None)
    = (if unat a + unat b \<le> unat c then Some x else None)"
  by (rule checked_add_bound [where Q = True, unfolded simp_thms])

lemma vm_to_host_eq:
  assumes "region_inv r"
  shows "vm_to_host r access_type addr len =
    (if translatable r access_type addr len
     then Some (saturating_add (host_addr r)
       (of_nat (host_offset (unat (vm_gap_shift r)) (unat (addr - vm_addr r)))))
     else None)"
proof (cases "(access_type = Store \<longrightarrow> writable r) \<and> vm_addr r \<le> addr")
  case False
  then show ?thesis
    by (auto simp: vm_to_host_def translatable_def not_le)
next
  case True
  let ?s = "unat (vm_gap_shift r)" and ?o = "addr - vm_addr r"
  have allowed: "\<not> (access_type = Store \<and> \<not> writable r)" "\<not> addr < vm_addr r"
    using True by auto
  have sub: "saturating_sub addr (vm_addr r) = ?o"
    using True by (simp add: saturating_sub_def)
  have s: "?s < 64"
    using assms by (simp add: region_inv_def word_le_nat_alt)
  have s63: "vm_gap_shift r = 63 \<longleftrightarrow> ?s = 63"
    by (simp add: word_unat_eq_iff)
  show ?thesis
  proof (cases "?s = 63")
    case contiguous: True
    then show ?thesis
      using allowed
      by (auto simp: vm_to_host_def Let_def s63 sub translatable_def in_frame_def host_offset_def
          checked_add_bound')
  next
    case gapped: False
    define g where "g = drop_bit 1 (?o AND push_bit ?s (- 1)) OR (?o AND NOT (push_bit ?s (- 1)))"
    have eq: "vm_to_host r access_type addr len =
        (if unat g + unat len \<le> unat (mr_len r) \<and> \<not> bit ?o ?s
         then Some (saturating_add (host_addr r) g) else None)"
      using allowed gapped s
      by (simp add: vm_to_host_def Let_def s63 sub checked_shr_def checked_shl_def in_gap_iff
          checked_add_bound g_def)
    show ?thesis
    proof (cases "bit ?o ?s")
      case in_gap: True
      then show ?thesis
        using eq gapped by (simp add: translatable_def in_frame_def bit_unat_odd)
    next
      case False
      then have g: "unat g = host_offset ?s (unat ?o)"
        using gap_offset_unat [OF False s] gapped by (simp only: g_def host_offset_def if_False)
      then have "g = of_nat (host_offset ?s (unat ?o))"
        by (simp only: g [symmetric] of_nat_unat ucast_id)
      then show ?thesis
        using eq g False gapped True by (simp add: translatable_def in_frame_def bit_unat_odd)
    qed
  qed
qed

lemma in_frame_split:
  assumes "in_frame s n" and "s \<noteq> 63"
  shows "n = 2 * (n div 2 ^ Suc s * 2 ^ s) + n mod 2 ^ s"
proof -
  have "even (n div 2 ^ s)"
    using assms by (simp add: in_frame_def)
  then have "n div 2 ^ s = 2 * (n div 2 ^ Suc s)"
    by (metis div_mult2_eq dvd_mult_div_cancel mult.commute power_Suc)
  then have "n div 2 ^ s * 2 ^ s = 2 * (n div 2 ^ Suc s * 2 ^ s)"
    by (metis mult.assoc)
  then show ?thesis
    using div_mult_mod_eq [of n "2 ^ s"] by argo
qed

lemma translatable_end:
  assumes "region_inv r" and "translatable r access_type addr len" and "0 < len"
  shows "unat addr < unat (vm_addr r) +
    (if vm_gap_shift r = 63 then unat (mr_len r) else 2 * unat (mr_len r))"
proof -
  let ?s = "unat (vm_gap_shift r)" and ?o = "unat (addr - vm_addr r)"
  have o: "?o = unat addr - unat (vm_addr r)" "unat (vm_addr r) \<le> unat addr"
    using assms(2) by (simp_all add: translatable_def unat_sub word_le_nat_alt)
  have host: "host_offset ?s ?o < unat (mr_len r)"
    using assms(2,3) by (auto simp: translatable_def word_less_nat_alt)
  have "?o < 2 * unat (mr_len r)" if "?s \<noteq> 63"
  proof -
    have "in_frame ?s ?o"
      using assms(2) by (simp add: translatable_def)
    have "host_offset ?s ?o = ?o div 2 ^ Suc ?s * 2 ^ ?s + ?o mod 2 ^ ?s"
      using that by (simp only: host_offset_def if_False)
    with in_frame_split [OF \<open>in_frame ?s ?o\<close> that] have "?o \<le> 2 * host_offset ?s ?o"
      by linarith
    then show ?thesis
      using host by linarith
  qed
  moreover have "vm_gap_shift r = 63 \<longleftrightarrow> ?s = 63"
    by (simp add: word_unat_eq_iff)
  ultimately show ?thesis
    using o host by (auto simp: host_offset_def)
qed

text \<open>Different addresses inside the frames of a region have different host addresses.\<close>

lemma host_offset_inject:
  assumes "in_frame s a" and "in_frame s b" and "host_offset s a = host_offset s b"
  shows "a = b"
proof (cases "s = 63")
  case True
  then show ?thesis
    using assms(3) by (simp add: host_offset_def)
next
  case False
  have split: "n = 2 * (host_offset s n div 2 ^ s * 2 ^ s) + host_offset s n mod 2 ^ s" if "in_frame s n" for n
  proof -
    have "host_offset s n div 2 ^ s = n div 2 ^ Suc s" "host_offset s n mod 2 ^ s = n mod 2 ^ s"
      using False by (simp_all add: host_offset_def)
    then show ?thesis
      using in_frame_split [OF that False] by simp
  qed
  show ?thesis
    using split [OF assms(1)] split [OF assms(2)] assms(3) by simp
qed

lemma new_internal_inv:
  assumes "new_internal address len vm_address gap w = Some r"
  shows "region_inv r" "vm_addr r = vm_address" "mr_len r = of_nat len" "host_addr r = address" "writable r = w"
    "gap = 0 \<Longrightarrow> vm_gap_shift r = 63" "0 < gap \<Longrightarrow> gap = 2 ^ unat (vm_gap_shift r)"
proof -
  have shift0: "saturating_sub (saturating_mul (8 :: u8) 8) 1 = 63"
    by (simp add: rust_simps)
  have "saturating_sub (63 :: u8) x \<le> 63" for x
    by (auto simp: saturating_sub_def word_le_sub1 intro: word_sub_le)
  then show "region_inv r" "vm_addr r = vm_address" "mr_len r = of_nat len" "host_addr r = address" "writable r = w"
      "gap = 0 \<Longrightarrow> vm_gap_shift r = 63" "0 < gap \<Longrightarrow> gap = 2 ^ unat (vm_gap_shift r)"
    using assms
    by (auto simp: new_internal_def shift0 Let_def region_inv_def checked_shl_def push_bit_eq_mult split: if_splits)
qed

lemma unat_saturating_add: "unat (saturating_add (a :: u64) b) = min (unat a + unat b) (2 ^ 64 - 1)"
proof (cases "unat a + unat b < 2 ^ 64")
  case True
  then have "unat (a + b) = unat a + unat b"
    by (intro unat_add_lem [THEN iffD1]) simp
  then show ?thesis
    using True by (simp add: saturating_add_def)
qed (simp add: saturating_add_def unsigned_minus_1_eq_mask mask_eq_exp_minus_1)

lemma unat_host_offset:
  "unat (of_nat (host_offset s (unat (w :: u64))) :: u64) = host_offset s (unat w)"
  using host_offset_le [of s "unat w"] unat_bound [of w]
  by (simp add: unsigned_of_nat take_bit_nat_eq_self)

lemma vm_to_host_host:
  assumes "region_inv r" and "vm_to_host r access_type addr len = Some h"
    and "unat (host_addr r) + unat (mr_len r) < 2 ^ 64"
  shows "unat h = unat (host_addr r) + host_offset (unat (vm_gap_shift r)) (unat (addr - vm_addr r))"
    and "translatable r access_type addr len"
  using assms by (auto simp: vm_to_host_eq unat_saturating_add unat_host_offset translatable_def min_def split: if_splits)

section \<open>Properties\<close>

text \<open>
  C29. A translated access stays inside the host memory of its region, starts at or above the
  region's virtual address, and is a write only if the region is writable.
\<close>

theorem vm_to_host_in_bounds:
  assumes "region_inv r" and "vm_to_host r access_type addr len = Some h"
    and "unat (host_addr r) + unat (mr_len r) < 2 ^ 64"
  shows "unat (host_addr r) \<le> unat h \<and> unat h + unat len \<le> unat (host_addr r) + unat (mr_len r) \<and>
    vm_addr r \<le> addr \<and> (access_type = Store \<longrightarrow> writable r)"
  using vm_to_host_host [OF assms] by (simp add: translatable_def)

definition stack_region :: MemoryRegion where
  "stack_region =
     \<lparr>host_addr = 0x10000, vm_addr = 0x200000000, mr_len = 0x4000, vm_gap_shift = 12, writable = True,
      access_violation_handler_payload = None\<rparr>"

lemma stack_region_inv:
  "region_inv stack_region" "unat (host_addr stack_region) + unat (mr_len stack_region) < 2 ^ 64"
  by (simp_all add: stack_region_def region_inv_def)

lemmas stack_region_eval =
  vm_to_host_eq [OF stack_region_inv(1), unfolded stack_region_def] translatable_def host_offset_def in_frame_def stack_region_def
  saturating_add_def

theorem vm_to_host_in_bounds_witness:
  "vm_to_host stack_region Store 0x200002008 8 = Some 0x11008 \<and>
   unat (host_addr stack_region) \<le> unat (0x11008 :: u64) \<and>
   unat (0x11008 :: u64) + 8 \<le> unat (host_addr stack_region) + unat (mr_len stack_region)"
proof -
  have h: "vm_to_host stack_region Store 0x200002008 8 = Some 0x11008"
    by (simp add: stack_region_eval)
  from vm_to_host_in_bounds [OF stack_region_inv(1) h stack_region_inv(2)] h show ?thesis
    by simp
qed

text \<open>
  C30. Frames do not alias: two guest addresses that a region translates to the same host
  address are equal, with and without gaps between the frames.
\<close>

theorem vm_to_host_injective:
  assumes "region_inv r" and "unat (host_addr r) + unat (mr_len r) < 2 ^ 64"
    and "vm_to_host r access_type addr len = Some h" and "vm_to_host r access_type' addr' len' = Some h"
  shows "addr = addr'"
proof -
  have "in_frame (unat (vm_gap_shift r)) (unat (addr - vm_addr r))"
      "in_frame (unat (vm_gap_shift r)) (unat (addr' - vm_addr r))"
    using vm_to_host_host(2) [OF assms(1,3,2)] vm_to_host_host(2) [OF assms(1,4,2)]
    by (simp_all only: translatable_def)
  moreover have "host_offset (unat (vm_gap_shift r)) (unat (addr - vm_addr r)) =
      host_offset (unat (vm_gap_shift r)) (unat (addr' - vm_addr r))"
    using vm_to_host_host(1) [OF assms(1,3,2)] vm_to_host_host(1) [OF assms(1,4,2)] by linarith
  ultimately have "unat (addr - vm_addr r) = unat (addr' - vm_addr r)"
    by (rule host_offset_inject)
  then have "addr - vm_addr r = addr' - vm_addr r"
    by (rule word_unat_eq_iff [THEN iffD2])
  then show ?thesis
    by (metis diff_add_cancel)
qed

theorem vm_to_host_injective_witness:
  "vm_to_host stack_region Load 0x200002008 8 = vm_to_host stack_region Store 0x200002008 4 \<and>
   (0x200002008 :: u64) = 0x200002008"
proof -
  have h: "vm_to_host stack_region Load 0x200002008 8 = Some 0x11008"
      "vm_to_host stack_region Store 0x200002008 4 = Some 0x11008"
    by (simp_all add: stack_region_eval)
  from vm_to_host_injective [OF stack_region_inv h] h show ?thesis
    by simp
qed


end
