(* ===== verification/Eytzinger.thy ===== *)
theory Eytzinger
  imports Memory_Region
begin

text \<open>
  The search tree of \<open>UnalignedMemoryMapping\<close>: the region addresses stored in breadth-first
  (Eytzinger) order, built by \<open>construct_eytzinger_order\<close> and searched by the loop of
  \<open>find_region\<close>. Positions are counted from one as in the search, so that the children
  of \<open>k\<close> are \<open>2 * k\<close> and \<open>2 * k + 1\<close>. The number of regions is bounded by the
  size of an allocation, so the saturating arithmetic on positions is exact and written as
  plain arithmetic.

  The lemmas show that the construction never indexes out of range and stores an in-order
  numbering of the tree, and that the search returns the last region that starts at or below
  the address.
\<close>

section \<open>Definitions\<close>

function construct_eytzinger_order ::
    "MemoryRegion list \<Rightarrow> u64 list \<times> nat list \<Rightarrow> nat \<Rightarrow> nat \<Rightarrow> ((u64 list \<times> nat list) \<times> nat) option" where
  "construct_eytzinger_order regions arrays in_index out_index =
     (if length regions \<le> out_index then Some (arrays, in_index)
      else do {
        left \<leftarrow> construct_eytzinger_order regions arrays in_index (out_index * 2 + 1);
        region \<leftarrow> index_opt regions (snd left);
        region_addresses \<leftarrow> update_opt (fst (fst left)) out_index (vm_addr region);
        region_index_lookup \<leftarrow> update_opt (snd (fst left)) out_index (snd left);
        construct_eytzinger_order regions (region_addresses, region_index_lookup)
          (snd left + 1) (out_index * 2 + 2)
      })"
  by auto
termination
  by (relation "measure (\<lambda>(regions, _, _, out_index). length regions - out_index)") auto

declare construct_eytzinger_order.simps [simp del]

fun trailing_zeros :: "nat \<Rightarrow> nat" where
  "trailing_zeros n = (if n = 0 then 64 else if odd n then 0 else Suc (trailing_zeros (n div 2)))"

declare trailing_zeros.simps [simp del]

text \<open>The loop of \<open>find_region\<close> from position \<open>index\<close>, which starts at one.\<close>

function eytzinger_search :: "u64 list \<Rightarrow> u64 \<Rightarrow> nat \<Rightarrow> nat" where
  "eytzinger_search region_addresses addr index =
     (if 0 < index \<and> index \<le> length region_addresses
      then eytzinger_search region_addresses addr
             (push_bit 1 index + of_bool (region_addresses ! (index - 1) \<le> addr))
      else index)"
  by auto
termination
  by (relation "measure (\<lambda>(region_addresses, _, index). Suc (length region_addresses) - index)")
     (auto simp: push_bit_eq_mult)

declare eytzinger_search.simps [simp del]

definition strip_index :: "nat \<Rightarrow> nat" where
  "strip_index index = drop_bit (trailing_zeros index + 1) index"

section \<open>The tree in order\<close>

function inord :: "nat \<Rightarrow> nat \<Rightarrow> nat list" where
  "inord n k = (if 0 < k \<and> k \<le> n then inord n (2 * k) @ k # inord n (2 * k + 1) else [])"
  by auto
termination
  by (relation "measure (\<lambda>(n, k). Suc n - k)") auto

declare inord.simps [simp del]

definition descends :: "nat \<Rightarrow> nat \<Rightarrow> bool" where
  "descends k x \<longleftrightarrow> (\<exists>d. x div 2 ^ d = k)"

lemma descends_self: "descends k k"
  unfolding descends_def by (rule exI [of _ 0]) simp

lemma descends_child:
  assumes "descends (2 * k + b) x" and "b < 2"
  shows "descends k x"
proof -
  obtain d where "x div 2 ^ d = 2 * k + b"
    using assms(1) by (auto simp: descends_def)
  then have "x div 2 ^ d div 2 = k"
    using assms(2) by simp
  then have "x div 2 ^ Suc d = k"
    by (simp only: power_Suc2 div_mult2_eq)
  then show ?thesis
    unfolding descends_def by (rule exI)
qed

lemma descends_ge: "descends k x \<Longrightarrow> k \<le> x"
  by (auto simp: descends_def)

lemma descends_comparable:
  assumes "descends a x" and "descends b x"
  shows "descends a b \<or> descends b a"
proof -
  obtain d e where x: "x div 2 ^ d = a" "x div 2 ^ e = b"
    using assms by (auto simp: descends_def)
  have "x div 2 ^ (i + j) = x div 2 ^ i div 2 ^ j" for i j
    by (simp add: power_add div_mult2_eq)
  then have "d \<le> e \<Longrightarrow> a div 2 ^ (e - d) = b" "e \<le> d \<Longrightarrow> b div 2 ^ (d - e) = a"
    using x by (metis le_add_diff_inverse)+
  then show ?thesis
    unfolding descends_def by (meson nat_le_linear)
qed

lemma descends_siblings:
  assumes "0 < k" and "descends (2 * k) x" and "descends (2 * k + 1) x"
  shows False
proof -
  have "\<not> descends (2 * k) (2 * k + 1)"
  proof
    assume "descends (2 * k) (2 * k + 1)"
    then obtain d where d: "(2 * k + 1) div 2 ^ d = 2 * k" by (auto simp: descends_def)
    show False
    proof (cases d)
      case (Suc e)
      then have "(2 * k + 1) div 2 ^ d = k div 2 ^ e"
        by (simp add: div_mult2_eq)
      also have "\<dots> \<le> k" by simp
      finally show ?thesis using d assms(1) by simp
    qed (use d in simp)
  qed
  moreover have "\<not> descends (2 * k + 1) (2 * k)"
    using descends_ge by fastforce
  ultimately show False
    using descends_comparable [OF assms(2,3)] by blast
qed

lemma descends_parent:
  assumes "descends k x" and "x \<noteq> k" and "0 < k"
  shows "descends (2 * k) x \<or> descends (2 * k + 1) x"
proof -
  obtain d where d: "x div 2 ^ d = k" using assms(1) by (auto simp: descends_def)
  then obtain e where e: "d = Suc e" using assms(2) by (cases d) auto
  have "x div 2 ^ e div 2 = k"
    using d by (simp only: e power_Suc2 div_mult2_eq)
  then have "x div 2 ^ e = 2 * k \<or> x div 2 ^ e = 2 * k + 1" by linarith
  then show ?thesis
    unfolding descends_def by blast
qed

lemma set_inord: "0 < k \<Longrightarrow> set (inord n k) = {x. descends k x \<and> x \<le> n}"
proof (induction n k rule: inord.induct)
  case (1 n k)
  show ?case
  proof (cases "k \<le> n")
    case True
    then have "set (inord n k) = set (inord n (2 * k)) \<union> {k} \<union> set (inord n (2 * k + 1))"
      using 1 by (subst inord.simps) auto
    also have "\<dots> = {x. descends k x \<and> x \<le> n}"
      using 1 True descends_child [of k 0] descends_child [of k 1] descends_self [of k]
        descends_parent [of k] by fastforce
    finally show ?thesis .
  next
    case False
    then show ?thesis
      using descends_ge by (subst inord.simps) fastforce
  qed
qed

lemma descends_1: "0 < x \<Longrightarrow> descends 1 x"
proof (induction x rule: less_induct)
  case (less x)
  show ?case
  proof (cases "x = 1")
    case True
    then show ?thesis by (simp add: descends_self)
  next
    case False
    then have "0 < x div 2" "x div 2 < x" using less.prems by auto
    then have "descends 1 (x div 2)" by (intro less.IH)
    then obtain d where "x div 2 div 2 ^ d = 1" unfolding descends_def by blast
    then have "x div 2 ^ Suc d = 1" by (simp add: div_mult2_eq)
    then show ?thesis unfolding descends_def by (rule exI)
  qed
qed

lemma set_inord_1: "set (inord n 1) = {1..n}"
  using descends_1 descends_ge [of 1] by (auto simp: set_inord) 

lemma distinct_inord: "distinct (inord n k)"
proof (induction n k rule: inord.induct)
  case (1 n k)
  show ?case
  proof (cases "0 < k \<and> k \<le> n")
    case True
    have "k \<notin> set (inord n (2 * k))" "k \<notin> set (inord n (2 * k + 1))"
      using True descends_ge [of "2 * k" k] descends_ge [of "2 * k + 1" k] by (auto simp: set_inord)
    moreover have "set (inord n (2 * k)) \<inter> set (inord n (2 * k + 1)) = {}"
      using True descends_siblings [of k] by (auto simp: set_inord)
    ultimately show ?thesis
      using 1 True by (subst inord.simps) auto
  qed (subst inord.simps, auto)
qed

lemma inord_pos: "0 \<notin> set (inord n k)"
proof (cases "k = 0")
  case True
  then show ?thesis by (subst inord.simps) simp
next
  case False
  then show ?thesis using descends_ge [of k 0] by (auto simp: set_inord)
qed

lemma length_inord_1: "length (inord n 1) = n"
  using distinct_card [OF distinct_inord [of n 1]] by (simp add: set_inord_1 [simplified])

section \<open>The search\<close>

lemma strip_index_even: "0 < k \<Longrightarrow> strip_index (2 * k) = strip_index k"
  by (simp add: strip_index_def trailing_zeros.simps [of "2 * k"] drop_bit_eq_div)

lemma strip_index_odd: "strip_index (2 * k + 1) = k"
proof -
  have "trailing_zeros (2 * k + 1) = 0"
    by (subst trailing_zeros.simps) simp
  then show ?thesis
    by (simp add: strip_index_def drop_bit_eq_div)
qed

lemma strip_index_1: "strip_index 1 = 0"
  using strip_index_odd [of 0] by simp

lemma last_filter_append:
  "last (filter P (xs @ ys)) = (if \<exists>y \<in> set ys. P y then last (filter P ys) else last (filter P xs))"
  by (auto simp: last_append filter_empty_conv)

lemma eytzinger_search_step:
  assumes "0 < k" and "k \<le> length addrs"
  shows "eytzinger_search addrs a k = eytzinger_search addrs a (if addrs ! (k - 1) \<le> a then 2 * k + 1 else 2 * k)"
proof -
  have "push_bit 1 k + of_bool (addrs ! (k - 1) \<le> a) = (if addrs ! (k - 1) \<le> a then 2 * k + 1 else 2 * k)"
    by (simp add: push_bit_eq_mult)
  then show ?thesis
    using assms by (subst eytzinger_search.simps) (simp only: if_True conj_absorb simp_thms)
qed

lemma eytzinger_search_strip:
  assumes "0 < k" and "sorted (map (\<lambda>p. addrs ! (p - 1)) (inord (length addrs) k))"
  shows "strip_index (eytzinger_search addrs a k) =
    (if \<exists>p \<in> set (inord (length addrs) k). addrs ! (p - 1) \<le> a
     then last (filter (\<lambda>p. addrs ! (p - 1) \<le> a) (inord (length addrs) k)) else strip_index k)"
  using assms
proof (induction k rule: measure_induct_rule [of "\<lambda>k. Suc (length addrs) - k"])
  case (less k)
  let ?n = "length addrs" and ?le = "\<lambda>p. addrs ! (p - 1) \<le> a"
  show ?case
  proof (cases "k \<le> ?n")
    case False
    then have "inord ?n k = []" "eytzinger_search addrs a k = k"
      by (subst inord.simps eytzinger_search.simps; simp)+
    then show ?thesis
      by simp
  next
    case True
    have L: "inord ?n k = inord ?n (2 * k) @ k # inord ?n (2 * k + 1)"
      using True less.prems(1) by (subst inord.simps) simp
    have srt: "sorted (map (\<lambda>p. addrs ! (p - 1)) (inord ?n (2 * k)))"
        "sorted (map (\<lambda>p. addrs ! (p - 1)) (inord ?n (2 * k + 1)))"
        "\<And>p. p \<in> set (inord ?n (2 * k + 1)) \<Longrightarrow> addrs ! (k - 1) \<le> addrs ! (p - 1)"
      using less.prems(2) unfolding L by (auto simp: sorted_append)
    note step = eytzinger_search_step [OF less.prems(1) True, of a]
    show ?thesis
    proof (cases "?le k")
      case le: True
      note IH = less.IH [of "2 * k + 1", OF _ _ srt(2)]
      show ?thesis
        using IH le True less.prems(1)
        unfolding step L last_filter_append strip_index_odd by (auto simp: filter_empty_conv)
    next
      case gt: False
      note IH = less.IH [of "2 * k", OF _ _ srt(1)]
      have "\<not> ?le p" if "p \<in> set (k # inord ?n (2 * k + 1))" for p
        using gt srt(3) that by (auto dest: order_trans)
      then show ?thesis
        using IH gt True less.prems(1) strip_index_even [OF less.prems(1)]
        unfolding step L last_filter_append by auto
    qed
  qed
qed

section \<open>The construction\<close>

definition numbered :: "MemoryRegion list \<Rightarrow> u64 list \<times> nat list \<Rightarrow> nat \<Rightarrow> nat list \<Rightarrow> bool" where
  "numbered regions arrays i ps \<longleftrightarrow>
     map (\<lambda>p. snd arrays ! (p - 1)) ps = [i..<i + length ps] \<and>
     (\<forall>p \<in> set ps. fst arrays ! (p - 1) = vm_addr (regions ! (snd arrays ! (p - 1))))"

definition agree_outside :: "nat list \<Rightarrow> u64 list \<times> nat list \<Rightarrow> u64 list \<times> nat list \<Rightarrow> bool" where
  "agree_outside ps arrays arrays' \<longleftrightarrow>
     (\<forall>p. p \<notin> set ps \<and> 0 < p \<longrightarrow>
        fst arrays' ! (p - 1) = fst arrays ! (p - 1) \<and> snd arrays' ! (p - 1) = snd arrays ! (p - 1))"

lemma numbered_cong:
  assumes "agree_outside qs arrays arrays'" and "set ps \<inter> set qs = {}" and "0 \<notin> set ps"
  shows "numbered regions arrays' i ps \<longleftrightarrow> numbered regions arrays i ps"
proof -
  have eq: "fst arrays' ! (p - 1) = fst arrays ! (p - 1) \<and> snd arrays' ! (p - 1) = snd arrays ! (p - 1)"
    if "p \<in> set ps" for p
  proof -
    have "p \<notin> set qs \<and> 0 < p"
      using that assms(2,3) by (cases "p = 0") auto
    with assms(1) show ?thesis
      unfolding agree_outside_def by (elim allE impE)
  qed
  then have "map (\<lambda>p. snd arrays' ! (p - 1)) ps = map (\<lambda>p. snd arrays ! (p - 1)) ps"
    by (intro map_cong refl) blast
  moreover have "(\<forall>p \<in> set ps. fst arrays' ! (p - 1) = vm_addr (regions ! (snd arrays' ! (p - 1)))) \<longleftrightarrow>
      (\<forall>p \<in> set ps. fst arrays ! (p - 1) = vm_addr (regions ! (snd arrays ! (p - 1))))"
    by (rule ball_cong [OF refl]) (simp only: eq)
  ultimately show ?thesis
    unfolding numbered_def by (simp only:)
qed

lemma numbered_append:
  "numbered regions arrays i (ps @ qs) \<longleftrightarrow>
     numbered regions arrays i ps \<and> numbered regions arrays (i + length ps) qs"
proof -
  have upt: "[i..<i + length (ps @ qs)] = [i..<i + length ps] @ [i + length ps..<i + length ps + length qs]"
    using upt_add_eq_append [of i "i + length ps" "length qs"] by (simp add: add.assoc)
  have "map f (ps @ qs) = [i..<i + length (ps @ qs)] \<longleftrightarrow>
      map f ps = [i..<i + length ps] \<and> map f qs = [i + length ps..<i + length ps + length qs]" for f
    unfolding upt map_append by (rule append_eq_append_conv) simp
  then show ?thesis
    unfolding numbered_def set_append by blast
qed

lemma construct_eytzinger_order_Some:
  assumes "length (fst arrays) = length regions" and "length (snd arrays) = length regions"
    and "i + length (inord (length regions) (out + 1)) \<le> length regions"
  shows "\<exists>arrays'. construct_eytzinger_order regions arrays i out
        = Some (arrays', i + length (inord (length regions) (out + 1))) \<and>
      length (fst arrays') = length regions \<and> length (snd arrays') = length regions \<and>
      numbered regions arrays' i (inord (length regions) (out + 1)) \<and>
      agree_outside (inord (length regions) (out + 1)) arrays arrays'"
  using assms
proof (induction out arbitrary: arrays i rule: measure_induct_rule [of "\<lambda>out. length regions - out"])
  case (less out)
  let ?n = "length regions" and ?L = "inord (length regions) (out * 2 + 1 + 1)"
    and ?R = "inord (length regions) (out * 2 + 2 + 1)"
  show ?case
  proof (cases "?n \<le> out")
    case True
    then have "inord ?n (out + 1) = []"
      by (subst inord.simps) simp
    then show ?thesis
      using True less.prems(1,2)
      by (subst construct_eytzinger_order.simps) (simp add: numbered_def agree_outside_def)
  next
    case False
    then have lt: "?n - (out * 2 + 1) < ?n - out" "?n - (out * 2 + 2) < ?n - out"
      by linarith+
    have "out * 2 + 1 + 1 = 2 * (out + 1)" "out * 2 + 2 + 1 = 2 * (out + 1) + 1"
      by simp_all
    then have tree: "inord ?n (out + 1) = ?L @ (out + 1) # ?R"
      using False by (subst inord.simps) (simp only: if_True, simp)
    have bound: "i + length ?L + 1 + length ?R \<le> ?n"
      using less.prems(3) unfolding tree by simp
    obtain al where al: "construct_eytzinger_order regions arrays i (out * 2 + 1) = Some (al, i + length ?L)"
        "length (fst al) = ?n" "length (snd al) = ?n" "numbered regions al i ?L" "agree_outside ?L arrays al"
      using less.IH [OF lt(1) less.prems(1,2), of i] bound by auto
    define j where "j = i + length ?L"
    define am where "am = ((fst al)[out := vm_addr (regions ! j)], (snd al)[out := j])"
    have am: "length (fst am) = ?n" "length (snd am) = ?n"
      using al(2,3) by (simp_all add: am_def)
    obtain ar where ar: "construct_eytzinger_order regions am (j + 1) (out * 2 + 2) = Some (ar, j + 1 + length ?R)"
        "length (fst ar) = ?n" "length (snd ar) = ?n" "numbered regions ar (j + 1) ?R" "agree_outside ?R am ar"
      using less.IH [OF lt(2) am, of "j + 1"] bound unfolding j_def by auto
    have len: "i + length (inord ?n (out + 1)) = j + 1 + length ?R"
      unfolding tree j_def by simp
    have con: "construct_eytzinger_order regions arrays i out = Some (ar, i + length (inord ?n (out + 1)))"
      using False al(1-3) ar(1) bound
      unfolding len by (subst construct_eytzinger_order.simps) (simp add: j_def am_def)
    have mid: "agree_outside [out + 1] al am"
      by (auto simp: agree_outside_def am_def nth_list_update)
    have disj: "set ?L \<inter> set [out + 1] = {}" "set ?L \<inter> set ?R = {}" "out + 1 \<notin> set ?R"
      using distinct_inord [of ?n "out + 1"] unfolding tree by auto
    have "numbered regions ar i ?L"
      using al(4) numbered_cong [OF mid disj(1)] numbered_cong [OF ar(5) disj(2)] inord_pos by blast
    moreover have "numbered regions ar j [out + 1]"
      using ar(5) [unfolded agree_outside_def, rule_format, of "out + 1"] disj(3) False al(2,3)
      by (simp add: numbered_def am_def)
    moreover have "inord ?n (out + 1) = ?L @ [out + 1] @ ?R"
      using tree by simp
    ultimately have num: "numbered regions ar i (inord ?n (out + 1))"
      using ar(4) by (simp only: numbered_append) (simp add: j_def)
    have "agree_outside (inord ?n (out + 1)) arrays ar"
      using al(5) mid ar(5) unfolding tree by (simp add: agree_outside_def)
    with con num ar(2,3) show ?thesis
      by blast
  qed
qed

section \<open>The last region that starts at or below an address\<close>

definition region_before :: "MemoryRegion list \<Rightarrow> u64 \<Rightarrow> nat option" where
  "region_before regions a =
     (let js = filter (\<lambda>j. vm_addr (regions ! j) \<le> a) [0..<length regions]
      in if js = [] then None else Some (last js))"

lemma sorted_le_last: "sorted xs \<Longrightarrow> x \<in> set xs \<Longrightarrow> x \<le> last xs"
  by (induction xs) auto

lemma region_before_None: "region_before regions a = None \<longleftrightarrow> (\<forall>j < length regions. a < vm_addr (regions ! j))"
  by (auto simp: region_before_def Let_def filter_empty_conv not_le)

lemma region_before_Some:
  "region_before regions a = Some j \<longleftrightarrow>
     j < length regions \<and> vm_addr (regions ! j) \<le> a \<and>
     (\<forall>i. j < i \<and> i < length regions \<longrightarrow> a < vm_addr (regions ! i))"
  (is "_ \<longleftrightarrow> ?spec j")
proof -
  let ?js = "filter (\<lambda>j. vm_addr (regions ! j) \<le> a) [0..<length regions]"
  have last: "?spec (last ?js)" if "?js \<noteq> []"
  proof -
    have "last ?js \<in> set ?js" using that by (rule last_in_set)
    moreover have "i \<le> last ?js" if "i \<in> set ?js" for i
      using that by (intro sorted_le_last sorted_wrt_filter sorted_upt)
    ultimately show ?thesis
      by (auto simp: not_le [symmetric])
  qed
  have uniq: "j = i" if "?spec j" "?spec i" for i
    using that by (meson leD linorder_neqE_nat)
  have "?js \<noteq> []" if "?spec j"
    using that by (auto simp: filter_empty_conv)
  then show ?thesis
    using last uniq by (auto simp: region_before_def Let_def)
qed

lemma construct_root:
  fixes regions :: "MemoryRegion list"
  assumes "length addrs = length regions" and "length lookup = length regions"
  obtains addrs' lookup' where
    "construct_eytzinger_order regions (addrs, lookup) 0 0 = Some ((addrs', lookup'), length regions)"
    "length addrs' = length regions" "length lookup' = length regions"
    "numbered regions (addrs', lookup') 0 (inord (length regions) 1)"
  using construct_eytzinger_order_Some [of "(addrs, lookup)" regions 0 0] assms length_inord_1 [of "length regions"]
  by auto

lemma eytzinger_search_correct:
  assumes len: "length addrs = length regions" "length lookup = length regions"
    and num: "numbered regions (addrs, lookup) 0 (inord (length regions) 1)"
    and srt: "sorted (map vm_addr regions)"
  shows "region_before regions a =
    (let index = strip_index (eytzinger_search addrs a 1)
     in if index = 0 then None else Some (lookup ! (index - 1)))"
    and "strip_index (eytzinger_search addrs a 1) \<le> length regions"
proof -
  let ?L = "inord (length regions) 1" and ?idx = "\<lambda>p. lookup ! (p - 1)" and ?key = "\<lambda>p. addrs ! (p - 1)"
  have idx: "map ?idx ?L = [0..<length regions]"
    using num length_inord_1 [of "length regions"] by (simp add: numbered_def)
  have key: "?key p = vm_addr (regions ! ?idx p)" if "p \<in> set ?L" for p
    using num that by (simp add: numbered_def)
  have "map ?key ?L = map (\<lambda>j. vm_addr (regions ! j)) (map ?idx ?L)"
    using key by simp
  also have "\<dots> = map vm_addr regions"
    unfolding idx by (rule nth_equalityI) simp_all
  finally have "sorted (map ?key ?L)"
    using srt by simp
  then have search: "strip_index (eytzinger_search addrs a 1) =
      (if \<exists>p \<in> set ?L. ?key p \<le> a then last (filter (\<lambda>p. ?key p \<le> a) ?L) else 0)"
    using eytzinger_search_strip [of 1 addrs a] len(1) strip_index_1 by simp
  have "filter (\<lambda>j. vm_addr (regions ! j) \<le> a) [0..<length regions] = map ?idx (filter (\<lambda>p. ?key p \<le> a) ?L)"
    unfolding idx [symmetric] filter_map using key by (auto simp: comp_def cong: filter_cong)
  moreover have "last (filter (\<lambda>p. ?key p \<le> a) ?L) \<in> set ?L" if "\<exists>p \<in> set ?L. ?key p \<le> a"
    using that last_in_set [of "filter (\<lambda>p. ?key p \<le> a) ?L"] by (auto simp: filter_empty_conv)
  moreover have "p \<noteq> 0 \<and> p \<le> length regions" if "p \<in> set ?L" for p
    using that inord_pos [of "length regions" 1] set_inord_1 [of "length regions"] by (cases "p = 0") auto
  ultimately show "region_before regions a =
    (let index = strip_index (eytzinger_search addrs a 1)
     in if index = 0 then None else Some (lookup ! (index - 1)))"
    "strip_index (eytzinger_search addrs a 1) \<le> length regions"
    unfolding region_before_def search Let_def by (auto simp: filter_empty_conv last_map)
qed

end
