(* ===== verification/Memory_Mapping.thy ===== *)
theory Memory_Mapping
  imports Eytzinger
begin

text \<open>
  The memory mappings of \<^verbatim>\<open>memory_region.rs\<close>: the cache of recent lookups, the
  unaligned mapping (an Eytzinger search tree behind the cache), the aligned mapping (indexed
  by the upper half of an address), and \<open>MemoryMapping\<close>, which dispatches to one of them.
  The result \<open>None\<close> is a failed \<open>debug_assert\<close>, an index out of range, or an unchecked
  access out of range. \<open>find_region\<close> updates the cache behind a shared reference, so it
  returns the mapping afterwards.

  The access violation handler is a function field. The address of the empty slice that
  fills unused regions is a parameter. Host memory is a function from addresses to bytes.

  The locale \<open>region_finder\<close> is what address translation relies on; both mappings
  implement it.
\<close>

section \<open>The cache\<close>

record MappingCache =
  cache_entries :: "((u64 \<times> u64) \<times> nat) list"
  cache_head :: nat

definition CACHE_SIZE :: nat where
  "CACHE_SIZE = 4"

definition cache_new :: MappingCache where
  "cache_new = \<lparr>cache_entries = map (\<lambda>_. ((0, 0), 0)) [0..<CACHE_SIZE], cache_head = 0\<rparr>"

definition range_contains :: "u64 \<times> u64 \<Rightarrow> u64 \<Rightarrow> bool" where
  "range_contains rng a \<longleftrightarrow> fst rng \<le> a \<and> a < snd rng"

definition cache_find :: "MappingCache \<Rightarrow> u64 \<Rightarrow> nat option" where
  "cache_find cache a =
     map_option snd
       (find (\<lambda>(vm_range, region_index). range_contains vm_range a)
         (map (\<lambda>i. cache_entries cache ! ((cache_head cache + i) mod CACHE_SIZE)) [0..<CACHE_SIZE]))"

definition cache_insert :: "u64 \<times> u64 \<Rightarrow> nat \<Rightarrow> MappingCache \<Rightarrow> MappingCache" where
  "cache_insert vm_range region_index cache =
     (let head = (if cache_head cache = 0 then usize_max else cache_head cache - 1) mod CACHE_SIZE
      in cache\<lparr>cache_head := head,
              cache_entries := (cache_entries cache)[head := (vm_range, region_index)]\<rparr>)"

definition cache_flush :: "MappingCache \<Rightarrow> MappingCache" where
  "cache_flush cache =
     cache\<lparr>cache_entries := map (\<lambda>_. ((0, 0), 0)) [0..<CACHE_SIZE], cache_head := 0\<rparr>"

section \<open>The unaligned mapping\<close>

record UnalignedMemoryMapping =
  u_regions :: "MemoryRegion list"
  region_addresses :: "u64 list"
  region_index_lookup :: "nat list"
  u_cache :: MappingCache

definition u_new_uninitialized :: "MemoryRegion list \<Rightarrow> UnalignedMemoryMapping" where
  "u_new_uninitialized regions =
     (let number_of_regions = length regions
      in \<lparr>u_regions = regions,
          region_addresses = replicate number_of_regions 0,
          region_index_lookup = replicate number_of_regions 0,
          u_cache = cache_new\<rparr>)"

text \<open>The first index at which two neighbouring regions overlap.\<close>

definition first_overlap :: "MemoryRegion list \<Rightarrow> nat option" where
  "first_overlap regions =
     find (\<lambda>index. snd (vm_addr_range (regions ! (index - 1))) > vm_addr (regions ! index))
       [1..<length regions]"

definition u_initialize ::
    "UnalignedMemoryMapping \<Rightarrow> ((EbpfError + unit) \<times> UnalignedMemoryMapping) option" where
  "u_initialize mapping0 =
     (let mapping = mapping0\<lparr>u_regions := sort_key vm_addr (u_regions mapping0)\<rparr> in
      case first_overlap (u_regions mapping) of
        Some index \<Rightarrow> Some (Inl (InvalidMemoryRegion index), mapping)
      | None \<Rightarrow> do {
          res \<leftarrow> construct_eytzinger_order (u_regions mapping)
                  (region_addresses mapping, region_index_lookup mapping) 0 0;
          Some (Inr (), mapping\<lparr>region_addresses := fst (fst res), region_index_lookup := snd (fst res)\<rparr>)
        })"

definition u_new :: "MemoryRegion list \<Rightarrow> (EbpfError + UnalignedMemoryMapping) option" where
  "u_new regions =
     map_option (\<lambda>(res, mapping). map_sum id (\<lambda>_. mapping) res) (u_initialize (u_new_uninitialized regions))"

definition u_find_region ::
    "UnalignedMemoryMapping \<Rightarrow> u64 \<Rightarrow> ((nat \<times> MemoryRegion) option \<times> UnalignedMemoryMapping) option" where
  "u_find_region mapping a =
     (case cache_find (u_cache mapping) a of
        Some index \<Rightarrow> do {
          region \<leftarrow> index_opt (u_regions mapping) index;
          Some (Some (index, region), mapping)
        }
      | None \<Rightarrow>
          let index = strip_index (eytzinger_search (region_addresses mapping) a 1) in
          if index = 0 then Some (None, mapping)
          else do {
            region_index \<leftarrow> index_opt (region_index_lookup mapping) (index - 1);
            region \<leftarrow> index_opt (u_regions mapping) region_index;
            Some (Some (region_index, region),
                  mapping\<lparr>u_cache := cache_insert (vm_addr_range region) region_index (u_cache mapping)\<rparr>)
          })"

definition u_replace_region ::
    "nat \<Rightarrow> MemoryRegion \<Rightarrow> UnalignedMemoryMapping \<Rightarrow> ((EbpfError + unit) \<times> UnalignedMemoryMapping) option" where
  "u_replace_region index region mapping =
     do {
       regions \<leftarrow> update_opt (u_regions mapping) index region;
       Some (Inr (), mapping\<lparr>u_regions := regions, u_cache := cache_flush (u_cache mapping)\<rparr>)
     }"

section \<open>The aligned mapping\<close>

record AlignedMemoryMapping =
  a_regions :: "MemoryRegion list"
  a_allow_memory_region_zero :: bool

definition a_new_uninitialized :: "MemoryRegion list \<Rightarrow> Config \<Rightarrow> AlignedMemoryMapping" where
  "a_new_uninitialized regions config =
     \<lparr>a_regions = regions, a_allow_memory_region_zero = allow_memory_region_zero config\<rparr>"

text \<open>A region without bytes, made from the static empty slice at host address \<open>empty_slice\<close>.\<close>

definition empty_region :: "u64 \<Rightarrow> u64 \<Rightarrow> MemoryRegion option" where
  "empty_region empty_slice vm_address =
     region_new \<lparr>host_address = empty_slice, byte_length = 0, WRITABLE = False\<rparr> vm_address"

definition region_number :: "MemoryRegion \<Rightarrow> nat" where
  "region_number region =
     unat (case checked_shr (vm_addr region) VIRTUAL_ADDRESS_BITS of None \<Rightarrow> 0 | Some w \<Rightarrow> w)"

text \<open>
  The loop that fills unused region numbers. Each step either consumes a region or comes
  closer to the number of the next one.
\<close>

function a_fill :: "u64 \<Rightarrow> MemoryRegion list \<Rightarrow> nat \<Rightarrow> ((EbpfError + unit) \<times> MemoryRegion list) option" where
  "a_fill empty_slice regions expected_region_index =
     (if expected_region_index < length regions then
        let actual_region_index = region_number (regions ! expected_region_index) in
        if actual_region_index > expected_region_index then
          case empty_region empty_slice (saturating_mul (of_nat expected_region_index) MM_REGION_SIZE) of
            None \<Rightarrow> None
          | Some region \<Rightarrow>
              a_fill empty_slice
                (take expected_region_index regions @ region # drop expected_region_index regions)
                (expected_region_index + 1)
        else if actual_region_index < expected_region_index
        then Some (Inl (InvalidMemoryRegion actual_region_index), regions)
        else a_fill empty_slice regions (expected_region_index + 1)
      else Some (Inr (), regions))"
  by auto
termination
  by (relation "measures [\<lambda>(_, regions, e). length regions - e, \<lambda>(_, regions, e). region_number (regions ! e) - e]")
     (auto simp: nth_append)

declare a_fill.simps [simp del]

definition a_initialize ::
    "u64 \<Rightarrow> AlignedMemoryMapping \<Rightarrow> ((EbpfError + unit) \<times> AlignedMemoryMapping) option" where
  "a_initialize empty_slice mapping =
     (if a_allow_memory_region_zero mapping
      then do {
        res \<leftarrow> a_fill empty_slice (sort_key vm_addr (a_regions mapping)) 0;
        Some (fst res, mapping\<lparr>a_regions := snd res\<rparr>)
      }
      else do {
        region \<leftarrow> empty_region empty_slice 0;
        let regions = sort_key vm_addr (a_regions mapping @ [region]);
        let res = (case find (\<lambda>index. region_number (regions ! index) \<noteq> index) [0..<length regions] of
                     Some index \<Rightarrow> Inl (InvalidMemoryRegion index)
                   | None \<Rightarrow> Inr ());
        Some (res, mapping\<lparr>a_regions := regions\<rparr>)
      })"

definition a_new :: "u64 \<Rightarrow> MemoryRegion list \<Rightarrow> Config \<Rightarrow> (EbpfError + AlignedMemoryMapping) option" where
  "a_new empty_slice regions config =
     map_option (\<lambda>(res, mapping). map_sum id (\<lambda>_. mapping) res)
       (a_initialize empty_slice (a_new_uninitialized regions config))"

definition a_find_region :: "AlignedMemoryMapping \<Rightarrow> u64 \<Rightarrow> (nat \<times> MemoryRegion) option" where
  "a_find_region mapping a =
     (let index = unat (wrapping_shr a (of_nat VIRTUAL_ADDRESS_BITS)) in
      if index < length (a_regions mapping) \<and> (index > 0 \<or> a_allow_memory_region_zero mapping)
      then Some (index, a_regions mapping ! index) else None)"

definition a_replace_region ::
    "nat \<Rightarrow> MemoryRegion \<Rightarrow> AlignedMemoryMapping \<Rightarrow> ((EbpfError + unit) \<times> AlignedMemoryMapping) option" where
  "a_replace_region index region mapping =
     (let begin_index = region_number region;
          end_index =
            unat (case checked_shr (saturating_add (vm_addr region) (saturating_sub (mr_len region) 1))
                    VIRTUAL_ADDRESS_BITS of None \<Rightarrow> 0 | Some w \<Rightarrow> w)
      in if begin_index \<noteq> index \<or> end_index \<noteq> index
         then Some (Inl (InvalidMemoryRegion index), mapping)
         else do {
           regions \<leftarrow> update_opt (a_regions mapping) index region;
           Some (Inr (), mapping\<lparr>a_regions := regions\<rparr>)
         })"

section \<open>The common mapping\<close>

datatype MemoryMappingType =
    Aligned AlignedMemoryMapping
  | Unaligned UnalignedMemoryMapping

type_synonym AccessViolationHandler = "MemoryRegion \<Rightarrow> u64 \<Rightarrow> AccessType \<Rightarrow> u64 \<Rightarrow> u64 \<Rightarrow> MemoryRegion"

definition default_access_violation_handler :: AccessViolationHandler where
  "default_access_violation_handler region region_max_len access_type a len = region"

record MemoryMapping =
  access_violation_handler :: AccessViolationHandler
  mm_max_call_depth :: i64
  mm_stack_frame_size :: i64
  disable_address_translation :: bool
  mm_sbpf_version :: SBPFVersion
  initialized :: bool
  mm_ty :: MemoryMappingType

definition new_uninitialized ::
    "MemoryRegion list \<Rightarrow> Config \<Rightarrow> SBPFVersion \<Rightarrow> AccessViolationHandler \<Rightarrow> MemoryMapping option" where
  "new_uninitialized regions config v handler =
     (let is_aligned = V4 \<le> v \<or> aligned_memory_mapping config;
          ty = (if is_aligned then Aligned (a_new_uninitialized regions config)
                else Unaligned (u_new_uninitialized regions))
      in if \<not> is_aligned \<and> \<not> v \<le> V3 then None
         else Some \<lparr>access_violation_handler = handler,
                    mm_max_call_depth = of_nat (max_call_depth config),
                    mm_stack_frame_size = of_nat (stack_frame_size config),
                    disable_address_translation = (\<not> enable_address_translation config),
                    mm_sbpf_version = v,
                    initialized = False,
                    mm_ty = ty\<rparr>)"

definition initialize :: "u64 \<Rightarrow> MemoryMapping \<Rightarrow> ((EbpfError + unit) \<times> MemoryMapping) option" where
  "initialize empty_slice mapping =
     do {
       (result, ty) \<leftarrow>
         (case mm_ty mapping of
            Aligned inner \<Rightarrow> map_option (\<lambda>(r, i). (r, Aligned i)) (a_initialize empty_slice inner)
          | Unaligned inner \<Rightarrow> map_option (\<lambda>(r, i). (r, Unaligned i)) (u_initialize inner));
       Some (result, mapping\<lparr>mm_ty := ty, initialized := (result = Inr ())\<rparr>)
     }"

definition new_with_access_violation_handler ::
    "u64 \<Rightarrow> MemoryRegion list \<Rightarrow> Config \<Rightarrow> SBPFVersion \<Rightarrow> AccessViolationHandler
       \<Rightarrow> (EbpfError + MemoryMapping) option" where
  "new_with_access_violation_handler empty_slice regions config v handler =
     do {
       mapping \<leftarrow> new_uninitialized regions config v handler;
       (res, mapping') \<leftarrow> initialize empty_slice mapping;
       Some (map_sum id (\<lambda>_. mapping') res)
     }"

definition mapping_new ::
    "u64 \<Rightarrow> MemoryRegion list \<Rightarrow> Config \<Rightarrow> SBPFVersion \<Rightarrow> (EbpfError + MemoryMapping) option" where
  "mapping_new empty_slice regions config v =
     new_with_access_violation_handler empty_slice regions config v default_access_violation_handler"

definition find_region :: "MemoryMapping \<Rightarrow> u64 \<Rightarrow> ((nat \<times> MemoryRegion) option \<times> MemoryMapping) option" where
  "find_region mapping a =
     (if \<not> initialized mapping then None
      else case mm_ty mapping of
             Aligned inner \<Rightarrow> Some (a_find_region inner a, mapping)
           | Unaligned inner \<Rightarrow>
               map_option (\<lambda>(r, i). (r, mapping\<lparr>mm_ty := Unaligned i\<rparr>)) (u_find_region inner a))"

definition get_regions :: "MemoryMapping \<Rightarrow> MemoryRegion list" where
  "get_regions mapping =
     (case mm_ty mapping of Aligned inner \<Rightarrow> a_regions inner | Unaligned inner \<Rightarrow> u_regions inner)"

text \<open>
  \<open>get_regions_mut\<close> hands out the slice of regions for modification, so its effect is given
  by the regions \<open>regions'\<close> the caller leaves behind, which are as many as before.
\<close>

definition get_regions_mut :: "MemoryRegion list \<Rightarrow> MemoryMapping \<Rightarrow> MemoryMapping" where
  "get_regions_mut regions' mapping =
     mapping\<lparr>initialized := False,
             mm_ty := (case mm_ty mapping of
                         Aligned inner \<Rightarrow> Aligned (inner\<lparr>a_regions := regions'\<rparr>)
                       | Unaligned inner \<Rightarrow> Unaligned (inner\<lparr>u_regions := regions'\<rparr>))\<rparr>"

definition next_region_start :: "MemoryRegion list \<Rightarrow> nat \<Rightarrow> u64" where
  "next_region_start regions index =
     (case index_opt regions (index + 1) of None \<Rightarrow> - 1 | Some next_region \<Rightarrow> vm_addr next_region)"

definition replace_region ::
    "nat \<Rightarrow> MemoryRegion \<Rightarrow> MemoryMapping \<Rightarrow> ((EbpfError + unit) \<times> MemoryMapping) option" where
  "replace_region index region mapping =
     (if \<not> initialized mapping then None
      else
        let regions = get_regions mapping in
        if length regions \<le> index \<or> vm_addr (regions ! index) \<noteq> vm_addr region
           \<or> snd (vm_addr_range region) > next_region_start regions index
        then Some (Inl (InvalidMemoryRegion index), mapping)
        else case mm_ty mapping of
               Aligned inner \<Rightarrow>
                 map_option (\<lambda>(r, i). (r, mapping\<lparr>mm_ty := Aligned i\<rparr>)) (a_replace_region index region inner)
             | Unaligned inner \<Rightarrow>
                 map_option (\<lambda>(r, i). (r, mapping\<lparr>mm_ty := Unaligned i\<rparr>)) (u_replace_region index region inner))"

definition generate_access_violation :: "MemoryMapping \<Rightarrow> AccessType \<Rightarrow> u64 \<Rightarrow> u64 \<Rightarrow> ProgramResult" where
  "generate_access_violation mapping access_type a len =
     (let offset = signed_saturating_sub a MM_STACK_START;
          size = mm_stack_frame_size mapping;
          stack_frame = (if size = 0 \<or> offset = word_smin \<and> size = - 1 then 0 else word_sdiv offset size)
      in if \<not> manual_stack_frame_bump (mm_sbpf_version mapping) \<and> - 1 \<le> sint stack_frame \<and>
            sint stack_frame < sint (signed_saturating_add (mm_max_call_depth mapping) 1)
         then Err (StackAccessViolation access_type a len stack_frame)
         else
           let region_start = a AND NOT (saturating_sub MM_BYTECODE_START 1);
               region_name =
                 (if region_start = MM_BYTECODE_START then ''program''
                  else if region_start = MM_STACK_START then ''stack''
                  else if region_start = MM_HEAP_START then ''heap''
                  else if region_start = MM_INPUT_START then ''input''
                  else ''unknown'')
           in Err (AccessViolation access_type a len region_name))"

definition mapping_map :: "AccessType \<Rightarrow> u64 \<Rightarrow> u64 \<Rightarrow> MemoryMapping \<Rightarrow> (ProgramResult \<times> MemoryMapping) option" where
  "mapping_map access_type a len mapping =
     (if \<not> initialized mapping then None
      else if disable_address_translation mapping then Some (Ok a, mapping)
      else do {
        (found, mapping') \<leftarrow> find_region mapping a;
        Some (case found of
                Some (_, region) \<Rightarrow>
                  (case vm_to_host region access_type a len of
                     Some host \<Rightarrow> Ok host
                   | None \<Rightarrow> generate_access_violation mapping' access_type a len)
              | None \<Rightarrow> generate_access_violation mapping' access_type a len,
              mapping')
      })"

definition map_with_access_violation_handler ::
    "AccessType \<Rightarrow> u64 \<Rightarrow> u64 \<Rightarrow> MemoryMapping \<Rightarrow> (ProgramResult \<times> MemoryMapping) option" where
  "map_with_access_violation_handler access_type a len mapping0 =
     (if \<not> initialized mapping0 then None
      else if disable_address_translation mapping0 then Some (Ok a, mapping0)
      else do {
        (found, mapping) \<leftarrow> find_region mapping0 a;
        case found of
          None \<Rightarrow> Some (generate_access_violation mapping access_type a len, mapping)
        | Some (index, region) \<Rightarrow>
            (case vm_to_host region access_type a len of
               Some host \<Rightarrow> Some (Ok host, mapping)
             | None \<Rightarrow>
                 let max_len = saturating_sub (next_region_start (get_regions mapping) index) (vm_addr region);
                     region' = access_violation_handler mapping region max_len access_type a len
                 in case vm_to_host region' access_type a len of
                      None \<Rightarrow> Some (generate_access_violation mapping access_type a len, mapping)
                    | Some host \<Rightarrow> do {
                        (res, mapping') \<leftarrow> replace_region index region' mapping;
                        Some (case res of Inl err \<Rightarrow> Err err | Inr _ \<Rightarrow> Ok host, mapping')
                      })
      })"

section \<open>Loads and stores\<close>

type_synonym host_memory = "u64 \<Rightarrow> u8"

definition read_unaligned :: "nat \<Rightarrow> u64 \<Rightarrow> host_memory \<Rightarrow> u64" where
  "read_unaligned n host mem = le_word (map (\<lambda>i. mem (host + of_nat i)) [0..<n])"

definition write_unaligned :: "nat \<Rightarrow> u64 \<Rightarrow> u64 \<Rightarrow> host_memory \<Rightarrow> host_memory" where
  "write_unaligned n host v mem =
     fold (\<lambda>i mem. mem(host + of_nat i := le_bytes n v ! i)) [0..<n] mem"

text \<open>\<open>n\<close> is the size in bytes of the type that is loaded or stored.\<close>

definition mapping_load ::
    "nat \<Rightarrow> u64 \<Rightarrow> host_memory \<Rightarrow> MemoryMapping \<Rightarrow> (ProgramResult \<times> MemoryMapping) option" where
  "mapping_load n a mem mapping =
     (if \<not> n \<le> 8 \<or> \<not> initialized mapping then None
      else do {
        (res, mapping') \<leftarrow> map_with_access_violation_handler Load a (of_nat n) mapping;
        Some (case res of Ok host \<Rightarrow> Ok (read_unaligned n host mem) | Err err \<Rightarrow> Err err, mapping')
      })"

definition mapping_store ::
    "nat \<Rightarrow> u64 \<Rightarrow> u64 \<Rightarrow> host_memory \<Rightarrow> MemoryMapping \<Rightarrow> (ProgramResult \<times> host_memory \<times> MemoryMapping) option" where
  "mapping_store n v a mem mapping =
     (if \<not> n \<le> 8 \<or> \<not> initialized mapping then None
      else do {
        (res, mapping') \<leftarrow> map_with_access_violation_handler Store a (of_nat n) mapping;
        Some (case res of
                Ok host \<Rightarrow> (Ok host, write_unaligned n host v mem, mapping')
              | Err err \<Rightarrow> (Err err, mem, mapping'))
      })"

end
