(* ===== verification/Mapping_Lemmas.thy ===== *)
theory Mapping_Lemmas
  imports Memory_Mapping
begin

text \<open>
  Correctness of the memory mappings: the invariants that \<open>initialize\<close> establishes and
  every operation keeps, the transparency of the cache, and address translation as a search
  for the one region that contains the access.
\<close>

section \<open>Invariants\<close>

definition region_extent :: "MemoryRegion \<Rightarrow> nat" where
  "region_extent r = (if vm_gap_shift r = 63 then unat (mr_len r) else 2 * unat (mr_len r))"

text \<open>A region whose gap shift is in range and that ends inside the address space.\<close>

definition region_wf :: "MemoryRegion \<Rightarrow> bool" where
  "region_wf r \<longleftrightarrow> region_inv r \<and> unat (vm_addr r) + region_extent r < 2 ^ 64"

definition disjoint_regions :: "MemoryRegion list \<Rightarrow> bool" where
  "disjoint_regions regions \<longleftrightarrow>
     (\<forall>i. i + 1 < length regions \<longrightarrow> snd (vm_addr_range (regions ! i)) \<le> vm_addr (regions ! (i + 1)))"

definition cache_inv :: "MemoryRegion list \<Rightarrow> MappingCache \<Rightarrow> bool" where
  "cache_inv regions cache \<longleftrightarrow>
     length (cache_entries cache) = CACHE_SIZE \<and>
     (\<forall>(rng, index) \<in> set (cache_entries cache).
        fst rng < snd rng \<longrightarrow> index < length regions \<and> rng = vm_addr_range (regions ! index))"

definition u_inv :: "UnalignedMemoryMapping \<Rightarrow> bool" where
  "u_inv m \<longleftrightarrow>
     disjoint_regions (u_regions m) \<and> (\<forall>r \<in> set (u_regions m). region_wf r) \<and>
     length (region_addresses m) = length (u_regions m) \<and>
     length (region_index_lookup m) = length (u_regions m) \<and>
     numbered (u_regions m) (region_addresses m, region_index_lookup m) 0 (inord (length (u_regions m)) 1) \<and>
     cache_inv (u_regions m) (u_cache m)"

definition a_inv :: "AlignedMemoryMapping \<Rightarrow> bool" where
  "a_inv m \<longleftrightarrow>
     (\<forall>i < length (a_regions m).
        region_inv (a_regions m ! i) \<and> region_number (a_regions m ! i) = i \<and>
        unat (vm_addr (a_regions m ! i)) + region_extent (a_regions m ! i) \<le> (i + 1) * 2 ^ 32) \<and>
     (a_regions m \<noteq> [] \<and> \<not> a_allow_memory_region_zero m \<longrightarrow> mr_len (a_regions m ! 0) = 0)"

definition mapping_inv :: "MemoryMapping \<Rightarrow> bool" where
  "mapping_inv m \<longleftrightarrow>
     initialized m \<and> (case mm_ty m of Aligned inner \<Rightarrow> a_inv inner | Unaligned inner \<Rightarrow> u_inv inner)"

section \<open>Ranges of virtual addresses\<close>

lemma fst_vm_addr_range [simp]: "fst (vm_addr_range r) = vm_addr r"
  by (simp add: vm_addr_range_def)

lemma unat_saturating_mul: "unat (saturating_mul (a :: u64) b) = min (unat a * unat b) (2 ^ 64 - 1)"
proof (cases "unat a * unat b < 2 ^ 64")
  case True
  then have "unat (a * b) = unat a * unat b"
    by (intro unat_mult_lem [THEN iffD1]) simp
  then show ?thesis
    using True by (simp add: saturating_mul_def)
qed (simp add: saturating_mul_def unsigned_minus_1_eq_mask mask_eq_exp_minus_1)

lemma unat_vm_addr_range_end:
  "unat (snd (vm_addr_range r)) = min (unat (vm_addr r) + region_extent r) (2 ^ 64 - 1)"
  by (simp add: vm_addr_range_def region_extent_def unat_saturating_add unat_saturating_mul min_def)

lemma vm_addr_le_range_end: "vm_addr r \<le> snd (vm_addr_range r)"
  using unat_bound [of "vm_addr r"] by (simp add: word_le_nat_alt unat_vm_addr_range_end)

lemma disjoint_regions_later:
  assumes "disjoint_regions regions" and "i < j" and "j < length regions"
  shows "snd (vm_addr_range (regions ! i)) \<le> vm_addr (regions ! j)"
  using assms(2,3)
proof (induction j)
  case (Suc j)
  have step: "snd (vm_addr_range (regions ! j)) \<le> vm_addr (regions ! Suc j)"
    using assms(1) Suc.prems by (simp add: disjoint_regions_def)
  show ?case
  proof (cases "i = j")
    case False
    then have "snd (vm_addr_range (regions ! i)) \<le> vm_addr (regions ! j)"
      using Suc by simp
    then show ?thesis
      using step vm_addr_le_range_end [of "regions ! j"] by (meson order_trans)
  qed (use step in simp)
qed simp

lemma disjoint_regions_sorted:
  assumes "disjoint_regions regions"
  shows "sorted (map vm_addr regions)"
  using disjoint_regions_later [OF assms] vm_addr_le_range_end
  by (auto simp: sorted_iff_nth_mono_less intro: order_trans)

text \<open>The region that contains an address is the last one that starts at or below it.\<close>

lemma region_before_range:
  assumes "disjoint_regions regions" and "i < length regions"
    and "range_contains (vm_addr_range (regions ! i)) a"
  shows "region_before regions a = Some i"
  using assms disjoint_regions_later [OF assms(1), of i]
  by (auto simp: region_before_Some range_contains_def intro: less_le_trans)

lemma region_before_translatable:
  assumes "disjoint_regions regions" and "i < length regions" and "region_wf (regions ! i)"
    and "translatable (regions ! i) access_type a len" and "0 < len"
  shows "region_before regions a = Some i"
proof (rule region_before_range [OF assms(1,2)])
  have "unat a < unat (vm_addr (regions ! i)) + region_extent (regions ! i)"
    using translatable_end [OF _ assms(4,5)] assms(3) by (simp add: region_wf_def region_extent_def)
  moreover have "vm_addr (regions ! i) \<le> a"
    using assms(4) by (simp add: translatable_def)
  ultimately show "range_contains (vm_addr_range (regions ! i)) a"
    using assms(3) by (simp add: range_contains_def word_less_nat_alt unat_vm_addr_range_end region_wf_def min_def)
qed

section \<open>The cache\<close>

lemma find_SomeD: "find P xs = Some x \<Longrightarrow> x \<in> set xs \<and> P x"
  by (auto simp: find_Some_iff)

lemma cache_find_Some:
  assumes "cache_inv regions cache" and "cache_find cache a = Some i"
  shows "i < length regions \<and> range_contains (vm_addr_range (regions ! i)) a"
proof -
  let ?es = "map (\<lambda>i. cache_entries cache ! ((cache_head cache + i) mod CACHE_SIZE)) [0..<CACHE_SIZE]"
  obtain rng where "find (\<lambda>(vm_range, region_index). range_contains vm_range a) ?es = Some (rng, i)"
    using assms(2) by (auto simp: cache_find_def)
  then have "(rng, i) \<in> set ?es" and hit: "range_contains rng a"
    using find_SomeD by fastforce+
  moreover have "set ?es \<subseteq> set (cache_entries cache)"
    using assms(1) by (auto simp: cache_inv_def CACHE_SIZE_def)
  ultimately have "fst rng < snd rng \<longrightarrow> i < length regions \<and> rng = vm_addr_range (regions ! i)"
    using assms(1) by (auto simp: cache_inv_def)
  with hit show ?thesis
    by (auto simp: range_contains_def)
qed

lemma cache_inv_insert:
  assumes "cache_inv regions cache" and "i < length regions"
  shows "cache_inv regions (cache_insert (vm_addr_range (regions ! i)) i cache)"
  using assms by (auto simp: cache_inv_def cache_insert_def Let_def dest!: set_update_subset_insert [THEN subsetD])

lemma cache_inv_new: "cache_inv regions cache_new"
  by (auto simp: cache_inv_def cache_new_def)

lemma cache_inv_flush: "cache_inv regions (cache_flush cache)"
  by (auto simp: cache_inv_def cache_flush_def)

section \<open>The unaligned mapping\<close>

lemma u_find_region_eq:
  assumes "u_inv m"
  shows "\<exists>m'. u_find_region m a =
      Some (map_option (\<lambda>i. (i, u_regions m ! i)) (region_before (u_regions m) a), m') \<and>
    u_inv m' \<and> u_regions m' = u_regions m"
proof (cases "cache_find (u_cache m) a")
  case (Some i)
  then have "i < length (u_regions m)" "region_before (u_regions m) a = Some i"
    using assms cache_find_Some [of "u_regions m" "u_cache m" a i] region_before_range
    by (auto simp: u_inv_def)
  then show ?thesis
    using Some assms by (simp add: u_find_region_def)
next
  case None
  let ?index = "strip_index (eytzinger_search (region_addresses m) a 1)"
  have search: "region_before (u_regions m) a =
        (let index = ?index in if index = 0 then None else Some (region_index_lookup m ! (index - 1)))"
      "?index \<le> length (u_regions m)"
    using assms eytzinger_search_correct [of "region_addresses m" "u_regions m" "region_index_lookup m" a]
      disjoint_regions_sorted by (auto simp: u_inv_def)
  show ?thesis
  proof (cases "?index = 0")
    case True
    then show ?thesis
      using None assms search by (simp add: u_find_region_def)
  next
    case False
    let ?i = "region_index_lookup m ! (?index - 1)"
    have before: "region_before (u_regions m) a = Some ?i"
      using search False by (simp add: Let_def)
    then have "?i < length (u_regions m)"
      by (simp add: region_before_Some)
    then show ?thesis
      using None False assms search(2) before cache_inv_insert
      by (simp add: u_find_region_def Let_def u_inv_def)
  qed
qed

lemma first_overlap_None: "first_overlap regions = None \<longleftrightarrow> disjoint_regions regions"
proof -
  have "first_overlap regions = None \<longleftrightarrow>
      (\<forall>i. 1 \<le> i \<and> i < length regions \<longrightarrow> snd (vm_addr_range (regions ! (i - 1))) \<le> vm_addr (regions ! i))"
    by (auto simp: first_overlap_def find_None_iff not_less)
  also have "\<dots> \<longleftrightarrow> disjoint_regions regions"
    unfolding disjoint_regions_def by (metis add_diff_cancel_right' le_add2 le_add_diff_inverse2)
  finally show ?thesis .
qed

lemma u_initialize_eq:
  assumes "\<forall>r \<in> set (u_regions m). region_wf r"
    and "length (region_addresses m) = length (u_regions m)"
    and "length (region_index_lookup m) = length (u_regions m)"
    and "\<And>regions. cache_inv regions (u_cache m)"
  shows "\<exists>res m'. u_initialize m = Some (res, m') \<and>
    u_regions m' = sort_key vm_addr (u_regions m) \<and>
    (res = Inr () \<longleftrightarrow> disjoint_regions (sort_key vm_addr (u_regions m))) \<and>
    (res = Inr () \<longrightarrow> u_inv m')"
proof (cases "first_overlap (sort_key vm_addr (u_regions m))")
  case None
  obtain addrs lookup where
    "construct_eytzinger_order (sort_key vm_addr (u_regions m)) (region_addresses m, region_index_lookup m) 0 0
      = Some ((addrs, lookup), length (sort_key vm_addr (u_regions m)))"
    "length addrs = length (u_regions m)" "length lookup = length (u_regions m)"
    "numbered (sort_key vm_addr (u_regions m)) (addrs, lookup) 0 (inord (length (u_regions m)) 1)"
    using construct_root [of "region_addresses m" "sort_key vm_addr (u_regions m)" "region_index_lookup m"] assms(2,3)
    by auto
  moreover have "disjoint_regions (sort_key vm_addr (u_regions m))"
    using None by (simp only: first_overlap_None)
  ultimately show ?thesis
    using None assms by (simp add: u_initialize_def Let_def u_inv_def)
next
  case (Some i)
  then show ?thesis
    using first_overlap_None [of "sort_key vm_addr (u_regions m)"] by (simp add: u_initialize_def Let_def)
qed

section \<open>The interface of address translation\<close>

locale region_finder =
  fixes finder :: "'m \<Rightarrow> u64 \<Rightarrow> ((nat \<times> MemoryRegion) option \<times> 'm) option"
    and regions_of :: "'m \<Rightarrow> MemoryRegion list"
    and inv :: "'m \<Rightarrow> bool"
  assumes find_total: "inv m \<Longrightarrow>
      \<exists>res m'. finder m a = Some (res, m') \<and> inv m' \<and> regions_of m' = regions_of m"
    and find_sound: "inv m \<Longrightarrow> finder m a = Some (Some (i, r), m') \<Longrightarrow>
      i < length (regions_of m) \<and> r = regions_of m ! i"
    and find_complete: "inv m \<Longrightarrow> finder m a = Some (res, m') \<Longrightarrow> i < length (regions_of m) \<Longrightarrow>
      translatable (regions_of m ! i) access_type a len \<Longrightarrow> 0 < len \<Longrightarrow> res = Some (i, regions_of m ! i)"
    and regions_inv: "inv m \<Longrightarrow> r \<in> set (regions_of m) \<Longrightarrow> region_inv r"
begin

lemma finder_translates:
  assumes "inv m" and "0 < len" and "finder m a = Some (res, m')"
  shows "(\<exists>i r. res = Some (i, r) \<and> vm_to_host r access_type a len = Some h) \<longleftrightarrow>
    (\<exists>r \<in> set (regions_of m). vm_to_host r access_type a len = Some h)"
proof
  assume "\<exists>i r. res = Some (i, r) \<and> vm_to_host r access_type a len = Some h"
  then show "\<exists>r \<in> set (regions_of m). vm_to_host r access_type a len = Some h"
    using find_sound [OF assms(1)] assms(3) by (metis nth_mem)
next
  assume "\<exists>r \<in> set (regions_of m). vm_to_host r access_type a len = Some h"
  then obtain i where i: "i < length (regions_of m)"
      "vm_to_host (regions_of m ! i) access_type a len = Some h"
    by (auto simp: in_set_conv_nth)
  moreover have "region_inv (regions_of m ! i)"
    using regions_inv [OF assms(1)] i(1) by simp
  ultimately have "translatable (regions_of m ! i) access_type a len"
    by (simp add: vm_to_host_eq split: if_splits)
  then show "\<exists>i r. res = Some (i, r) \<and> vm_to_host r access_type a len = Some h"
    using find_complete [OF assms(1,3) i(1) _ assms(2)] i(2) by blast
qed

lemma translation_unique:
  assumes "inv m" and "0 < len"
    and "r \<in> set (regions_of m)" and "vm_to_host r access_type a len = Some h"
    and "r' \<in> set (regions_of m)" and "vm_to_host r' access_type a len = Some h'"
  shows "h = h'"
proof -
  obtain res m' where "finder m a = Some (res, m')"
    using find_total [OF assms(1)] by blast
  then show ?thesis
    using finder_translates [OF assms(1,2), of a res m'] assms(3-6) by (metis option.inject prod.inject)
qed

end

interpretation unaligned: region_finder u_find_region u_regions u_inv
proof unfold_locales
  fix m :: UnalignedMemoryMapping and a :: u64
  assume inv: "u_inv m"
  then show "\<exists>res m'. u_find_region m a = Some (res, m') \<and> u_inv m' \<and> u_regions m' = u_regions m"
    using u_find_region_eq by blast
  show "i < length (u_regions m) \<and> r = u_regions m ! i" if "u_find_region m a = Some (Some (i, r), m')" for i r m'
    using u_find_region_eq [OF inv, of a] that
    by (cases "region_before (u_regions m) a") (auto simp: region_before_Some)
  show "region_inv r" if "r \<in> set (u_regions m)" for r
    using inv that by (simp add: u_inv_def region_wf_def)
  show "res = Some (i, u_regions m ! i)"
    if "u_find_region m a = Some (res, m')" "i < length (u_regions m)"
      "translatable (u_regions m ! i) access_type a len" "0 < len" for res m' i access_type len
    using u_find_region_eq [OF inv, of a] region_before_translatable [OF _ that(2) _ that(3,4)] that inv
    by (auto simp: u_inv_def)
qed

section \<open>The aligned mapping\<close>

lemma unat_drop_bit_div: "unat (drop_bit n (w :: 'a::len word)) = unat w div 2 ^ n"
  unfolding unat_drop_bit_eq by (rule drop_bit_eq_div)

lemma region_number_eq: "region_number r = unat (vm_addr r) div 2 ^ 32"
  using unat_drop_bit_div [of 32 "vm_addr r"] by (simp add: region_number_def checked_shr_def)

lemma page_number: "unat (wrapping_shr a (of_nat VIRTUAL_ADDRESS_BITS)) = unat (a :: u64) div 2 ^ 32"
  using unat_drop_bit_div [of 32 a] by (simp add: wrapping_shr_def)

lemma a_find_region_complete:
  assumes "a_inv m" and "i < length (a_regions m)" and "translatable (a_regions m ! i) access_type a len" and "0 < len"
  shows "a_find_region m a = Some (i, a_regions m ! i)"
proof -
  let ?r = "a_regions m ! i"
  have r: "region_inv ?r" "unat (vm_addr ?r) div 2 ^ 32 = i" "unat (vm_addr ?r) + region_extent ?r \<le> (i + 1) * 2 ^ 32"
    using assms(1,2) by (simp_all add: a_inv_def region_number_eq)
  have "unat a < unat (vm_addr ?r) + region_extent ?r"
    using translatable_end [OF r(1) assms(3,4)] by (simp add: region_extent_def)
  moreover have "unat (vm_addr ?r) \<le> unat a"
    using assms(3) by (simp add: translatable_def word_le_nat_alt)
  ultimately have "unat a div 2 ^ 32 = i"
    using r(2,3) by (intro div_nat_eqI) auto
  moreover have "i > 0 \<or> a_allow_memory_region_zero m"
  proof (rule ccontr)
    assume "\<not> (i > 0 \<or> a_allow_memory_region_zero m)"
    then have "mr_len ?r = 0"
      using assms(1,2) by (cases "a_regions m") (auto simp: a_inv_def)
    then show False
      using assms(3,4) by (simp add: translatable_def word_less_nat_alt)
  qed
  ultimately show ?thesis
    using assms(2) by (simp add: a_find_region_def Let_def page_number [simplified])
qed

interpretation aligned: region_finder "\<lambda>m a. Some (a_find_region m a, m)" a_regions a_inv
proof unfold_locales
  fix m :: AlignedMemoryMapping and a :: u64
  assume inv: "a_inv m"
  then show "\<exists>res m'. Some (a_find_region m a, m) = Some (res, m') \<and> a_inv m' \<and> a_regions m' = a_regions m"
    by blast
  show "i < length (a_regions m) \<and> r = a_regions m ! i"
    if "Some (a_find_region m a, m) = Some (Some (i, r), m')" for i r m'
    using that by (auto simp: a_find_region_def Let_def split: if_splits)
  show "region_inv r" if "r \<in> set (a_regions m)" for r
    using inv that by (auto simp: a_inv_def in_set_conv_nth)
  show "res = Some (i, a_regions m ! i)"
    if "Some (a_find_region m a, m) = Some (res, m')" "i < length (a_regions m)"
      "translatable (a_regions m ! i) access_type a len" "0 < len" for res m' i access_type len
    using a_find_region_complete [OF inv that(2-4)] that(1) by auto
qed

section \<open>The common mapping\<close>

interpretation mapping: region_finder find_region get_regions mapping_inv
proof unfold_locales
  fix m :: MemoryMapping and a :: u64
  assume inv: "mapping_inv m"
  show "\<exists>res m'. find_region m a = Some (res, m') \<and> mapping_inv m' \<and> get_regions m' = get_regions m"
  proof (cases "mm_ty m")
    case (Aligned inner)
    then show ?thesis using inv by (simp add: find_region_def mapping_inv_def)
  next
    case (Unaligned inner)
    then show ?thesis
      using inv unaligned.find_total [of inner a]
      by (auto simp: find_region_def mapping_inv_def get_regions_def)
  qed
  show "i < length (get_regions m) \<and> r = get_regions m ! i" if found: "find_region m a = Some (Some (i, r), m')" for i r m'
  proof (cases "mm_ty m")
    case (Aligned inner)
    then show ?thesis
      using found inv aligned.find_sound [of inner a i r] by (simp add: find_region_def mapping_inv_def get_regions_def)
  next
    case (Unaligned inner)
    then obtain inner' where "u_find_region inner a = Some (Some (i, r), inner')"
      using found inv by (auto simp: find_region_def mapping_inv_def)
    then show ?thesis
      using Unaligned inv unaligned.find_sound [of inner a i r] by (simp add: mapping_inv_def get_regions_def)
  qed
  show "region_inv r" if "r \<in> set (get_regions m)" for r
    using that inv aligned.regions_inv unaligned.regions_inv
    by (cases "mm_ty m") (auto simp: mapping_inv_def get_regions_def)
  show "res = Some (i, get_regions m ! i)"
    if found: "find_region m a = Some (res, m')" and r: "i < length (get_regions m)"
      "translatable (get_regions m ! i) access_type a len" "0 < len" for res m' i access_type len
  proof (cases "mm_ty m")
    case (Aligned inner)
    then show ?thesis
      using found r inv a_find_region_complete [of inner i access_type a len]
      by (simp add: find_region_def mapping_inv_def get_regions_def)
  next
    case (Unaligned inner)
    then obtain inner' where "u_find_region inner a = Some (res, inner')"
      using found inv by (auto simp: find_region_def mapping_inv_def)
    then show ?thesis
      using Unaligned r inv unaligned.find_complete [of inner a res inner' i access_type len]
      by (simp add: mapping_inv_def get_regions_def)
  qed
qed

end
