(* ===== verification/Address_Translation.thy ===== *)
theory Address_Translation
  imports Mapping_Lemmas
begin

text \<open>
  The theorems about address translation: what \<open>map\<close> translates, what replacing a region
  and running an access violation handler keep, when the aligned mapping can be initialized,
  and that both kinds of mapping translate the same accesses.
\<close>

section \<open>Translation\<close>

lemma generate_access_violation_Err: "generate_access_violation m access_type a len \<noteq> Ok h"
  by (auto simp: generate_access_violation_def Let_def)

lemma mapping_map_spec:
  assumes "mapping_inv m" and "0 < len" and "\<not> disable_address_translation m"
  shows "\<exists>res m'. mapping_map access_type a len m = Some (res, m') \<and>
    mapping_inv m' \<and> get_regions m' = get_regions m \<and>
    (\<forall>h. res = Ok h \<longleftrightarrow> (\<exists>r \<in> set (get_regions m). vm_to_host r access_type a len = Some h))"
proof -
  obtain found m' where found: "find_region m a = Some (found, m')" "mapping_inv m'" "get_regions m' = get_regions m"
    using mapping.find_total [OF assms(1)] by blast
  have "initialized m"
    using assms(1) by (simp add: mapping_inv_def)
  then show ?thesis
    using assms(3) found mapping.finder_translates [OF assms(1,2) found(1), of access_type]
    by (auto simp: mapping_map_def generate_access_violation_Err split: option.splits)
qed

section \<open>Replacing a region\<close>

definition fits_page :: "MemoryMapping \<Rightarrow> nat \<Rightarrow> MemoryRegion \<Rightarrow> bool" where
  "fits_page m i r \<longleftrightarrow>
     (case mm_ty m of
        Aligned inner \<Rightarrow>
          unat (vm_addr r) + region_extent r \<le> (i + 1) * 2 ^ 32 \<and>
          (i = 0 \<and> \<not> a_allow_memory_region_zero inner \<longrightarrow> mr_len r = 0)
      | Unaligned _ \<Rightarrow> True)"

lemma numbered_same_addrs:
  assumes "map vm_addr regions' = map vm_addr regions"
    and "numbered regions arrays 0 ps" and "length ps \<le> length regions"
  shows "numbered regions' arrays 0 ps"
proof -
  have len: "length regions' = length regions"
    using assms(1) map_eq_imp_length_eq by blast
  have "vm_addr (regions' ! i) = vm_addr (regions ! i)" if "i < length regions" for i
    using assms(1) that len by (metis nth_map)
  moreover have "snd arrays ! (p - 1) < length regions" if "p \<in> set ps" for p
  proof -
    have "snd arrays ! (p - 1) \<in> set (map (\<lambda>p. snd arrays ! (p - 1)) ps)"
      using that by simp
    also have "\<dots> = set [0..<length ps]"
      using assms(2) by (simp only: numbered_def add_0)
    finally show ?thesis using assms(3) by simp
  qed
  ultimately show ?thesis
    using assms(2) by (simp add: numbered_def)
qed

lemma disjoint_regions_update:
  assumes "disjoint_regions regions" and "i < length regions" and "vm_addr r = vm_addr (regions ! i)"
    and "i + 1 < length regions \<Longrightarrow> snd (vm_addr_range r) \<le> vm_addr (regions ! (i + 1))"
  shows "disjoint_regions (regions[i := r])"
  using assms unfolding disjoint_regions_def by (auto simp: nth_list_update)

lemma u_replace_region_inv:
  assumes "u_inv m" and "i < length (u_regions m)" and "vm_addr r = vm_addr (u_regions m ! i)" and "region_wf r"
    and "i + 1 < length (u_regions m) \<Longrightarrow> snd (vm_addr_range r) \<le> vm_addr (u_regions m ! (i + 1))"
  shows "\<exists>m'. u_replace_region i r m = Some (Inr (), m') \<and> u_inv m' \<and> u_regions m' = (u_regions m)[i := r]"
proof -
  have "map vm_addr ((u_regions m)[i := r]) = map vm_addr (u_regions m)"
    using assms(3) by (simp add: map_update list_update_same_conv assms(2))
  then show ?thesis
    using assms disjoint_regions_update [of "u_regions m" i r] numbered_same_addrs [of "(u_regions m)[i := r]" "u_regions m"]
      cache_inv_flush length_inord_1 [of "length (u_regions m)"]
    by (auto simp: u_replace_region_def u_inv_def dest!: set_update_subset_insert [THEN subsetD])
qed

lemma a_replace_region_inv:
  assumes "a_inv m" and "i < length (a_regions m)" and "region_inv r"
    and "unat (vm_addr r) + region_extent r \<le> (i + 1) * 2 ^ 32"
    and "i = 0 \<and> \<not> a_allow_memory_region_zero m \<longrightarrow> mr_len r = 0"
  shows "\<exists>res m'. a_replace_region i r m = Some (res, m') \<and> a_inv m' \<and>
    (res = Inr () \<longrightarrow> a_regions m' = (a_regions m)[i := r]) \<and> (res \<noteq> Inr () \<longrightarrow> m' = m)"
proof (cases "a_replace_region i r m = Some (Inl (InvalidMemoryRegion i), m)")
  case True
  then show ?thesis using assms(1) by auto
next
  case False
  then have "region_number r = i"
    by (auto simp: a_replace_region_def Let_def split: if_splits)
  then have "a_inv (m\<lparr>a_regions := (a_regions m)[i := r]\<rparr>)"
    using assms by (auto simp: a_inv_def nth_list_update)
  then show ?thesis
    using False assms(2) by (auto simp: a_replace_region_def Let_def split: if_splits)
qed

lemma replace_region_inv:
  assumes "mapping_inv m" and "region_wf r" and "fits_page m i r"
  shows "\<exists>res m'. replace_region i r m = Some (res, m') \<and> mapping_inv m' \<and>
    (res = Inr () \<longrightarrow> i < length (get_regions m) \<and> get_regions m' = (get_regions m)[i := r]) \<and> 
    (res \<noteq> Inr () \<longrightarrow> m' = m) \<and> disable_address_translation m' = disable_address_translation m"
proof (cases "length (get_regions m) \<le> i \<or> vm_addr (get_regions m ! i) \<noteq> vm_addr r
    \<or> snd (vm_addr_range r) > next_region_start (get_regions m) i")
  case True
  then show ?thesis
    using assms(1) by (auto simp: replace_region_def mapping_inv_def Let_def)
next
  case False
  then have i: "i < length (get_regions m)" "vm_addr r = vm_addr (get_regions m ! i)"
      "i + 1 < length (get_regions m) \<Longrightarrow> snd (vm_addr_range r) \<le> vm_addr (get_regions m ! (i + 1))"
    by (auto simp: next_region_start_def not_less)
  show ?thesis
  proof (cases "mm_ty m")
    case (Aligned inner)
    then show ?thesis
      using a_replace_region_inv [of inner i r] assms i(1) False
      by (auto simp: replace_region_def mapping_inv_def get_regions_def fits_page_def region_wf_def)
  next
    case (Unaligned inner)
    then show ?thesis
      using u_replace_region_inv [of inner i r] assms i False
      by (auto simp: replace_region_def mapping_inv_def get_regions_def)
  qed
qed

section \<open>Access violation handlers\<close>

text \<open>
  A handler is well behaved on a mapping when the region it leaves behind is again well formed
  and stays in its page: what the safety comment of
  \<open>new_with_access_violation_handler\<close> asks for.
\<close>

definition handler_ok :: "MemoryMapping \<Rightarrow> bool" where
  "handler_ok m \<longleftrightarrow>
     (\<forall>i < length (get_regions m). \<forall>max_len access_type a len.
        let r = access_violation_handler m (get_regions m ! i) max_len access_type a len
        in region_wf r \<and> fits_page m i r)"

lemma find_region_frame:
  assumes "find_region m a = Some (found, m')"
  shows "access_violation_handler m' = access_violation_handler m"
    and "disable_address_translation m' = disable_address_translation m"
    and "fits_page m' i r = fits_page m i r"
  using assms by (auto simp: find_region_def fits_page_def split: if_splits MemoryMappingType.splits)

lemma map_with_access_violation_handler_spec:
  assumes "mapping_inv m" and "0 < len" and "\<not> disable_address_translation m" and "handler_ok m"
  shows "\<exists>res m'. map_with_access_violation_handler access_type a len m = Some (res, m') \<and>
    mapping_inv m' \<and>
    (\<forall>h. res = Ok h \<longrightarrow> (\<exists>r \<in> set (get_regions m'). vm_to_host r access_type a len = Some h))"
proof -
  have init: "initialized m"
    using assms(1) by (simp add: mapping_inv_def)
  obtain found m1 where f: "find_region m a = Some (found, m1)" "mapping_inv m1" "get_regions m1 = get_regions m"
    using mapping.find_total [OF assms(1)] by blast
  show ?thesis
  proof (cases found)
    case None
    then show ?thesis
      using init assms(3) f by (simp add: map_with_access_violation_handler_def generate_access_violation_Err)
  next
    case (Some ir)
    obtain i r where ir: "found = Some (i, r)" using Some by (cases ir) simp
    then have r: "i < length (get_regions m)" "r = get_regions m ! i"
      using mapping.find_sound [OF assms(1)] f(1) by auto
    define r' where "r' = access_violation_handler m1 r
      (saturating_sub (next_region_start (get_regions m1) i) (vm_addr r)) access_type a len"
    have "region_wf r'" "fits_page m1 i r'"
      using assms(4) r find_region_frame [OF f(1)] by (auto simp: handler_ok_def Let_def r'_def)
    then obtain res m2 where rep: "replace_region i r' m1 = Some (res, m2)" "mapping_inv m2"
        "res = Inr () \<longrightarrow> get_regions m2 = (get_regions m1)[i := r']"
      using replace_region_inv [OF f(2)] by blast
    have "r \<in> set (get_regions m1)" "res = Inr () \<longrightarrow> r' \<in> set (get_regions m2)"
      using r f(3) rep(3) by (auto simp: set_update_memI)
    then show ?thesis
      using init assms(3) f(1,2) ir rep(1,2)
      by (auto simp: map_with_access_violation_handler_def generate_access_violation_Err
          r'_def [symmetric] Let_def split: option.split sum.split)
  qed
qed

text \<open>The default handler changes nothing, so both translations agree.\<close>

lemma map_default_handler:
  assumes "access_violation_handler m = default_access_violation_handler"
  shows "map_with_access_violation_handler access_type a len m = mapping_map access_type a len m"
proof -
  have "access_violation_handler m' = default_access_violation_handler" if "find_region m a = Some (found, m')" for found m'
    using assms find_region_frame(1) [OF that] by simp
  then show ?thesis
    by (cases "find_region m a")
      (auto simp: map_with_access_violation_handler_def mapping_map_def default_access_violation_handler_def Let_def
        split: option.split)
qed

section \<open>Initialization of the aligned mapping\<close>

definition filler :: "MemoryRegion \<Rightarrow> bool" where
  "filler r \<longleftrightarrow> mr_len r = 0 \<and> vm_gap_shift r = 63 \<and> unat (vm_addr r) mod 2 ^ 32 = 0"

lemma empty_region_Some:
  "\<exists>r. empty_region empty_slice v = Some r \<and> vm_addr r = v \<and> mr_len r = 0 \<and> vm_gap_shift r = 63"
  by (simp add: empty_region_def region_new_def new_internal_def rust_simps Let_def)

lemma empty_region_number:
  assumes "e < 2 ^ 32"
  shows "\<exists>r. empty_region empty_slice (saturating_mul (of_nat e) MM_REGION_SIZE) = Some r \<and> filler r \<and> region_number r = e"
proof -
  have "unat (of_nat e :: u64) = e"
    using assms by (simp add: unsigned_of_nat take_bit_nat_eq_self)
  moreover have "unat MM_REGION_SIZE = 2 ^ 32"
    by (simp add: opcode_val)
  ultimately have "unat (saturating_mul (of_nat e) MM_REGION_SIZE) = e * 2 ^ 32"
    using assms by (simp add: unat_saturating_mul)
  then show ?thesis
    using empty_region_Some [of empty_slice "saturating_mul (of_nat e) MM_REGION_SIZE"]
    by (auto simp: filler_def region_number_eq)
qed

lemma region_number_bound: "region_number r < 2 ^ 32"
proof -
  have "unat (vm_addr r) < 2 ^ 32 * 2 ^ 32"
    using unat_bound [of "vm_addr r"] by simp
  then show ?thesis
    unfolding region_number_eq by (intro less_mult_imp_div_less)
qed

lemma strict_from_first:
  fixes f :: "'a \<Rightarrow> nat"
  assumes "e < length xs"
  shows "sorted_wrt (<) (map f (drop e xs)) \<and> (\<forall>x \<in> set (drop e xs). k \<le> f x) \<longleftrightarrow>
    k \<le> f (xs ! e) \<and> sorted_wrt (<) (map f (drop e xs))"
  using assms by (auto simp: Cons_nth_drop_Suc [symmetric])

lemma a_fill_spec:
  assumes "\<forall>i < e. i < length rs \<longrightarrow> region_number (rs ! i) = i"
  shows "\<exists>res rs'. a_fill empty_slice rs e = Some (res, rs') \<and>
    set rs \<subseteq> set rs' \<and> (\<forall>r \<in> set rs'. r \<in> set rs \<or> filler r) \<and>
    (res = Inr () \<longrightarrow> (\<forall>i < length rs'. region_number (rs' ! i) = i)) \<and>
    (res = Inr () \<longleftrightarrow> sorted_wrt (<) (map region_number (drop e rs)) \<and>
       (\<forall>r \<in> set (drop e rs). e \<le> region_number r))"
  using assms
proof (induction empty_slice rs e rule: a_fill.induct)
  case (1 empty_slice rs e)
  show ?case
  proof (cases "e < length rs")
    case False
    then show ?thesis
      using "1.prems" by (subst a_fill.simps) auto
  next
    case lt: True
    have drop_e: "drop e rs = rs ! e # drop (e + 1) rs"
      using lt by (simp add: Cons_nth_drop_Suc)
    consider "e < region_number (rs ! e)" | "region_number (rs ! e) < e" | "region_number (rs ! e) = e"
      by linarith
    then show ?thesis
    proof cases
      case 1
      obtain r where r: "empty_region empty_slice (saturating_mul (of_nat e) MM_REGION_SIZE) = Some r"
          "filler r" "region_number r = e"
        using empty_region_number [of e empty_slice] 1 region_number_bound [of "rs ! e"] by auto
      let ?rs = "take e rs @ r # drop e rs"
      have pre: "\<forall>i < e + 1. i < length ?rs \<longrightarrow> region_number (?rs ! i) = i"
        using "1.prems" lt r(3) by (auto simp: nth_append less_Suc_eq)
      have set: "set ?rs = insert r (set rs)"
        by (metis append_take_drop_id insert_is_Un list.set(2) set_append sup_left_commute)
      have drop': "drop (e + 1) ?rs = drop e rs"
        using lt by simp
      have step: "a_fill empty_slice rs e = a_fill empty_slice ?rs (e + 1)"
        using lt 1 r(1) by (subst a_fill.simps) simp
      show ?thesis
        using "1.IH"(1) [OF lt refl 1 r(1) pre] 1 strict_from_first [OF lt, of region_number] r(2)
        unfolding step set drop' by auto
    next
      case 2
      then show ?thesis
        using lt by (subst a_fill.simps) (auto simp: drop_e)
    next
      case 3
      have pre: "\<forall>i < e + 1. i < length rs \<longrightarrow> region_number (rs ! i) = i"
        using "1.prems" 3 by (auto simp: less_Suc_eq)
      have step: "a_fill empty_slice rs e = a_fill empty_slice rs (e + 1)"
        using lt 3 by (subst a_fill.simps) simp
      show ?thesis
        using "1.IH"(2) [OF lt refl _ _ pre] 3 unfolding step drop_e by (auto simp: Suc_le_eq) (meson less_imp_le)
    qed
  qed
qed

text \<open>A region that does not cross a boundary of the 4 GiB pages of the address space.\<close>

definition in_page :: "MemoryRegion \<Rightarrow> bool" where
  "in_page r \<longleftrightarrow> unat (vm_addr r) + region_extent r \<le> (region_number r + 1) * 2 ^ 32"

lemma filler_ok: "filler r \<Longrightarrow> region_inv r \<and> in_page r"
  by (simp add: filler_def region_inv_def in_page_def region_extent_def region_number_eq)

lemma a_inv_of_numbers:
  assumes "\<forall>i < length rs. region_number (rs ! i) = i" and "\<forall>r \<in> set rs. region_inv r \<and> in_page r"
    and "rs \<noteq> [] \<and> \<not> allow \<longrightarrow> mr_len (rs ! 0) = 0"
  shows "a_inv \<lparr>a_regions = rs, a_allow_memory_region_zero = allow\<rparr>"
  unfolding a_inv_def using assms by (metis (lifting) AlignedMemoryMapping.select_convs in_page_def nth_mem)

lemma sorted_region_numbers: "sorted (map region_number (sort_key vm_addr rs))"
proof -
  have "sorted (map vm_addr (sort_key vm_addr rs))"
    by (rule sorted_sort_key)
  then show ?thesis
    by (auto simp: sorted_map sorted_wrt_iff_nth_less region_number_eq word_le_nat_alt intro!: div_le_mono)
qed

lemma a_initialize_allow:
  assumes "a_allow_memory_region_zero m" and "\<forall>r \<in> set (a_regions m). region_inv r \<and> in_page r"
  shows "\<exists>res m'. a_initialize empty_slice m = Some (res, m') \<and>
    set (a_regions m) \<subseteq> set (a_regions m') \<and> (\<forall>r \<in> set (a_regions m'). r \<in> set (a_regions m) \<or> filler r) \<and>
    (res = Inr () \<longrightarrow> a_inv m') \<and>
    (res = Inr () \<longleftrightarrow> distinct (map region_number (a_regions m)))"
proof -
  let ?rs = "sort_key vm_addr (a_regions m)"
  obtain res rs' where fill: "a_fill empty_slice ?rs 0 = Some (res, rs')" "set ?rs \<subseteq> set rs'"
      "\<forall>r \<in> set rs'. r \<in> set ?rs \<or> filler r"
      "res = Inr () \<longrightarrow> (\<forall>i < length rs'. region_number (rs' ! i) = i)"
      "res = Inr () \<longleftrightarrow> sorted_wrt (<) (map region_number ?rs)"
    using a_fill_spec [of 0 ?rs empty_slice] by auto
  have "res = Inr () \<longleftrightarrow> distinct (map region_number (a_regions m))"
    using fill(5) sorted_region_numbers [of "a_regions m"]
    by (simp add: strict_sorted_iff distinct_map)
  moreover have "a_inv (m\<lparr>a_regions := rs'\<rparr>)" if "res = Inr ()"
    using a_inv_of_numbers [of rs' True] that fill(3,4) assms filler_ok by (cases m) auto
  ultimately show ?thesis
    using assms(1) fill(1-3) by (auto simp: a_initialize_def)
qed

lemma a_initialize_deny:
  assumes "\<not> a_allow_memory_region_zero m" and "\<forall>r \<in> set (a_regions m). region_inv r \<and> in_page r"
  shows "\<exists>res m'. a_initialize empty_slice m = Some (res, m') \<and>
    set (a_regions m) \<subseteq> set (a_regions m') \<and> (\<forall>r \<in> set (a_regions m'). r \<in> set (a_regions m) \<or> filler r) \<and>
    (res = Inr () \<longrightarrow> a_inv m')"
proof -
  obtain r0 where r0: "empty_region empty_slice 0 = Some r0" "vm_addr r0 = 0" "mr_len r0 = 0" "vm_gap_shift r0 = 63"
    using empty_region_Some by blast
  then have fill: "filler r0" "region_number r0 = 0"
    by (simp_all add: filler_def region_number_eq)
  let ?rs = "sort_key vm_addr (a_regions m @ [r0])"
  have "a_inv (m\<lparr>a_regions := ?rs\<rparr>)" if num: "\<forall>i < length ?rs. region_number (?rs ! i) = i"
  proof -
    have "r0 \<in> set ?rs" by simp
    then obtain j where "j < length ?rs" "?rs ! j = r0" by (metis in_set_conv_nth)
    then have "?rs ! 0 = r0" using num fill(2) by metis
    then show ?thesis
      using a_inv_of_numbers [OF num, of False] assms fill(1) filler_ok r0(3) by (cases m) auto
  qed
  moreover have "find (\<lambda>i. region_number (?rs ! i) \<noteq> i) [0..<length ?rs] = None \<longleftrightarrow>
      (\<forall>i < length ?rs. region_number (?rs ! i) = i)"
    by (auto simp: find_None_iff simp del: length_sort)
  ultimately have "find (\<lambda>i. region_number (?rs ! i) \<noteq> i) [0..<length ?rs] = None \<Longrightarrow>
      a_inv (m\<lparr>a_regions := ?rs\<rparr>)"
    by blast
  then show ?thesis
    using assms(1) r0(1) fill(1)
    by (cases "find (\<lambda>i. region_number (?rs ! i) \<noteq> i) [0..<length ?rs]")
       (auto simp: a_initialize_def Let_def)
qed

text \<open>Both kinds of mapping translate the same accesses to the same addresses.\<close>

lemma filler_not_translated: "filler r \<Longrightarrow> 0 < len \<Longrightarrow> vm_to_host r access_type a len = None"
  using filler_ok [of r] by (auto simp: vm_to_host_eq translatable_def filler_def word_less_nat_alt)

lemma translation_equivalence:
  assumes "\<forall>r \<in> set rs. region_wf r \<and> in_page r"
    and "a_initialize empty_slice \<lparr>a_regions = rs, a_allow_memory_region_zero = allow\<rparr> = Some (Inr (), ma)"
    and "u_initialize (u_new_uninitialized rs) = Some (Inr (), mu)"
    and "0 < len"
  shows "a_inv ma \<and> u_inv mu \<and>
    ((\<exists>r \<in> set (a_regions ma). vm_to_host r access_type a len = Some h) \<longleftrightarrow>
     (\<exists>r \<in> set (u_regions mu). vm_to_host r access_type a len = Some h))"
proof -
  have ok: "\<forall>r \<in> set rs. region_inv r \<and> in_page r"
    using assms(1) by (simp add: region_wf_def)
  have "a_inv ma \<and> set rs \<subseteq> set (a_regions ma) \<and> (\<forall>r \<in> set (a_regions ma). r \<in> set rs \<or> filler r)"
    using a_initialize_allow [of "\<lparr>a_regions = rs, a_allow_memory_region_zero = allow\<rparr>" empty_slice]
      a_initialize_deny [of "\<lparr>a_regions = rs, a_allow_memory_region_zero = allow\<rparr>" empty_slice] ok assms(2)
    by (cases allow) auto
  moreover have "u_inv mu \<and> set (u_regions mu) = set rs"
    using u_initialize_eq [of "u_new_uninitialized rs"] assms(1,3) cache_inv_new
    by (auto simp: u_new_uninitialized_def Let_def)
  ultimately show ?thesis
    using filler_not_translated [OF _ assms(4)] by fastforce
qed

lemma mapping_new_cases:
  assumes "mapping_new empty_slice rs config v = Some (Inr m)" and "v \<le> V3"
  shows "if aligned_memory_mapping config
    then \<exists>ma. a_initialize empty_slice
           \<lparr>a_regions = rs, a_allow_memory_region_zero = allow_memory_region_zero config\<rparr> = Some (Inr (), ma) \<and>
         mm_ty m = Aligned ma
    else \<exists>mu. u_initialize (u_new_uninitialized rs) = Some (Inr (), mu) \<and> mm_ty m = Unaligned mu"
    and "initialized m" and "disable_address_translation m = (\<not> enable_address_translation config)"
proof -
  have "\<not> V4 \<le> v"
    using assms(2) by (cases v) (simp_all add: less_eq_SBPFVersion_def)
  then show "if aligned_memory_mapping config
    then \<exists>ma. a_initialize empty_slice
           \<lparr>a_regions = rs, a_allow_memory_region_zero = allow_memory_region_zero config\<rparr> = Some (Inr (), ma) \<and>
         mm_ty m = Aligned ma
    else \<exists>mu. u_initialize (u_new_uninitialized rs) = Some (Inr (), mu) \<and> mm_ty m = Unaligned mu"
    and "initialized m" and "disable_address_translation m = (\<not> enable_address_translation config)"
    using assms
    by (auto simp: mapping_new_def new_with_access_violation_handler_def new_uninitialized_def initialize_def
        a_new_uninitialized_def bind_eq_Some_conv map_sum_eq_Inr_iff Let_def split: if_splits)
qed

text \<open>A small mapping for the witnesses: a read-only and a writable region.\<close>

definition sample_regions :: "MemoryRegion list" where
  "sample_regions =
     [\<lparr>host_addr = 0x10000, vm_addr = 0, mr_len = 0x100, vm_gap_shift = 63, writable = False,
       access_violation_handler_payload = None\<rparr>,
      \<lparr>host_addr = 0x20000, vm_addr = 0x100000000, mr_len = 0x80, vm_gap_shift = 63, writable = True,
       access_violation_handler_payload = None\<rparr>]"

definition sample_mapping :: MemoryMapping where
  "sample_mapping =
     \<lparr>access_violation_handler = default_access_violation_handler, mm_max_call_depth = 64,
      mm_stack_frame_size = 4096, disable_address_translation = False, mm_sbpf_version = V0,
      initialized = True,
      mm_ty = Aligned \<lparr>a_regions = sample_regions, a_allow_memory_region_zero = True\<rparr>\<rparr>"

lemma sample_regions_ok: "\<forall>r \<in> set sample_regions. region_wf r \<and> in_page r"
  by (simp add: sample_regions_def region_wf_def region_inv_def region_extent_def in_page_def region_number_eq)

lemma sample_mapping_inv: "mapping_inv sample_mapping"
  by (auto simp: sample_mapping_def mapping_inv_def a_inv_def sample_regions_def region_inv_def
      region_extent_def region_number_eq less_Suc_eq)

section \<open>Properties\<close>

text \<open>
  C24. On an initialized mapping \<open>map\<close> returns without a panic, keeps the invariant and the
  regions, and succeeds exactly when one of the regions translates the whole access, with the
  address that region gives. The kind of mapping, the search tree and the cache play no role.
\<close>

theorem map_translates_exactly:
  assumes "mapping_inv m" and "0 < len" and "\<not> disable_address_translation m"
  shows "\<exists>res m'. mapping_map access_type a len m = Some (res, m') \<and>
    mapping_inv m' \<and> get_regions m' = get_regions m \<and>
    (\<forall>h. res = Ok h \<longleftrightarrow> (\<exists>r \<in> set (get_regions m). vm_to_host r access_type a len = Some h))"
  using mapping_map_spec [OF assms] .

theorem map_translates_exactly_witness:
  "\<exists>m'. mapping_map Store 0x100000010 8 sample_mapping = Some (Ok 0x20010, m') \<and> mapping_inv m'"
proof -
  have "\<exists>r \<in> set (get_regions sample_mapping). vm_to_host r Store 0x100000010 8 = Some 0x20010"
    by (simp add: sample_mapping_def get_regions_def sample_regions_def vm_to_host_def rust_simps)
  then show ?thesis
    using map_translates_exactly [OF sample_mapping_inv, of 8 Store "0x100000010"]
    by (auto simp: sample_mapping_def)
qed

text \<open>
  C25. With a handler that leaves well-formed regions in their pages, translation keeps the
  invariant also when the handler replaces a region, and an address it returns is one that a
  region of the mapping afterwards gives for the access.
\<close>

theorem handler_keeps_invariant:
  assumes "mapping_inv m" and "0 < len" and "\<not> disable_address_translation m" and "handler_ok m"
  shows "\<exists>res m'. map_with_access_violation_handler access_type a len m = Some (res, m') \<and>
    mapping_inv m' \<and>
    (\<forall>h. res = Ok h \<longrightarrow> (\<exists>r \<in> set (get_regions m'). vm_to_host r access_type a len = Some h))"
  using map_with_access_violation_handler_spec [OF assms] .

theorem handler_keeps_invariant_witness:
  "\<exists>res m'. map_with_access_violation_handler Load 4 8 sample_mapping = Some (res, m') \<and> mapping_inv m'"
proof -
  have "handler_ok sample_mapping"
    using sample_mapping_inv
    by (auto simp: handler_ok_def sample_mapping_def get_regions_def default_access_violation_handler_def
        fits_page_def sample_regions_def region_wf_def region_inv_def region_extent_def less_Suc_eq)
  then show ?thesis
    using handler_keeps_invariant [OF sample_mapping_inv, of 8 Load 4] by (auto simp: sample_mapping_def)
qed

text \<open>
  C26. The aligned and the unaligned mapping of the same regions agree: for regions that stay
  inside their pages, an access is translated by one exactly when it is translated by the
  other, to the same host address.
\<close>

theorem mappings_agree:
  assumes "\<forall>r \<in> set rs. region_wf r \<and> in_page r" and "v \<le> V3" and "0 < len"
    and "enable_address_translation config"
    and "mapping_new empty_slice rs (config\<lparr>aligned_memory_mapping := True\<rparr>) v = Some (Inr ma)"
    and "mapping_new empty_slice rs (config\<lparr>aligned_memory_mapping := False\<rparr>) v = Some (Inr mu)"
  shows "(\<exists>ma'. mapping_map access_type a len ma = Some (Ok h, ma')) \<longleftrightarrow>
    (\<exists>mu'. mapping_map access_type a len mu = Some (Ok h, mu'))"
proof -
  obtain ia where ia: "a_initialize empty_slice
      \<lparr>a_regions = rs, a_allow_memory_region_zero = allow_memory_region_zero config\<rparr> = Some (Inr (), ia)"
      "mm_ty ma = Aligned ia" "initialized ma" "\<not> disable_address_translation ma"
    using mapping_new_cases [OF assms(5,2)] assms(4) by auto
  obtain iu where iu: "u_initialize (u_new_uninitialized rs) = Some (Inr (), iu)"
      "mm_ty mu = Unaligned iu" "initialized mu" "\<not> disable_address_translation mu"
    using mapping_new_cases [OF assms(6,2)] assms(4) by auto
  note eq = translation_equivalence [OF assms(1) ia(1) iu(1) assms(3), of access_type a h]
  have inv: "mapping_inv ma" "mapping_inv mu"
    using eq ia iu by (simp_all add: mapping_inv_def)
  show ?thesis
    using mapping_map_spec [OF inv(1) assms(3) ia(4), of access_type a]
      mapping_map_spec [OF inv(2) assms(3) iu(4), of access_type a] eq ia(2) iu(2)
    by (auto simp: get_regions_def)
qed

definition sample_aligned :: MemoryMapping where
  "sample_aligned = sample_mapping"

definition sample_unaligned :: MemoryMapping where
  "sample_unaligned =
     sample_mapping\<lparr>mm_ty := Unaligned \<lparr>u_regions = sample_regions, region_addresses = [0x100000000, 0],
       region_index_lookup = [1, 0], u_cache = cache_new\<rparr>\<rparr>"

lemma sample_new:
  "mapping_new 0 sample_regions (Config_default\<lparr>aligned_memory_mapping := True\<rparr>) V0 = Some (Inr sample_aligned)"
  "mapping_new 0 sample_regions (Config_default\<lparr>aligned_memory_mapping := False\<rparr>) V0 = Some (Inr sample_unaligned)"
  by (simp_all add: mapping_new_def new_with_access_violation_handler_def new_uninitialized_def initialize_def
      a_new_uninitialized_def a_initialize_def a_fill.simps region_number_eq u_new_uninitialized_def
      u_initialize_def first_overlap_def construct_eytzinger_order.simps vm_addr_range_def rust_simps
      sample_aligned_def sample_unaligned_def sample_mapping_def sample_regions_def Config_default_def
      get_stack_frame_size_def Let_def less_eq_SBPFVersion_def sort_key_def insort_key_def upt_rec)

theorem mappings_agree_witness:
  "(\<exists>ma'. mapping_map Load 0x20 4 sample_aligned = Some (Ok 0x10020, ma')) \<longleftrightarrow>
   (\<exists>mu'. mapping_map Load 0x20 4 sample_unaligned = Some (Ok 0x10020, mu'))"
  using mappings_agree [OF sample_regions_ok _ _ _ sample_new, of 4 Load "0x20" "0x10020"]
  by (simp add: less_eq_SBPFVersion_def Config_default_def)





text \<open>
  The sample mapping after a lookup of address \<open>0x10\<close>, which is now cached, and other
  regions for it: an empty region in front of the one that contains the address.
\<close>

definition cached_mapping :: MemoryMapping where
  "cached_mapping =
     sample_unaligned\<lparr>mm_ty := Unaligned \<lparr>u_regions = sample_regions, region_addresses = [0x100000000, 0],
       region_index_lookup = [1, 0], u_cache = cache_insert (0, 0x100) 0 cache_new\<rparr>\<rparr>"

definition stale_regions :: "MemoryRegion list" where
  "stale_regions =
     [\<lparr>host_addr = 0x30000, vm_addr = 0, mr_len = 0, vm_gap_shift = 63, writable = False,
       access_violation_handler_payload = None\<rparr>,
      \<lparr>host_addr = 0x10000, vm_addr = 0, mr_len = 0x100, vm_gap_shift = 63, writable = False,
       access_violation_handler_payload = None\<rparr>]"

definition stale_mapping :: MemoryMapping where
  "stale_mapping =
     sample_mapping\<lparr>mm_ty := Unaligned \<lparr>u_regions = stale_regions, region_addresses = [0, 0],
       region_index_lookup = [1, 0], u_cache = cache_insert (0, 0x100) 0 cache_new\<rparr>\<rparr>"

lemma cached_mapping_reached: "find_region sample_unaligned 0x10 = Some (Some (0, sample_regions ! 0), cached_mapping)"
  by (simp add: find_region_def cached_mapping_def sample_unaligned_def sample_mapping_def u_find_region_def cache_find_def cache_new_def
      CACHE_SIZE_def range_contains_def eytzinger_search.simps strip_index_def trailing_zeros.simps
      sample_regions_def vm_addr_range_def rust_simps Let_def upt_rec push_bit_eq_mult drop_bit_eq_div)

lemma stale_mapping_reached: "initialize 0 (get_regions_mut stale_regions cached_mapping) = Some (Inr (), stale_mapping)"
  by (simp add: initialize_def get_regions_mut_def cached_mapping_def sample_unaligned_def sample_mapping_def
      u_initialize_def stale_regions_def first_overlap_def construct_eytzinger_order.simps vm_addr_range_def
      rust_simps stale_mapping_def sort_key_def insort_key_def upt_rec Let_def)

lemma stale_mapping_refuses: "\<exists>m' e. mapping_map Load 0x10 8 stale_mapping = Some (Err e, m')"
  by (simp add: stale_mapping_def stale_regions_def sample_mapping_def mapping_map_def find_region_def u_find_region_def
      cache_find_def cache_insert_def cache_new_def CACHE_SIZE_def range_contains_def vm_to_host_def rust_simps
      generate_access_violation_def upt_rec Let_def)

text \<open>
  C33. Initializing an unaligned mapping again after its regions were changed does not flush
  the cache: a sequence of a lookup, a change of the regions and a successful initialization
  leads to a mapping that refuses an access one of its regions translates.
\<close>

theorem stale_cache_after_initialize:
  "(\<exists>found. find_region sample_unaligned 0x10 = Some (found, cached_mapping)) \<and>
   initialize 0 (get_regions_mut stale_regions cached_mapping) = Some (Inr (), stale_mapping) \<and>
   (\<exists>m' e. mapping_map Load 0x10 8 stale_mapping = Some (Err e, m')) \<and>
   (\<exists>r \<in> set (get_regions stale_mapping). vm_to_host r Load 0x10 8 = Some 0x10010)"
proof -
  have "\<exists>r \<in> set (get_regions stale_mapping). vm_to_host r Load 0x10 8 = Some 0x10010"
    by (simp add: stale_mapping_def stale_regions_def sample_mapping_def get_regions_def vm_to_host_def rust_simps)
  then show ?thesis
    using cached_mapping_reached stale_mapping_reached stale_mapping_refuses by blast
qed

end
