(* ===== verification/Executable.thy ===== *)
theory Executable
  imports Verifier Memory_Region
begin

text \<open>
  The executable of \<^verbatim>\<open>elf.rs\<close> after loading: its sections, the text bytes, the
  read-only region, its verification and its construction from raw instructions. The address
  that the allocator gave to a buffer is an argument of the operations that expose it
  (\<open>get_ro_region\<close>). \<open>PartialEq\<close> and \<open>mem_size\<close> are left out.
\<close>

datatype Section =
    Owned nat "u8 list"
  | Borrowed nat "nat \<times> nat"

record Executable =
  elf_bytes :: "u8 list"
  sbpf_version :: SBPFVersion
  ro_section :: Section
  text_section_vaddr :: u64
  text_section_range :: "nat \<times> nat"
  entry_pc :: nat
  ex_function_registry :: "nat FunctionRegistry"
  ex_loader :: BuiltinProgram

definition get_loader :: "Executable \<Rightarrow> BuiltinProgram" where
  "get_loader ex = ex_loader ex"

text \<open>\<open>BuiltinProgram::get_config\<close> panics for a built-in without configuration.\<close>

definition ex_get_config :: "Executable \<Rightarrow> Config option" where
  "ex_get_config ex = get_config (ex_loader ex)"

definition get_sbpf_version :: "Executable \<Rightarrow> SBPFVersion" where
  "get_sbpf_version ex = sbpf_version ex"

definition get_entrypoint_instruction_offset :: "Executable \<Rightarrow> nat" where
  "get_entrypoint_instruction_offset ex = entry_pc ex"

definition ex_get_function_registry :: "Executable \<Rightarrow> nat FunctionRegistry" where
  "ex_get_function_registry ex = ex_function_registry ex"

text \<open>The length of a range is zero when its end is below its start.\<close>

definition get_text_bytes :: "Executable \<Rightarrow> (u64 \<times> u8 list) option" where
  "get_text_bytes ex =
     (let text_len = snd (text_section_range ex) - fst (text_section_range ex) in
      do {
        text_bytes \<leftarrow>
          (case ro_section ex of
             Owned offset data \<Rightarrow>
               if unat (text_section_vaddr ex) < offset then None
               else
                 let text_offset = unat (text_section_vaddr ex) - offset
                 in slice_opt data text_offset (text_offset + text_len)
           | Borrowed _ _ \<Rightarrow>
               slice_opt (elf_bytes ex) (fst (text_section_range ex)) (snd (text_section_range ex)));
        Some (text_section_vaddr ex, text_bytes)
      })"

definition get_ro_section :: "Executable \<Rightarrow> u8 list option" where
  "get_ro_section ex =
     (case ro_section ex of
        Owned _ data \<Rightarrow> Some data
      | Borrowed _ byte_range \<Rightarrow> slice_opt (elf_bytes ex) (fst byte_range) (snd byte_range))"

text \<open>\<open>data_addr\<close> and \<open>elf_addr\<close> are the host addresses of the owned data and of the file.\<close>

definition section_ro_region :: "u64 \<Rightarrow> u64 \<Rightarrow> Section \<Rightarrow> u8 list \<Rightarrow> MemoryRegion option" where
  "section_ro_region data_addr elf_addr ro elf =
     do {
       (offset, host) \<leftarrow>
         (case ro of
            Owned offset data \<Rightarrow>
              Some (offset, \<lparr>host_address = data_addr, byte_length = length data, WRITABLE = False\<rparr>)
          | Borrowed offset byte_range \<Rightarrow>
              map_option
                (\<lambda>data. (offset, \<lparr>host_address = elf_addr + of_nat (fst byte_range),
                                  byte_length = length data, WRITABLE = False\<rparr>))
                (slice_opt elf (fst byte_range) (snd byte_range)));
       region_new host (of_nat offset)
     }"

definition get_ro_region :: "u64 \<Rightarrow> u64 \<Rightarrow> Executable \<Rightarrow> MemoryRegion option" where
  "get_ro_region data_addr elf_addr ex = section_ro_region data_addr elf_addr (ro_section ex) (elf_bytes ex)"

definition ex_verify :: "Executable \<Rightarrow> (EbpfError + unit) option" where
  "ex_verify ex =
     do {
       (_, text) \<leftarrow> get_text_bytes ex;
       config \<leftarrow> ex_get_config ex;
       res \<leftarrow> verify text config (get_sbpf_version ex);
       Some (map_sum VerifierError id res)
     }"

definition new_from_text_bytes ::
    "(u8 list \<Rightarrow> u32) \<Rightarrow> u8 list \<Rightarrow> BuiltinProgram \<Rightarrow> SBPFVersion \<Rightarrow> nat FunctionRegistry
       \<Rightarrow> (ElfError + Executable) option" where
  "new_from_text_bytes hash_symbol_name text_bytes loader v registry =
     do {
       entry \<leftarrow>
         (case lookup_by_name registry (str_bytes ''entrypoint'') of
            Some (_, pc) \<Rightarrow> Some (Inr (pc, registry))
          | None \<Rightarrow> do {
              (res, registry') \<leftarrow>
                register_function_hashed_legacy hash_symbol_name of_nat loader (\<not> static_syscalls v)
                  (str_bytes ''entrypoint'') 0 registry;
              Some (map_sum id (\<lambda>_. (0, registry')) res)
            });
       Some (map_sum id
         (\<lambda>(pc, registry').
            \<lparr>elf_bytes = text_bytes,
             sbpf_version = v,
             ro_section =
               Borrowed (unat (if enable_lower_rodata_vaddr v then MM_RODATA_START else MM_BYTECODE_START))
                 (0, length text_bytes),
             text_section_vaddr = MM_BYTECODE_START,
             text_section_range = (0, length text_bytes),
             entry_pc = pc,
             ex_function_registry = registry',
             ex_loader = loader\<rparr>)
         entry)
     }"

definition from_text_bytes ::
    "(u8 list \<Rightarrow> u32) \<Rightarrow> u8 list \<Rightarrow> BuiltinProgram \<Rightarrow> SBPFVersion \<Rightarrow> nat FunctionRegistry
       \<Rightarrow> (EbpfError + Executable) option" where
  "from_text_bytes hash_symbol_name text_bytes loader v registry =
     map_option (map_sum ElfError id) (new_from_text_bytes hash_symbol_name text_bytes loader v registry)"

section \<open>Lemmas\<close>

lemma new_from_text_bytes_fields:
  assumes "new_from_text_bytes hash_symbol_name text loader v registry = Some (Inr ex)"
  shows "get_text_bytes ex = Some (MM_BYTECODE_START, text)"
    and "get_sbpf_version ex = v" and "get_loader ex = loader" and "get_ro_section ex = Some text"
  using assms
  by (auto simp: new_from_text_bytes_def get_text_bytes_def get_sbpf_version_def get_loader_def get_ro_section_def
      map_sum_eq_Inr_iff split: option.splits bind_splits)

end
