(* ===== verification/Vm.thy ===== *)
theory Vm
  imports Executable Memory_Mapping
begin

text \<open>
  The virtual machine of \<^verbatim>\<open>vm.rs\<close>: its state, the context object that carries
  the instruction meter, and the built-in functions (\<^verbatim>\<open>program.rs\<close>,
  \<open>BuiltinFunctionDefinition\<close>) that a program can call.

  The trait \<open>ContextObject\<close> is a record of its operations; \<open>active_mapping_ptr\<close> points
  into the context object, and the model keeps the mapping it points to beside the rest of the
  context, together with the host memory that the mapping's regions refer to. A built-in
  function receives all three. A function pointer is an address; the argument \<open>syscalls\<close> of
  the operations gives the definition behind an address. The encryption of the pointer to the
  machine that is passed to a built-in function cancels out in \<open>with_vm\<close>.
\<close>

section \<open>Context objects and built-in functions\<close>

record 'c ContextObject =
  consume :: "u64 \<Rightarrow> 'c \<Rightarrow> 'c"
  get_remaining :: "'c \<Rightarrow> u64"

type_synonym 'c host_state = "'c \<times> MemoryMapping \<times> host_memory"

type_synonym 'c builtin =
  "u64 \<Rightarrow> u64 \<Rightarrow> u64 \<Rightarrow> u64 \<Rightarrow> u64 \<Rightarrow> 'c host_state \<Rightarrow> ((string + u64) \<times> 'c host_state) option"

type_synonym 'c syscalls = "BuiltinFunction \<Rightarrow> 'c builtin option"

section \<open>The state of the machine\<close>

record CallFrame =
  caller_saved_registers :: "u64 list"
  frame_pointer :: u64
  target_pc :: u64

definition CallFrame_default :: CallFrame where
  "CallFrame_default = \<lparr>caller_saved_registers = replicate SCRATCH_REGS 0, frame_pointer = 0, target_pc = 0\<rparr>"

record 'c EbpfVm =
  host_stack_pointer :: u64
  call_depth :: u64
  context_object :: 'c
  previous_instruction_meter :: u64
  due_insn_count :: u64
  stopwatch_numerator :: u64
  stopwatch_denominator :: u64
  registers :: "u64 list"
  program_result :: ProgramResult
  memory_mapping :: MemoryMapping
  vm_loader :: BuiltinProgram
  register_trace :: "u64 list list"
  host_mem :: host_memory

definition vm_new ::
    "BuiltinProgram \<Rightarrow> SBPFVersion \<Rightarrow> 'c host_state \<Rightarrow> nat \<Rightarrow> 'c EbpfVm option" where
  "vm_new loader v host stack_len =
     do {
       config \<leftarrow> get_config loader;
       let regs = (replicate 12 0)[FRAME_PTR_REG :=
             saturating_add MM_STACK_START
               (of_nat (if \<not> manual_stack_frame_bump v then stack_frame_size config else stack_len))];
       Some \<lparr>host_stack_pointer = 0, call_depth = 0, context_object = fst host,
             previous_instruction_meter = 0, due_insn_count = 0,
             stopwatch_numerator = 0, stopwatch_denominator = 0,
             registers = regs, program_result = Ok 0, memory_mapping = fst (snd host),
             vm_loader = loader, register_trace = [], host_mem = snd (snd host)\<rparr>
     }"

section \<open>Calling a built-in function\<close>

text \<open>The wrapper \<open>vm\<close> around the Rust side of a built-in function.\<close>

definition builtin_vm ::
    "'c ContextObject \<Rightarrow> 'c builtin \<Rightarrow> 'c EbpfVm \<Rightarrow> u64 \<Rightarrow> u64 \<Rightarrow> u64 \<Rightarrow> u64 \<Rightarrow> u64 \<Rightarrow> 'c EbpfVm option" where
  "builtin_vm co rust vm a b c d e =
     do {
       config \<leftarrow> get_config (vm_loader vm);
       let enable_insn_meter = enable_instruction_meter config;
       context \<leftarrow>
         (if enable_insn_meter then do {
            used_cus \<leftarrow> checked_sub (previous_instruction_meter vm) (due_insn_count vm);
            Some (consume co used_cus (context_object vm))
          } else Some (context_object vm));
       (res, context', mapping', mem') \<leftarrow> rust a b c d e (context, memory_mapping vm, host_mem vm);
       let converted_result = from_result (map_sum SyscallError id res);
       let vm' = vm\<lparr>context_object := context', memory_mapping := mapping', host_mem := mem',
                     program_result := converted_result\<rparr>;
       Some (if enable_insn_meter
             then vm'\<lparr>previous_instruction_meter := get_remaining co context'\<rparr> else vm')
     }"

definition invoke_function ::
    "'c ContextObject \<Rightarrow> 'c syscalls \<Rightarrow> BuiltinFunction \<Rightarrow> 'c EbpfVm \<Rightarrow> 'c EbpfVm option" where
  "invoke_function co syscalls function vm =
     do {
       rust \<leftarrow> syscalls function;
       builtin_vm co rust vm (registers vm ! 1) (registers vm ! 2) (registers vm ! 3)
         (registers vm ! 4) (registers vm ! 5)
     }"

datatype ExecutionMode = Interpreted | Jit | PreferJit

section \<open>The interface of an instruction meter\<close>

text \<open>
  What the machine relies on: consuming lowers the remaining budget and stops at zero. The
  lemmas account for a built-in call: the budget afterwards is at most what the instructions
  before the call left over, provided the function itself does not refund any.
\<close>

definition builtin_frugal :: "'c ContextObject \<Rightarrow> 'c builtin \<Rightarrow> bool" where
  "builtin_frugal co rust \<longleftrightarrow>
     (\<forall>a b c d e ctx mapping mem res ctx' mapping' mem'.
        rust a b c d e (ctx, mapping, mem) = Some (res, ctx', mapping', mem') \<longrightarrow>
        get_remaining co ctx' \<le> get_remaining co ctx)"

locale instruction_meter =
  fixes co :: "'c ContextObject"
  assumes remaining_consume: "get_remaining co (consume co n c) = saturating_sub (get_remaining co c) n"
begin

lemma consume_zero [simp]: "get_remaining co (consume co 0 c) = get_remaining co c"
  by (simp add: remaining_consume saturating_sub_def)

lemma consume_decreases: "get_remaining co (consume co n c) \<le> get_remaining co c"
  by (simp add: remaining_consume saturating_sub_def word_sub_le)

lemma builtin_vm_meter:
  assumes "builtin_vm co rust vm a b c d e = Some vm'" and "builtin_frugal co rust"
    and "get_config (vm_loader vm) = Some config" and "enable_instruction_meter config"
    and "previous_instruction_meter vm = get_remaining co (context_object vm)"
  shows "previous_instruction_meter vm' = get_remaining co (context_object vm')"
    and "previous_instruction_meter vm' \<le> due_insn_count vm"
proof -
  from assms obtain res ctx where step:
      "due_insn_count vm \<le> previous_instruction_meter vm"
      "rust a b c d e (consume co (previous_instruction_meter vm - due_insn_count vm) (context_object vm),
         memory_mapping vm, host_mem vm) = Some (res, ctx)"
      "vm' = vm\<lparr>context_object := fst ctx, memory_mapping := fst (snd ctx), host_mem := snd (snd ctx),
                program_result := from_result (map_sum SyscallError id res),
                previous_instruction_meter := get_remaining co (fst ctx)\<rparr>"
    by (auto simp: builtin_vm_def checked_sub_def split: if_splits bind_splits)
  then show "previous_instruction_meter vm' = get_remaining co (context_object vm')"
    by simp
  have "get_remaining co (fst ctx) \<le>
      get_remaining co (consume co (previous_instruction_meter vm - due_insn_count vm) (context_object vm))"
    using step(2) assms(2) unfolding builtin_frugal_def by (metis prod.collapse)
  also have "\<dots> = due_insn_count vm"
    using assms(5) step(1) by (simp add: remaining_consume saturating_sub_def word_sub_le)
  finally show "previous_instruction_meter vm' \<le> due_insn_count vm"
    using step(3) by simp
qed

end

section \<open>The context object of the test utilities\<close>

text \<open>\<open>TestContextObject\<close> of \<^verbatim>\<open>test_utils\<close>: a counter.\<close>

record TestContextObject =
  remaining :: u64

definition test_consume :: "u64 \<Rightarrow> TestContextObject \<Rightarrow> TestContextObject" where
  "test_consume amount c = c\<lparr>remaining := saturating_sub (remaining c) amount\<rparr>"

definition test_get_remaining :: "TestContextObject \<Rightarrow> u64" where
  "test_get_remaining c = remaining c"

definition test_context_object :: "TestContextObject ContextObject" where
  "test_context_object = \<lparr>consume = test_consume, get_remaining = test_get_remaining\<rparr>"

text \<open>\<open>SyscallGatherBytes\<close>.\<close>

definition syscall_gather_bytes :: "'c builtin" where
  "syscall_gather_bytes arg1 arg2 arg3 arg4 arg5 host =
     Some (Inr (wrapping_shl arg1 32 OR wrapping_shl arg2 24 OR wrapping_shl arg3 16
                OR wrapping_shl arg4 8 OR arg5), host)"

interpretation test_meter: instruction_meter test_context_object
  by unfold_locales (simp add: test_context_object_def test_consume_def test_get_remaining_def)

end
