(* ===== verification/Interpreter.thy ===== *)
theory Interpreter
  imports Vm
begin

text \<open>
  The interpreter of \<^verbatim>\<open>interpreter.rs\<close>. \<open>step\<close> executes one instruction: it
  returns whether the program goes on and the state afterwards, or \<open>None\<close> when the code
  panics. The \<open>match\<close> on the operation code is split by instruction class into the chains
  \<open>arms_ld_st\<close> \dots \<open>arms_jmp64\<close>, in the order of the source; a chain that matches gives
  the outcome of the arm. The two ways to leave an arm (the end of the \<open>match\<close>, which goes
  on at \<open>next_pc\<close>, and a \<open>return false\<close>) are the constructors of \<open>flow\<close>.

  The register file is an array of twelve words: a number taken from an instruction is
  checked against its length, a constant index is not. The host is little endian.
\<close>

record 'c Interpreter =
  vm :: "'c EbpfVm"
  executable :: Executable
  program :: "u8 list"
  program_vm_addr :: u64
  call_frames :: "CallFrame list"
  reg :: "u64 list"

datatype 'c flow = Next u64 "'c Interpreter" | Stop "'c Interpreter"

text \<open>The assertion on the number of call frames panics.\<close>

definition interpreter_new ::
    "'c EbpfVm \<Rightarrow> Executable \<Rightarrow> u64 list \<Rightarrow> CallFrame list \<Rightarrow> 'c Interpreter option" where
  "interpreter_new m ex regs frames =
     do {
       (vaddr, text) \<leftarrow> get_text_bytes ex;
       config \<leftarrow> ex_get_config ex;
       if \<not> length frames \<ge> max_call_depth config then None
       else Some \<lparr>vm = m, executable = ex, program = text, program_vm_addr = vaddr,
                  call_frames = frames, reg = regs\<rparr>
     }"

section \<open>Helpers\<close>

definition throw_error :: "EbpfError \<Rightarrow> 'c Interpreter \<Rightarrow> 'c Interpreter" where
  "throw_error err st =
     st\<lparr>vm := (vm st)\<lparr>registers := (registers (vm st))[11 := reg st ! 11], program_result := Err err\<rparr>\<rparr>"

definition reg_get :: "'c Interpreter \<Rightarrow> nat \<Rightarrow> u64 option" where
  "reg_get st i = index_opt (reg st) i"

definition reg_set :: "'c Interpreter \<Rightarrow> nat \<Rightarrow> u64 \<Rightarrow> 'c Interpreter option" where
  "reg_set st i v = map_option (\<lambda>regs. st\<lparr>reg := regs\<rparr>) (update_opt (reg st) i v)"

definition push_frame :: "Config \<Rightarrow> 'c Interpreter \<Rightarrow> (bool \<times> 'c Interpreter) option" where
  "push_frame config st =
     (let depth = call_depth (vm st); v = get_sbpf_version (executable st) in
      do {
        _ \<leftarrow> index_opt (call_frames st) (unat depth);
        pc' \<leftarrow> checked_add (reg st ! 11) 1;
        let frame = \<lparr>caller_saved_registers = take SCRATCH_REGS (drop FIRST_SCRATCH_REG (reg st)),
                     frame_pointer = reg st ! FRAME_PTR_REG,
                     target_pc = pc'\<rparr>;
        depth' \<leftarrow> checked_add depth 1;
        let st' = st\<lparr>call_frames := (call_frames st)[unat depth := frame],
                     vm := (vm st)\<lparr>call_depth := depth'\<rparr>\<rparr>;
        if unat depth' = max_call_depth config then Some (False, throw_error CallDepthExceeded st')
        else if \<not> manual_stack_frame_bump v then
          let num_frames = (if stack_frame_gaps v \<and> enable_stack_frame_gaps config then 2 else 1);
              size = stack_frame_size config * num_frames
          in if size > usize_max then None
             else Some (True, st'\<lparr>reg := (reg st')[FRAME_PTR_REG := reg st' ! FRAME_PTR_REG + of_nat size]\<rparr>)
        else Some (True, st')
      })"

definition sign_extension :: "SBPFVersion \<Rightarrow> i32 \<Rightarrow> u64" where
  "sign_extension v value = (if explicit_sign_extension_of_results v then ucast value else scast value)"

text \<open>The addition of a jump offset overflows an \<open>i64\<close> or gives the target.\<close>

definition jump_pc :: "u64 \<Rightarrow> i16 \<Rightarrow> u64 option" where
  "jump_pc next_pc off =
     (let t = sint next_pc + sint off
      in if - (2 ^ 63) \<le> t \<and> t < 2 ^ 63 then Some (word_of_int t) else None)"

text \<open>Integer division as Rust has it: by zero, and of the least value by \<open>-1\<close>, it panics.\<close>

definition div_opt :: "'a::len word \<Rightarrow> 'a word \<Rightarrow> 'a word option" where
  "div_opt a b = (if b = 0 then None else Some (a div b))"

definition rem_opt :: "'a::len word \<Rightarrow> 'a word \<Rightarrow> 'a word option" where
  "rem_opt a b = (if b = 0 then None else Some (a mod b))"

definition sdiv_opt :: "'a::len word \<Rightarrow> 'a word \<Rightarrow> 'a word option" where
  "sdiv_opt a b = (if b = 0 \<or> a = word_smin \<and> b = - 1 then None else Some (word_sdiv a b))"

definition srem_opt :: "'a::len word \<Rightarrow> 'a word \<Rightarrow> 'a word option" where
  "srem_opt a b = (if b = 0 \<or> a = word_smin \<and> b = - 1 then None else Some (word_srem a b))"

text \<open>
  An operation on two operands panics, throws an error or has a value. \<open>throw_zero\<close> and
  \<open>throw_overflow\<close> are the macro's cases for the divisor and the dividend.
\<close>

type_synonym operation = "u64 \<Rightarrow> u64 \<Rightarrow> (EbpfError + u64) option"

abbreviation lo32 :: "u64 \<Rightarrow> u32" where
  "lo32 w \<equiv> ucast w"

definition pure_op :: "(u64 \<Rightarrow> u64 \<Rightarrow> u64) \<Rightarrow> operation" where
  "pure_op f a b = Some (Inr (f a b))"

definition widen :: "'a::len word option \<Rightarrow> (EbpfError + u64) option" where
  "widen r = map_option (\<lambda>w. Inr (ucast w)) r"

definition throw_zero :: "'a::len word \<Rightarrow> (EbpfError + u64) option \<Rightarrow> (EbpfError + u64) option" where
  "throw_zero src r = (if src = 0 then Some (Inl DivideByZero) else r)"

definition throw_overflow ::
    "'a::len word \<Rightarrow> 'a word \<Rightarrow> (EbpfError + u64) option \<Rightarrow> (EbpfError + u64) option" where
  "throw_overflow src dst r = (if dst = word_smin \<and> src = - 1 then Some (Inl DivideOverflow) else r)"

definition swap_bytes :: "nat \<Rightarrow> 'a::len word \<Rightarrow> 'a word" where
  "swap_bytes n w = le_word (rev (le_bytes n w))"

definition to_le :: operation where
  "to_le d imm =
     Some (if imm = 16 then Inr (ucast (ucast d :: u16))
           else if imm = 32 then Inr (ucast (lo32 d))
           else if imm = 64 then Inr d
           else Inl InvalidInstruction)"

definition to_be :: operation where
  "to_be d imm =
     Some (if imm = 16 then Inr (ucast (swap_bytes 2 (ucast d :: u16)))
           else if imm = 32 then Inr (ucast (swap_bytes 4 (lo32 d)))
           else if imm = 64 then Inr (swap_bytes 8 d)
           else Inl InvalidInstruction)"

definition alu_write :: "(EbpfError + u64) \<Rightarrow> Insn \<Rightarrow> u64 \<Rightarrow> 'c Interpreter \<Rightarrow> 'c flow option" where
  "alu_write r insn next_pc st =
     (case r of
        Inl err \<Rightarrow> Some (Stop (throw_error err st))
      | Inr value \<Rightarrow> map_option (Next next_pc) (reg_set st (unat (i_dst insn)) value))"

definition alu_imm :: "operation \<Rightarrow> Insn \<Rightarrow> u64 \<Rightarrow> 'c Interpreter \<Rightarrow> 'c flow option" where
  "alu_imm f insn next_pc st =
     do {
       d \<leftarrow> reg_get st (unat (i_dst insn));
       r \<leftarrow> f d (i_imm insn);
       alu_write r insn next_pc st
     }"

definition alu_reg :: "operation \<Rightarrow> Insn \<Rightarrow> u64 \<Rightarrow> 'c Interpreter \<Rightarrow> 'c flow option" where
  "alu_reg f insn next_pc st =
     do {
       d \<leftarrow> reg_get st (unat (i_dst insn));
       s \<leftarrow> reg_get st (unat (i_src insn));
       r \<leftarrow> f d s;
       alu_write r insn next_pc st
     }"

definition load_dw_imm :: "Insn \<Rightarrow> u64 \<Rightarrow> 'c Interpreter \<Rightarrow> 'c flow option" where
  "load_dw_imm insn next_pc st =
     do {
       insn' \<leftarrow> augment_lddw_unchecked (program st) insn;
       st1 \<leftarrow> reg_set st (unat (i_dst insn)) (i_imm insn');
       pc \<leftarrow> checked_add (reg st1 ! 11) 1;
       next_pc' \<leftarrow> checked_add next_pc 1;
       Some (Next next_pc' (st1\<lparr>reg := (reg st1)[11 := pc]\<rparr>))
     }"

definition load_arm :: "nat \<Rightarrow> Insn \<Rightarrow> u64 \<Rightarrow> 'c Interpreter \<Rightarrow> 'c flow option" where
  "load_arm n insn next_pc st =
     do {
       s \<leftarrow> reg_get st (unat (i_src insn));
       let a = s + scast (i_off insn);
       (res, mapping) \<leftarrow> mapping_load n a (host_mem (vm st)) (memory_mapping (vm st));
       let st' = st\<lparr>vm := (vm st)\<lparr>memory_mapping := mapping\<rparr>\<rparr>;
       alu_write (to_result res) insn next_pc st'
     }"

definition store_value :: "nat \<Rightarrow> u64 \<Rightarrow> Insn \<Rightarrow> u64 \<Rightarrow> 'c Interpreter \<Rightarrow> 'c flow option" where
  "store_value n value insn next_pc st =
     do {
       d \<leftarrow> reg_get st (unat (i_dst insn));
       let a = d + scast (i_off insn);
       (res, mem, mapping) \<leftarrow> mapping_store n value a (host_mem (vm st)) (memory_mapping (vm st));
       let st' = st\<lparr>vm := (vm st)\<lparr>memory_mapping := mapping, host_mem := mem\<rparr>\<rparr>;
       Some (case res of Ok _ \<Rightarrow> Next next_pc st' | Err err \<Rightarrow> Stop (throw_error err st'))
     }"

definition store_imm :: "nat \<Rightarrow> Insn \<Rightarrow> u64 \<Rightarrow> 'c Interpreter \<Rightarrow> 'c flow option" where
  "store_imm n insn next_pc st = store_value n (i_imm insn) insn next_pc st"

definition store_reg :: "nat \<Rightarrow> Insn \<Rightarrow> u64 \<Rightarrow> 'c Interpreter \<Rightarrow> 'c flow option" where
  "store_reg n insn next_pc st =
     do { s \<leftarrow> reg_get st (unat (i_src insn)); store_value n s insn next_pc st }"

definition jump_arm :: "Insn \<Rightarrow> u64 \<Rightarrow> 'c Interpreter \<Rightarrow> 'c flow option" where
  "jump_arm insn next_pc st = map_option (\<lambda>pc. Next pc st) (jump_pc next_pc (i_off insn))"

definition jmp_imm :: "(u64 \<Rightarrow> u64 \<Rightarrow> bool) \<Rightarrow> Insn \<Rightarrow> u64 \<Rightarrow> 'c Interpreter \<Rightarrow> 'c flow option" where
  "jmp_imm cond insn next_pc st =
     do {
       d \<leftarrow> reg_get st (unat (i_dst insn));
       if cond d (i_imm insn) then jump_arm insn next_pc st else Some (Next next_pc st)
     }"

definition jmp_reg :: "(u64 \<Rightarrow> u64 \<Rightarrow> bool) \<Rightarrow> Insn \<Rightarrow> u64 \<Rightarrow> 'c Interpreter \<Rightarrow> 'c flow option" where
  "jmp_reg cond insn next_pc st =
     do {
       d \<leftarrow> reg_get st (unat (i_dst insn));
       s \<leftarrow> reg_get st (unat (i_src insn));
       if cond d s then jump_arm insn next_pc st else Some (Next next_pc st)
     }"

section \<open>The match on the operation code\<close>

definition arms_ld_st ::
    "SBPFVersion \<Rightarrow> Insn \<Rightarrow> u64 \<Rightarrow> 'c Interpreter \<Rightarrow> 'c flow option option" where
  "arms_ld_st v insn next_pc st =
     (let opc = i_opc insn in
      if opc = LD_DW_IMM \<and> \<not> disable_lddw v then Some (load_dw_imm insn next_pc st)
      else if opc = LD_B_REG \<and> \<not> move_memory_instruction_classes v then Some (load_arm 1 insn next_pc st)
      else if opc = LD_H_REG \<and> \<not> move_memory_instruction_classes v then Some (load_arm 2 insn next_pc st)
      else if opc = LD_W_REG \<and> \<not> move_memory_instruction_classes v then Some (load_arm 4 insn next_pc st)
      else if opc = LD_DW_REG \<and> \<not> move_memory_instruction_classes v then Some (load_arm 8 insn next_pc st)
      else if opc = ST_B_IMM \<and> \<not> move_memory_instruction_classes v then Some (store_imm 1 insn next_pc st)
      else if opc = ST_H_IMM \<and> \<not> move_memory_instruction_classes v then Some (store_imm 2 insn next_pc st)
      else if opc = ST_W_IMM \<and> \<not> move_memory_instruction_classes v then Some (store_imm 4 insn next_pc st)
      else if opc = ST_DW_IMM \<and> \<not> move_memory_instruction_classes v then Some (store_imm 8 insn next_pc st)
      else if opc = ST_B_REG \<and> \<not> move_memory_instruction_classes v then Some (store_reg 1 insn next_pc st)
      else if opc = ST_H_REG \<and> \<not> move_memory_instruction_classes v then Some (store_reg 2 insn next_pc st)
      else if opc = ST_W_REG \<and> \<not> move_memory_instruction_classes v then Some (store_reg 4 insn next_pc st)
      else if opc = ST_DW_REG \<and> \<not> move_memory_instruction_classes v then Some (store_reg 8 insn next_pc st)
      else None)"

definition arms_alu32_load ::
    "SBPFVersion \<Rightarrow> Insn \<Rightarrow> u64 \<Rightarrow> 'c Interpreter \<Rightarrow> 'c flow option option" where
  "arms_alu32_load v insn next_pc st =
     (let opc = i_opc insn in
      if opc = ADD32_IMM then Some (alu_imm (pure_op (\<lambda>d i. sign_extension v (lo32 d + lo32 i))) insn next_pc st)
      else if opc = ADD32_REG then Some (alu_reg (pure_op (\<lambda>d s. sign_extension v (lo32 d + lo32 s))) insn next_pc st)
      else if opc = SUB32_IMM then Some (if swap_sub_reg_imm_operands v then alu_imm (pure_op (\<lambda>d i. sign_extension v (lo32 i - lo32 d))) insn next_pc st
        else alu_imm (pure_op (\<lambda>d i. sign_extension v (lo32 d - lo32 i))) insn next_pc st)
      else if opc = SUB32_REG then Some (alu_reg (pure_op (\<lambda>d s. sign_extension v (lo32 d - lo32 s))) insn next_pc st)
      else if opc = MUL32_IMM \<and> \<not> enable_pqr v then Some (alu_imm (pure_op (\<lambda>d i. sign_extension v (lo32 d * lo32 i))) insn next_pc st)
      else if opc = MUL32_REG \<and> \<not> enable_pqr v then Some (alu_reg (pure_op (\<lambda>d s. sign_extension v (lo32 d * lo32 s))) insn next_pc st)
      else if opc = LD_1B_REG \<and> move_memory_instruction_classes v then Some (load_arm 1 insn next_pc st)
      else if opc = DIV32_IMM \<and> \<not> enable_pqr v then Some (alu_imm (\<lambda>d i. widen (div_opt (lo32 d) (lo32 i))) insn next_pc st)
      else if opc = DIV32_REG \<and> \<not> enable_pqr v then Some (alu_reg (\<lambda>d s. throw_zero (lo32 s) (widen (div_opt (lo32 d) (lo32 s)))) insn next_pc st)
      else if opc = LD_2B_REG \<and> move_memory_instruction_classes v then Some (load_arm 2 insn next_pc st)
      else if opc = OR32_IMM then Some (alu_imm (pure_op (\<lambda>d i. ucast (lo32 d OR lo32 i))) insn next_pc st)
      else if opc = OR32_REG then Some (alu_reg (pure_op (\<lambda>d s. ucast (lo32 d OR lo32 s))) insn next_pc st)
      else if opc = AND32_IMM then Some (alu_imm (pure_op (\<lambda>d i. ucast (lo32 d AND lo32 i))) insn next_pc st)
      else if opc = AND32_REG then Some (alu_reg (pure_op (\<lambda>d s. ucast (lo32 d AND lo32 s))) insn next_pc st)
      else if opc = LSH32_IMM then Some (alu_imm (pure_op (\<lambda>d i. ucast (wrapping_shl (lo32 d) (lo32 i)))) insn next_pc st)
      else if opc = LSH32_REG then Some (alu_reg (pure_op (\<lambda>d s. ucast (wrapping_shl (lo32 d) (lo32 s)))) insn next_pc st)
      else if opc = RSH32_IMM then Some (alu_imm (pure_op (\<lambda>d i. ucast (wrapping_shr (lo32 d) (lo32 i)))) insn next_pc st)
      else if opc = RSH32_REG then Some (alu_reg (pure_op (\<lambda>d s. ucast (wrapping_shr (lo32 d) (lo32 s)))) insn next_pc st)
      else if opc = NEG32 \<and> \<not> disable_neg v then Some (alu_imm (pure_op (\<lambda>d i. scast (- lo32 d) AND 0xffffffff)) insn next_pc st)
      else if opc = LD_4B_REG \<and> move_memory_instruction_classes v then Some (load_arm 4 insn next_pc st)
      else if opc = MOD32_IMM \<and> \<not> enable_pqr v then Some (alu_imm (\<lambda>d i. widen (rem_opt (lo32 d) (lo32 i))) insn next_pc st)
      else if opc = MOD32_REG \<and> \<not> enable_pqr v then Some (alu_reg (\<lambda>d s. throw_zero (lo32 s) (widen (rem_opt (lo32 d) (lo32 s)))) insn next_pc st)
      else if opc = LD_8B_REG \<and> move_memory_instruction_classes v then Some (load_arm 8 insn next_pc st)
      else if opc = XOR32_IMM then Some (alu_imm (pure_op (\<lambda>d i. ucast (lo32 d XOR lo32 i))) insn next_pc st)
      else if opc = XOR32_REG then Some (alu_reg (pure_op (\<lambda>d s. ucast (lo32 d XOR lo32 s))) insn next_pc st)
      else if opc = MOV32_IMM then Some (alu_imm (pure_op (\<lambda>d i. ucast (lo32 i))) insn next_pc st)
      else if opc = MOV32_REG then Some (alu_reg (pure_op (\<lambda>d s. if explicit_sign_extension_of_results v then scast (lo32 s) else ucast (lo32 s))) insn next_pc st)
      else if opc = ARSH32_IMM then Some (alu_imm (pure_op (\<lambda>d i. ucast (wrapping_sshr (lo32 d) (lo32 i)))) insn next_pc st)
      else if opc = ARSH32_REG then Some (alu_reg (pure_op (\<lambda>d s. ucast (wrapping_sshr (lo32 d) (lo32 s)))) insn next_pc st)
      else if opc = LE \<and> \<not> disable_le v then Some (alu_imm (\<lambda>d i. to_le d i) insn next_pc st)
      else if opc = BE then Some (alu_imm (\<lambda>d i. to_be d i) insn next_pc st)
      else None)"

definition arms_alu64_store ::
    "SBPFVersion \<Rightarrow> Insn \<Rightarrow> u64 \<Rightarrow> 'c Interpreter \<Rightarrow> 'c flow option option" where
  "arms_alu64_store v insn next_pc st =
     (let opc = i_opc insn in
      if opc = ADD64_IMM then Some (alu_imm (pure_op (\<lambda>d i. d + i)) insn next_pc st)
      else if opc = ADD64_REG then Some (alu_reg (pure_op (\<lambda>d s. d + s)) insn next_pc st)
      else if opc = SUB64_IMM then Some (if swap_sub_reg_imm_operands v then alu_imm (pure_op (\<lambda>d i. i - d)) insn next_pc st
        else alu_imm (pure_op (\<lambda>d i. d - i)) insn next_pc st)
      else if opc = SUB64_REG then Some (alu_reg (pure_op (\<lambda>d s. d - s)) insn next_pc st)
      else if opc = MUL64_IMM \<and> \<not> enable_pqr v then Some (alu_imm (pure_op (\<lambda>d i. d * i)) insn next_pc st)
      else if opc = ST_1B_IMM \<and> move_memory_instruction_classes v then Some (store_imm 1 insn next_pc st)
      else if opc = MUL64_REG \<and> \<not> enable_pqr v then Some (alu_reg (pure_op (\<lambda>d s. d * s)) insn next_pc st)
      else if opc = ST_1B_REG \<and> move_memory_instruction_classes v then Some (store_reg 1 insn next_pc st)
      else if opc = DIV64_IMM \<and> \<not> enable_pqr v then Some (alu_imm (\<lambda>d i. widen (div_opt d i)) insn next_pc st)
      else if opc = ST_2B_IMM \<and> move_memory_instruction_classes v then Some (store_imm 2 insn next_pc st)
      else if opc = DIV64_REG \<and> \<not> enable_pqr v then Some (alu_reg (\<lambda>d s. throw_zero s (widen (div_opt d s))) insn next_pc st)
      else if opc = ST_2B_REG \<and> move_memory_instruction_classes v then Some (store_reg 2 insn next_pc st)
      else if opc = OR64_IMM then Some (alu_imm (pure_op (\<lambda>d i. d OR i)) insn next_pc st)
      else if opc = OR64_REG then Some (alu_reg (pure_op (\<lambda>d s. d OR s)) insn next_pc st)
      else if opc = AND64_IMM then Some (alu_imm (pure_op (\<lambda>d i. d AND i)) insn next_pc st)
      else if opc = AND64_REG then Some (alu_reg (pure_op (\<lambda>d s. d AND s)) insn next_pc st)
      else if opc = LSH64_IMM then Some (alu_imm (pure_op (\<lambda>d i. wrapping_shl d (lo32 i))) insn next_pc st)
      else if opc = LSH64_REG then Some (alu_reg (pure_op (\<lambda>d s. wrapping_shl d (lo32 s))) insn next_pc st)
      else if opc = RSH64_IMM then Some (alu_imm (pure_op (\<lambda>d i. wrapping_shr d (lo32 i))) insn next_pc st)
      else if opc = RSH64_REG then Some (alu_reg (pure_op (\<lambda>d s. wrapping_shr d (lo32 s))) insn next_pc st)
      else if opc = ST_4B_IMM \<and> move_memory_instruction_classes v then Some (store_imm 4 insn next_pc st)
      else if opc = NEG64 \<and> \<not> disable_neg v then Some (alu_imm (pure_op (\<lambda>d i. - d)) insn next_pc st)
      else if opc = ST_4B_REG \<and> move_memory_instruction_classes v then Some (store_reg 4 insn next_pc st)
      else if opc = MOD64_IMM \<and> \<not> enable_pqr v then Some (alu_imm (\<lambda>d i. widen (rem_opt d i)) insn next_pc st)
      else if opc = ST_8B_IMM \<and> move_memory_instruction_classes v then Some (store_imm 8 insn next_pc st)
      else if opc = MOD64_REG \<and> \<not> enable_pqr v then Some (alu_reg (\<lambda>d s. throw_zero s (widen (rem_opt d s))) insn next_pc st)
      else if opc = ST_8B_REG \<and> move_memory_instruction_classes v then Some (store_reg 8 insn next_pc st)
      else if opc = XOR64_IMM then Some (alu_imm (pure_op (\<lambda>d i. d XOR i)) insn next_pc st)
      else if opc = XOR64_REG then Some (alu_reg (pure_op (\<lambda>d s. d XOR s)) insn next_pc st)
      else if opc = MOV64_IMM then Some (alu_imm (pure_op (\<lambda>d i. i)) insn next_pc st)
      else if opc = MOV64_REG then Some (alu_reg (pure_op (\<lambda>d s. s)) insn next_pc st)
      else if opc = ARSH64_IMM then Some (alu_imm (pure_op (\<lambda>d i. wrapping_sshr d (lo32 i))) insn next_pc st)
      else if opc = ARSH64_REG then Some (alu_reg (pure_op (\<lambda>d s. wrapping_sshr d (lo32 s))) insn next_pc st)
      else if opc = HOR64_IMM \<and> disable_lddw v then Some (alu_imm (pure_op (\<lambda>d i. d OR wrapping_shl i 32)) insn next_pc st)
      else None)"

definition arms_step_pqr ::
    "SBPFVersion \<Rightarrow> Insn \<Rightarrow> u64 \<Rightarrow> 'c Interpreter \<Rightarrow> 'c flow option option" where
  "arms_step_pqr v insn next_pc st =
     (let opc = i_opc insn in
      if opc = LMUL32_IMM \<and> enable_pqr v then Some (alu_imm (pure_op (\<lambda>d i. ucast (lo32 d * lo32 i))) insn next_pc st)
      else if opc = LMUL32_REG \<and> enable_pqr v then Some (alu_reg (pure_op (\<lambda>d s. ucast (lo32 d * lo32 s))) insn next_pc st)
      else if opc = LMUL64_IMM \<and> enable_pqr v then Some (alu_imm (pure_op (\<lambda>d i. d * i)) insn next_pc st)
      else if opc = LMUL64_REG \<and> enable_pqr v then Some (alu_reg (pure_op (\<lambda>d s. d * s)) insn next_pc st)
      else if opc = UHMUL64_IMM \<and> enable_pqr v then Some (alu_imm (pure_op (\<lambda>d i. ucast (wrapping_shr ((ucast d :: u128) * ucast (lo32 i)) 64))) insn next_pc st)
      else if opc = UHMUL64_REG \<and> enable_pqr v then Some (alu_reg (pure_op (\<lambda>d s. ucast (wrapping_shr ((ucast d :: u128) * ucast s) 64))) insn next_pc st)
      else if opc = SHMUL64_IMM \<and> enable_pqr v then Some (alu_imm (pure_op (\<lambda>d i. ucast (wrapping_sshr ((scast d :: i128) * scast i) 64))) insn next_pc st)
      else if opc = SHMUL64_REG \<and> enable_pqr v then Some (alu_reg (pure_op (\<lambda>d s. ucast (wrapping_sshr ((scast d :: i128) * scast s) 64))) insn next_pc st)
      else if opc = UDIV32_IMM \<and> enable_pqr v then Some (alu_imm (\<lambda>d i. widen (div_opt (lo32 d) (lo32 i))) insn next_pc st)
      else if opc = UDIV32_REG \<and> enable_pqr v then Some (alu_reg (\<lambda>d s. throw_zero (lo32 s) (widen (div_opt (lo32 d) (lo32 s)))) insn next_pc st)
      else if opc = UDIV64_IMM \<and> enable_pqr v then Some (alu_imm (\<lambda>d i. widen (div_opt d (ucast (lo32 i)))) insn next_pc st)
      else if opc = UDIV64_REG \<and> enable_pqr v then Some (alu_reg (\<lambda>d s. throw_zero s (widen (div_opt d s))) insn next_pc st)
      else if opc = UREM32_IMM \<and> enable_pqr v then Some (alu_imm (\<lambda>d i. widen (rem_opt (lo32 d) (lo32 i))) insn next_pc st)
      else if opc = UREM32_REG \<and> enable_pqr v then Some (alu_reg (\<lambda>d s. throw_zero (lo32 s) (widen (rem_opt (lo32 d) (lo32 s)))) insn next_pc st)
      else if opc = UREM64_IMM \<and> enable_pqr v then Some (alu_imm (\<lambda>d i. widen (rem_opt d (ucast (lo32 i)))) insn next_pc st)
      else if opc = UREM64_REG \<and> enable_pqr v then Some (alu_reg (\<lambda>d s. throw_zero s (widen (rem_opt d s))) insn next_pc st)
      else if opc = SDIV32_IMM \<and> enable_pqr v then Some (alu_imm (\<lambda>d i. throw_overflow (lo32 i) (lo32 d) (widen (sdiv_opt (lo32 d) (lo32 i)))) insn next_pc st)
      else if opc = SDIV32_REG \<and> enable_pqr v then Some (alu_reg (\<lambda>d s. throw_zero (lo32 s)
          (throw_overflow (lo32 s) (lo32 d) (widen (sdiv_opt (lo32 d) (lo32 s))))) insn next_pc st)
      else if opc = SDIV64_IMM \<and> enable_pqr v then Some (alu_imm (\<lambda>d i. throw_overflow i d (widen (sdiv_opt d i))) insn next_pc st)
      else if opc = SDIV64_REG \<and> enable_pqr v then Some (alu_reg (\<lambda>d s. throw_zero s (throw_overflow s d (widen (sdiv_opt d s)))) insn next_pc st)
      else if opc = SREM32_IMM \<and> enable_pqr v then Some (alu_imm (\<lambda>d i. throw_overflow (lo32 i) (lo32 d) (widen (srem_opt (lo32 d) (lo32 i)))) insn next_pc st)
      else if opc = SREM32_REG \<and> enable_pqr v then Some (alu_reg (\<lambda>d s. throw_zero (lo32 s)
          (throw_overflow (lo32 s) (lo32 d) (widen (srem_opt (lo32 d) (lo32 s))))) insn next_pc st)
      else if opc = SREM64_IMM \<and> enable_pqr v then Some (alu_imm (\<lambda>d i. throw_overflow i d (widen (srem_opt d i))) insn next_pc st)
      else if opc = SREM64_REG \<and> enable_pqr v then Some (alu_reg (\<lambda>d s. throw_zero s (throw_overflow s d (widen (srem_opt d s)))) insn next_pc st)
      else None)"

definition arms_jmp32 ::
    "SBPFVersion \<Rightarrow> Insn \<Rightarrow> u64 \<Rightarrow> 'c Interpreter \<Rightarrow> 'c flow option option" where
  "arms_jmp32 v insn next_pc st =
     (let opc = i_opc insn in
      if opc = JEQ32_IMM \<and> enable_jmp32 v then Some (jmp_imm (\<lambda>d i. lo32 d = lo32 i) insn next_pc st)
      else if opc = JEQ32_REG \<and> enable_jmp32 v then Some (jmp_reg (\<lambda>d s. lo32 d = lo32 s) insn next_pc st)
      else if opc = JGT32_IMM \<and> enable_jmp32 v then Some (jmp_imm (\<lambda>d i. lo32 d > lo32 i) insn next_pc st)
      else if opc = JGT32_REG \<and> enable_jmp32 v then Some (jmp_reg (\<lambda>d s. lo32 d > lo32 s) insn next_pc st)
      else if opc = JGE32_IMM \<and> enable_jmp32 v then Some (jmp_imm (\<lambda>d i. lo32 d \<ge> lo32 i) insn next_pc st)
      else if opc = JGE32_REG \<and> enable_jmp32 v then Some (jmp_reg (\<lambda>d s. lo32 d \<ge> lo32 s) insn next_pc st)
      else if opc = JLT32_IMM \<and> enable_jmp32 v then Some (jmp_imm (\<lambda>d i. lo32 d < lo32 i) insn next_pc st)
      else if opc = JLT32_REG \<and> enable_jmp32 v then Some (jmp_reg (\<lambda>d s. lo32 d < lo32 s) insn next_pc st)
      else if opc = JLE32_IMM \<and> enable_jmp32 v then Some (jmp_imm (\<lambda>d i. lo32 d \<le> lo32 i) insn next_pc st)
      else if opc = JLE32_REG \<and> enable_jmp32 v then Some (jmp_reg (\<lambda>d s. lo32 d \<le> lo32 s) insn next_pc st)
      else if opc = JSET32_IMM \<and> enable_jmp32 v then Some (jmp_imm (\<lambda>d i. lo32 d AND lo32 i \<noteq> 0) insn next_pc st)
      else if opc = JSET32_REG \<and> enable_jmp32 v then Some (jmp_reg (\<lambda>d s. lo32 d AND lo32 s \<noteq> 0) insn next_pc st)
      else if opc = JNE32_IMM \<and> enable_jmp32 v then Some (jmp_imm (\<lambda>d i. lo32 d \<noteq> lo32 i) insn next_pc st)
      else if opc = JNE32_REG \<and> enable_jmp32 v then Some (jmp_reg (\<lambda>d s. lo32 d \<noteq> lo32 s) insn next_pc st)
      else if opc = JSGT32_IMM \<and> enable_jmp32 v then Some (jmp_imm (\<lambda>d i. sint (lo32 d) > sint (lo32 i)) insn next_pc st)
      else if opc = JSGT32_REG \<and> enable_jmp32 v then Some (jmp_reg (\<lambda>d s. sint (lo32 d) > sint (lo32 s)) insn next_pc st)
      else if opc = JSGE32_IMM \<and> enable_jmp32 v then Some (jmp_imm (\<lambda>d i. sint (lo32 d) \<ge> sint (lo32 i)) insn next_pc st)
      else if opc = JSGE32_REG \<and> enable_jmp32 v then Some (jmp_reg (\<lambda>d s. sint (lo32 d) \<ge> sint (lo32 s)) insn next_pc st)
      else if opc = JSLT32_IMM \<and> enable_jmp32 v then Some (jmp_imm (\<lambda>d i. sint (lo32 d) < sint (lo32 i)) insn next_pc st)
      else if opc = JSLT32_REG \<and> enable_jmp32 v then Some (jmp_reg (\<lambda>d s. sint (lo32 d) < sint (lo32 s)) insn next_pc st)
      else if opc = JSLE32_IMM \<and> enable_jmp32 v then Some (jmp_imm (\<lambda>d i. sint (lo32 d) \<le> sint (lo32 i)) insn next_pc st)
      else if opc = JSLE32_REG \<and> enable_jmp32 v then Some (jmp_reg (\<lambda>d s. sint (lo32 d) \<le> sint (lo32 s)) insn next_pc st)
      else None)"

definition arms_jmp64 ::
    "SBPFVersion \<Rightarrow> Insn \<Rightarrow> u64 \<Rightarrow> 'c Interpreter \<Rightarrow> 'c flow option option" where
  "arms_jmp64 v insn next_pc st =
     (let opc = i_opc insn in
      if opc = JA then Some (jump_arm insn next_pc st)
      else if opc = JEQ64_IMM then Some (jmp_imm (\<lambda>d i. d = i) insn next_pc st)
      else if opc = JEQ64_REG then Some (jmp_reg (\<lambda>d s. d = s) insn next_pc st)
      else if opc = JGT64_IMM then Some (jmp_imm (\<lambda>d i. d > i) insn next_pc st)
      else if opc = JGT64_REG then Some (jmp_reg (\<lambda>d s. d > s) insn next_pc st)
      else if opc = JGE64_IMM then Some (jmp_imm (\<lambda>d i. d \<ge> i) insn next_pc st)
      else if opc = JGE64_REG then Some (jmp_reg (\<lambda>d s. d \<ge> s) insn next_pc st)
      else if opc = JLT64_IMM then Some (jmp_imm (\<lambda>d i. d < i) insn next_pc st)
      else if opc = JLT64_REG then Some (jmp_reg (\<lambda>d s. d < s) insn next_pc st)
      else if opc = JLE64_IMM then Some (jmp_imm (\<lambda>d i. d \<le> i) insn next_pc st)
      else if opc = JLE64_REG then Some (jmp_reg (\<lambda>d s. d \<le> s) insn next_pc st)
      else if opc = JSET64_IMM then Some (jmp_imm (\<lambda>d i. d AND i \<noteq> 0) insn next_pc st)
      else if opc = JSET64_REG then Some (jmp_reg (\<lambda>d s. d AND s \<noteq> 0) insn next_pc st)
      else if opc = JNE64_IMM then Some (jmp_imm (\<lambda>d i. d \<noteq> i) insn next_pc st)
      else if opc = JNE64_REG then Some (jmp_reg (\<lambda>d s. d \<noteq> s) insn next_pc st)
      else if opc = JSGT64_IMM then Some (jmp_imm (\<lambda>d i. sint d > sint i) insn next_pc st)
      else if opc = JSGT64_REG then Some (jmp_reg (\<lambda>d s. sint d > sint s) insn next_pc st)
      else if opc = JSGE64_IMM then Some (jmp_imm (\<lambda>d i. sint d \<ge> sint i) insn next_pc st)
      else if opc = JSGE64_REG then Some (jmp_reg (\<lambda>d s. sint d \<ge> sint s) insn next_pc st)
      else if opc = JSLT64_IMM then Some (jmp_imm (\<lambda>d i. sint d < sint i) insn next_pc st)
      else if opc = JSLT64_REG then Some (jmp_reg (\<lambda>d s. sint d < sint s) insn next_pc st)
      else if opc = JSLE64_IMM then Some (jmp_imm (\<lambda>d i. sint d \<le> sint i) insn next_pc st)
      else if opc = JSLE64_REG then Some (jmp_reg (\<lambda>d s. sint d \<le> sint s) insn next_pc st)
      else None)"

text \<open>The last arms need the configuration and the built-in functions.\<close>

definition check_pc :: "u64 \<Rightarrow> 'c Interpreter \<Rightarrow> 'c flow" where
  "check_pc pc st =
     (if is_pc_in_program (program st) (unat pc) then Next pc st
      else Stop (throw_error CallOutsideTextSegment st))"

definition call_reg :: "Config \<Rightarrow> Insn \<Rightarrow> 'c Interpreter \<Rightarrow> 'c flow option" where
  "call_reg config insn st =
     (let v = get_sbpf_version (executable st) in
      do {
        target \<leftarrow>
          (if callx_uses_src_reg v then reg_get st (unat (i_src insn))
           else if callx_uses_dst_reg v then reg_get st (unat (i_dst insn))
           else reg_get st (unat (i_imm insn)));
        (pushed, st') \<leftarrow> push_frame config st;
        Some (if \<not> pushed then Stop st'
              else check_pc ((target - program_vm_addr st') div of_nat INSN_SIZE) st')
      })"

definition dispatch_syscall ::
    "'c ContextObject \<Rightarrow> 'c syscalls \<Rightarrow> BuiltinFunction \<Rightarrow> 'c Interpreter \<Rightarrow> 'c Interpreter option" where
  "dispatch_syscall co syscalls function st =
     do {
       due \<leftarrow> checked_sub (previous_instruction_meter (vm st)) (due_insn_count (vm st));
       let vm1 = (vm st)\<lparr>due_insn_count := due,
                         registers := take 6 (reg st) @ drop 6 (registers (vm st))\<rparr>;
       vm2 \<leftarrow> invoke_function co syscalls function vm1;
       Some (st\<lparr>vm := vm2\<lparr>due_insn_count := 0\<rparr>\<rparr>)
     }"

text \<open>
  The external part of \<open>CALL_IMM\<close>: a \<open>return false\<close>, or the value of \<open>resolved\<close> and the
  state with which the arm goes on.
\<close>

definition call_external ::
    "'c ContextObject \<Rightarrow> 'c syscalls \<Rightarrow> Insn \<Rightarrow> 'c Interpreter \<Rightarrow> ('c Interpreter + bool \<times> 'c Interpreter) option" where
  "call_external co syscalls insn st =
     (if \<not> static_syscalls (get_sbpf_version (executable st)) \<or> i_src insn = 0 then
        case lookup_by_key (get_function_registry (get_loader (executable st))) (ucast (i_imm insn)) of
          Some (_, (callback, _)) \<Rightarrow> do {
            st' \<leftarrow> dispatch_syscall co syscalls callback st;
            Some (case program_result (vm st') of
                    Ok value \<Rightarrow> Inr (True, st'\<lparr>reg := (reg st')[0 := value]\<rparr>)
                  | Err _ \<Rightarrow> Inl st')
          }
        | None \<Rightarrow> Some (Inr (False, st))
      else Some (Inr (False, st)))"

definition call_internal ::
    "Config \<Rightarrow> Insn \<Rightarrow> u64 \<Rightarrow> bool \<Rightarrow> 'c Interpreter \<Rightarrow> 'c flow option" where
  "call_internal config insn next_pc resolved st =
     (let unresolved = Some (if resolved then Next next_pc st else Stop (throw_error UnsupportedInstruction st)) in
      if static_syscalls (get_sbpf_version (executable st)) then
        let target = signed_saturating_add next_pc (i_imm insn) in
        if is_pc_in_program (program st) (unat target) \<and> i_src insn = 1 then do {
          (pushed, st') \<leftarrow> push_frame config st;
          Some (if \<not> pushed then Stop st' else Next target st')
        } else unresolved
      else
        case lookup_by_key (ex_get_function_registry (executable st)) (ucast (i_imm insn)) of
          Some (_, target) \<Rightarrow> do {
            (pushed, st') \<leftarrow> push_frame config st;
            Some (if \<not> pushed then Stop st' else check_pc (of_nat target) st')
          }
        | None \<Rightarrow> unresolved)"

definition call_imm ::
    "'c ContextObject \<Rightarrow> 'c syscalls \<Rightarrow> Config \<Rightarrow> Insn \<Rightarrow> u64 \<Rightarrow> 'c Interpreter \<Rightarrow> 'c flow option" where
  "call_imm co syscalls config insn next_pc st =
     do {
       external \<leftarrow> call_external co syscalls insn st;
       case external of
         Inl st' \<Rightarrow> Some (Stop st')
       | Inr (resolved, st') \<Rightarrow> call_internal config insn next_pc resolved st'
     }"

definition exit_arm :: "Config \<Rightarrow> 'c Interpreter \<Rightarrow> 'c flow option" where
  "exit_arm config st =
     (if call_depth (vm st) = 0 then
        if enable_instruction_meter config \<and> due_insn_count (vm st) > previous_instruction_meter (vm st)
        then Some (Stop (throw_error ExceededMaxInstructions st))
        else Some (Stop (st\<lparr>vm := (vm st)\<lparr>program_result := Ok (reg st ! 0)\<rparr>\<rparr>))
      else
        let depth = call_depth (vm st) - 1 in
        do {
          frame \<leftarrow> index_opt (call_frames st) (unat depth);
          let regs = (reg st)[FRAME_PTR_REG := frame_pointer frame];
          let regs' = take FIRST_SCRATCH_REG regs @ caller_saved_registers frame
                        @ drop (FIRST_SCRATCH_REG + SCRATCH_REGS) regs;
          Some (Next (target_pc frame)
                  (st\<lparr>vm := (vm st)\<lparr>call_depth := depth\<rparr>, reg := regs'\<rparr>))
        })"

definition arms_call ::
    "'c ContextObject \<Rightarrow> 'c syscalls \<Rightarrow> Config \<Rightarrow> Insn \<Rightarrow> u64 \<Rightarrow> 'c Interpreter \<Rightarrow> 'c flow option option" where
  "arms_call co syscalls config insn next_pc st =
     (let opc = i_opc insn in
      if opc = CALL_REG then Some (call_reg config insn st)
      else if opc = CALL_IMM then Some (call_imm co syscalls config insn next_pc st)
      else if opc = EXIT then Some (exit_arm config st)
      else None)"

definition step_insn ::
    "'c ContextObject \<Rightarrow> 'c syscalls \<Rightarrow> Config \<Rightarrow> Insn \<Rightarrow> u64 \<Rightarrow> 'c Interpreter \<Rightarrow> 'c flow option" where
  "step_insn co syscalls config insn next_pc st =
     (let v = get_sbpf_version (executable st) in
      case or_else (arms_ld_st v insn next_pc st)
             (or_else (arms_alu32_load v insn next_pc st)
               (or_else (arms_alu64_store v insn next_pc st)
                 (or_else (arms_step_pqr v insn next_pc st)
                   (or_else (arms_jmp32 v insn next_pc st)
                     (or_else (arms_jmp64 v insn next_pc st)
                       (arms_call co syscalls config insn next_pc st)))))) of
        None \<Rightarrow> Some (Stop (throw_error UnsupportedInstruction st))
      | Some outcome \<Rightarrow> outcome)"

section \<open>One step and the main loop\<close>

definition step ::
    "'c ContextObject \<Rightarrow> 'c syscalls \<Rightarrow> 'c Interpreter \<Rightarrow> (bool \<times> 'c Interpreter) option" where
  "step co syscalls st =
     do {
       config \<leftarrow> ex_get_config (executable st);
       if enable_instruction_meter config \<and> due_insn_count (vm st) \<ge> previous_instruction_meter (vm st)
       then Some (False, throw_error ExceededMaxInstructions st)
       else do {
         due \<leftarrow> checked_add (due_insn_count (vm st)) 1;
         let st1 = st\<lparr>vm := (vm st)\<lparr>due_insn_count := due\<rparr>\<rparr>;
         if unat (reg st1 ! 11) * INSN_SIZE > usize_max then None
         else if unat (reg st1 ! 11) * INSN_SIZE \<ge> length (program st1)
         then Some (False, throw_error ExecutionOverrun st1)
         else do {
           next_pc \<leftarrow> checked_add (reg st1 ! 11) 1;
           insn \<leftarrow> get_insn_unchecked (program st1) (unat (reg st1 ! 11));
           let st2 = (if enable_register_tracing config
                      then st1\<lparr>vm := (vm st1)\<lparr>register_trace := register_trace (vm st1) @ [reg st1]\<rparr>\<rparr>
                      else st1);
           outcome \<leftarrow> step_insn co syscalls config insn next_pc st2;
           Some (case outcome of
                   Next pc st3 \<Rightarrow> (True, st3\<lparr>reg := (reg st3)[11 := pc]\<rparr>)
                 | Stop st3 \<Rightarrow> (False, st3))
         }
       }
     }"

text \<open>
  The loop \<open>while interpreter.step() {}\<close>. It may run forever when the meter is off:
  \<open>None\<close> is a loop that does not end, \<open>Some None\<close> a panic.
\<close>

partial_function (option) run_interpreter ::
    "'c ContextObject \<Rightarrow> 'c syscalls \<Rightarrow> 'c Interpreter \<Rightarrow> 'c Interpreter option option" where
  "run_interpreter co syscalls st =
     (case step co syscalls st of
        None \<Rightarrow> Some None
      | Some (go_on, st') \<Rightarrow> if go_on then run_interpreter co syscalls st' else Some (Some st'))"

section \<open>Executing a program\<close>

text \<open>
  \<open>execute_program\<close> returns the instruction count, the result and the state of the machine,
  and writes the mode it used back. \<open>compiled\<close> is the effect of invoking the compiled program
  on the machine, if there is one; \<open>None\<close> of the result is a run that does not return,
  \<open>Some None\<close> a panic.
\<close>

definition finish_execution ::
    "'c ContextObject \<Rightarrow> Config \<Rightarrow> u64 \<Rightarrow> 'c EbpfVm \<Rightarrow> (u64 \<times> ProgramResult) \<times> 'c EbpfVm" where
  "finish_execution co config initial_insn_count m =
     (let m1 = (if enable_instruction_meter config
                then m\<lparr>context_object := consume co (due_insn_count m) (context_object m)\<rparr> else m);
          instruction_count =
            (if enable_instruction_meter config
             then saturating_sub initial_insn_count (get_remaining co (context_object m1)) else 0)
      in ((instruction_count, program_result m1), m1\<lparr>program_result := Ok 0\<rparr>))"

definition execute_interpreted ::
    "'c ContextObject \<Rightarrow> 'c syscalls \<Rightarrow> Executable \<Rightarrow> CallFrame list \<Rightarrow> 'c EbpfVm
       \<Rightarrow> ('c EbpfVm \<times> CallFrame list) option option" where
  "execute_interpreted co syscalls ex frames m =
     (case interpreter_new m ex (registers m) frames of
        None \<Rightarrow> Some None
      | Some interpreter \<Rightarrow>
          map_option (map_option (\<lambda>st. (vm st, call_frames st))) (run_interpreter co syscalls interpreter))"

definition execute_program ::
    "'c ContextObject \<Rightarrow> 'c syscalls \<Rightarrow> (Config \<Rightarrow> u64 list \<Rightarrow> 'c EbpfVm \<Rightarrow> 'c EbpfVm option option) option
       \<Rightarrow> Executable \<Rightarrow> ExecutionMode \<Rightarrow> CallFrame list \<Rightarrow> 'c EbpfVm
       \<Rightarrow> ((u64 \<times> ProgramResult) \<times> ExecutionMode \<times> CallFrame list \<times> 'c EbpfVm) option option" where
  "execute_program co syscalls compiled ex mode frames m0 =
     (case ex_get_config ex of
        None \<Rightarrow> Some None
      | Some config \<Rightarrow>
          let initial_insn_count = get_remaining co (context_object m0);
              m = m0\<lparr>registers := (registers m0)[11 := of_nat (get_entrypoint_instruction_offset ex)],
                     previous_instruction_meter := initial_insn_count, due_insn_count := 0,
                     program_result := Ok 0\<rparr>;
              finish = map_option (map_option (\<lambda>(mode', frames', m').
                let (res, m'') = finish_execution co config initial_insn_count m'
                in (res, mode', frames', m'')));
              interpreted = finish (map_option (map_option (\<lambda>(m', frames'). (Interpreted, frames', m')))
                              (execute_interpreted co syscalls ex frames m));
              jit = (\<lambda>invoke. finish (map_option (map_option (\<lambda>m'. (Jit, frames, m')))
                              (invoke config (registers m) m)))
          in case mode of
               Interpreted \<Rightarrow> interpreted
             | PreferJit \<Rightarrow> (case compiled of Some invoke \<Rightarrow> jit invoke | None \<Rightarrow> interpreted)
             | Jit \<Rightarrow> (case compiled of
                 Some invoke \<Rightarrow> jit invoke
               | None \<Rightarrow> Some (Some ((0, Err JitNotCompiled), mode, frames, m))))"

end
