(* ===== verification/Interpreter_Lemmas.thy ===== *)
theory Interpreter_Lemmas
  imports Interpreter Address_Translation
begin

text \<open>
  Facts about the interpreter that do not depend on a property: the shape of every arm of the
  instruction match, and what an arm leaves unchanged.
\<close>

section \<open>The shape of an arm\<close>

text \<open>
  What the verifier guarantees about the immediate of a division; the shapes of arms are
  described under this condition.
\<close>

definition divisor_ok :: "SBPFVersion \<Rightarrow> Insn \<Rightarrow> bool" where
  "divisor_ok v insn \<longleftrightarrow> (opcode_arm v insn = Some Arm_imm_nonzero \<longrightarrow> lo32 (i_imm insn) \<noteq> 0)"

inductive arm_shape :: "SBPFVersion \<Rightarrow> Insn \<Rightarrow> u64 \<Rightarrow> 'c Interpreter \<Rightarrow> 'c flow option \<Rightarrow> bool"
  for v insn next_pc st where
  shape_alu_imm: "(\<And>d. divisor_ok v insn \<Longrightarrow> f d (i_imm insn) \<noteq> None) \<Longrightarrow>
     arm_shape v insn next_pc st (alu_imm f insn next_pc st)"
| shape_alu_reg: "(\<And>d s. f d s \<noteq> None) \<Longrightarrow> arm_shape v insn next_pc st (alu_reg f insn next_pc st)"
| shape_load: "n \<in> {1, 2, 4, 8} \<Longrightarrow> arm_shape v insn next_pc st (load_arm n insn next_pc st)"
| shape_store_imm: "n \<in> {1, 2, 4, 8} \<Longrightarrow> arm_shape v insn next_pc st (store_imm n insn next_pc st)"
| shape_store_reg: "n \<in> {1, 2, 4, 8} \<Longrightarrow> arm_shape v insn next_pc st (store_reg n insn next_pc st)"
| shape_lddw: "opcode_arm v insn = Some Arm_load_dw \<Longrightarrow>
     arm_shape v insn next_pc st (load_dw_imm insn next_pc st)"
| shape_jump: "opcode_arm v insn = Some Arm_jmp_offset \<Longrightarrow>
     arm_shape v insn next_pc st (jump_arm insn next_pc st)"
| shape_jmp_imm: "opcode_arm v insn = Some Arm_jmp_offset \<Longrightarrow>
     arm_shape v insn next_pc st (jmp_imm cond insn next_pc st)"
| shape_jmp_reg: "opcode_arm v insn = Some Arm_jmp_offset \<Longrightarrow>
     arm_shape v insn next_pc st (jmp_reg cond insn next_pc st)"

text \<open>Operations that have a value or throw an error for every operand.\<close>

lemma pure_op_total [simp]: "pure_op f a b \<noteq> None"
  by (simp add: pure_op_def)

lemma widen_eq_None_iff [simp]: "widen r = None \<longleftrightarrow> r = None"
  by (simp add: widen_def)

lemma throw_zero_total:
  "throw_zero b (widen (div_opt a b)) \<noteq> None" "throw_zero b (widen (rem_opt a b)) \<noteq> None"
  "throw_zero b (throw_overflow b a (widen (sdiv_opt a b))) \<noteq> None"
  "throw_zero b (throw_overflow b a (widen (srem_opt a b))) \<noteq> None"
  by (auto simp: throw_zero_def throw_overflow_def widen_def div_opt_def rem_opt_def sdiv_opt_def srem_opt_def)

lemma endian_total: "to_le d i \<noteq> None" "to_be d i \<noteq> None"
  by (simp_all add: to_le_def to_be_def)

lemma opcode_arm_nonzero:
  "i_opc insn \<in> {DIV32_IMM, MOD32_IMM, DIV64_IMM, MOD64_IMM} \<Longrightarrow> \<not> enable_pqr v \<Longrightarrow>
     opcode_arm v insn = Some Arm_imm_nonzero"
  "i_opc insn \<in> {UDIV32_IMM, UDIV64_IMM, UREM32_IMM, UREM64_IMM, SDIV32_IMM, SDIV64_IMM, SREM32_IMM, SREM64_IMM} \<Longrightarrow>
     enable_pqr v \<Longrightarrow> opcode_arm v insn = Some Arm_imm_nonzero"
  by (auto simp: opcode_arm_def arms_defs opcode_val version_features)

lemma opcode_arm_jmp32:
  "i_opc insn \<in> {JEQ32_IMM, JEQ32_REG, JGT32_IMM, JGT32_REG, JGE32_IMM, JGE32_REG,
        JLT32_IMM, JLT32_REG, JLE32_IMM, JLE32_REG, JSET32_IMM, JSET32_REG,
        JNE32_IMM, JNE32_REG, JSGT32_IMM, JSGT32_REG, JSGE32_IMM, JSGE32_REG,
        JSLT32_IMM, JSLT32_REG, JSLE32_IMM, JSLE32_REG} \<Longrightarrow> enable_jmp32 v \<Longrightarrow>
     opcode_arm v insn = Some Arm_jmp_offset"
  by (auto simp: opcode_arm_def arms_defs opcode_val version_features)

lemma opcode_arm_jmp64:
  "i_opc insn \<in> {JA, JEQ64_IMM, JEQ64_REG, JGT64_IMM, JGT64_REG, JGE64_IMM,
        JGE64_REG, JLT64_IMM, JLT64_REG, JLE64_IMM, JLE64_REG, JSET64_IMM,
        JSET64_REG, JNE64_IMM, JNE64_REG, JSGT64_IMM, JSGT64_REG, JSGE64_IMM,
        JSGE64_REG, JSLT64_IMM, JSLT64_REG, JSLE64_IMM, JSLE64_REG} \<Longrightarrow>
     opcode_arm v insn = Some Arm_jmp_offset"
  by (auto simp: opcode_arm_def arms_defs opcode_val version_features)

lemma divisor_total:
  assumes "opcode_arm v insn = Some Arm_imm_nonzero" and "divisor_ok v insn"
  shows "widen (div_opt d (i_imm insn)) \<noteq> None" "widen (rem_opt d (i_imm insn)) \<noteq> None"
    "widen (div_opt d32 (lo32 (i_imm insn))) \<noteq> None" "widen (rem_opt d32 (lo32 (i_imm insn))) \<noteq> None"
    "widen (div_opt d (ucast (lo32 (i_imm insn)))) \<noteq> None" "widen (rem_opt d (ucast (lo32 (i_imm insn)))) \<noteq> None"
    "throw_overflow (lo32 (i_imm insn)) d32 (widen (sdiv_opt d32 (lo32 (i_imm insn)))) \<noteq> None"
    "throw_overflow (lo32 (i_imm insn)) d32 (widen (srem_opt d32 (lo32 (i_imm insn)))) \<noteq> None"
    "throw_overflow (i_imm insn) d (widen (sdiv_opt d (i_imm insn))) \<noteq> None"
    "throw_overflow (i_imm insn) d (widen (srem_opt d (i_imm insn))) \<noteq> None"
proof -
  have nz: "lo32 (i_imm insn) \<noteq> 0"
    using assms by (simp add: divisor_ok_def)
  moreover have "i_imm insn \<noteq> 0"
    using nz by auto
  moreover have "(ucast (lo32 (i_imm insn)) :: u64) \<noteq> 0"
    using nz by (simp add: ucast_eq_0_iff)
  ultimately show "widen (div_opt d (i_imm insn)) \<noteq> None" "widen (rem_opt d (i_imm insn)) \<noteq> None"
    "widen (div_opt d32 (lo32 (i_imm insn))) \<noteq> None" "widen (rem_opt d32 (lo32 (i_imm insn))) \<noteq> None"
    "widen (div_opt d (ucast (lo32 (i_imm insn)))) \<noteq> None" "widen (rem_opt d (ucast (lo32 (i_imm insn)))) \<noteq> None"
    "throw_overflow (lo32 (i_imm insn)) d32 (widen (sdiv_opt d32 (lo32 (i_imm insn)))) \<noteq> None"
    "throw_overflow (lo32 (i_imm insn)) d32 (widen (srem_opt d32 (lo32 (i_imm insn)))) \<noteq> None"
    "throw_overflow (i_imm insn) d (widen (sdiv_opt d (i_imm insn))) \<noteq> None"
    "throw_overflow (i_imm insn) d (widen (srem_opt d (i_imm insn))) \<noteq> None"
    by (auto simp: throw_overflow_def widen_def div_opt_def rem_opt_def sdiv_opt_def srem_opt_def)
qed

lemma shape_pure_imm: "arm_shape v insn next_pc st (alu_imm (pure_op f) insn next_pc st)"
  by (rule shape_alu_imm) simp

lemma shape_pure_reg: "arm_shape v insn next_pc st (alu_reg (pure_op f) insn next_pc st)"
  by (rule shape_alu_reg) simp

lemma if_Some_impI:
  "(c \<Longrightarrow> Q a) \<Longrightarrow> (b = Some x \<longrightarrow> Q x) \<Longrightarrow> (if c then Some a else b) = Some x \<longrightarrow> Q x"
  by auto

lemmas shape_intros = shape_pure_imm shape_pure_reg shape_load shape_store_imm shape_store_reg
  shape_jmp_imm shape_jmp_reg shape_jump shape_lddw

lemmas shape_totals = throw_zero_total endian_total divisor_total

lemma arms_ld_st_shape: "arms_ld_st v insn next_pc st = Some r \<longrightarrow> arm_shape v insn next_pc st r"
  unfolding arms_ld_st_def Let_def
  by (intro if_Some_impI) (auto intro!: shape_intros simp: opcode_arm_load_dw)

lemma arms_jmp32_shape: "arms_jmp32 v insn next_pc st = Some r \<longrightarrow> arm_shape v insn next_pc st r"
  unfolding arms_jmp32_def Let_def
  by (intro if_Some_impI; (intro shape_jmp_imm shape_jmp_reg opcode_arm_jmp32)?; simp)

lemma arms_jmp64_shape: "arms_jmp64 v insn next_pc st = Some r \<longrightarrow> arm_shape v insn next_pc st r"
  unfolding arms_jmp64_def Let_def
  by (intro if_Some_impI; (intro shape_jmp_imm shape_jmp_reg shape_jump opcode_arm_jmp64)?; simp)

lemma arms_step_pqr_shape: "arms_step_pqr v insn next_pc st = Some r \<longrightarrow> arm_shape v insn next_pc st r"
  unfolding arms_step_pqr_def Let_def
  by (intro if_Some_impI; (rule shape_pure_imm shape_pure_reg)?;
      (rule shape_alu_reg; simp add: shape_totals)?;
      (rule shape_alu_imm; rule divisor_total; (simp add: opcode_arm_nonzero)?)?; simp?)

lemma arms_alu32_load_shape: "arms_alu32_load v insn next_pc st = Some r \<longrightarrow> arm_shape v insn next_pc st r"
  unfolding arms_alu32_load_def Let_def
  by (intro if_Some_impI; (rule shape_pure_imm shape_pure_reg)?;
      (rule shape_alu_reg; simp add: shape_totals)?;
      (rule shape_alu_imm; rule endian_total)?;
      (rule shape_alu_imm; rule divisor_total; (simp add: opcode_arm_nonzero)?)?; 
      (simp add: shape_intros)?)

lemma arms_alu64_store_shape: "arms_alu64_store v insn next_pc st = Some r \<longrightarrow> arm_shape v insn next_pc st r"
  unfolding arms_alu64_store_def Let_def
  by (intro if_Some_impI; (rule shape_pure_imm shape_pure_reg)?;
      (rule shape_alu_reg; simp add: shape_totals)?;
      (rule shape_alu_imm; rule divisor_total; (simp add: opcode_arm_nonzero)?)?; 
      (simp add: shape_intros)?)

lemma step_insn_cases:
  obtains (arm) "arm_shape (get_sbpf_version (executable st)) insn next_pc st
      (step_insn co syscalls config insn next_pc st)"
  | (call_reg) "i_opc insn = CALL_REG"
      "step_insn co syscalls config insn next_pc st = call_reg config insn st"
  | (call_imm) "i_opc insn = CALL_IMM"
      "step_insn co syscalls config insn next_pc st = call_imm co syscalls config insn next_pc st"
  | (exit) "i_opc insn = EXIT" "step_insn co syscalls config insn next_pc st = exit_arm config st"
  | (unsupported) "step_insn co syscalls config insn next_pc st = Some (Stop (throw_error UnsupportedInstruction st))"
proof (cases "or_else (arms_ld_st (get_sbpf_version (executable st)) insn next_pc st)
    (or_else (arms_alu32_load (get_sbpf_version (executable st)) insn next_pc st)
      (or_else (arms_alu64_store (get_sbpf_version (executable st)) insn next_pc st)
        (or_else (arms_step_pqr (get_sbpf_version (executable st)) insn next_pc st)
          (or_else (arms_jmp32 (get_sbpf_version (executable st)) insn next_pc st)
            (arms_jmp64 (get_sbpf_version (executable st)) insn next_pc st)))))")
  case None
  then have "step_insn co syscalls config insn next_pc st =
      (case arms_call co syscalls config insn next_pc st of
         None \<Rightarrow> Some (Stop (throw_error UnsupportedInstruction st)) | Some outcome \<Rightarrow> outcome)"
    by (simp add: step_insn_def Let_def or_else_eq_None_iff)
  then show ?thesis
    using call_reg call_imm exit unsupported by (simp add: arms_call_def Let_def split: if_splits)
next
  case (Some r)
  then have "step_insn co syscalls config insn next_pc st = r"
    by (auto simp: step_insn_def Let_def or_else_eq_Some_iff)
  moreover have "arm_shape (get_sbpf_version (executable st)) insn next_pc st r"
    using Some arms_ld_st_shape arms_alu32_load_shape arms_alu64_store_shape arms_step_pqr_shape
      arms_jmp32_shape arms_jmp64_shape
    unfolding or_else_eq_Some_iff by metis
  ultimately show ?thesis
    using arm by simp
qed

text \<open>An operation code of zero, the second slot of a wide load, is no instruction.\<close>

lemma step_insn_opcode_0:
  assumes "i_opc insn = 0"
  shows "step_insn co syscalls config insn next_pc st = Some (Stop (throw_error UnsupportedInstruction st))"
  unfolding step_insn_def arms_ld_st_def arms_alu32_load_def arms_alu64_store_def arms_step_pqr_def
    arms_jmp32_def arms_jmp64_def arms_call_def Let_def
  by (simp add: assms opcode_val)

section \<open>What an arm leaves unchanged\<close>

fun flow_state :: "'c flow \<Rightarrow> 'c Interpreter" where
  "flow_state (Next pc st) = st"
| "flow_state (Stop st) = st"

definition same_image :: "'c Interpreter \<Rightarrow> 'c Interpreter \<Rightarrow> bool" where
  "same_image st st' \<longleftrightarrow>
     executable st' = executable st \<and> program st' = program st \<and> program_vm_addr st' = program_vm_addr st \<and>
     vm_loader (vm st') = vm_loader (vm st) \<and>
     length (reg st') = length (reg st) \<and> length (registers (vm st')) = length (registers (vm st)) \<and>
     length (call_frames st') = length (call_frames st)"

definition same_control :: "'c Interpreter \<Rightarrow> 'c Interpreter \<Rightarrow> bool" where
  "same_control st st' \<longleftrightarrow> same_image st st' \<and>
     call_frames st' = call_frames st \<and> call_depth (vm st') = call_depth (vm st) \<and>
     context_object (vm st') = context_object (vm st) \<and>
     previous_instruction_meter (vm st') = previous_instruction_meter (vm st) \<and>
     due_insn_count (vm st') = due_insn_count (vm st)"

lemma same_image_refl [simp]: "same_image st st"
  by (simp add: same_image_def)

lemma same_image_trans [trans]: "same_image st st' \<Longrightarrow> same_image st' st'' \<Longrightarrow> same_image st st''"
  by (simp add: same_image_def)

lemma same_image_throw_error [simp]: "same_image st (throw_error err st') \<longleftrightarrow> same_image st st'"
  by (simp add: same_image_def throw_error_def)

lemma same_control_throw_error [simp]: "same_control st (throw_error err st') \<longleftrightarrow> same_control st st'"
  by (simp add: same_control_def) (simp add: throw_error_def)

lemma same_control_memory [simp]:
  "same_control st (st'\<lparr>vm := (vm st')\<lparr>memory_mapping := mapping\<rparr>\<rparr>) \<longleftrightarrow> same_control st st'"
  "same_control st (st'\<lparr>vm := (vm st')\<lparr>memory_mapping := mapping, host_mem := mem\<rparr>\<rparr>) \<longleftrightarrow> same_control st st'"
  by (simp_all add: same_control_def same_image_def)

lemma same_control_refl [simp]: "same_control st st"
  by (simp add: same_control_def)

lemma reg_set_eq_Some_iff:
  "reg_set st i v = Some st' \<longleftrightarrow> i < length (reg st) \<and> st' = st\<lparr>reg := (reg st)[i := v]\<rparr>"
  by (auto simp: reg_set_def update_opt_def)

lemma reg_get_eq_Some_iff: "reg_get st i = Some d \<longleftrightarrow> i < length (reg st) \<and> d = reg st ! i"
  by (auto simp: reg_get_def index_opt_def)

lemma same_control_reg [simp]:
  "length regs = length (reg st') \<Longrightarrow> same_control st (st'\<lparr>reg := regs\<rparr>) \<longleftrightarrow> same_control st st'"
  by (simp add: same_control_def same_image_def)

lemma alu_write_local: "alu_write r insn next_pc st' = Some f \<Longrightarrow> same_control st st' \<Longrightarrow> same_control st (flow_state f)"
  by (auto simp: alu_write_def reg_set_eq_Some_iff split: sum.splits)

lemma arm_local:
  assumes "arm_shape v insn next_pc st r" and "r = Some f"
  shows "same_control st (flow_state f)"
  using assms
  by (cases rule: arm_shape.cases)
    (auto simp: alu_imm_def alu_reg_def load_arm_def store_imm_def store_reg_def store_value_def load_dw_imm_def
      jump_arm_def jmp_imm_def jmp_reg_def Let_def reg_set_eq_Some_iff
      elim!: alu_write_local
      split: bind_splits if_splits StableResult.splits)

lemma jump_arm_state: "Some f = jump_arm insn next_pc st \<Longrightarrow> flow_state f = st"
  by (auto simp: jump_arm_def dest: sym)

text \<open>A built-in call: the machine that is passed to the function and the one that comes back.\<close>

lemma dispatch_syscall_cases:
  assumes "dispatch_syscall co syscalls callback st = Some st'"
  obtains rust m m' where "syscalls callback = Some rust"
    and "m = (vm st)\<lparr>due_insn_count := previous_instruction_meter (vm st) - due_insn_count (vm st),
               registers := take 6 (reg st) @ drop 6 (registers (vm st))\<rparr>"
    and "builtin_vm co rust m (registers m ! 1) (registers m ! 2) (registers m ! 3) (registers m ! 4)
           (registers m ! 5) = Some m'"
    and "st' = st\<lparr>vm := m'\<lparr>due_insn_count := 0\<rparr>\<rparr>"
  using assms
  by (auto simp: dispatch_syscall_def invoke_function_def checked_sub_def Let_def split: bind_splits if_splits)

end
