(* ===== verification/Interpreter_Safety.thy ===== *)
theory Interpreter_Safety
  imports Interpreter_Lemmas
begin

text \<open>
  Verified programs run without panics. The invariant ties the interpreter's state to the
  verified program: the program counter and the return addresses are inside the program or at
  its end, the call depth is below its limit, the meter covers what is due, and the memory
  mapping is well formed. Every step of a verified program has an outcome and keeps the
  invariant; the built-in functions of the loader are assumed to do so.
\<close>

section \<open>Memory accesses\<close>

definition mapping_ok :: "MemoryMapping \<Rightarrow> bool" where
  "mapping_ok m \<longleftrightarrow> mapping_inv m \<and> \<not> disable_address_translation m \<and>
     access_violation_handler m = default_access_violation_handler"

lemma mapping_ok_map:
  assumes "mapping_ok m" and "0 < len"
  shows "\<exists>res m'. map_with_access_violation_handler access_type a len m = Some (res, m') \<and> mapping_ok m' \<and>
    get_regions m' = get_regions m \<and>
    (\<forall>h. res = Ok h \<longrightarrow> (\<exists>r \<in> set (get_regions m). vm_to_host r access_type a len = Some h))"
proof -
  have m: "mapping_inv m" "\<not> disable_address_translation m" "initialized m"
    using assms(1) by (auto simp: mapping_ok_def mapping_inv_def)
  obtain found m1 where f: "find_region m a = Some (found, m1)" "mapping_inv m1" "get_regions m1 = get_regions m"
    using mapping.find_total [OF m(1)] by blast
  have ok: "mapping_ok m1"
    using assms(1) f(2) find_region_frame [OF f(1)] by (simp add: mapping_ok_def)
  have "map_with_access_violation_handler access_type a len m = mapping_map access_type a len m"
    using assms(1) by (intro map_default_handler) (simp add: mapping_ok_def)
  also have "\<dots> = Some (case found of
      Some (_, region) \<Rightarrow>
        (case vm_to_host region access_type a len of
           Some host \<Rightarrow> Ok host | None \<Rightarrow> generate_access_violation m1 access_type a len)
    | None \<Rightarrow> generate_access_violation m1 access_type a len, m1)"
    using m f(1) by (simp add: mapping_map_def)
  finally have eq: "map_with_access_violation_handler access_type a len m = \<dots>" .
  have "r \<in> set (get_regions m)" if "found = Some (i, r)" for i r
    using mapping.find_sound [OF m(1), of a i r m1] f(1) that by simp
  then show ?thesis
    unfolding eq using ok f(3)
    by (auto simp: generate_access_violation_Err split: option.splits)
qed

lemma mapping_load_ok:
  assumes "mapping_ok m" and "n \<in> {1, 2, 4, 8}"
  shows "\<exists>res m'. mapping_load n a mem m = Some (res, m') \<and> mapping_ok m' \<and> get_regions m' = get_regions m"
proof -
  have "initialized m" "(0 :: u64) < of_nat n"
    using assms by (auto simp: mapping_ok_def mapping_inv_def)
  then show ?thesis
    using mapping_ok_map [OF assms(1), of "of_nat n" Load a] assms(2) by (auto simp: mapping_load_def)
qed

lemma mapping_store_ok:
  assumes "mapping_ok m" and "n \<in> {1, 2, 4, 8}"
  shows "\<exists>res mem' m'. mapping_store n v a mem m = Some (res, mem', m') \<and> mapping_ok m' \<and>
    get_regions m' = get_regions m \<and>
    (mem' = mem \<or> (\<exists>h r. r \<in> set (get_regions m) \<and> vm_to_host r Store a (of_nat n) = Some h \<and>
       mem' = write_unaligned n h v mem))"
proof -
  have "initialized m" "(0 :: u64) < of_nat n"
    using assms by (auto simp: mapping_ok_def mapping_inv_def)
  then show ?thesis
    using mapping_ok_map [OF assms(1), of "of_nat n" Store a] assms(2)
    by (fastforce simp: mapping_store_def split: StableResult.splits)
qed

section \<open>The invariant\<close>

definition image_ok :: "Config \<Rightarrow> 'c Interpreter \<Rightarrow> bool" where
  "image_ok config st \<longleftrightarrow>
     verify (program st) config (get_sbpf_version (executable st)) = Some (Inr ()) \<and>
     length (program st) < 2 ^ 63 \<and>
     ex_get_config (executable st) = Some config \<and>
     vm_loader (vm st) = get_loader (executable st) \<and>
     enable_instruction_meter config \<and>
     2 * stack_frame_size config \<le> usize_max \<and>
     max_call_depth config \<le> length (call_frames st) \<and> max_call_depth config \<le> usize_max \<and>
     length (reg st) = 12 \<and> length (registers (vm st)) = 12"

definition pc_ok :: "'c Interpreter \<Rightarrow> u64 \<Rightarrow> bool" where
  "pc_ok st pc \<longleftrightarrow> unat pc \<le> insn_count (program st)"

definition frames_ok :: "Config \<Rightarrow> 'c Interpreter \<Rightarrow> bool" where
  "frames_ok config st \<longleftrightarrow>
     unat (call_depth (vm st)) < max_call_depth config \<and>
     (\<forall>i < unat (call_depth (vm st)). pc_ok st (target_pc (call_frames st ! i)) \<and>
        length (caller_saved_registers (call_frames st ! i)) = SCRATCH_REGS)"

definition run_inv :: "Config \<Rightarrow> 'c Interpreter \<Rightarrow> bool" where
  "run_inv config st \<longleftrightarrow>
     image_ok config st \<and> frames_ok config st \<and> mapping_ok (memory_mapping (vm st)) \<and>
     due_insn_count (vm st) \<le> previous_instruction_meter (vm st)"

definition interp_inv :: "Config \<Rightarrow> 'c Interpreter \<Rightarrow> bool" where
  "interp_inv config st \<longleftrightarrow> run_inv config st \<and> pc_ok st (reg st ! 11)"

text \<open>What is asked of the built-in functions that the loader has registered.\<close>

definition builtin_safe :: "'c builtin \<Rightarrow> bool" where
  "builtin_safe rust \<longleftrightarrow>
     (\<forall>a b c d e ctx mapping mem. mapping_ok mapping \<longrightarrow>
        (\<exists>res ctx' mapping' mem'. rust a b c d e (ctx, mapping, mem) = Some (res, ctx', mapping', mem') \<and>
           mapping_ok mapping'))"

definition syscalls_ok :: "'c syscalls \<Rightarrow> Executable \<Rightarrow> bool" where
  "syscalls_ok syscalls ex \<longleftrightarrow>
     (\<forall>key name callback codegen.
        lookup_by_key (get_function_registry (get_loader ex)) key = Some (name, (callback, codegen)) \<longrightarrow>
        (\<exists>rust. syscalls callback = Some rust \<and> builtin_safe rust))"

definition flow_ok :: "Config \<Rightarrow> 'c Interpreter \<Rightarrow> 'c flow \<Rightarrow> bool" where
  "flow_ok config st f \<longleftrightarrow>
     same_image st (flow_state f) \<and>
     (case f of Next pc st' \<Rightarrow> pc_ok st' pc \<and> run_inv config st' | Stop _ \<Rightarrow> True)"

lemma run_inv_same_control:
  assumes "run_inv config st" and "same_control st st'" and "mapping_ok (memory_mapping (vm st'))"
  shows "run_inv config st'"
  using assms by (simp add: run_inv_def same_control_def same_image_def image_ok_def frames_ok_def pc_ok_def)

section \<open>Instructions that the verifier accepted\<close>

definition ready :: "Config \<Rightarrow> Insn \<Rightarrow> u64 \<Rightarrow> 'c Interpreter \<Rightarrow> bool" where
  "ready config insn next_pc st \<longleftrightarrow>
     run_inv config st \<and> unat (reg st ! 11) < insn_count (program st) \<and> next_pc = reg st ! 11 + 1 \<and>
     get_insn_unchecked (program st) (unat (reg st ! 11)) = Some insn \<and>
     insn_ok (program st) (get_sbpf_version (executable st)) (unat (reg st ! 11))"

lemma insn_count_bound: "length prog < 2 ^ 63 \<Longrightarrow> insn_count prog < 2 ^ 60"
  by (simp add: div_less_iff_less_mult)

lemma ready_arm:
  assumes "ready config insn next_pc st"
  obtains a where "opcode_arm (get_sbpf_version (executable st)) insn = Some a"
    and "arm_ok (program st) (get_sbpf_version (executable st)) (unat (reg st ! 11)) insn a"
    and "registers_ok (get_sbpf_version (executable st)) insn a"
  using assms by (auto simp: ready_def insn_ok_def split: option.splits)

lemma ready_next_pc:
  assumes "ready config insn next_pc st"
  shows "unat next_pc = unat (reg st ! 11) + 1" and "pc_ok st next_pc"
    and "checked_add (reg st ! 11) 1 = Some next_pc"
proof -
  have "unat (reg st ! 11) < 2 ^ 60"
    using assms insn_count_bound [of "program st"]
    by (auto simp: ready_def run_inv_def image_ok_def intro: less_trans)
  then have "unat (reg st ! 11 + 1) = unat (reg st ! 11) + 1"
    by (subst unat_add_lem [THEN iffD1]) simp_all
  moreover have "unat (reg st ! 11) + 1 < 2 ^ 64"
    using \<open>unat (reg st ! 11) < 2 ^ 60\<close> by simp
  ultimately show "unat next_pc = unat (reg st ! 11) + 1" "pc_ok st next_pc"
      "checked_add (reg st ! 11) 1 = Some next_pc"
    using assms by (auto simp: ready_def pc_ok_def checked_add_def)
qed

lemma ready_registers:
  assumes "ready config insn next_pc st"
  shows "unat (i_dst insn) < 12" and "unat (i_src insn) < 12" and "length (reg st) = 12"
    and "unat (i_dst insn) \<noteq> 11"
proof -
  obtain a where "registers_ok (get_sbpf_version (executable st)) insn a"
    using ready_arm [OF assms] .
  then have "unat (i_dst insn) \<le> 10" "unat (i_src insn) \<le> 10"
    by (auto simp: registers_ok_def word_le_nat_alt)
  then show "unat (i_dst insn) < 12" "unat (i_src insn) < 12" "unat (i_dst insn) \<noteq> 11"
    by simp_all
  show "length (reg st) = 12"
    using assms by (simp add: ready_def run_inv_def image_ok_def)
qed

lemma ready_divisor:
  assumes "ready config insn next_pc st"
  shows "divisor_ok (get_sbpf_version (executable st)) insn"
proof -
  obtain imm :: i32 where "i_imm insn = scast imm"
    using assms get_insn_unchecked_Some [of "unat (reg st ! 11)" "program st"]
    by (auto simp: ready_def less_eq_div_iff_mult_less_eq Suc_le_eq)
  then have "lo32 (i_imm insn) = 0 \<longleftrightarrow> i_imm insn = 0"
    by (simp add: ucast_scast_id scast_eq_0_iff)
  moreover obtain a where "opcode_arm (get_sbpf_version (executable st)) insn = Some a"
      "arm_ok (program st) (get_sbpf_version (executable st)) (unat (reg st ! 11)) insn a"
    using ready_arm [OF assms] .
  ultimately show ?thesis
    by (auto simp: divisor_ok_def arm_ok_def)
qed

lemma ready_jump:
  assumes "ready config insn next_pc st"
    and "opcode_arm (get_sbpf_version (executable st)) insn = Some Arm_jmp_offset"
  shows "\<exists>pc. jump_pc next_pc (i_off insn) = Some pc \<and> pc_ok st pc"
proof -
  define t where "t = jump_target insn (unat (reg st ! 11))"
  obtain a where "opcode_arm (get_sbpf_version (executable st)) insn = Some a"
      "arm_ok (program st) (get_sbpf_version (executable st)) (unat (reg st ! 11)) insn a"
    using ready_arm [OF assms(1)] .
  then have t: "0 \<le> t" "t < int (insn_count (program st))"
    using assms(2) by (auto simp: arm_ok_def t_def)
  have bound: "insn_count (program st) < 1152921504606846976"
    using assms(1) insn_count_bound [of "program st"] by (simp add: ready_def run_inv_def image_ok_def)
  have npc: "unat next_pc \<le> insn_count (program st)"
    using ready_next_pc(2) [OF assms(1)] by (simp add: pc_ok_def)
  have u: "uint next_pc = int (unat next_pc)"
    by simp
  have "int (unat next_pc) < 9223372036854775808"
    using npc bound by linarith
  then have "sint next_pc = int (unat next_pc)"
    unfolding u [symmetric] by (intro sint_eq_uint_small) simp
  then have "sint next_pc + sint (i_off insn) = t"
    using ready_next_pc(1) [OF assms(1)] by (simp add: t_def jump_target_def)
  moreover have "unat (word_of_int t :: u64) = nat t"
    using t bound by (simp add: unat_eq_nat_uint uint_word_of_int_eq take_bit_int_eq_self)
  ultimately show ?thesis
    using t bound by (auto simp: jump_pc_def Let_def pc_ok_def)
qed

section \<open>Every arm has an outcome\<close>

lemma alu_write_total:
  assumes "unat (i_dst insn) < length (reg st)"
  shows "\<exists>f. alu_write r insn next_pc st = Some f \<and> memory_mapping (vm (flow_state f)) = memory_mapping (vm st) \<and>
    (\<forall>pc st'. f = Next pc st' \<longrightarrow> pc = next_pc)"
  using assms by (auto simp: alu_write_def reg_set_def throw_error_def split: sum.splits)

lemma alu_total:
  assumes "ready config insn next_pc st" and "g (reg st ! unat (i_dst insn)) = Some r"
    and "h = do { d \<leftarrow> reg_get st (unat (i_dst insn)); r \<leftarrow> g d; alu_write r insn next_pc st }"
  shows "\<exists>f. h = Some f \<and> mapping_ok (memory_mapping (vm (flow_state f))) \<and> (\<forall>pc st'. f = Next pc st' \<longrightarrow> pc_ok st pc)"
proof -
  have "mapping_ok (memory_mapping (vm st))"
    using assms(1) by (simp add: ready_def run_inv_def)
  then show ?thesis
    using ready_registers [OF assms(1)] ready_next_pc(2) [OF assms(1)] assms(2,3)
      alu_write_total [of insn st r next_pc]
    by (auto simp: reg_get_def)
qed

lemma store_value_total:
  assumes "ready config insn next_pc st" and "n \<in> {1, 2, 4, 8}"
  shows "\<exists>f. store_value n val insn next_pc st = Some f \<and> mapping_ok (memory_mapping (vm (flow_state f))) \<and>
    (\<forall>pc st'. f = Next pc st' \<longrightarrow> pc_ok st pc)"
proof -
  define a where "a = reg st ! unat (i_dst insn) + scast (i_off insn)"
  have "mapping_ok (memory_mapping (vm st))"
    using assms(1) by (simp add: ready_def run_inv_def)
  from mapping_store_ok [OF this assms(2), of val a "host_mem (vm st)"]
  obtain res mem' m' where "mapping_store n val a (host_mem (vm st)) (memory_mapping (vm st)) = Some (res, mem', m')"
      "mapping_ok m'"
    by blast
  then show ?thesis
    using ready_registers [OF assms(1)] ready_next_pc(2) [OF assms(1)]
    by (cases res) (auto simp: store_value_def reg_get_def a_def throw_error_def)
qed

lemma load_total:
  assumes "ready config insn next_pc st" and "n \<in> {1, 2, 4, 8}"
  shows "\<exists>f. load_arm n insn next_pc st = Some f \<and> mapping_ok (memory_mapping (vm (flow_state f))) \<and>
    (\<forall>pc st'. f = Next pc st' \<longrightarrow> pc_ok st pc)"
proof -
  define a where "a = reg st ! unat (i_src insn) + scast (i_off insn)"
  have "mapping_ok (memory_mapping (vm st))"
    using assms(1) by (simp add: ready_def run_inv_def)
  from mapping_load_ok [OF this assms(2), of a "host_mem (vm st)"]
  obtain res m' where l: "mapping_load n a (host_mem (vm st)) (memory_mapping (vm st)) = Some (res, m')" "mapping_ok m'"
    by blast
  define st' where "st' = st\<lparr>vm := (vm st)\<lparr>memory_mapping := m'\<rparr>\<rparr>"
  have "load_arm n insn next_pc st = alu_write (to_result res) insn next_pc st'"
    using l(1) ready_registers [OF assms(1)] by (simp add: load_arm_def reg_get_def a_def st'_def)
  moreover have "memory_mapping (vm st') = m'" "unat (i_dst insn) < length (reg st')"
    using ready_registers [OF assms(1)] by (simp_all add: st'_def)
  ultimately show ?thesis
    using alu_write_total [of insn st' "to_result res" next_pc] l(2) ready_next_pc(2) [OF assms(1)] by fastforce
qed

lemma lddw_total:
  assumes "ready config insn next_pc st"
    and "opcode_arm (get_sbpf_version (executable st)) insn = Some Arm_load_dw"
  shows "\<exists>f. load_dw_imm insn next_pc st = Some f \<and> mapping_ok (memory_mapping (vm (flow_state f))) \<and>
    (\<forall>pc st'. f = Next pc st' \<longrightarrow> pc_ok st pc)"
proof -
  define p where "p = unat (reg st ! 11)"
  obtain a where "opcode_arm (get_sbpf_version (executable st)) insn = Some a"
      "arm_ok (program st) (get_sbpf_version (executable st)) p insn a"
    using ready_arm [OF assms(1)] unfolding p_def .
  then have p: "p + 1 < insn_count (program st)"
    using assms(2) by (simp add: arm_ok_def)
  have "i_ptr insn = p"
    using assms(1) get_insn_unchecked_Some [of p "program st"]
    by (auto simp: ready_def p_def less_eq_div_iff_mult_less_eq Suc_le_eq)
  then have "\<exists>insn'. augment_lddw_unchecked (program st) insn = Some insn'"
    using p by (auto simp: augment_lddw_unchecked_def read_le_def)
  then obtain insn' where i: "augment_lddw_unchecked (program st) insn = Some insn'" ..
  have npc: "unat next_pc = p + 1"
    using ready_next_pc [OF assms(1)] p_def by simp
  have "insn_count (program st) < 1152921504606846976"
    using assms(1) insn_count_bound [of "program st"] by (simp add: ready_def run_inv_def image_ok_def)
  then have "unat next_pc + 1 < 2 ^ 64"
    using npc p by simp
  then have "unat (next_pc + 1) = unat next_pc + 1" "checked_add next_pc 1 = Some (next_pc + 1)"
    using unat_add_lem [of next_pc 1] by (simp_all add: checked_add_def)
  then show ?thesis
    using i p npc ready_registers [OF assms(1)] ready_next_pc(3) [OF assms(1)] assms(1)
    by (auto simp: load_dw_imm_def reg_set_def pc_ok_def nth_list_update_neq ready_def run_inv_def)
qed

lemma arm_total:
  assumes "ready config insn next_pc st" and "arm_shape (get_sbpf_version (executable st)) insn next_pc st r"
  shows "\<exists>f. r = Some f \<and> mapping_ok (memory_mapping (vm (flow_state f))) \<and> (\<forall>pc st'. f = Next pc st' \<longrightarrow> pc_ok st pc)"
  using assms(2)
proof cases
  case (shape_alu_imm f)
  then obtain r' where "f (reg st ! unat (i_dst insn)) (i_imm insn) = Some r'"
    using ready_divisor [OF assms(1)] by blast
  then show ?thesis
    unfolding shape_alu_imm(1) by (intro alu_total [OF assms(1)]) (auto simp: alu_imm_def)
next
  case (shape_alu_reg f)
  then obtain r' where "f (reg st ! unat (i_dst insn)) (reg st ! unat (i_src insn)) = Some r'"
    by blast
  then show ?thesis
    unfolding shape_alu_reg(1) using ready_registers [OF assms(1)]
    by (intro alu_total [OF assms(1), of "\<lambda>d. f d (reg st ! unat (i_src insn))"]) (auto simp: alu_reg_def reg_get_def)
next
  case (shape_load n)
  then show ?thesis using load_total [OF assms(1)] by blast
next
  case (shape_store_imm n)
  then show ?thesis using store_value_total [OF assms(1)] by (simp add: store_imm_def)
next
  case (shape_store_reg n)
  then show ?thesis
    using store_value_total [OF assms(1)] ready_registers [OF assms(1)] by (simp add: store_reg_def reg_get_def)
next
  case shape_lddw
  then show ?thesis using lddw_total [OF assms(1)] by blast
next
  case shape_jump
  then show ?thesis
    using ready_jump [OF assms(1)] assms(1) by (auto simp: jump_arm_def ready_def run_inv_def)
next
  case (shape_jmp_imm cond)
  then show ?thesis
    using ready_jump [OF assms(1)] ready_registers [OF assms(1)] ready_next_pc(2) [OF assms(1)] assms(1)
    by (auto simp: jmp_imm_def jump_arm_def reg_get_def ready_def run_inv_def)
next
  case (shape_jmp_reg cond)
  then show ?thesis
    using ready_jump [OF assms(1)] ready_registers [OF assms(1)] ready_next_pc(2) [OF assms(1)] assms(1)
    by (auto simp: jmp_reg_def jump_arm_def reg_get_def ready_def run_inv_def)
qed

section \<open>Calls and returns\<close>

lemma run_inv_reg: "run_inv config st \<Longrightarrow> length regs = 12 \<Longrightarrow> run_inv config (st\<lparr>reg := regs\<rparr>)"
  by (simp add: run_inv_def image_ok_def frames_ok_def pc_ok_def)

lemma push_frame_eq:
  assumes "run_inv config st" and "checked_add (reg st ! 11) 1 = Some next_pc"
  defines "depth \<equiv> call_depth (vm st)"
  defines "frame \<equiv> \<lparr>caller_saved_registers = take SCRATCH_REGS (drop FIRST_SCRATCH_REG (reg st)),
      frame_pointer = reg st ! FRAME_PTR_REG, target_pc = next_pc\<rparr>"
  defines "st' \<equiv> st\<lparr>call_frames := (call_frames st)[unat depth := frame], vm := (vm st)\<lparr>call_depth := depth + 1\<rparr>\<rparr>"
  shows "unat (depth + 1) = unat depth + 1"
    and "\<exists>fp. push_frame config st =
      Some (if unat depth + 1 = max_call_depth config then (False, throw_error CallDepthExceeded st')
            else (True, st'\<lparr>reg := (reg st)[FRAME_PTR_REG := fp]\<rparr>))"
proof -
  have depth: "unat depth < max_call_depth config" "max_call_depth config \<le> length (call_frames st)"
      "unat depth + 1 < 2 ^ 64"
    and size: "2 * stack_frame_size config \<le> usize_max"
    using assms(1) by (simp_all add: run_inv_def image_ok_def frames_ok_def depth_def)
  show unat: "unat (depth + 1) = unat depth + 1"
    using depth(3) unat_add_lem [of depth 1] by simp
  have add: "checked_add depth 1 = Some (depth + 1)"
    using depth(3) by (simp add: checked_add_def)
  let ?fp = "if \<not> manual_stack_frame_bump (get_sbpf_version (executable st))
    then reg st ! FRAME_PTR_REG + of_nat (stack_frame_size config *
      (if stack_frame_gaps (get_sbpf_version (executable st)) \<and> enable_stack_frame_gaps config then 2 else 1))
    else reg st ! FRAME_PTR_REG"
  have "push_frame config st =
      Some (if unat depth + 1 = max_call_depth config then (False, throw_error CallDepthExceeded st')
            else (True, st'\<lparr>reg := (reg st)[FRAME_PTR_REG := ?fp]\<rparr>))"
    using depth(1,2) add size assms(2) unat
    by (auto simp: push_frame_def Let_def depth_def frame_def st'_def)
  then show "\<exists>fp. push_frame config st =
      Some (if unat depth + 1 = max_call_depth config then (False, throw_error CallDepthExceeded st')
            else (True, st'\<lparr>reg := (reg st)[FRAME_PTR_REG := fp]\<rparr>))"
    by blast
qed

lemma frames_ok_push:
  assumes "frames_ok config st" and "unat (call_depth (vm st)) < length (call_frames st)"
    and "unat (call_depth (vm st) + 1) = unat (call_depth (vm st)) + 1"
    and "unat (call_depth (vm st)) + 1 \<noteq> max_call_depth config"
    and "pc_ok st (target_pc frame)" and "length (caller_saved_registers frame) = SCRATCH_REGS"
    and "program st' = program st" and "call_depth (vm st') = call_depth (vm st) + 1"
    and "call_frames st' = (call_frames st)[unat (call_depth (vm st)) := frame]"
  shows "frames_ok config st'"
proof -
  have "pc_ok st' (target_pc (call_frames st' ! i)) \<and> length (caller_saved_registers (call_frames st' ! i)) = SCRATCH_REGS"
    if "i < unat (call_depth (vm st'))" for i
  proof (cases "i = unat (call_depth (vm st))")
    case True
    then show ?thesis using assms by (simp add: pc_ok_def)
  next
    case False
    then have "i < unat (call_depth (vm st))"
      using that assms(3,8) by simp
    then show ?thesis
      using False assms(1,7,9) by (simp add: frames_ok_def pc_ok_def)
  qed
  then show ?thesis
    using assms(1,3,4,8) by (simp add: frames_ok_def)
qed

lemma push_frame_ok:
  assumes "run_inv config st" and "checked_add (reg st ! 11) 1 = Some next_pc" and "pc_ok st next_pc"
  shows "\<exists>pushed st'. push_frame config st = Some (pushed, st') \<and> same_image st st' \<and> (pushed \<longrightarrow> run_inv config st')"
proof -
  note eq = push_frame_eq [OF assms(1,2)]
  define frame where "frame = \<lparr>caller_saved_registers = take SCRATCH_REGS (drop FIRST_SCRATCH_REG (reg st)),
      frame_pointer = reg st ! FRAME_PTR_REG, target_pc = next_pc\<rparr>"
  define st1 where "st1 = st\<lparr>call_frames := (call_frames st)[unat (call_depth (vm st)) := frame],
      vm := (vm st)\<lparr>call_depth := call_depth (vm st) + 1\<rparr>\<rparr>"
  obtain fp where fp: "push_frame config st =
      Some (if unat (call_depth (vm st)) + 1 = max_call_depth config then (False, throw_error CallDepthExceeded st1)
            else (True, st1\<lparr>reg := (reg st)[FRAME_PTR_REG := fp]\<rparr>))"
    using eq(2) unfolding st1_def frame_def by blast
  have same: "same_image st st1" "same_image st (st1\<lparr>reg := (reg st)[FRAME_PTR_REG := fp]\<rparr>)"
    by (simp_all add: same_image_def st1_def)
  have frame: "pc_ok st (target_pc frame)" "length (caller_saved_registers frame) = SCRATCH_REGS"
    using assms(1,3) by (simp_all add: frame_def run_inv_def image_ok_def)
  have depth: "unat (call_depth (vm st)) < length (call_frames st)"
    using assms(1) by (simp add: run_inv_def image_ok_def frames_ok_def)
  have "run_inv config (st1\<lparr>reg := (reg st)[FRAME_PTR_REG := fp]\<rparr>)"
    if "unat (call_depth (vm st)) + 1 \<noteq> max_call_depth config"
  proof -
    have "frames_ok config (st1\<lparr>reg := (reg st)[FRAME_PTR_REG := fp]\<rparr>)"
      by (rule frames_ok_push [of config st frame])
        (use assms(1) frame depth eq(1) that in \<open>simp_all add: run_inv_def st1_def\<close>)
    then show ?thesis
      using assms(1) by (simp add: run_inv_def image_ok_def st1_def)
  qed
  then show ?thesis
    using fp same by auto
qed

lemma builtin_vm_ok:
  assumes "builtin_safe rust" and "mapping_ok (memory_mapping m)" and "get_config (vm_loader m) = Some config"
    and "due_insn_count m \<le> previous_instruction_meter m"
  shows "\<exists>m'. builtin_vm co rust m a b c d e = Some m' \<and> mapping_ok (memory_mapping m') \<and>
    vm_loader m' = vm_loader m \<and> registers m' = registers m \<and> call_depth m' = call_depth m"
proof -
  define ctx where "ctx = (if enable_instruction_meter config
    then consume co (previous_instruction_meter m - due_insn_count m) (context_object m) else context_object m)"
  obtain res ctx' mapping' mem' where "rust a b c d e (ctx, memory_mapping m, host_mem m) = Some (res, ctx', mapping', mem')"
      "mapping_ok mapping'"
    using assms(1,2) unfolding builtin_safe_def by blast
  then show ?thesis
    using assms(3,4) by (simp add: builtin_vm_def checked_sub_def ctx_def split: if_splits)
qed

lemma dispatch_syscall_ok:
  assumes "run_inv config st" and "syscalls callback = Some rust" and "builtin_safe rust"
  shows "\<exists>st'. dispatch_syscall co syscalls callback st = Some st' \<and> same_image st st' \<and> run_inv config st' \<and>
    reg st' = reg st"
proof -
  define m where "m = (vm st)\<lparr>due_insn_count := previous_instruction_meter (vm st) - due_insn_count (vm st),
    registers := take 6 (reg st) @ drop 6 (registers (vm st))\<rparr>"
  have due: "due_insn_count (vm st) \<le> previous_instruction_meter (vm st)"
    and cfg: "get_config (vm_loader (vm st)) = Some config"
    and len: "length (registers m) = length (registers (vm st))"
    using assms(1) by (simp_all add: run_inv_def image_ok_def ex_get_config_def get_loader_def m_def)
  have "due_insn_count m \<le> previous_instruction_meter m"
    using due by (simp add: m_def word_sub_le)
  moreover have "mapping_ok (memory_mapping m)" "get_config (vm_loader m) = Some config"
    using assms(1) cfg by (simp_all add: run_inv_def m_def)
  ultimately obtain m' where "builtin_vm co rust m (registers m ! 1) (registers m ! 2) (registers m ! 3)
      (registers m ! 4) (registers m ! 5) = Some m'"
      "mapping_ok (memory_mapping m')" "vm_loader m' = vm_loader m" "registers m' = registers m" "call_depth m' = call_depth m"
    using builtin_vm_ok [OF assms(3)] by blast
  then show ?thesis
    using assms(1,2) due len
    by (simp add: dispatch_syscall_def invoke_function_def checked_sub_def m_def [symmetric])
      (simp add: m_def same_image_def run_inv_def image_ok_def frames_ok_def pc_ok_def)
qed

text \<open>An outcome after a successful push keeps the invariant as soon as its target is in the program.\<close>

lemma is_pc_in_program_ok: "is_pc_in_program (program st) (unat pc) \<Longrightarrow> length (program st) < 2 ^ 63 \<Longrightarrow> pc_ok st pc"
  by (simp add: is_pc_in_program_iff pc_ok_def less_eq_div_iff_mult_less_eq)

lemma run_inv_length: "run_inv config st \<Longrightarrow> length (program st) < 2 ^ 63"
  by (simp add: run_inv_def image_ok_def)

lemma check_pc_ok:
  assumes "run_inv config st'" and "same_image st st'"
  shows "flow_ok config st (check_pc pc st')"
  using assms is_pc_in_program_ok run_inv_length [OF assms(1)] by (auto simp: check_pc_def flow_ok_def)

lemma call_reg_ok:
  assumes "ready config insn next_pc st" and "i_opc insn = CALL_REG"
  shows "\<exists>f. call_reg config insn st = Some f \<and> flow_ok config st f"
proof -
  define v where "v = get_sbpf_version (executable st)"
  have "opcode_arm v insn = Some Arm_callx_register"
    using assms(2) by (simp add: opcode_arm_def arms_defs opcode_val)
  moreover obtain a where "opcode_arm v insn = Some a" "arm_ok (program st) v (unat (reg st ! 11)) insn a"
    using ready_arm [OF assms(1)] unfolding v_def .
  ultimately have "unat (callx_register v insn) < 12"
    by (auto simp: arm_ok_def word_less_nat_alt)
  then obtain target where
      "(if callx_uses_src_reg v then reg_get st (unat (i_src insn))
        else if callx_uses_dst_reg v then reg_get st (unat (i_dst insn)) else reg_get st (unat (i_imm insn))) = Some target"
    using ready_registers [OF assms(1)] by (auto simp: callx_register_def reg_get_def split: if_splits)
  moreover obtain pushed st' where "push_frame config st = Some (pushed, st')" "same_image st st'"
      "pushed \<longrightarrow> run_inv config st'"
    using push_frame_ok ready_next_pc [OF assms(1)] assms(1) unfolding ready_def by metis
  ultimately show ?thesis
    using check_pc_ok [of config st' st] by (auto simp: call_reg_def Let_def v_def flow_ok_def)
qed

lemma call_external_ok:
  assumes "run_inv config st" and "syscalls_ok syscalls (executable st)"
  shows "\<exists>r. call_external co syscalls insn st = Some r \<and>
    (case r of Inl st' \<Rightarrow> same_image st st'
     | Inr (resolved, st') \<Rightarrow> same_image st st' \<and> run_inv config st' \<and> reg st' ! 11 = reg st ! 11)"
proof (cases "\<not> static_syscalls (get_sbpf_version (executable st)) \<or> i_src insn = 0")
  case False
  then show ?thesis using assms by (simp add: call_external_def)
next
  case True
  show ?thesis
  proof (cases "lookup_by_key (get_function_registry (get_loader (executable st))) (ucast (i_imm insn))")
    case None
    then show ?thesis using True assms by (simp add: call_external_def)
  next
    case (Some e)
    obtain name callback codegen where e: "e = (name, callback, codegen)"
      by (cases e) auto
    obtain rust where "syscalls callback = Some rust" "builtin_safe rust"
      using assms(2) Some e unfolding syscalls_ok_def by blast
    then obtain st' where st': "dispatch_syscall co syscalls callback st = Some st'" "same_image st st'"
        "run_inv config st'" "reg st' = reg st"
      using dispatch_syscall_ok [OF assms(1)] by blast
    have "same_image st (st'\<lparr>reg := (reg st)[0 := x]\<rparr>)" for x
      using st'(2,4) by (simp add: same_image_def)
    moreover have "run_inv config (st'\<lparr>reg := (reg st)[0 := x]\<rparr>)" for x
      using st'(3,4) assms(1) by (intro run_inv_reg) (simp_all add: run_inv_def image_ok_def)
    ultimately show ?thesis
      using True Some e st' by (cases "program_result (vm st')") (simp_all add: call_external_def)
  qed
qed

lemma call_internal_ok:
  assumes "run_inv config st" and "checked_add (reg st ! 11) 1 = Some next_pc" and "pc_ok st next_pc"
  shows "\<exists>f. call_internal config insn next_pc resolved st = Some f \<and> flow_ok config st f"
proof -
  obtain pushed st' where st': "push_frame config st = Some (pushed, st')" "same_image st st'"
      "pushed \<longrightarrow> run_inv config st'"
    using push_frame_ok [OF assms] by blast
  have prog: "program st' = program st"
    using st'(2) by (simp add: same_image_def)
  have ok: "flow_ok config st (if resolved then Next next_pc st else Stop (throw_error UnsupportedInstruction st))"
    using assms(1,3) by (simp add: flow_ok_def)
  show ?thesis
  proof (cases "static_syscalls (get_sbpf_version (executable st))")
    case True
    define target where "target = signed_saturating_add next_pc (i_imm insn)"
    have "flow_ok config st (Next target st')" if "pushed" "is_pc_in_program (program st) (unat target)"
      using that st' is_pc_in_program_ok [of st target] run_inv_length [OF assms(1)] prog
      by (simp add: flow_ok_def pc_ok_def)
    then show ?thesis
      using True st' ok by (auto simp: call_internal_def Let_def target_def [symmetric] flow_ok_def)
  next
    case False
    then show ?thesis
      using st' ok check_pc_ok [of config st' st]
      by (auto simp: call_internal_def Let_def flow_ok_def split: option.split)
  qed
qed

lemma flow_ok_trans: "same_image st st' \<Longrightarrow> flow_ok config st' f \<Longrightarrow> flow_ok config st f"
  unfolding flow_ok_def by (auto intro: same_image_trans)

lemma call_imm_ok:
  assumes "ready config insn next_pc st" and "syscalls_ok syscalls (executable st)"
  shows "\<exists>f. call_imm co syscalls config insn next_pc st = Some f \<and> flow_ok config st f"
proof -
  have inv: "run_inv config st"
    using assms(1) by (simp add: ready_def)
  obtain r where r: "call_external co syscalls insn st = Some r"
      "case r of Inl st' \<Rightarrow> same_image st st'
       | Inr (resolved, st') \<Rightarrow> same_image st st' \<and> run_inv config st' \<and> reg st' ! 11 = reg st ! 11"
    using call_external_ok [OF inv assms(2)] by blast
  show ?thesis
  proof (cases r)
    case (Inl st')
    then show ?thesis using r by (simp add: call_imm_def flow_ok_def)
  next
    case (Inr x)
    then obtain resolved st' where x: "r = Inr (resolved, st')" by (cases x) auto
    then have st': "same_image st st'" "run_inv config st'" "reg st' ! 11 = reg st ! 11"
      using r(2) by simp_all
    moreover have "pc_ok st' next_pc"
      using ready_next_pc(2) [OF assms(1)] st'(1) by (simp add: pc_ok_def same_image_def)
    ultimately obtain f where "call_internal config insn next_pc resolved st' = Some f" "flow_ok config st' f"
      using call_internal_ok [of config st' next_pc] ready_next_pc(3) [OF assms(1)] by metis
    then show ?thesis
      using r(1) x flow_ok_trans [OF st'(1)] by (auto simp: call_imm_def)
  qed
qed

lemma exit_ok:
  assumes "run_inv config st"
  shows "\<exists>f. exit_arm config st = Some f \<and> flow_ok config st f"
proof (cases "call_depth (vm st) = 0")
  case True
  then show ?thesis
    by (simp add: exit_arm_def flow_ok_def same_image_def throw_error_def)
next
  case False
  define depth where "depth = call_depth (vm st) - 1"
  have unat: "unat depth = unat (call_depth (vm st)) - 1"
    using False by (simp add: depth_def unat_minus_one)
  have pos: "0 < unat (call_depth (vm st))"
    using False by (simp add: unat_gt_0)
  have inv: "frames_ok config st" "max_call_depth config \<le> length (call_frames st)" "length (reg st) = 12"
    using assms by (simp_all add: run_inv_def image_ok_def)
  define frame where "frame = call_frames st ! unat depth"
  have len: "unat depth < unat (call_depth (vm st))"
    using unat pos by simp
  then have "unat depth < length (call_frames st)"
    using inv by (simp add: frames_ok_def)
  moreover have frame: "pc_ok st (target_pc frame)" "length (caller_saved_registers frame) = SCRATCH_REGS"
    using inv(1) len by (simp_all add: frames_ok_def frame_def)
  define st' where "st' = st\<lparr>vm := (vm st)\<lparr>call_depth := depth\<rparr>,
    reg := take 6 ((reg st)[10 := frame_pointer frame]) @ caller_saved_registers frame @
           drop 10 ((reg st)[10 := frame_pointer frame])\<rparr>"
  ultimately have "exit_arm config st = Some (Next (target_pc frame) st')"
    using False by (simp add: exit_arm_def Let_def frame_def depth_def)
  moreover have "flow_ok config st (Next (target_pc frame) st')"
    using assms frame len inv
    by (simp add: flow_ok_def same_image_def st'_def run_inv_def image_ok_def frames_ok_def pc_ok_def)
  ultimately show ?thesis
    by blast
qed

section \<open>One step\<close>

lemma step_insn_ok:
  assumes "ready config insn next_pc st" and "syscalls_ok syscalls (executable st)"
  shows "\<exists>f. step_insn co syscalls config insn next_pc st = Some f \<and> flow_ok config st f"
proof -
  have inv: "run_inv config st"
    using assms(1) by (simp add: ready_def)
  show ?thesis
  proof (cases rule: step_insn_cases [of st insn next_pc co syscalls config])
    case arm
    then obtain f where f: "step_insn co syscalls config insn next_pc st = Some f"
        "mapping_ok (memory_mapping (vm (flow_state f)))" "\<forall>pc st'. f = Next pc st' \<longrightarrow> pc_ok st pc"
      using arm_total [OF assms(1)] by blast
    moreover have same: "same_control st (flow_state f)"
      using arm_local [OF arm f(1)] .
    ultimately have "flow_ok config st f"
      using run_inv_same_control [OF inv same]
      by (cases f) (auto simp: flow_ok_def same_control_def same_image_def pc_ok_def)
    then show ?thesis using f(1) by blast
  next
    case call_reg
    then show ?thesis using call_reg_ok [OF assms(1)] by simp
  next
    case call_imm
    then show ?thesis using call_imm_ok [OF assms] by simp
  next
    case exit
    then show ?thesis using exit_ok [OF inv] by simp
  next
    case unsupported
    then show ?thesis by (simp add: flow_ok_def)
  qed
qed

text \<open>The state in which the instruction is executed: counted and traced.\<close>

definition enter :: "Config \<Rightarrow> 'c Interpreter \<Rightarrow> 'c Interpreter" where
  "enter config st =
     (let st1 = st\<lparr>vm := (vm st)\<lparr>due_insn_count := due_insn_count (vm st) + 1\<rparr>\<rparr>
      in if enable_register_tracing config
         then st1\<lparr>vm := (vm st1)\<lparr>register_trace := register_trace (vm st1) @ [reg st1]\<rparr>\<rparr> else st1)"

lemma enter_simps [simp]:
  "reg (enter config st) = reg st" "program (enter config st) = program st"
  "executable (enter config st) = executable st" "program_vm_addr (enter config st) = program_vm_addr st"
  "call_frames (enter config st) = call_frames st"
  "call_depth (vm (enter config st)) = call_depth (vm st)"
  "memory_mapping (vm (enter config st)) = memory_mapping (vm st)"
  "host_mem (vm (enter config st)) = host_mem (vm st)"
  "context_object (vm (enter config st)) = context_object (vm st)"
  "vm_loader (vm (enter config st)) = vm_loader (vm st)"
  "registers (vm (enter config st)) = registers (vm st)"
  "previous_instruction_meter (vm (enter config st)) = previous_instruction_meter (vm st)"
  "due_insn_count (vm (enter config st)) = due_insn_count (vm st) + 1"
  by (simp_all add: enter_def Let_def)

lemma due_add_1:
  assumes "(due :: u64) < prev"
  shows "checked_add due 1 = Some (due + 1)" and "due + 1 \<le> prev" and "unat (due + 1) = unat due + 1"
proof -
  have lt: "unat due + 1 \<le> unat prev" "unat prev < 2 ^ 64"
    using assms unat_bound [of prev] by (simp_all add: word_less_nat_alt)
  then show unat: "unat (due + 1) = unat due + 1"
    using unat_add_lem [of due 1] by simp
  show "checked_add due 1 = Some (due + 1)" "due + 1 \<le> prev"
    using lt unat by (simp_all add: checked_add_def word_le_nat_alt)
qed

lemma step_eq:
  assumes "interp_inv config st"
  shows "step co syscalls st =
    (if due_insn_count (vm st) \<ge> previous_instruction_meter (vm st)
     then Some (False, throw_error ExceededMaxInstructions st)
     else if unat (reg st ! 11) \<ge> insn_count (program st)
     then Some (False, throw_error ExecutionOverrun (st\<lparr>vm := (vm st)\<lparr>due_insn_count := due_insn_count (vm st) + 1\<rparr>\<rparr>))
     else do {
       insn \<leftarrow> get_insn_unchecked (program st) (unat (reg st ! 11));
       outcome \<leftarrow> step_insn co syscalls config insn (reg st ! 11 + 1) (enter config st);
       Some (case outcome of
               Next pc st3 \<Rightarrow> (True, st3\<lparr>reg := (reg st3)[11 := pc]\<rparr>)
             | Stop st3 \<Rightarrow> (False, st3))
     })"
proof -
  have inv: "ex_get_config (executable st) = Some config" "enable_instruction_meter config"
      "length (program st) mod 8 = 0" "unat (reg st ! 11) \<le> insn_count (program st)"
      "insn_count (program st) < 1152921504606846976"
    using assms insn_count_bound [of "program st"]
      verify_ok_iff [of "program st" config "get_sbpf_version (executable st)"]
    by (simp_all add: interp_inv_def run_inv_def image_ok_def pc_ok_def)
  have "length (program st) = 8 * insn_count (program st)"
    using inv(3) by auto
  then have guard: "unat (reg st ! 11) * 8 \<ge> length (program st) \<longleftrightarrow> unat (reg st ! 11) \<ge> insn_count (program st)"
    by linarith
  have "checked_add (reg st ! 11) 1 = Some (reg st ! 11 + 1)" "\<not> unat (reg st ! 11) * 8 > usize_max"
    using inv(4,5) by (simp_all add: checked_add_def)
  then show ?thesis
    using inv(1,2) guard due_add_1 [of "due_insn_count (vm st)" "previous_instruction_meter (vm st)"]
    by (cases "due_insn_count (vm st) < previous_instruction_meter (vm st)")
      (simp_all add: step_def enter_def Let_def not_less)
qed

lemma interp_ready:
  assumes "interp_inv config st" and "due_insn_count (vm st) < previous_instruction_meter (vm st)"
    and "unat (reg st ! 11) < insn_count (program st)"
    and "get_insn_unchecked (program st) (unat (reg st ! 11)) = Some insn"
    and "opcode_at (program st) (unat (reg st ! 11)) \<noteq> 0"
  shows "ready config insn (reg st ! 11 + 1) (enter config st)"
proof -
  have "verify (program st) config (get_sbpf_version (executable st)) = Some (Inr ())" "length (program st) < usize_max"
    using assms(1) by (simp_all add: interp_inv_def run_inv_def image_ok_def)
  then have "insn_ok (program st) (get_sbpf_version (executable st)) (unat (reg st ! 11))"
    using verified_slot assms(3,5) by blast
  moreover have "run_inv config (enter config st)"
    using assms(1,2) due_add_1 by (simp add: interp_inv_def run_inv_def image_ok_def frames_ok_def pc_ok_def)
  ultimately show ?thesis
    using assms(3,4) by (simp add: ready_def)
qed

lemma step_ok:
  assumes "interp_inv config st" and "syscalls_ok syscalls (executable st)"
  shows "\<exists>go_on st'. step co syscalls st = Some (go_on, st') \<and> same_image st st' \<and> (go_on \<longrightarrow> interp_inv config st')"
proof -
  consider (meter) "due_insn_count (vm st) \<ge> previous_instruction_meter (vm st)"
    | (overrun) "due_insn_count (vm st) < previous_instruction_meter (vm st)" "unat (reg st ! 11) \<ge> insn_count (program st)"
    | (run) "due_insn_count (vm st) < previous_instruction_meter (vm st)" "unat (reg st ! 11) < insn_count (program st)"
    by (meson not_le)
  then show ?thesis
  proof cases
    case meter
    then show ?thesis by (auto simp: step_eq [OF assms(1)])
  next
    case overrun
    let ?st' = "throw_error ExecutionOverrun (st\<lparr>vm := (vm st)\<lparr>due_insn_count := due_insn_count (vm st) + 1\<rparr>\<rparr>)"
    have "step co syscalls st = Some (False, ?st')"
      using overrun by (simp add: step_eq [OF assms(1)])
    moreover have "same_image st ?st'"
      by (simp add: same_image_def [of st "st\<lparr>vm := _\<rparr>"])
    ultimately show ?thesis by blast
  next
    case run
    obtain insn where insn: "get_insn_unchecked (program st) (unat (reg st ! 11)) = Some insn"
        "i_opc insn = opcode_at (program st) (unat (reg st ! 11))"
      using get_insn_unchecked_total [OF run(2)] by blast
    have same: "same_image st (enter config st)"
      by (simp add: same_image_def)
    have "\<exists>f. step_insn co syscalls config insn (reg st ! 11 + 1) (enter config st) = Some f \<and>
        flow_ok config (enter config st) f"
    proof (cases "opcode_at (program st) (unat (reg st ! 11)) = 0")
      case True
      then show ?thesis using insn(2) by (simp add: step_insn_opcode_0 flow_ok_def)
    next
      case False
      then show ?thesis
        using step_insn_ok [OF interp_ready [OF assms(1) run insn(1)]] assms(2) by simp
    qed
    then obtain f where f: "step_insn co syscalls config insn (reg st ! 11 + 1) (enter config st) = Some f"
        "flow_ok config st f"
      using flow_ok_trans [OF same] by blast
    have "interp_inv config (st'\<lparr>reg := (reg st')[11 := pc]\<rparr>)" "same_image st (st'\<lparr>reg := (reg st')[11 := pc]\<rparr>)"
      if "f = Next pc st'" for pc st'
    proof -
      have st': "run_inv config st'" "pc_ok st' pc" "same_image st st'"
        using f(2) that by (simp_all add: flow_ok_def)
      then have "length (reg st') = 12"
        by (simp add: run_inv_def image_ok_def)
      then show "interp_inv config (st'\<lparr>reg := (reg st')[11 := pc]\<rparr>)"
        using st' run_inv_reg [OF st'(1), of "(reg st')[11 := pc]"] by (simp add: interp_inv_def pc_ok_def)
      show "same_image st (st'\<lparr>reg := (reg st')[11 := pc]\<rparr>)"
        using st'(3) by (simp add: same_image_def)
    qed
    then show ?thesis
      using step_eq [OF assms(1)] run insn(1) f by (cases f) (auto simp: flow_ok_def)
  qed
qed

end
