(* ===== verification/Interpreter_Control.thy ===== *)
theory Interpreter_Control
  imports Interpreter_Safety
begin

text \<open>
  Control flow of the interpreter: how a step changes the call depth, the call frames and the
  saved registers, and that a call returns to its caller with the caller's registers.
\<close>

section \<open>The effect of a step on the call stack\<close>

definition saved_frame :: "'c Interpreter \<Rightarrow> CallFrame" where
  "saved_frame st = \<lparr>caller_saved_registers = take SCRATCH_REGS (drop FIRST_SCRATCH_REG (reg st)),
     frame_pointer = reg st ! FRAME_PTR_REG, target_pc = reg st ! 11 + 1\<rparr>"

inductive stack_effect :: "'c Interpreter \<Rightarrow> 'c Interpreter \<Rightarrow> bool" for st st' where
  local: "call_depth (vm st') = call_depth (vm st) \<Longrightarrow> call_frames st' = call_frames st \<Longrightarrow> stack_effect st st'"
| call: "unat (call_depth (vm st')) = unat (call_depth (vm st)) + 1 \<Longrightarrow>
     call_frames st' = (call_frames st)[unat (call_depth (vm st)) := saved_frame st] \<Longrightarrow> stack_effect st st'"
| return: "unat (call_depth (vm st)) = unat (call_depth (vm st')) + 1 \<Longrightarrow> call_frames st' = call_frames st \<Longrightarrow>
     frame = call_frames st ! unat (call_depth (vm st')) \<Longrightarrow>
     (\<forall>i < SCRATCH_REGS. reg st' ! (FIRST_SCRATCH_REG + i) = caller_saved_registers frame ! i) \<Longrightarrow>
     reg st' ! FRAME_PTR_REG = frame_pointer frame \<Longrightarrow> reg st' ! 11 = target_pc frame \<Longrightarrow>
     stack_effect st st'"

lemma push_frame_effect:
  assumes "push_frame config st = Some (True, st')"
  shows "unat (call_depth (vm st')) = unat (call_depth (vm st)) + 1"
    and "call_frames st' = (call_frames st)[unat (call_depth (vm st)) := saved_frame st]"
proof -
  show "call_frames st' = (call_frames st)[unat (call_depth (vm st)) := saved_frame st]"
    using assms
    by (auto simp: push_frame_def Let_def saved_frame_def checked_add_def split: if_splits bind_splits)
  have "checked_add (call_depth (vm st)) 1 = Some (call_depth (vm st'))"
    using assms by (auto simp: push_frame_def Let_def split: if_splits bind_splits)
  then have "unat (call_depth (vm st)) + 1 < 2 ^ 64" "call_depth (vm st') = call_depth (vm st) + 1"
    by (auto simp: checked_add_def split: if_splits)
  then show "unat (call_depth (vm st')) = unat (call_depth (vm st)) + 1"
    using unat_add_lem [of "call_depth (vm st)" 1] by simp
qed

lemma builtin_vm_frame:
  "builtin_vm co rust m a b c d e = Some m' \<Longrightarrow> call_depth m' = call_depth m"
  by (auto simp: builtin_vm_def Let_def split: if_splits bind_splits)

lemma dispatch_syscall_frame:
  assumes "dispatch_syscall co syscalls callback st = Some st'"
  shows "reg st' = reg st" "call_frames st' = call_frames st" "call_depth (vm st') = call_depth (vm st)"
  using assms builtin_vm_frame
  by (fastforce simp: dispatch_syscall_def invoke_function_def Let_def split: bind_splits)+

lemma call_external_frame:
  assumes "call_external co syscalls insn st = Some (Inr (resolved, st'))"
  shows "saved_frame st' = saved_frame st" "call_frames st' = call_frames st" "call_depth (vm st') = call_depth (vm st)"
  using assms dispatch_syscall_frame [of co syscalls _ st]
  by (auto simp: call_external_def saved_frame_def split: if_splits option.splits bind_splits StableResult.splits)

lemma saved_frame_effect:
  assumes "push_frame config st = Some (True, st')" and "saved_frame st = saved_frame st0"
    and "call_frames st = call_frames st0" and "call_depth (vm st) = call_depth (vm st0)"
  shows "stack_effect st0 (st'\<lparr>reg := regs\<rparr>)"
  using push_frame_effect [OF assms(1)] assms(2-4) by (intro stack_effect.call) simp_all

lemma call_internal_effect:
  assumes "call_internal config insn next_pc resolved st = Some (Next pc st')"
    and "saved_frame st = saved_frame st0"
    and "call_frames st = call_frames st0" and "call_depth (vm st) = call_depth (vm st0)"
  shows "stack_effect st0 (st'\<lparr>reg := regs\<rparr>)"
  using assms(1) saved_frame_effect [OF _ assms(2-4)] assms(3,4)
  by (auto simp: call_internal_def check_pc_def Let_def intro: stack_effect.local
      split: if_splits option.splits bind_splits)

lemma exit_effect:
  assumes "exit_arm config st = Some (Next pc st')" and "frames_ok config st" and "length (reg st) = 12"
  shows "stack_effect st (st'\<lparr>reg := (reg st')[11 := pc]\<rparr>)"
proof -
  define frame where "frame = call_frames st ! unat (call_depth (vm st) - 1)"
  have depth: "call_depth (vm st) \<noteq> 0"
    and st': "st' = st\<lparr>vm := (vm st)\<lparr>call_depth := call_depth (vm st) - 1\<rparr>,
        reg := take 6 ((reg st)[10 := frame_pointer frame]) @ caller_saved_registers frame @
               drop 10 ((reg st)[10 := frame_pointer frame])\<rparr>"
    and pc: "pc = target_pc frame"
    using assms(1)
    by (auto simp: exit_arm_def frame_def Let_def index_opt_def split: if_splits bind_splits)
  have unat: "unat (call_depth (vm st)) = unat (call_depth (vm st) - 1) + 1"
    using depth by (simp add: unat_minus_one unat_gt_0)
  then have "length (caller_saved_registers frame) = 4"
    using assms(2) by (simp add: frames_ok_def frame_def)
  then show ?thesis
    using unat assms(3) pc st'
    by (intro stack_effect.return [where frame = frame]) (simp_all add: nth_append frame_def)
qed

lemma step_insn_effect:
  assumes "ready config insn next_pc st"
    and "step_insn co syscalls config insn next_pc st = Some (Next pc st')"
  shows "stack_effect st (st'\<lparr>reg := (reg st')[11 := pc]\<rparr>)"
proof (cases rule: step_insn_cases [of st insn next_pc co syscalls config])
  case arm
  then have "same_control st st'"
    using arm_local [OF arm assms(2)] by simp
  then show ?thesis
    by (intro stack_effect.local) (simp_all add: same_control_def)
next
  case call_reg
  then obtain st1 where "push_frame config st = Some (True, st1)" "st' = st1"
    using assms(2) by (auto simp: call_reg_def check_pc_def Let_def split: if_splits bind_splits)
  then show ?thesis
    by (simp add: saved_frame_effect)
next
  case call_imm
  then obtain resolved st1 where ext: "call_external co syscalls insn st = Some (Inr (resolved, st1))"
    and int: "call_internal config insn next_pc resolved st1 = Some (Next pc st')"
    using assms(2) by (auto simp: call_imm_def split: bind_splits sum.splits)
  show ?thesis
    by (rule call_internal_effect [OF int call_external_frame [OF ext]])
next
  case exit
  then show ?thesis
    using assms by (intro exit_effect) (auto simp: ready_def run_inv_def image_ok_def)
next
  case unsupported
  then show ?thesis using assms(2) by simp
qed

lemma stack_effect_enter:
  assumes "stack_effect (enter config st) st'"
  shows "stack_effect st st'"
  using assms
proof cases
  case local
  then show ?thesis by (intro stack_effect.local) simp_all
next
  case call
  then show ?thesis by (intro stack_effect.call) (simp_all add: saved_frame_def)
next
  case (return frame)
  then show ?thesis by (intro stack_effect.return [where frame = frame]) simp_all
qed

lemma step_goes_on:
  assumes "interp_inv config st" and "step co syscalls st = Some (True, st')"
  obtains insn pc st1 where "ready config insn (reg st ! 11 + 1) (enter config st)"
    and "step_insn co syscalls config insn (reg st ! 11 + 1) (enter config st) = Some (Next pc st1)"
    and "st' = st1\<lparr>reg := (reg st1)[11 := pc]\<rparr>"
proof -
  obtain insn pc st1 where s: "due_insn_count (vm st) < previous_instruction_meter (vm st)"
      "unat (reg st ! 11) < insn_count (program st)"
      "get_insn_unchecked (program st) (unat (reg st ! 11)) = Some insn"
    and step: "step_insn co syscalls config insn (reg st ! 11 + 1) (enter config st) = Some (Next pc st1)"
      "st' = st1\<lparr>reg := (reg st1)[11 := pc]\<rparr>"
    using assms(2) unfolding step_eq [OF assms(1)]
    by (auto simp: not_le split: if_splits bind_splits flow.splits)
  have "opcode_at (program st) (unat (reg st ! 11)) \<noteq> 0"
    using s(3) step(1) get_insn_unchecked_total [OF s(2)] step_insn_opcode_0
    by (metis flow.distinct(1) option.inject)
  then show ?thesis
    using that interp_ready [OF assms(1) s] step by blast
qed

lemma step_effect:
  assumes "interp_inv config st" and "step co syscalls st = Some (True, st')"
  shows "stack_effect st st'"
  using step_goes_on [OF assms] step_insn_effect stack_effect_enter by metis

section \<open>Calls return to their callers\<close>

text \<open>Executions that stay inside the calls made from depth \<open>d\<close>.\<close>

inductive inside :: "'c ContextObject \<Rightarrow> 'c syscalls \<Rightarrow> nat \<Rightarrow> 'c Interpreter \<Rightarrow> 'c Interpreter \<Rightarrow> bool"
  for co syscalls d st where
  entered: "d < unat (call_depth (vm st)) \<Longrightarrow> inside co syscalls d st st"
| proceeds: "inside co syscalls d st st' \<Longrightarrow> step co syscalls st' = Some (True, st'') \<Longrightarrow>
     d < unat (call_depth (vm st'')) \<Longrightarrow> inside co syscalls d st st''"

lemma step_keeps_frames:
  assumes "stack_effect st st'" and "i < unat (call_depth (vm st))"
  shows "call_frames st' ! i = call_frames st ! i"
  using assms by cases simp_all

lemma step_inv:
  assumes "interp_inv config st" and "syscalls_ok syscalls (executable st)" and "step co syscalls st = Some (True, st')"
  shows "interp_inv config st'" and "syscalls_ok syscalls (executable st')"
  using step_ok [OF assms(1,2), of co] assms(2,3) by (auto simp: same_image_def)

lemma inside_inv:
  assumes "inside co syscalls d st st'" and "interp_inv config st" and "syscalls_ok syscalls (executable st)"
  shows "interp_inv config st' \<and> syscalls_ok syscalls (executable st') \<and> d < unat (call_depth (vm st')) \<and>
    call_frames st' ! d = call_frames st ! d"
  using assms
proof induction
  case (proceeds st' st'')
  then show ?case
    using step_keeps_frames [OF step_effect, of config st' co syscalls st'' d] step_inv [of config st' syscalls co st'']
    by simp
qed simp_all

lemma call_effect:
  assumes "stack_effect st st'" and "unat (call_depth (vm st')) = unat (call_depth (vm st)) + 1"
    and "unat (call_depth (vm st)) < length (call_frames st)"
  shows "call_frames st' ! unat (call_depth (vm st)) = saved_frame st"
  using assms(1)
proof cases
  case local
  then show ?thesis using assms(2) by simp
next
  case call
  then show ?thesis using assms(3) by simp
next
  case (return frame)
  then show ?thesis using assms(2) by linarith
qed

lemma return_effect:
  assumes "stack_effect st st'" and "unat (call_depth (vm st')) < unat (call_depth (vm st))"
    and "frame = call_frames st ! unat (call_depth (vm st'))"
  shows "(\<forall>i < SCRATCH_REGS. reg st' ! (FIRST_SCRATCH_REG + i) = caller_saved_registers frame ! i) \<and>
    reg st' ! FRAME_PTR_REG = frame_pointer frame \<and> reg st' ! 11 = target_pc frame"
  using assms(1)
proof cases
  case call
  then show ?thesis using assms(2) by linarith
qed (use assms in simp_all)

lemma call_frame_restored:
  assumes "interp_inv config caller" and "syscalls_ok syscalls (executable caller)"
    and call: "step co syscalls caller = Some (True, callee)"
      "unat (call_depth (vm callee)) = unat (call_depth (vm caller)) + 1"
    and "inside co syscalls (unat (call_depth (vm caller))) callee leaf"
    and return: "step co syscalls leaf = Some (True, st')" "call_depth (vm st') = call_depth (vm caller)"
  shows "(\<forall>i < SCRATCH_REGS. reg st' ! (FIRST_SCRATCH_REG + i) = caller_saved_registers (saved_frame caller) ! i) \<and>
    reg st' ! FRAME_PTR_REG = frame_pointer (saved_frame caller) \<and> reg st' ! 11 = target_pc (saved_frame caller)"
proof -
  define d where "d = unat (call_depth (vm caller))"
  have "d < length (call_frames caller)"
    using assms(1) by (simp add: d_def interp_inv_def run_inv_def image_ok_def frames_ok_def)
  then have callee: "call_frames callee ! d = saved_frame caller"
    using call_effect [OF step_effect [OF assms(1) call(1)] call(2)] by (simp add: d_def)
  have "interp_inv config callee" "syscalls_ok syscalls (executable callee)"
    using step_inv [OF assms(1,2) call(1)] by simp_all
  then have leaf: "interp_inv config leaf" "d < unat (call_depth (vm leaf))" "call_frames leaf ! d = saved_frame caller"
    using inside_inv [OF assms(5)] callee by (simp_all add: d_def)
  then show ?thesis
    using return_effect [OF step_effect [OF leaf(1) return(1)]] return(2) by (simp add: d_def)
qed

end
