(* ===== verification/Execution.thy ===== *)
theory Execution
  imports Interpreter_Control
begin

text \<open>
  Whole runs. The instruction meter bounds every run of the interpreter: each step uses up at
  least one unit of the budget, also across built-in calls, so the main loop ends, and what
  \<open>execute_program\<close> reports is what the context object was charged.
\<close>

section \<open>The budget\<close>

definition budget :: "'c Interpreter \<Rightarrow> nat" where
  "budget st = unat (previous_instruction_meter (vm st)) - unat (due_insn_count (vm st))"

text \<open>The meter agrees with the context object and covers what is due.\<close>

definition metered :: "'c ContextObject \<Rightarrow> 'c Interpreter \<Rightarrow> bool" where
  "metered co st \<longleftrightarrow>
     previous_instruction_meter (vm st) = get_remaining co (context_object (vm st)) \<and>
     due_insn_count (vm st) \<le> previous_instruction_meter (vm st)"

definition charged :: "'c ContextObject \<Rightarrow> 'c Interpreter \<Rightarrow> 'c Interpreter \<Rightarrow> bool" where
  "charged co st st' \<longleftrightarrow> metered co st' \<and> budget st' \<le> budget st"

definition same_meter :: "'c Interpreter \<Rightarrow> 'c Interpreter \<Rightarrow> bool" where
  "same_meter st st' \<longleftrightarrow>
     context_object (vm st') = context_object (vm st) \<and>
     previous_instruction_meter (vm st') = previous_instruction_meter (vm st) \<and>
     due_insn_count (vm st') = due_insn_count (vm st)"

definition syscalls_frugal :: "'c ContextObject \<Rightarrow> 'c syscalls \<Rightarrow> bool" where
  "syscalls_frugal co syscalls \<longleftrightarrow> (\<forall>callback rust. syscalls callback = Some rust \<longrightarrow> builtin_frugal co rust)"

lemma charged_same_meter: "metered co st \<Longrightarrow> same_meter st st' \<Longrightarrow> charged co st st'"
  by (auto simp: charged_def metered_def same_meter_def budget_def)

lemma charged_trans: "charged co st st' \<Longrightarrow> charged co st' st'' \<Longrightarrow> charged co st st''"
  by (simp add: charged_def)

lemma same_meter_simps [simp]:
  "same_meter st st" "same_meter st (throw_error err st') \<longleftrightarrow> same_meter st st'"
  "same_meter st (st'\<lparr>reg := regs\<rparr>) \<longleftrightarrow> same_meter st st'"
  "same_meter st (st'\<lparr>vm := (vm st')\<lparr>program_result := r\<rparr>\<rparr>) \<longleftrightarrow> same_meter st st'"
  by (simp_all add: same_meter_def throw_error_def)

lemma push_frame_meter: "push_frame config st = Some (pushed, st') \<Longrightarrow> same_meter st st'"
  by (auto simp: push_frame_def Let_def same_meter_def throw_error_def split: if_splits bind_splits)

lemma check_pc_state: "same_meter st (flow_state (check_pc pc st')) \<longleftrightarrow> same_meter st st'"
  by (simp add: check_pc_def)

lemma call_reg_meter: "call_reg config insn st = Some f \<Longrightarrow> same_meter st (flow_state f)"
  by (auto simp: call_reg_def Let_def check_pc_state dest!: push_frame_meter split: if_splits bind_splits)

lemma call_internal_meter: "call_internal config insn next_pc resolved st = Some f \<Longrightarrow> same_meter st (flow_state f)"
  by (auto simp: call_internal_def Let_def check_pc_state dest!: push_frame_meter
      split: if_splits bind_splits option.splits)

lemma exit_meter: "exit_arm config st = Some f \<Longrightarrow> same_meter st (flow_state f)"
  by (auto simp: exit_arm_def Let_def same_meter_def throw_error_def split: if_splits bind_splits)

lemma metered_enter:
  assumes "metered co st" and "due_insn_count (vm st) < previous_instruction_meter (vm st)"
  shows "metered co (enter config st)" and "budget (enter config st) < budget st"
  using assms due_add_1 [OF assms(2)]
  by (simp_all add: metered_def budget_def word_less_nat_alt)

context instruction_meter
begin

lemma dispatch_charged:
  assumes "dispatch_syscall co syscalls callback st = Some st'" and "metered co st"
    and "syscalls_frugal co syscalls" and "get_config (vm_loader (vm st)) = Some config"
    and "enable_instruction_meter config"
  shows "charged co st st'"
proof -
  obtain rust m m' where m: "syscalls callback = Some rust"
      "m = (vm st)\<lparr>due_insn_count := previous_instruction_meter (vm st) - due_insn_count (vm st),
         registers := take 6 (reg st) @ drop 6 (registers (vm st))\<rparr>"
    and b: "builtin_vm co rust m (registers m ! 1) (registers m ! 2) (registers m ! 3) (registers m ! 4)
         (registers m ! 5) = Some m'"
      "st' = st\<lparr>vm := m'\<lparr>due_insn_count := 0\<rparr>\<rparr>"
    using dispatch_syscall_cases [OF assms(1)] .
  have "builtin_frugal co rust"
    using assms(3) m(1) by (simp add: syscalls_frugal_def)
  moreover have "get_config (vm_loader m) = Some config" "previous_instruction_meter m = get_remaining co (context_object m)"
    using assms(2,4) m(2) by (simp_all add: metered_def)
  ultimately have "previous_instruction_meter m' = get_remaining co (context_object m')"
      "previous_instruction_meter m' \<le> due_insn_count m"
    using builtin_vm_meter [OF b(1)] assms(5) by blast+
  then show ?thesis
    using b(2) m(2) assms(2) by (auto simp: charged_def metered_def budget_def word_le_nat_alt unat_sub)
qed

lemma call_external_charged:
  assumes "call_external co syscalls insn st = Some r" and "metered co st"
    and "syscalls_frugal co syscalls" and "get_config (vm_loader (vm st)) = Some config"
    and "enable_instruction_meter config"
  shows "charged co st (case r of Inl st' \<Rightarrow> st' | Inr (resolved, st') \<Rightarrow> st')"
proof -
  have refl: "charged co st st"
    using assms(2) by (simp add: charged_def)
  have reg: "charged co st (st'\<lparr>reg := regs\<rparr>)" if "charged co st st'" for st' regs
    using that charged_trans [OF that charged_same_meter] by (simp add: charged_def)
  show ?thesis
    using assms(1) refl reg dispatch_charged [OF _ assms(2-5)]
    by (auto simp: call_external_def split: if_splits option.splits bind_splits StableResult.splits)
qed

lemma step_insn_charged:
  assumes "step_insn co syscalls config insn next_pc st = Some f" and "metered co st"
    and "syscalls_frugal co syscalls" and "get_config (vm_loader (vm st)) = Some config"
    and "enable_instruction_meter config"
  shows "charged co st (flow_state f)"
proof (cases rule: step_insn_cases [of st insn next_pc co syscalls config])
  case arm
  then show ?thesis
    using arm_local [OF arm assms(1)] assms(2)
    by (intro charged_same_meter) (simp_all add: same_control_def same_meter_def)
next
  case call_reg
  then show ?thesis
    using assms(1,2) call_reg_meter by (metis charged_same_meter)
next
  case call_imm
  then obtain r where r: "call_external co syscalls insn st = Some r"
      "(case r of Inl st' \<Rightarrow> Some (Stop st')
        | Inr (resolved, st') \<Rightarrow> call_internal config insn next_pc resolved st') = Some f"
    using assms(1) by (auto simp: call_imm_def split: bind_splits)
  note charged = call_external_charged [OF r(1) assms(2-5)]
  show ?thesis
  proof (cases r)
    case (Inl st')
    then show ?thesis using r(2) charged by auto
  next
    case (Inr x)
    then obtain resolved st' where "r = Inr (resolved, st')" by (cases x) auto
    then show ?thesis
      using r(2) charged charged_trans charged_same_meter call_internal_meter
      by (metis (no_types, lifting) charged_def old.prod.case sum.simps(6))
  qed
next
  case exit
  then show ?thesis
    using assms(1,2) exit_meter by (metis charged_same_meter)
next
  case unsupported
  then show ?thesis
    using assms(1,2) by (auto intro: charged_same_meter)
qed

lemma step_charged:
  assumes "interp_inv config st" and "metered co st" and "syscalls_frugal co syscalls"
    and "step co syscalls st = Some (go_on, st')"
  shows "metered co st'" and "budget st' \<le> budget st" and "go_on \<Longrightarrow> budget st' < budget st"
proof -
  have cfg: "get_config (vm_loader (vm st)) = Some config" "enable_instruction_meter config"
    using assms(1) by (simp_all add: interp_inv_def run_inv_def image_ok_def ex_get_config_def get_loader_def)
  have "metered co st' \<and> (budget st' < budget st \<or> \<not> go_on \<and> budget st' = budget st)"
  proof (cases "due_insn_count (vm st) < previous_instruction_meter (vm st)")
    case False
    then have "go_on = False" "st' = throw_error ExceededMaxInstructions st"
      using assms(4) by (simp_all add: step_eq [OF assms(1)] not_less)
    then show ?thesis
      using assms(2) by (auto simp: metered_def budget_def throw_error_def)
  next
    case True
    define entered where "entered = enter config st"
    have nle: "\<not> previous_instruction_meter (vm st) \<le> due_insn_count (vm st)"
      using True by simp
    have m: "metered co entered" "budget entered < budget st"
      using metered_enter [OF assms(2) True] by (simp_all add: entered_def)
    have "charged co entered st'"
    proof (cases "unat (reg st ! 11) \<ge> insn_count (program st)")
      case overrun: True
      then have "st' = throw_error ExecutionOverrun (st\<lparr>vm := (vm st)\<lparr>due_insn_count := due_insn_count (vm st) + 1\<rparr>\<rparr>)"
        using assms(4) nle by (simp add: step_eq [OF assms(1)])
      then have "same_meter entered st'"
        by (simp add: same_meter_def entered_def throw_error_def)
      then show ?thesis
        using charged_same_meter [OF m(1)] by blast
    next
      case False
      then obtain insn f where f: "step_insn co syscalls config insn (reg st ! 11 + 1) entered = Some f"
          "st' = (case f of Next pc st3 \<Rightarrow> st3\<lparr>reg := (reg st3)[11 := pc]\<rparr> | Stop st3 \<Rightarrow> st3)"
        using assms(4) nle
        by (auto simp: step_eq [OF assms(1)] entered_def split: bind_splits flow.splits)
      have c: "charged co entered (flow_state f)"
        using step_insn_charged [OF f(1) m(1) assms(3)] cfg by (simp add: entered_def)
      have "same_meter (flow_state f) st'"
        using f(2) by (cases f) simp_all
      then show ?thesis
        using c charged_trans [OF c charged_same_meter] by (auto simp: charged_def)
    qed
    then show ?thesis
      using m(2) by (auto simp: charged_def)
  qed
  then show "metered co st'" "budget st' \<le> budget st" "go_on \<Longrightarrow> budget st' < budget st"
    by auto
qed

lemma run_terminates:
  assumes "interp_inv config st" and "metered co st"
    and "syscalls_ok syscalls (executable st)" and "syscalls_frugal co syscalls"
  shows "\<exists>st'. run_interpreter co syscalls st = Some (Some st') \<and> charged co st st' \<and> same_image st st'"
  using assms
proof (induction "budget st" arbitrary: st rule: less_induct)
  case less
  obtain go_on st' where s: "step co syscalls st = Some (go_on, st')" "same_image st st'"
      "go_on \<longrightarrow> interp_inv config st'"
    using step_ok [OF less.prems(1,3)] by blast
  note c = step_charged [OF less.prems(1,2,4) s(1)]
  show ?case
  proof (cases go_on)
    case False
    then show ?thesis
      using s c by (simp add: run_interpreter.simps [of co syscalls st] charged_def)
  next
    case True
    have "syscalls_ok syscalls (executable st')"
      using less.prems(3) s(2) by (simp add: same_image_def)
    then obtain st'' where "run_interpreter co syscalls st' = Some (Some st'')" "charged co st' st''" "same_image st' st''"
      using less.hyps [OF c(3) _ c(1) _ less.prems(4)] True s(3) by blast
    then show ?thesis
      using True s(1) c same_image_trans [OF s(2)]
      by (simp add: run_interpreter.simps [of co syscalls st] charged_def)
  qed
qed

end

section \<open>Sequences of steps\<close>

inductive steps :: "'c ContextObject \<Rightarrow> 'c syscalls \<Rightarrow> 'c Interpreter \<Rightarrow> nat \<Rightarrow> 'c Interpreter \<Rightarrow> bool"
  for co syscalls st where
  none: "steps co syscalls st 0 st"
| one_more: "steps co syscalls st n st' \<Longrightarrow> step co syscalls st' = Some (True, st'') \<Longrightarrow> steps co syscalls st (Suc n) st''"

lemma steps_inv:
  assumes "steps co syscalls st n st'" and "interp_inv config st" and "syscalls_ok syscalls (executable st)"
  shows "interp_inv config st' \<and> syscalls_ok syscalls (executable st') \<and> executable st' = executable st"
  using assms
proof induction
  case (one_more n st' st'')
  then show ?case
    using step_inv [of config st' syscalls co st''] step_ok [of config st' syscalls co]
    by (auto simp: same_image_def)
qed simp_all

context instruction_meter
begin

lemma steps_bound:
  assumes "steps co syscalls st n st'" and "interp_inv config st" and "metered co st"
    and "syscalls_ok syscalls (executable st)" and "syscalls_frugal co syscalls"
  shows "metered co st' \<and> n + budget st' \<le> budget st"
  using assms
proof induction
  case (one_more n st' st'')
  then show ?case
    using steps_inv [OF one_more.hyps(1)] step_charged [of config st' syscalls True st''] by auto
qed simp_all

end

section \<open>Executing a verified program\<close>

definition launch_ok :: "Config \<Rightarrow> Executable \<Rightarrow> CallFrame list \<Rightarrow> 'c EbpfVm \<Rightarrow> bool" where
  "launch_ok config ex frames m \<longleftrightarrow>
     (\<exists>vaddr text. get_text_bytes ex = Some (vaddr, text) \<and> length text < 2 ^ 63 \<and>
        entry_pc ex \<le> insn_count text) \<and>
     ex_verify ex = Some (Inr ()) \<and> ex_get_config ex = Some config \<and> vm_loader m = get_loader ex \<and>
     enable_instruction_meter config \<and> 2 * stack_frame_size config \<le> usize_max \<and>
     0 < max_call_depth config \<and> max_call_depth config \<le> usize_max \<and> max_call_depth config \<le> length frames \<and>
     call_depth m = 0 \<and> length (registers m) = 12 \<and> mapping_ok (memory_mapping m)"

definition launched :: "'c ContextObject \<Rightarrow> Executable \<Rightarrow> 'c EbpfVm \<Rightarrow> 'c EbpfVm" where
  "launched co ex m =
     m\<lparr>registers := (registers m)[11 := of_nat (entry_pc ex)],
       previous_instruction_meter := get_remaining co (context_object m), due_insn_count := 0,
       program_result := Ok 0\<rparr>"

lemma registers_launched: "registers (launched co ex m) = (registers m)[11 := of_nat (entry_pc ex)]"
  by (simp add: launched_def)

lemma launch_inv:
  assumes "launch_ok config ex frames m"
  obtains st where "interpreter_new (launched co ex m) ex (registers (launched co ex m)) frames = Some st"
    and "interp_inv config st" and "metered co st" and "executable st = ex"
    and "budget st = unat (get_remaining co (context_object m))" and "vm st = launched co ex m"
proof -
  obtain vaddr code where code: "get_text_bytes ex = Some (vaddr, code)" "length code < 2 ^ 63"
      "entry_pc ex \<le> insn_count code"
    using assms by (auto simp: launch_ok_def)
  have inv: "ex_get_config ex = Some config" "max_call_depth config \<le> length frames" "0 < max_call_depth config"
      "length (registers m) = 12" "call_depth m = 0"
    using assms by (simp_all add: launch_ok_def)
  have verified: "verify code config (get_sbpf_version ex) = Some (Inr ())"
    using assms code(1) by (auto simp: launch_ok_def ex_verify_def map_sum_eq_Inr_iff split: bind_splits)
  define st where "st = \<lparr>vm = launched co ex m, executable = ex, program = code, program_vm_addr = vaddr,
    call_frames = frames, reg = registers (launched co ex m)\<rparr>"
  have "interpreter_new (launched co ex m) ex (registers (launched co ex m)) frames = Some st"
    using code(1) inv(1,2) by (simp add: interpreter_new_def st_def)
  moreover have "unat (of_nat (entry_pc ex) :: u64) = entry_pc ex"
    using code(3) insn_count_bound [OF code(2)] by (simp add: unsigned_of_nat take_bit_nat_eq_self)
  then have "interp_inv config st"
    using assms code inv verified
    by (simp add: interp_inv_def run_inv_def image_ok_def frames_ok_def pc_ok_def launch_ok_def launched_def st_def)
  moreover have "metered co st" "budget st = unat (get_remaining co (context_object m))"
    by (simp_all add: metered_def budget_def st_def launched_def)
  ultimately show ?thesis
    using that by (simp add: st_def)
qed

lemma execute_program_run:
  assumes "ex_get_config ex = Some config"
    and "interpreter_new (launched co ex m) ex (registers (launched co ex m)) frames = Some st"
    and "run_interpreter co syscalls st = Some (Some st')"
    and "finish_execution co config (get_remaining co (context_object m)) (vm st') = (res, m')"
  shows "execute_program co syscalls compiled ex Interpreted frames m =
    Some (Some (res, Interpreted, call_frames st', m'))"
  using assms(2) [unfolded registers_launched] assms(1,3,4)
  by (simp add: execute_program_def execute_interpreted_def get_entrypoint_instruction_offset_def
      launched_def [symmetric] Let_def)

lemma execute_program_panic:
  assumes "ex_get_config ex = Some config"
    and "interpreter_new (launched co ex m) ex (registers (launched co ex m)) frames = Some st"
    and "step co syscalls st = None"
  shows "execute_program co syscalls compiled ex Interpreted frames m = Some None"
proof -
  have "run_interpreter co syscalls st = Some None"
    using assms(3) by (simp add: run_interpreter.simps [of co syscalls st])
  then show ?thesis
    using assms(2) [unfolded registers_launched] assms(1)
    by (simp add: execute_program_def execute_interpreted_def get_entrypoint_instruction_offset_def
        launched_def [symmetric] Let_def)
qed

context instruction_meter
begin

lemma finish_charged:
  assumes "metered co st" and "budget st \<le> unat initial" and "enable_instruction_meter config"
    and "finish_execution co config initial (vm st) = ((count, res), m')"
  shows "unat count + unat (get_remaining co (context_object m')) = unat initial"
proof -
  have "get_remaining co (context_object m') = previous_instruction_meter (vm st) - due_insn_count (vm st)"
    and count: "count = saturating_sub initial (get_remaining co (context_object m'))"
    using assms(1,3,4) by (auto simp: finish_execution_def metered_def remaining_consume saturating_sub_def Let_def)
  then have "unat (get_remaining co (context_object m')) = budget st"
    using assms(1) by (auto simp: budget_def metered_def unat_sub)
  then show ?thesis
    using assms(2) count by (simp add: saturating_sub_def word_le_nat_alt unat_sub)
qed

lemma execute_returns:
  assumes "launch_ok config ex frames m" and "syscalls_ok syscalls ex" and "syscalls_frugal co syscalls"
  shows "\<exists>count res frames' m'.
    execute_program co syscalls compiled ex Interpreted frames m = Some (Some ((count, res), Interpreted, frames', m')) \<and>
    unat count + unat (get_remaining co (context_object m')) = unat (get_remaining co (context_object m))"
proof -
  obtain st where st: "interpreter_new (launched co ex m) ex (registers (launched co ex m)) frames = Some st"
      "interp_inv config st" "metered co st" "executable st = ex"
      "budget st = unat (get_remaining co (context_object m))"
    using launch_inv [OF assms(1)] by blast
  have "syscalls_ok syscalls (executable st)"
    using assms(2) st(4) by simp
  then obtain st' where run: "run_interpreter co syscalls st = Some (Some st')" "charged co st st'"
    using run_terminates [OF st(2,3) _ assms(3)] by blast
  have cfg: "ex_get_config ex = Some config" "enable_instruction_meter config"
    using assms(1) by (simp_all add: launch_ok_def)
  obtain count res m' where fin: "finish_execution co config (get_remaining co (context_object m)) (vm st') = ((count, res), m')"
    by (metis surj_pair)
  have "execute_program co syscalls compiled ex Interpreted frames m =
      Some (Some ((count, res), Interpreted, call_frames st', m'))"
    by (rule execute_program_run [OF cfg(1) st(1) run(1) fin])
  moreover have "unat count + unat (get_remaining co (context_object m')) = unat (get_remaining co (context_object m))"
    using finish_charged [OF _ _ cfg(2) fin] run(2) st(5) by (simp add: charged_def)
  ultimately show ?thesis
    by blast
qed

end

end
