(* ===== verification/Memory_Isolation.thy ===== *)
theory Memory_Isolation
  imports Execution
begin

text \<open>
  Isolation of the host: a run of a verified program changes only bytes of the host that lie in
  a writable region of the memory mapping, whatever the program does.
\<close>

section \<open>Writes\<close>

definition in_writable :: "MemoryRegion list \<Rightarrow> u64 \<Rightarrow> bool" where
  "in_writable regions x \<longleftrightarrow>
     (\<exists>r \<in> set regions. writable r \<and> unat (host_addr r) \<le> unat x \<and> unat x < unat (host_addr r) + unat (mr_len r))"

definition confined :: "MemoryRegion list \<Rightarrow> host_memory \<Rightarrow> host_memory \<Rightarrow> bool" where
  "confined regions mem mem' \<longleftrightarrow> (\<forall>x. mem' x \<noteq> mem x \<longrightarrow> in_writable regions x)"

text \<open>The host memory of a region does not wrap around the end of the address space.\<close>

definition regions_hosted :: "MemoryRegion list \<Rightarrow> bool" where
  "regions_hosted regions \<longleftrightarrow> (\<forall>r \<in> set regions. unat (host_addr r) + unat (mr_len r) < 2 ^ 64)"

lemma confined_refl [simp]: "confined regions mem mem"
  by (simp add: confined_def)

lemma confined_trans: "confined regions mem mem' \<Longrightarrow> confined regions mem' mem'' \<Longrightarrow> confined regions mem mem''"
  unfolding confined_def by metis

lemma fold_update_outside:
  "(\<forall>i \<in> set is. x \<noteq> f i) \<Longrightarrow> fold (\<lambda>i m. m(f i := g i)) is m x = m x"
  by (induction "is" arbitrary: m) simp_all

lemma write_unaligned_outside:
  assumes "write_unaligned n h v mem x \<noteq> mem x"
  shows "\<exists>i < n. x = h + of_nat i"
  using assms fold_update_outside [of "[0..<n]" x "\<lambda>i. h + of_nat i" "\<lambda>i. le_bytes n v ! i" mem]
  by (force simp: write_unaligned_def)

lemma write_confined:
  assumes "region_inv r" and "vm_to_host r Store a (of_nat n) = Some h" and "n \<le> 8"
    and "r \<in> set regions" and "regions_hosted regions"
  shows "confined regions mem (write_unaligned n h v mem)"
proof -
  have hosted: "unat (host_addr r) + unat (mr_len r) < 2 ^ 64"
    using assms(4,5) by (simp add: regions_hosted_def)
  have n: "unat (of_nat n :: u64) = n"
    using assms(3) by (simp add: unsigned_of_nat take_bit_nat_eq_self)
  have h: "unat (host_addr r) \<le> unat h" "unat h + n \<le> unat (host_addr r) + unat (mr_len r)" "writable r"
    using vm_to_host_host [OF assms(1,2) hosted] n by (simp_all add: translatable_def)
  have "in_writable regions (h + of_nat i)" if "i < n" for i
  proof -
    have "unat (of_nat i :: u64) = i"
      using that assms(3) by (simp add: unsigned_of_nat take_bit_nat_eq_self)
    then have "unat (h + of_nat i) = unat h + i"
      using h(2) hosted that unat_add_lem [of h "of_nat i"] by simp
    then show ?thesis
      using h that assms(4) by (auto simp: in_writable_def)
  qed
  then show ?thesis
    unfolding confined_def using write_unaligned_outside by metis
qed

section \<open>The effect of a step on memory\<close>

definition mem_effect :: "'c Interpreter \<Rightarrow> 'c Interpreter \<Rightarrow> bool" where
  "mem_effect st st' \<longleftrightarrow>
     get_regions (memory_mapping (vm st')) = get_regions (memory_mapping (vm st)) \<and>
     confined (get_regions (memory_mapping (vm st))) (host_mem (vm st)) (host_mem (vm st'))"

definition same_memory :: "'c Interpreter \<Rightarrow> 'c Interpreter \<Rightarrow> bool" where
  "same_memory st st' \<longleftrightarrow> memory_mapping (vm st') = memory_mapping (vm st) \<and> host_mem (vm st') = host_mem (vm st)"

lemma same_memory_effect: "same_memory st st' \<Longrightarrow> mem_effect st st'"
  by (simp add: same_memory_def mem_effect_def)

lemma mem_effect_trans: "mem_effect st st' \<Longrightarrow> mem_effect st' st'' \<Longrightarrow> mem_effect st st''"
  unfolding mem_effect_def by (auto intro: confined_trans)

lemma same_memory_simps [simp]:
  "same_memory st st" "same_memory st (throw_error err st') \<longleftrightarrow> same_memory st st'"
  "same_memory st (st'\<lparr>reg := regs\<rparr>) \<longleftrightarrow> same_memory st st'"
  "same_memory (enter config st) st' \<longleftrightarrow> same_memory st st'"
  by (simp_all add: same_memory_def throw_error_def)

lemma mem_effect_enter [simp]: "mem_effect (enter config st) st' \<longleftrightarrow> mem_effect st st'"
  by (simp add: mem_effect_def)

lemma mem_effect_throw [simp]: "mem_effect st (throw_error err st') \<longleftrightarrow> mem_effect st st'"
  by (simp add: mem_effect_def throw_error_def)

lemma mem_effect_reg [simp]: "mem_effect st (st'\<lparr>reg := regs\<rparr>) \<longleftrightarrow> mem_effect st st'"
  by (simp add: mem_effect_def)

text \<open>Built-in functions that write through the mapping only, and keep its regions.\<close>

definition builtin_confined :: "'c builtin \<Rightarrow> bool" where
  "builtin_confined rust \<longleftrightarrow>
     (\<forall>a b c d e ctx mapping mem res ctx' mapping' mem'. mapping_ok mapping \<longrightarrow>
        rust a b c d e (ctx, mapping, mem) = Some (res, ctx', mapping', mem') \<longrightarrow>
        get_regions mapping' = get_regions mapping \<and> confined (get_regions mapping) mem mem')"

definition syscalls_confined :: "'c syscalls \<Rightarrow> bool" where
  "syscalls_confined syscalls \<longleftrightarrow> (\<forall>callback rust. syscalls callback = Some rust \<longrightarrow> builtin_confined rust)"

lemma push_frame_memory: "push_frame config st = Some (pushed, st') \<Longrightarrow> same_memory st st'"
  by (auto simp: push_frame_def Let_def same_memory_def throw_error_def split: if_splits bind_splits)

lemma check_pc_memory: "same_memory st (flow_state (check_pc pc st')) \<longleftrightarrow> same_memory st st'"
  by (simp add: check_pc_def)

lemma call_reg_memory: "call_reg config insn st = Some f \<Longrightarrow> same_memory st (flow_state f)"
  by (auto simp: call_reg_def Let_def check_pc_memory dest!: push_frame_memory split: if_splits bind_splits)

lemma call_internal_memory: "call_internal config insn next_pc resolved st = Some f \<Longrightarrow> same_memory st (flow_state f)"
  by (auto simp: call_internal_def Let_def check_pc_memory dest!: push_frame_memory
      split: if_splits bind_splits option.splits)

lemma exit_memory: "exit_arm config st = Some f \<Longrightarrow> same_memory st (flow_state f)"
  by (auto simp: exit_arm_def Let_def same_memory_def throw_error_def split: if_splits bind_splits)

lemma dispatch_memory:
  assumes "dispatch_syscall co syscalls callback st = Some st'" and "syscalls_confined syscalls"
    and "mapping_ok (memory_mapping (vm st))"
  shows "mem_effect st st'"
proof -
  obtain rust m m' where m: "syscalls callback = Some rust"
      "m = (vm st)\<lparr>due_insn_count := previous_instruction_meter (vm st) - due_insn_count (vm st),
         registers := take 6 (reg st) @ drop 6 (registers (vm st))\<rparr>"
    and b: "builtin_vm co rust m (registers m ! 1) (registers m ! 2) (registers m ! 3) (registers m ! 4)
         (registers m ! 5) = Some m'"
      "st' = st\<lparr>vm := m'\<lparr>due_insn_count := 0\<rparr>\<rparr>"
    using dispatch_syscall_cases [OF assms(1)] .
  obtain ctx res ctx' where "rust (registers m ! 1) (registers m ! 2) (registers m ! 3) (registers m ! 4) (registers m ! 5)
      (ctx, memory_mapping m, host_mem m) = Some (res, ctx', memory_mapping m', host_mem m')"
    using b(1) by (auto simp: builtin_vm_def Let_def split: bind_splits if_splits)
  moreover have "builtin_confined rust"
    using assms(2) m(1) by (simp add: syscalls_confined_def)
  ultimately have "get_regions (memory_mapping m') = get_regions (memory_mapping m)"
      "confined (get_regions (memory_mapping m)) (host_mem m) (host_mem m')"
    using assms(3) m(2) unfolding builtin_confined_def by simp_all
  then show ?thesis
    using b(2) m(2) by (simp add: mem_effect_def)
qed

lemma call_external_memory:
  assumes "call_external co syscalls insn st = Some r" and "syscalls_confined syscalls"
    and "mapping_ok (memory_mapping (vm st))"
  shows "mem_effect st (case r of Inl st' \<Rightarrow> st' | Inr (resolved, st') \<Rightarrow> st')"
  using assms(1) dispatch_memory [OF _ assms(2,3)] same_memory_effect [of st st]
  by (auto simp: call_external_def split: if_splits option.splits bind_splits StableResult.splits)

lemma mapping_effect:
  "get_regions m' = get_regions (memory_mapping (vm st)) \<Longrightarrow> mem_effect st (st\<lparr>vm := (vm st)\<lparr>memory_mapping := m'\<rparr>\<rparr>)"
  by (simp add: mem_effect_def)

lemma store_value_memory:
  assumes "mapping_ok (memory_mapping (vm st))" and "n \<in> {1, 2, 4, 8}"
    and "regions_hosted (get_regions (memory_mapping (vm st)))"
    and "store_value n val insn next_pc st = Some f"
  shows "mem_effect st (flow_state f)"
proof -
  define regions where "regions = get_regions (memory_mapping (vm st))"
  obtain d res mem' m' where st: "mapping_store n val d (host_mem (vm st)) (memory_mapping (vm st)) = Some (res, mem', m')"
      "same_memory (st\<lparr>vm := (vm st)\<lparr>memory_mapping := m', host_mem := mem'\<rparr>\<rparr>) (flow_state f)"
    using assms(4) by (auto simp: store_value_def Let_def split: bind_splits StableResult.splits)
  have ok: "get_regions m' = regions"
      "mem' = host_mem (vm st) \<or> (\<exists>h r. r \<in> set regions \<and> vm_to_host r Store d (of_nat n) = Some h \<and>
         mem' = write_unaligned n h val (host_mem (vm st)))"
    using mapping_store_ok [OF assms(1,2), of val d "host_mem (vm st)"] st(1) by (auto simp: regions_def)
  have inv: "region_inv r" if "r \<in> set regions" for r
    using assms(1) that mapping.regions_inv by (auto simp: mapping_ok_def regions_def)
  have "n \<le> 8"
    using assms(2) by auto
  then have "confined regions (host_mem (vm st)) mem'"
    using ok(2) write_confined [OF inv] assms(3) by (auto simp: regions_def)
  then show ?thesis
    using st(2) ok(1) by (simp add: mem_effect_def same_memory_def regions_def)
qed

lemma arm_memory:
  assumes "arm_shape v insn next_pc st r" and "r = Some f" and "mapping_ok (memory_mapping (vm st))"
    and "regions_hosted (get_regions (memory_mapping (vm st)))"
  shows "mem_effect st (flow_state f)"
proof -
  have alu: "same_memory st' (flow_state f)" if "alu_write x insn next_pc st' = Some f" for x st'
    using that by (auto simp: alu_write_def reg_set_eq_Some_iff split: sum.splits)
  show ?thesis
    using assms(1)
  proof cases
    case (shape_load n)
    then obtain a res m' where l: "mapping_load n a (host_mem (vm st)) (memory_mapping (vm st)) = Some (res, m')"
        "alu_write (to_result res) insn next_pc (st\<lparr>vm := (vm st)\<lparr>memory_mapping := m'\<rparr>\<rparr>) = Some f"
      using assms(2) by (auto simp: load_arm_def Let_def split: bind_splits)
    have "get_regions m' = get_regions (memory_mapping (vm st))"
      using mapping_load_ok [OF assms(3) shape_load(2), of a "host_mem (vm st)"] l(1) by auto
    then show ?thesis
      using mem_effect_trans [OF mapping_effect same_memory_effect [OF alu [OF l(2)]]] by blast
  next
    case (shape_store_imm n)
    then show ?thesis
      using store_value_memory [OF assms(3) _ assms(4)] assms(2) by (simp add: store_imm_def)
  next
    case (shape_store_reg n)
    then show ?thesis
      using store_value_memory [OF assms(3) _ assms(4)] assms(2)
      by (auto simp: store_reg_def split: bind_splits)
  qed (use assms(2) alu in \<open>auto simp: alu_imm_def alu_reg_def load_dw_imm_def jmp_imm_def jmp_reg_def
      reg_set_eq_Some_iff intro!: same_memory_effect dest!: jump_arm_state split: bind_splits if_splits\<close>)
qed

lemma step_insn_memory:
  assumes "step_insn co syscalls config insn next_pc st = Some f" and "syscalls_confined syscalls"
    and "mapping_ok (memory_mapping (vm st))" and "regions_hosted (get_regions (memory_mapping (vm st)))"
  shows "mem_effect st (flow_state f)"
proof (cases rule: step_insn_cases [of st insn next_pc co syscalls config])
  case arm
  then show ?thesis using arm_memory [OF arm assms(1,3,4)] by blast
next
  case call_reg
  then show ?thesis using assms(1) call_reg_memory same_memory_effect by metis
next
  case call_imm
  then obtain r where r: "call_external co syscalls insn st = Some r"
      "(case r of Inl st' \<Rightarrow> Some (Stop st')
        | Inr (resolved, st') \<Rightarrow> call_internal config insn next_pc resolved st') = Some f"
    using assms(1) by (auto simp: call_imm_def split: bind_splits)
  note ext = call_external_memory [OF r(1) assms(2,3)]
  show ?thesis
  proof (cases r)
    case (Inl st')
    then show ?thesis using r(2) ext by auto
  next
    case (Inr x)
    then obtain resolved st' where "r = Inr (resolved, st')" by (cases x) auto
    then show ?thesis
      using r(2) ext mem_effect_trans [OF _ same_memory_effect [OF call_internal_memory]] by simp
  qed
next
  case exit
  then show ?thesis using assms(1) exit_memory same_memory_effect by metis
next
  case unsupported
  then show ?thesis using assms(1) by (auto intro: same_memory_effect)
qed

lemma step_memory:
  assumes "interp_inv config st" and "step co syscalls st = Some (go_on, st')" and "syscalls_confined syscalls"
    and "regions_hosted (get_regions (memory_mapping (vm st)))"
  shows "mem_effect st st'"
proof -
  have ok: "mapping_ok (memory_mapping (vm st))"
    using assms(1) by (simp add: interp_inv_def run_inv_def)
  consider err st1 where "st' = throw_error err st1" "same_memory st st1"
    | insn f where "step_insn co syscalls config insn (reg st ! 11 + 1) (enter config st) = Some f"
        "same_memory (flow_state f) st'"
    using assms(2) unfolding step_eq [OF assms(1)]
    by (auto simp: same_memory_def split: if_splits bind_splits flow.splits)
  then show ?thesis
  proof cases
    case 1
    then show ?thesis by (simp add: same_memory_effect)
  next
    case 2
    have "mem_effect (enter config st) (flow_state f)"
      using step_insn_memory [OF 2(1) assms(3)] ok assms(4) by simp
    then show ?thesis
      using mem_effect_trans same_memory_effect [OF 2(2)] by auto
  qed
qed

context instruction_meter
begin

lemma run_memory:
  assumes "interp_inv config st" and "metered co st"
    and "syscalls_ok syscalls (executable st)" and "syscalls_frugal co syscalls" and "syscalls_confined syscalls"
    and "regions_hosted (get_regions (memory_mapping (vm st)))"
    and "run_interpreter co syscalls st = Some (Some st')"
  shows "mem_effect st st'"
  using assms
proof (induction "budget st" arbitrary: st rule: less_induct)
  case less
  obtain go_on st1 where s: "step co syscalls st = Some (go_on, st1)" "same_image st st1"
      "go_on \<longrightarrow> interp_inv config st1"
    using step_ok [OF less.prems(1,3)] by blast
  note c = step_charged [OF less.prems(1,2,4) s(1)]
  have eff: "mem_effect st st1"
    using step_memory [OF less.prems(1) s(1) less.prems(5,6)] .
  show ?case
  proof (cases go_on)
    case False
    then show ?thesis
      using s(1) eff less.prems(7) by (simp add: run_interpreter.simps [of co syscalls st])
  next
    case True
    have "syscalls_ok syscalls (executable st1)" "regions_hosted (get_regions (memory_mapping (vm st1)))"
      using less.prems(3,6) s(2) eff by (simp_all add: same_image_def mem_effect_def)
    moreover have "run_interpreter co syscalls st1 = Some (Some st')"
      using less.prems(7) s(1) True by (simp add: run_interpreter.simps [of co syscalls st])
    ultimately have "mem_effect st1 st'"
      using less.hyps [OF c(3) _ c(1) _ less.prems(4,5)] True s(3) by blast
    then show ?thesis
      using eff mem_effect_trans by blast
  qed
qed

end

section \<open>Whole executions\<close>

lemma execute_memory:
  assumes "instruction_meter co" and "launch_ok config ex frames m" and "syscalls_ok syscalls ex"
    and "syscalls_frugal co syscalls" and "syscalls_confined syscalls"
    and "regions_hosted (get_regions (memory_mapping m))"
    and "execute_program co syscalls compiled ex Interpreted frames m = Some (Some (res, mode, frames', m'))"
  shows "confined (get_regions (memory_mapping m)) (host_mem m) (host_mem m')"
proof -
  obtain st where st: "interpreter_new (launched co ex m) ex (registers (launched co ex m)) frames = Some st"
      "interp_inv config st" "metered co st" "executable st = ex" "vm st = launched co ex m"
    using launch_inv [OF assms(2)] by metis
  have cfg: "ex_get_config ex = Some config"
    using assms(2) by (simp add: launch_ok_def)
  have ok: "syscalls_ok syscalls (executable st)"
    using assms(3) st(4) by simp
  then obtain st' where run: "run_interpreter co syscalls st = Some (Some st')"
    using instruction_meter.run_terminates [OF assms(1) st(2,3) _ assms(4)] by blast
  have host: "memory_mapping (vm st) = memory_mapping m" "host_mem (vm st) = host_mem m"
    using st(5) by (simp_all add: launched_def)
  have "mem_effect st st'"
    using instruction_meter.run_memory [OF assms(1) st(2,3) ok assms(4,5) _ run] assms(6) host by simp
  moreover have "host_mem m' = host_mem (vm st')"
    using execute_program_run [OF cfg st(1) run, of res m'] assms(7) execute_program_run [OF cfg st(1) run]
    by (auto simp: finish_execution_def Let_def)
  ultimately show ?thesis
    using host by (simp add: mem_effect_def)
qed

end
