(* ===== verification/Frame_Pointer.thy ===== *)
theory Frame_Pointer
  imports Execution
begin

text \<open>
  The frame pointer register. In the versions with fixed frames a verified program cannot write
  \<open>r10\<close>: only calls and returns change it, so that it always points to the frame that belongs
  to the call depth.
\<close>

section \<open>Only stores may name the frame pointer\<close>

definition store_opcodes :: "u8 set" where
  "store_opcodes = {ST_B_IMM, ST_H_IMM, ST_W_IMM, ST_DW_IMM, ST_B_REG, ST_H_REG, ST_W_REG, ST_DW_REG}"

definition moved_store_opcodes :: "u8 set" where
  "moved_store_opcodes = {ST_1B_IMM, ST_1B_REG, ST_2B_IMM, ST_2B_REG, ST_4B_IMM, ST_4B_REG, ST_8B_IMM, ST_8B_REG}"

lemma arms_store:
  "arms_mem v insn = Some Arm_store \<longrightarrow> \<not> move_memory_instruction_classes v \<and> i_opc insn \<in> store_opcodes"
  "arms_alu32 v insn \<noteq> Some Arm_store"
  "arms_alu64 v insn = Some Arm_store \<longrightarrow> move_memory_instruction_classes v \<and> i_opc insn \<in> moved_store_opcodes"
  "arms_pqr v insn \<noteq> Some Arm_store"
  "arms_jmp v insn \<noteq> Some Arm_store"
  unfolding arms_defs Let_def store_opcodes_def moved_store_opcodes_def
  by ((intro if_eq_impI if_neqI; simp)+)

lemma opcode_arm_store:
  "opcode_arm v insn = Some Arm_store \<Longrightarrow>
     (\<not> move_memory_instruction_classes v \<and> i_opc insn \<in> store_opcodes) \<or>
     (move_memory_instruction_classes v \<and> i_opc insn \<in> moved_store_opcodes)"
  using arms_store [of v insn] by (auto simp: opcode_arm_def or_else_eq_Some_iff)

lemma step_insn_store:
  assumes "opcode_arm (get_sbpf_version (executable st)) insn = Some Arm_store"
  shows "\<exists>n. step_insn co syscalls config insn next_pc st \<in> {store_imm n insn next_pc st, store_reg n insn next_pc st}"
proof -
  define v where "v = get_sbpf_version (executable st)"
  consider "\<not> move_memory_instruction_classes v" "i_opc insn \<in> store_opcodes"
    | "move_memory_instruction_classes v" "i_opc insn \<in> moved_store_opcodes"
    using opcode_arm_store [OF assms] unfolding v_def by blast
  then show ?thesis
  proof cases
    case 1
    then have "\<exists>n. arms_ld_st v insn next_pc st \<in> {Some (store_imm n insn next_pc st), Some (store_reg n insn next_pc st)}"
      unfolding arms_ld_st_def Let_def store_opcodes_def by (auto simp: opcode_val)
    then show ?thesis
      by (auto simp: step_insn_def v_def [symmetric])
  next
    case 2
    then have "arms_ld_st v insn next_pc st = None" "arms_alu32_load v insn next_pc st = None"
      unfolding arms_ld_st_def arms_alu32_load_def Let_def moved_store_opcodes_def
      by (auto simp: opcode_val version_features)
    moreover have "\<exists>n. arms_alu64_store v insn next_pc st \<in> {Some (store_imm n insn next_pc st), Some (store_reg n insn next_pc st)}"
      using 2 unfolding arms_alu64_store_def Let_def moved_store_opcodes_def
      by (auto simp: opcode_val version_features)
    ultimately show ?thesis
      by (auto simp: step_insn_def v_def [symmetric])
  qed
qed

section \<open>Which registers an arm writes\<close>

lemma alu_write_regs:
  "alu_write r insn next_pc st = Some (Next pc st') \<Longrightarrow> k \<noteq> unat (i_dst insn) \<Longrightarrow> reg st' ! k = reg st ! k"
  by (auto simp: alu_write_def reg_set_eq_Some_iff split: sum.splits)

lemma store_value_regs: "store_value n val insn next_pc st = Some (Next pc st') \<Longrightarrow> reg st' = reg st"
  by (auto simp: store_value_def Let_def split: bind_splits StableResult.splits)

lemma store_regs:
  "store_imm n insn next_pc st = Some (Next pc st') \<Longrightarrow> reg st' = reg st"
  "store_reg n insn next_pc st = Some (Next pc st') \<Longrightarrow> reg st' = reg st"
  by (auto simp: store_imm_def store_reg_def dest: store_value_regs split: bind_splits)

lemma arm_regs:
  assumes "arm_shape v insn next_pc st r" and "r = Some (Next pc st')"
    and "k \<noteq> unat (i_dst insn)" and "k \<noteq> 11"
  shows "reg st' ! k = reg st ! k"
  using assms(1)
proof cases
  case (shape_load n)
  then show ?thesis
    using assms(2,3) by (auto simp: load_arm_def Let_def dest!: alu_write_regs [OF sym] split: bind_splits)
next
  case (shape_store_imm n)
  then show ?thesis using assms(2) store_regs(1) by metis
next
  case (shape_store_reg n)
  then show ?thesis using assms(2) store_regs(2) by metis
qed (use assms(2-4) in \<open>auto simp: alu_imm_def alu_reg_def load_dw_imm_def jmp_imm_def jmp_reg_def
    reg_set_eq_Some_iff dest!: jump_arm_state alu_write_regs [OF sym] split: bind_splits if_splits\<close>)

lemma ready_frame_pointer:
  assumes "ready config insn next_pc st" and "\<not> manual_stack_frame_bump (get_sbpf_version (executable st))"
    and "arm_shape (get_sbpf_version (executable st)) insn next_pc st (step_insn co syscalls config insn next_pc st)"
    and "step_insn co syscalls config insn next_pc st = Some (Next pc st')"
  shows "reg st' ! 10 = reg st ! 10"
proof -
  obtain a where a: "opcode_arm (get_sbpf_version (executable st)) insn = Some a"
      "registers_ok (get_sbpf_version (executable st)) insn a"
    using ready_arm [OF assms(1)] .
  show ?thesis
  proof (cases "a = Arm_store")
    case True
    then show ?thesis
      using step_insn_store [of st insn co syscalls config next_pc] a(1) assms(4) store_regs
      by (metis insertE singletonD)
  next
    case False
    then have "i_dst insn \<le> 9"
      using a(2) assms(2) by (auto simp: registers_ok_def)
    then have "unat (i_dst insn) \<noteq> 10"
      by (auto simp: word_le_nat_alt)
    then show ?thesis
      using arm_regs [OF assms(3,4), of 10] by simp
  qed
qed

section \<open>The invariant\<close>

definition frame_stride :: "Config \<Rightarrow> SBPFVersion \<Rightarrow> u64" where
  "frame_stride config v =
     of_nat (stack_frame_size config * (if stack_frame_gaps v \<and> enable_stack_frame_gaps config then 2 else 1))"

definition frame_pointers :: "Config \<Rightarrow> u64 \<Rightarrow> 'c Interpreter \<Rightarrow> bool" where
  "frame_pointers config base st \<longleftrightarrow>
     (let stride = frame_stride config (get_sbpf_version (executable st)) in
      reg st ! FRAME_PTR_REG = base + call_depth (vm st) * stride \<and>
      (\<forall>i < unat (call_depth (vm st)). frame_pointer (call_frames st ! i) = base + of_nat i * stride))"

lemma push_frame_pointer:
  assumes "push_frame config st = Some (True, st')"
    and "\<not> manual_stack_frame_bump (get_sbpf_version (executable st))" and "length (reg st) = 12"
  shows "reg st' ! 10 = reg st ! 10 + frame_stride config (get_sbpf_version (executable st))"
    and "executable st' = executable st" and "call_depth (vm st') = call_depth (vm st) + 1"
    and "unat (call_depth (vm st)) < length (call_frames st)"
  using assms
  by (auto simp: push_frame_def Let_def frame_stride_def checked_add_def index_opt_def split: if_splits bind_splits)

lemma frame_pointers_push:
  assumes "push_frame config st = Some (True, st')" and "frame_pointers config base st"
    and "\<not> manual_stack_frame_bump (get_sbpf_version (executable st))" and "length (reg st) = 12"
  shows "frame_pointers config base (st'\<lparr>reg := (reg st')[11 := pc]\<rparr>)"
proof -
  define stride where "stride = frame_stride config (get_sbpf_version (executable st))"
  note new = push_frame_pointer [OF assms(1,3,4)] push_frame_effect [OF assms(1)]
  have old: "reg st ! 10 = base + call_depth (vm st) * stride"
      "\<forall>i < unat (call_depth (vm st)). frame_pointer (call_frames st ! i) = base + of_nat i * stride"
    using assms(2) by (simp_all add: frame_pointers_def stride_def Let_def)
  have "frame_pointer (call_frames st' ! i) = base + of_nat i * stride" if "i < unat (call_depth (vm st'))" for i
  proof (cases "i = unat (call_depth (vm st))")
    case True
    then show ?thesis using new(4,6) old(1) by (simp add: saved_frame_def)
  next
    case False
    then show ?thesis using that new(5,6) old(2) by simp
  qed
  then show ?thesis
    using new(1-3) old(1) by (simp add: frame_pointers_def stride_def Let_def distrib_right)
qed

lemma frame_pointers_frame:
  assumes "frame_pointers config base st" and "reg st' ! 10 = reg st ! 10" and "executable st' = executable st"
    and "call_frames st' = call_frames st" and "call_depth (vm st') = call_depth (vm st)"
  shows "frame_pointers config base st'"
  using assms by (simp add: frame_pointers_def)

lemma call_external_pointers:
  assumes "call_external co syscalls insn st = Some (Inr (resolved, st'))"
  shows "reg st' ! 10 = reg st ! 10" and "executable st' = executable st" and "length (reg st') = length (reg st)"
  using assms
  by (auto simp: call_external_def split: if_splits option.splits bind_splits StableResult.splits
      elim!: dispatch_syscall_cases)

lemma frame_pointers_call_internal:
  assumes "call_internal config insn next_pc resolved st = Some (Next pc st')"
    and "frame_pointers config base st"
    and "\<not> manual_stack_frame_bump (get_sbpf_version (executable st))" and "length (reg st) = 12"
  shows "frame_pointers config base (st'\<lparr>reg := (reg st')[11 := pc]\<rparr>)"
  using assms frame_pointers_push [OF _ assms(2-4)]
  by (auto simp: call_internal_def check_pc_def Let_def split: if_splits option.splits bind_splits
      intro: frame_pointers_frame [OF assms(2)])

lemma frame_pointers_exit:
  assumes "exit_arm config st = Some (Next pc st')" and "frame_pointers config base st"
    and "frames_ok config st" and "length (reg st) = 12"
  shows "frame_pointers config base (st'\<lparr>reg := (reg st')[11 := pc]\<rparr>)"
proof -
  define depth where "depth = call_depth (vm st) - 1"
  have st': "call_depth (vm st) \<noteq> 0" "call_depth (vm st') = depth" "executable st' = executable st"
      "call_frames st' = call_frames st"
      "reg st' = take 6 ((reg st)[10 := frame_pointer (call_frames st ! unat depth)]) @
         caller_saved_registers (call_frames st ! unat depth) @
         drop 10 ((reg st)[10 := frame_pointer (call_frames st ! unat depth)])"
    using assms(1) by (auto simp: exit_arm_def depth_def Let_def index_opt_def split: if_splits bind_splits)
  have lt: "unat depth < unat (call_depth (vm st))"
    using st'(1) by (simp add: depth_def unat_minus_one unat_gt_0)
  then have "length (caller_saved_registers (call_frames st ! unat depth)) = 4"
    using assms(3) by (simp add: frames_ok_def)
  then have "reg st' ! 10 = frame_pointer (call_frames st ! unat depth)"
    using st'(5) assms(4) by (simp add: nth_append)
  then show ?thesis
    using assms(2) st'(2-4) lt by (simp add: frame_pointers_def Let_def)
qed

lemma step_insn_frame_pointers:
  assumes "ready config insn next_pc st" and "frame_pointers config base st"
    and "\<not> manual_stack_frame_bump (get_sbpf_version (executable st))"
    and "step_insn co syscalls config insn next_pc st = Some (Next pc st')"
  shows "frame_pointers config base (st'\<lparr>reg := (reg st')[11 := pc]\<rparr>)"
proof -
  have inv: "length (reg st) = 12" "frames_ok config st"
    using assms(1) by (simp_all add: ready_def run_inv_def image_ok_def)
  show ?thesis
  proof (cases rule: step_insn_cases [of st insn next_pc co syscalls config])
    case arm
    then have "same_control st st'"
      using arm_local [OF arm assms(4)] by simp
    then show ?thesis
      using ready_frame_pointer [OF assms(1,3) arm assms(4)]
      by (intro frame_pointers_frame [OF assms(2)]) (simp_all add: same_control_def same_image_def)
  next
    case call_reg
    then have "push_frame config st = Some (True, st')"
      using assms(4) by (auto simp: call_reg_def check_pc_def Let_def split: if_splits bind_splits)
    then show ?thesis
      using frame_pointers_push assms(2,3) inv(1) by blast
  next
    case call_imm
    then obtain resolved st1 where ext: "call_external co syscalls insn st = Some (Inr (resolved, st1))"
      and int: "call_internal config insn next_pc resolved st1 = Some (Next pc st')"
      using assms(4) by (auto simp: call_imm_def split: bind_splits sum.splits)
    note frame = call_external_pointers [OF ext] call_external_frame [OF ext]
    have "frame_pointers config base st1"
      using frame_pointers_frame [OF assms(2)] frame by blast
    then show ?thesis
      using frame_pointers_call_internal [OF int] frame assms(3) inv(1) by simp
  next
    case exit
    then show ?thesis
      using frame_pointers_exit assms(2,4) inv by metis
  next
    case unsupported
    then show ?thesis using assms(4) by simp
  qed
qed

lemma step_frame_pointers:
  assumes "interp_inv config st" and "frame_pointers config base st"
    and "\<not> manual_stack_frame_bump (get_sbpf_version (executable st))"
    and "step co syscalls st = Some (True, st')"
  shows "frame_pointers config base st'"
proof -
  obtain insn pc st1 where s: "ready config insn (reg st ! 11 + 1) (enter config st)"
      "step_insn co syscalls config insn (reg st ! 11 + 1) (enter config st) = Some (Next pc st1)"
      "st' = st1\<lparr>reg := (reg st1)[11 := pc]\<rparr>"
    using step_goes_on [OF assms(1,4)] .
  have "frame_pointers config base (enter config st)"
    by (rule frame_pointers_frame [OF assms(2)]) simp_all
  then show ?thesis
    using step_insn_frame_pointers [OF s(1) _ _ s(2)] assms(3) s(3) by simp
qed

lemma steps_frame_pointers:
  assumes "steps co syscalls st n st'" and "interp_inv config st" and "syscalls_ok syscalls (executable st)"
    and "frame_pointers config base st" and "\<not> manual_stack_frame_bump (get_sbpf_version (executable st))"
  shows "frame_pointers config base st'"
  using assms
proof induction
  case (one_more n st' st'')
  then show ?case
    using steps_inv [OF one_more.hyps(1)] step_frame_pointers [of config st' base co syscalls st''] by auto
qed simp_all

end
