(* ===== verification/Sample_Machine.thy ===== *)
theory Sample_Machine
  imports Memory_Isolation Frame_Pointer
begin

text \<open>
  A small machine on which the witnesses of the properties run: the program
  \<open>mov64 r6, 7; call 3; exit; mov64 r6, 1; exit\<close> with one built-in function, two call frames
  and a budget of 100 instructions.
\<close>

definition sample_config :: Config where
  "sample_config = Config_default\<lparr>max_call_depth := 2\<rparr>"

definition sample_call_prog :: "u8 list" where
  "sample_call_prog =
     [0xb7, 6, 0, 0, 7, 0, 0, 0,
      0x85, 0x10, 0, 0, 1, 0, 0, 0,
      0x95, 0, 0, 0, 0, 0, 0, 0,
      0xb7, 6, 0, 0, 1, 0, 0, 0,
      0x95, 0, 0, 0, 0, 0, 0, 0]"

definition sample_loader :: BuiltinProgram where
  "sample_loader = \<lparr>bp_config = Some sample_config,
     sparse_registry = \<lparr>reg_map = [(5, (str_bytes ''gather'', (1, 0)))]\<rparr>\<rparr>"

definition sample_syscalls :: "TestContextObject syscalls" where
  "sample_syscalls = (\<lambda>f. if f = 1 then Some syscall_gather_bytes else None)"

definition sample_executable :: Executable where
  "sample_executable =
     \<lparr>elf_bytes = sample_call_prog, sbpf_version = V3, ro_section = Borrowed 0 (0, 40),
      text_section_vaddr = MM_BYTECODE_START, text_section_range = (0, 40), entry_pc = 0,
      ex_function_registry = FunctionRegistry_default, ex_loader = sample_loader\<rparr>"

definition sample_vm :: "TestContextObject EbpfVm" where
  "sample_vm =
     \<lparr>host_stack_pointer = 0, call_depth = 0, context_object = \<lparr>remaining = 100\<rparr>,
      previous_instruction_meter = 100, due_insn_count = 0, stopwatch_numerator = 0, stopwatch_denominator = 0,
      registers = [0, 0, 0, 0, 0, 0, 0, 0, 0, 0, 0x200001000, 0], program_result = Ok 0,
      memory_mapping = sample_mapping, vm_loader = sample_loader, register_trace = [], host_mem = (\<lambda>_. 0)\<rparr>"

definition sample_state :: "u64 \<Rightarrow> u64 \<Rightarrow> CallFrame list \<Rightarrow> u64 \<Rightarrow> u64 \<Rightarrow> u64 \<Rightarrow> TestContextObject Interpreter" where
  "sample_state due depth frames r6 r10 pc =
     \<lparr>vm = sample_vm\<lparr>due_insn_count := due, call_depth := depth\<rparr>, executable = sample_executable,
      program = sample_call_prog, program_vm_addr = MM_BYTECODE_START, call_frames = frames,
      reg = [0, 0, 0, 0, 0, 0, r6, 0, 0, 0, r10, pc]\<rparr>"

abbreviation "fresh_frames \<equiv> [CallFrame_default, CallFrame_default]"

definition call_frame :: CallFrame where
  "call_frame = \<lparr>caller_saved_registers = [7, 0, 0, 0], frame_pointer = 0x200001000, target_pc = 2\<rparr>"

lemma verify_sample_call: "verify sample_call_prog sample_config V3 = Some (Inr ())"
  by (simp add: sample_call_prog_def verify_eval version_features check_jmp_offset_def)

lemma sample_mapping_ok: "mapping_ok sample_mapping"
  using sample_mapping_inv by (simp add: mapping_ok_def sample_mapping_def)

lemma sample_inv:
  assumes "unat pc \<le> 5" and "due \<le> 100"
  shows "interp_inv sample_config (sample_state due 0 fresh_frames r6 r10 pc)"
  using verify_sample_call sample_mapping_ok assms
  by (simp add: interp_inv_def run_inv_def image_ok_def frames_ok_def pc_ok_def sample_state_def sample_vm_def
      sample_executable_def get_sbpf_version_def ex_get_config_def get_config_def get_loader_def sample_loader_def
      sample_config_def Config_default_def get_stack_frame_size_def) (simp add: sample_call_prog_def)

lemmas step_eval =
  step_def step_insn_def arms_ld_st_def arms_alu32_load_def arms_alu64_store_def arms_step_pqr_def
  arms_jmp32_def arms_jmp64_def arms_call_def Let_def opcode_val version_features
  ex_get_config_def get_config_def get_sbpf_version_def get_loader_def
  get_insn_unchecked_def index_opt_def read_le_def rust_simps is_pc_in_program_def
  alu_imm_def alu_reg_def alu_write_def pure_op_def reg_get_def reg_set_def update_opt_def
  call_imm_def call_external_def call_internal_def push_frame_def exit_arm_def

lemmas sample_eval = step_eval sample_state_def sample_vm_def sample_executable_def sample_loader_def
  sample_config_def Config_default_def sample_call_prog_def int_clamp_def CallFrame_default_def
  get_stack_frame_size_def call_frame_def word_le_nat_alt

lemma sample_call:
  "step test_context_object sample_syscalls (sample_state 1 0 fresh_frames 7 0x200001000 1) =
     Some (True, sample_state 2 1 [call_frame, CallFrame_default] 7 0x200002000 3)"
  by (simp add: sample_eval)

lemma sample_callee:
  "step test_context_object sample_syscalls (sample_state 2 1 [call_frame, CallFrame_default] 7 0x200002000 3) =
     Some (True, sample_state 3 1 [call_frame, CallFrame_default] 1 0x200002000 4)"
  by (simp add: sample_eval)

lemma sample_return:
  "step test_context_object sample_syscalls (sample_state 3 1 [call_frame, CallFrame_default] 1 0x200002000 4) =
     Some (True, sample_state 4 0 [call_frame, CallFrame_default] 7 0x200001000 2)"
  by (simp add: sample_eval)

lemma sample_syscalls_ok: "syscalls_ok sample_syscalls sample_executable"
  by (auto simp: syscalls_ok_def sample_syscalls_def builtin_safe_def syscall_gather_bytes_def sample_executable_def
      get_loader_def get_function_registry_def sample_loader_def lookup_by_key_def bt_get_def split: if_splits)

lemma sample_syscalls_frugal: "syscalls_frugal test_context_object sample_syscalls"
  by (auto simp: syscalls_frugal_def builtin_frugal_def sample_syscalls_def syscall_gather_bytes_def split: if_splits)

lemma sample_syscalls_confined: "syscalls_confined sample_syscalls"
  by (auto simp: syscalls_confined_def builtin_confined_def sample_syscalls_def syscall_gather_bytes_def split: if_splits)

lemma sample_launch: "launch_ok sample_config sample_executable fresh_frames sample_vm"
  using verify_sample_call sample_mapping_ok
  by (simp add: launch_ok_def ex_verify_def get_text_bytes_def slice_opt_def sample_vm_def sample_executable_def
      get_sbpf_version_def ex_get_config_def get_config_def get_loader_def sample_loader_def sample_config_def
      Config_default_def get_stack_frame_size_def)
    (simp add: sample_call_prog_def)

text \<open>A second program, which stores a byte: \<open>lddw r1, 0x100000000; stb [r1+4], 9; exit\<close>.\<close>

definition sample_store_prog :: "u8 list" where
  "sample_store_prog =
     [0x18, 1, 0, 0, 0, 0, 0, 0,
      0, 0, 0, 0, 1, 0, 0, 0,
      0x72, 1, 4, 0, 9, 0, 0, 0,
      0x95, 0, 0, 0, 0, 0, 0, 0]"

definition store_executable :: Executable where
  "store_executable = sample_executable\<lparr>elf_bytes := sample_store_prog, ro_section := Borrowed 0 (0, 32),
     text_section_range := (0, 32)\<rparr>"

definition store_state :: "u64 \<Rightarrow> u64 \<Rightarrow> u64 \<Rightarrow> host_memory \<Rightarrow> ProgramResult \<Rightarrow> TestContextObject Interpreter" where
  "store_state due r1 pc mem result =
     \<lparr>vm = sample_vm\<lparr>due_insn_count := due, host_mem := mem, program_result := result\<rparr>, executable = store_executable,
      program = sample_store_prog, program_vm_addr = MM_BYTECODE_START, call_frames = fresh_frames,
      reg = [0, r1, 0, 0, 0, 0, 0, 0, 0, 0, 0x200001000, pc]\<rparr>"

lemma verify_sample_store: "verify sample_store_prog sample_config V3 = Some (Inr ())"
  by (simp add: sample_store_prog_def verify_eval version_features check_load_dw_def less_eq_SBPFVersion_def)

lemmas store_eval = store_state_def store_executable_def sample_store_prog_def sample_eval load_dw_imm_def
  augment_lddw_unchecked_def store_imm_def store_value_def mapping_store_def map_with_access_violation_handler_def
  sample_mapping_def find_region_def a_find_region_def sample_regions_def region_number_eq vm_to_host_def write_unaligned_def
  less_eq_SBPFVersion_def

lemma sample_store_steps:
  "step test_context_object sample_syscalls (store_state 0 0 0 (\<lambda>_. 0) (Ok 0)) =
     Some (True, store_state 1 0x100000000 2 (\<lambda>_. 0) (Ok 0))"
  "step test_context_object sample_syscalls (store_state 1 0x100000000 2 (\<lambda>_. 0) (Ok 0)) =
     Some (True, store_state 2 0x100000000 3 ((\<lambda>_. 0)(0x20004 := 9)) (Ok 0))"
  "step test_context_object sample_syscalls (store_state 2 0x100000000 3 ((\<lambda>_. 0)(0x20004 := 9)) (Ok 0)) =
     Some (False, store_state 3 0x100000000 3 ((\<lambda>_. 0)(0x20004 := 9)) (Ok 0))"
  by (simp_all add: store_eval)

lemma store_launch: "launch_ok sample_config store_executable fresh_frames sample_vm"
  using verify_sample_store sample_mapping_ok
  by (simp add: launch_ok_def ex_verify_def get_text_bytes_def slice_opt_def sample_vm_def sample_executable_def
      store_executable_def get_sbpf_version_def ex_get_config_def get_config_def get_loader_def sample_loader_def
      sample_config_def Config_default_def get_stack_frame_size_def)
    (simp add: sample_store_prog_def)

lemma store_run:
  "run_interpreter test_context_object sample_syscalls (store_state 0 0 0 (\<lambda>_. 0) (Ok 0)) =
     Some (Some (store_state 3 0x100000000 3 ((\<lambda>_. 0)(0x20004 := 9)) (Ok 0)))"
  by (subst run_interpreter.simps, simp add: sample_store_steps(1),
      subst run_interpreter.simps, simp add: sample_store_steps(2),
      subst run_interpreter.simps, simp add: sample_store_steps(3))

lemma store_interpreter:
  "interpreter_new (launched test_context_object store_executable sample_vm) store_executable
     (registers (launched test_context_object store_executable sample_vm)) fresh_frames =
   Some (store_state 0 0 0 (\<lambda>_. 0) (Ok 0))"
  by (simp add: interpreter_new_def launched_def get_text_bytes_def slice_opt_def store_executable_def
      sample_executable_def store_state_def sample_vm_def ex_get_config_def get_config_def sample_loader_def
      sample_config_def Config_default_def test_context_object_def test_get_remaining_def)
    (simp add: sample_store_prog_def)

lemma store_execute:
  "\<exists>frames' m'. execute_program test_context_object sample_syscalls None store_executable Interpreted fresh_frames sample_vm =
     Some (Some ((3, Ok 0), Interpreted, frames', m')) \<and> host_mem m' 0x20004 = 9"
proof -
  let ?st' = "store_state 3 0x100000000 3 ((\<lambda>_. 0)(0x20004 := 9)) (Ok 0)"
  let ?m' = "(vm ?st')\<lparr>context_object := \<lparr>remaining = 97\<rparr>, program_result := Ok 0\<rparr>"
  have cfg: "ex_get_config store_executable = Some sample_config"
    by (simp add: store_executable_def sample_executable_def ex_get_config_def get_config_def sample_loader_def)
  have "finish_execution test_context_object sample_config
      (get_remaining test_context_object (context_object sample_vm)) (vm ?st') = ((3, Ok 0), ?m')"
    by (simp add: finish_execution_def sample_config_def Config_default_def store_state_def sample_vm_def
        test_context_object_def test_get_remaining_def test_consume_def saturating_sub_def word_le_nat_alt)
  moreover have "host_mem ?m' 0x20004 = 9"
    by (simp add: store_state_def)
  ultimately show ?thesis
    using execute_program_run [OF cfg store_interpreter store_run] by blast
qed

end
