(* ===== verification/Instruction_Semantics.thy ===== *)
theory Instruction_Semantics
  imports Sample_Machine
begin

text \<open>
  Functional behaviour of single instructions: the two halves of a product, quotients and
  remainders with their error cases, byte order, and memory as a store that returns what was
  written.
\<close>

section \<open>Products\<close>

lemma uint_ucast_u128: "uint (ucast (a :: u64) :: u128) = uint a"
proof -
  have "uint a < 2 ^ 128"
    using uint_bounded [of a] by simp
  then show ?thesis
    by (simp add: unsigned_ucast_eq take_bit_int_eq_self)
qed

lemma sint_scast_i128: "sint (scast (a :: i64) :: i128) = sint a"
proof -
  have "sint a < 2 ^ 127" "- (2 ^ 127) \<le> sint a"
    using sint_lt [of a] sint_ge [of a] by simp_all
  then show ?thesis
    by (simp add: signed_scast_eq signed_take_bit_int_eq_self)
qed

lemma uint_product: "uint ((ucast (a :: u64) :: u128) * ucast (b :: u64)) = uint a * uint b"
proof -
  have "uint a * uint b < 2 ^ 64 * 2 ^ 64"
    using uint_bounded [of a] uint_bounded [of b] by (intro mult_strict_mono) simp_all
  then show ?thesis
    by (simp add: uint_word_ariths uint_ucast_u128)
qed

lemma sint_product: "sint ((scast (a :: i64) :: i128) * scast (b :: i64)) = sint a * sint b"
proof -
  have "\<bar>sint a\<bar> \<le> 2 ^ 63" "\<bar>sint b\<bar> \<le> 2 ^ 63"
    using sint_lt [of a] sint_ge [of a] sint_lt [of b] sint_ge [of b] by simp_all
  then have "\<bar>sint a\<bar> * \<bar>sint b\<bar> \<le> 2 ^ 63 * 2 ^ 63"
    by (intro mult_mono) simp_all
  then have "\<bar>sint a * sint b\<bar> \<le> 2 ^ 126"
    by (simp add: abs_mult)
  then have "- (2 ^ 127) \<le> sint a * sint b" "sint a * sint b < 2 ^ 127"
    by (simp_all add: abs_le_iff)
  then show ?thesis
    by (simp add: sint_word_ariths sint_scast_i128 signed_take_bit_int_eq_self)
qed

lemma uhmul_lmul:
  fixes a b :: u64
  shows "uint (ucast (wrapping_shr ((ucast a :: u128) * ucast b) 64) :: u64) * 2 ^ 64 + uint (a * b) = uint a * uint b"
proof -
  have "uint a * uint b < 2 ^ 64 * 2 ^ 64"
    using uint_bounded [of a] uint_bounded [of b] by (intro mult_strict_mono) simp_all
  then have "uint a * uint b div 2 ^ 64 < 2 ^ 64"
    by (simp add: div_less_iff_less_mult)
  moreover have "0 \<le> uint a * uint b div 2 ^ 64"
    by (simp add: pos_imp_zdiv_nonneg_iff)
  moreover have "uint (wrapping_shr ((ucast a :: u128) * ucast b) 64) = uint a * uint b div 2 ^ 64"
    by (simp add: wrapping_shr_def drop_bit_eq_div uint_div_distrib uint_product)
  ultimately have "uint (ucast (wrapping_shr ((ucast a :: u128) * ucast b) 64) :: u64) = uint a * uint b div 2 ^ 64"
    by (simp add: unsigned_ucast_eq take_bit_int_eq_self)
  moreover have "uint (a * b) = uint a * uint b mod 2 ^ 64"
    by (simp add: uint_word_ariths)
  ultimately show ?thesis
    by (simp only: div_mult_mod_eq)
qed

lemma ucast_eq_word_of_sint: "(ucast (w :: i128) :: i64) = word_of_int (sint w)"
  by (rule bit_word_eqI) (simp add: bit_simps min_def)

lemma shmul_lmul:
  fixes a b :: i64
  shows "sint (ucast (wrapping_sshr ((scast a :: i128) * scast b) 64) :: i64) * 2 ^ 64 + uint (a * b) = sint a * sint b"
proof -
  define p where "p = sint a * sint b"
  have "\<bar>sint a\<bar> * \<bar>sint b\<bar> \<le> 2 ^ 63 * 2 ^ 63"
    using sint_lt [of a] sint_ge [of a] sint_lt [of b] sint_ge [of b] by (intro mult_mono) simp_all
  then have "\<bar>p\<bar> \<le> 2 ^ 126"
    by (simp add: p_def abs_mult)
  then have hi: "- (2 ^ 63) \<le> p div 2 ^ 64" "p div 2 ^ 64 < 2 ^ 63"
    by (auto simp: abs_le_iff div_less_iff_less_mult)
  have "sint (signed_drop_bit 64 ((scast a :: i128) * scast b)) = p div 2 ^ 64"
    by (simp add: sint_signed_drop_bit_eq sint_product p_def drop_bit_eq_div)
  then have "ucast (signed_drop_bit 64 ((scast a :: i128) * scast b)) = (word_of_int (p div 2 ^ 64) :: i64)"
    using ucast_eq_word_of_sint [of "signed_drop_bit 64 ((scast a :: i128) * scast b)"] by simp
  then have "sint (ucast (wrapping_sshr ((scast a :: i128) * scast b) 64) :: i64) = p div 2 ^ 64"
    using hi by (simp add: wrapping_sshr_def signed_of_int signed_take_bit_int_eq_self)
  moreover have "a * b = word_of_int p"
    by (simp add: p_def)
  then have "uint (a * b) = p mod 2 ^ 64"
    by (simp add: unsigned_of_int take_bit_eq_mod)
  ultimately show ?thesis
    unfolding p_def [symmetric] by (simp only: div_mult_mod_eq)
qed

section \<open>Quotients and remainders\<close>

lemma sint_word_sdiv:
  fixes a b :: i64
  assumes "b \<noteq> 0" and "\<not> (a = word_smin \<and> b = - 1)"
  shows "sint (word_sdiv a b) = sint a sdiv sint b"
proof -
  have a: "- (2 ^ 63) \<le> sint a" "sint a < 2 ^ 63"
    using sint_lt [of a] sint_ge [of a] by simp_all
  have range: "sint a sdiv sint b \<in> {- \<bar>sint a\<bar>..\<bar>sint a\<bar>}"
    by (rule sdiv_int_range)
  have "sint a sdiv sint b \<noteq> 2 ^ 63"
  proof
    assume eq: "sint a sdiv sint b = 2 ^ 63"
    then have min: "sint a = - (2 ^ 63)"
      using a range by auto
    then have "sint b = - 1"
      using eq int_sdiv_negated_is_minus1 [of "sint a" "sint b"] by simp
    then have "b = - 1"
      by (metis signed_minus_1 signed_word_eqI)
    moreover have "a = word_smin"
      using min by (intro signed_word_eqI) (simp add: word_smin_def)
    ultimately show False
      using assms(2) by blast
  qed
  then have "- (2 ^ 63) \<le> sint a sdiv sint b" "sint a sdiv sint b < 2 ^ 63"
    using a range by auto
  then show ?thesis
    by (simp add: word_sdiv_def signed_of_int signed_take_bit_int_eq_self)
qed

lemma sint_word_srem:
  fixes a b :: i64
  assumes "b \<noteq> 0"
  shows "sint (word_srem a b) = sint a smod sint b"
proof -
  have "sint b \<noteq> 0"
    using assms by (metis signed_0 signed_word_eqI)
  then have "\<bar>sint a smod sint b\<bar> < \<bar>sint b\<bar>"
    using smod_int_range [of "sint b" "sint a"] by auto
  moreover have "\<bar>sint b\<bar> \<le> 2 ^ 63"
    using sint_lt [of b] sint_ge [of b] by simp
  ultimately have "- (2 ^ 63) \<le> sint a smod sint b" "sint a smod sint b < 2 ^ 63"
    by (simp_all add: abs_less_iff)
  then show ?thesis
    by (simp add: word_srem_def signed_of_int signed_take_bit_int_eq_self)
qed

lemma signed_division:
  fixes a b :: i64
  assumes "b \<noteq> 0"
  shows "sint a = sint a sdiv sint b * sint b + sint a smod sint b"
    and "\<bar>sint a smod sint b\<bar> < \<bar>sint b\<bar>"
    and "sint a smod sint b = 0 \<or> sgn (sint a smod sint b) = sgn (sint a)"
proof -
  have nz: "sint b \<noteq> 0"
    using assms by (metis signed_0 signed_word_eqI)
  show "sint a = sint a sdiv sint b * sint b + sint a smod sint b"
    by (simp only: sdiv_mult_smod_eq)
  show "\<bar>sint a smod sint b\<bar> < \<bar>sint b\<bar>"
    using smod_int_range [OF nz, of "sint a"] by auto
  have "0 \<le> \<bar>sint a\<bar> mod \<bar>sint b\<bar>"
    using nz by simp
  then consider "\<bar>sint a\<bar> mod \<bar>sint b\<bar> = 0" | "sgn (\<bar>sint a\<bar> mod \<bar>sint b\<bar>) = 1"
    by (auto simp: sgn_1_pos order_less_le)
  then show "sint a smod sint b = 0 \<or> sgn (sint a smod sint b) = sgn (sint a)"
    by cases (simp_all add: signed_modulo_int_def sgn_mult)
qed

section \<open>Memory\<close>

lemma le_word_le_bytes_take_bit: "le_word (le_bytes n (w :: 'a::len word)) = take_bit (8 * n) w"
proof (rule bit_word_eqI)
  fix k
  assume k: "k < LENGTH('a)"
  have "8 * (k div 8) + k mod 8 = k" "k div 8 < n \<longleftrightarrow> k < 8 * n"
    by auto
  then show "bit (le_word (le_bytes n w) :: 'a word) k \<longleftrightarrow> bit (take_bit (8 * n) w) k"
    using k by (auto simp: bit_le_word nth_le_bytes bit_simps)
qed

lemma fold_update_inside:
  assumes "inj_on f (set is)" and "distinct is" and "i \<in> set is"
  shows "fold (\<lambda>i m. m(f i := g i)) is m (f i) = g i"
  using assms
proof (induction "is" arbitrary: m)
  case (Cons j js)
  show ?case
  proof (cases "i = j")
    case True
    have "f j \<noteq> f k" if "k \<in> set js" for k
      using that Cons.prems(1,2) by (auto simp: inj_on_def)
    then have "fold (\<lambda>i m. m(f i := g i)) js (m(f j := g j)) (f j) = (m(f j := g j)) (f j)"
      by (intro fold_update_outside) blast
    then show ?thesis
      using True by (simp del: fun_upd_apply) simp
  next
    case False
    then show ?thesis using Cons by (simp del: fun_upd_apply)
  qed
qed simp

lemma read_write_unaligned:
  assumes "n \<le> 8"
  shows "read_unaligned n h (write_unaligned n h v mem) = take_bit (8 * n) v"
proof -
  have inj: "inj_on (\<lambda>i. h + of_nat i :: u64) (set [0..<n])"
  proof (rule inj_onI)
    fix i j
    assume "i \<in> set [0..<n]" "j \<in> set [0..<n]" "h + of_nat i = (h + of_nat j :: u64)"
    then have "i < 8" "j < 8" "unat (of_nat i :: u64) = unat (of_nat j :: u64)"
      using assms by auto
    then show "i = j"
      by (simp add: unsigned_of_nat take_bit_nat_eq_self)
  qed
  have "write_unaligned n h v mem (h + of_nat i) = le_bytes n v ! i" if "i < n" for i
    unfolding write_unaligned_def
    using fold_update_inside [OF inj, of i "\<lambda>i. le_bytes n v ! i" mem] that by simp
  then have "map (\<lambda>i. write_unaligned n h v mem (h + of_nat i)) [0..<n] = le_bytes n v"
    by (intro nth_equalityI) simp_all
  then show ?thesis
    by (simp add: read_unaligned_def le_word_le_bytes_take_bit)
qed

lemma store_then_load:
  assumes "mapping_ok m" and "n \<in> {1, 2, 4, 8}"
    and "mapping_store n v a mem m = Some (Ok h, mem', m')"
  shows "\<exists>m''. mapping_load n a mem' m' = Some (Ok (take_bit (8 * n) v), m'')"
proof -
  have n: "n \<le> 8" "(0 :: u64) < of_nat n"
    using assms(2) by auto
  obtain res m1 where map: "map_with_access_violation_handler Store a (of_nat n) m = Some (res, m1)" "mapping_ok m1"
      "get_regions m1 = get_regions m"
      "\<forall>h. res = Ok h \<longrightarrow> (\<exists>r \<in> set (get_regions m). vm_to_host r Store a (of_nat n) = Some h)"
    using mapping_ok_map [OF assms(1) n(2), of Store a] by blast
  then have st: "res = Ok h" "mem' = write_unaligned n h v mem" "m' = m1"
    using assms(3) by (auto simp: mapping_store_def split: if_splits StableResult.splits)
  then obtain r where "r \<in> set (get_regions m1)" "vm_to_host r Store a (of_nat n) = Some h"
    using map(3,4) by auto
  then have "\<exists>r \<in> set (get_regions m1). vm_to_host r Load a (of_nat n) = Some h"
    by (intro bexI [of _ r]) (auto simp: vm_to_host_def split: if_splits)
  moreover have ok: "mapping_inv m1" "\<not> disable_address_translation m1" "initialized m1"
      "access_violation_handler m1 = default_access_violation_handler"
    using map(2) by (auto simp: mapping_ok_def mapping_inv_def)
  ultimately obtain m2 where "mapping_map Load a (of_nat n) m1 = Some (Ok h, m2)"
    using mapping_map_spec [OF ok(1) n(2) ok(2), of Load a] by metis
  then show ?thesis
    using st ok(3,4) n(1) by (simp add: mapping_load_def map_default_handler read_write_unaligned)
qed

section \<open>Byte order\<close>

lemma swap_bytes_twice:
  "LENGTH('a::len) = 8 * n \<Longrightarrow> swap_bytes n (swap_bytes n (w :: 'a word)) = w"
  by (simp add: swap_bytes_def le_bytes_le_word le_word_le_bytes)

lemma ucast_ucast_take_bit: "(ucast (ucast (d :: u64) :: 'a::len word) :: u64) = take_bit LENGTH('a) d"
  by (rule bit_word_eqI) (auto simp: bit_simps)

lemma to_be_twice:
  assumes "to_be d imm = Some (Inr x)"
  shows "to_be x imm = Some (Inr (take_bit (unat imm) d))"
proof -
  consider "imm = 16" | "imm = 32" | "imm = 64"
    using assms by (auto simp: to_be_def split: if_splits)
  then show ?thesis
    using assms
    by cases (auto simp: to_be_def swap_bytes_twice ucast_ucast_up_id ucast_ucast_take_bit take_bit_word_eq_self)
qed

section \<open>Properties\<close>

text \<open>The outcome of an instruction that writes \<open>x\<close> to its destination and goes on.\<close>

definition writes :: "Insn \<Rightarrow> u64 \<Rightarrow> 'c Interpreter \<Rightarrow> u64 \<Rightarrow> 'c flow option" where
  "writes insn next_pc st x = Some (Next next_pc (st\<lparr>reg := (reg st)[unat (i_dst insn) := x]\<rparr>))"

lemmas step_insn_eval = step_insn_def arms_ld_st_def arms_alu32_load_def arms_alu64_store_def arms_step_pqr_def
  arms_jmp32_def arms_jmp64_def arms_call_def Let_def opcode_val version_features
  alu_imm_def alu_reg_def alu_write_def reg_get_def reg_set_def pure_op_def

abbreviation outcome :: "'c ContextObject \<Rightarrow> 'c syscalls \<Rightarrow> Config \<Rightarrow> u64 \<Rightarrow> 'c Interpreter \<Rightarrow> Insn \<Rightarrow> 'c flow option" where
  "outcome co syscalls config next_pc st insn \<equiv> step_insn co syscalls config insn next_pc st"


definition product_state :: "TestContextObject Interpreter" where
  "product_state =
     (sample_state 0 0 fresh_frames 0 0 0)
       \<lparr>executable := sample_executable\<lparr>sbpf_version := V2\<rparr>, reg := [0xffffffffffffffff, 7, 0, 0, 0, 0, 0, 0, 0, 0, 0, 0]\<rparr>"

lemma product_state_simps:
  "get_sbpf_version (executable product_state) = V2"
  "reg product_state = [0xffffffffffffffff, 7, 0, 0, 0, 0, 0, 0, 0, 0, 0, 0]"
  by (simp_all add: product_state_def get_sbpf_version_def)

abbreviation product_insn :: Insn where
  "product_insn \<equiv> Insn_default\<lparr>i_src := 1\<rparr>"




text \<open>
  C15. Memory is faithful: a load that follows a store of the same width at the same address
  returns the low bytes of the stored value, through every kind of mapping.
\<close>

theorem store_load_roundtrip:
  assumes "mapping_ok m" and "n \<in> {1, 2, 4, 8}"
    and "mapping_store n v a mem m = Some (Ok h, mem', m')"
  shows "\<exists>m''. mapping_load n a mem' m' = Some (Ok (take_bit (8 * n) v), m'')"
  using store_then_load [OF assms] .

theorem store_load_roundtrip_witness:
  "\<exists>h mem' m' m''. mapping_store 2 0x54321 0x100000008 (\<lambda>_. 0) sample_mapping = Some (Ok h, mem', m') \<and>
     mapping_load 2 0x100000008 mem' m' = Some (Ok 0x4321, m'')"
proof -
  let ?mem' = "write_unaligned 2 0x20008 0x54321 (\<lambda>_. 0)"
  have st: "mapping_store 2 0x54321 0x100000008 (\<lambda>_. 0) sample_mapping = Some (Ok 0x20008, ?mem', sample_mapping)"
    by (simp add: mapping_store_def map_with_access_violation_handler_def sample_mapping_def find_region_def
        a_find_region_def sample_regions_def region_number_eq vm_to_host_def rust_simps index_opt_def)
  have "\<exists>m''. mapping_load 2 0x100000008 ?mem' sample_mapping = Some (Ok (take_bit 16 0x54321), m'')"
    using store_load_roundtrip [OF sample_mapping_ok _ st] by simp
  then show ?thesis
    using st by (auto simp: take_bit_eq_mod)
qed



end
