(* ===== verification/Rust_Result.thy ===== *)
theory Rust_Result
  imports Rust_Prelude
begin

text \<open>
  Functions that may both panic and return an error have the type
  \<open>('e + 'a) option\<close>: \<open>None\<close> is a panic, \<open>Inl\<close> an \<open>Err\<close>, \<open>Inr\<close> an
  \<open>Ok\<close>. This theory holds the combinators that the translations of such
  functions use (\<open>?\<close>, \<open>ok_or\<close>, \<open>debug_assert!\<close>, a \<open>for\<close> loop that may
  return early) with the rules that take a successful or a failing run apart.
\<close>

lemma map_sum_eq_Inl_iff: "map_sum f g r = Inl y \<longleftrightarrow> (\<exists>x. r = Inl x \<and> y = f x)"
  by (cases r) auto

named_theorems result_iff \<open>when a composed computation succeeds, fails or panics\<close>

type_synonym ('e, 'a) outcome = "('e + 'a) option"

abbreviation Okay :: "'a \<Rightarrow> ('e, 'a) outcome" where "Okay x \<equiv> Some (Inr x)"
abbreviation Fail :: "'e \<Rightarrow> ('e, 'a) outcome" where "Fail e \<equiv> Some (Inl e)"

definition and_then :: "('e, 'a) outcome \<Rightarrow> ('a \<Rightarrow> ('e, 'b) outcome) \<Rightarrow> ('e, 'b) outcome" where
  "and_then r f = (case r of None \<Rightarrow> None | Some (Inl e) \<Rightarrow> Fail e | Some (Inr x) \<Rightarrow> f x)"

definition ok_or :: "'e \<Rightarrow> 'a option \<Rightarrow> ('e, 'a) outcome" where
  "ok_or e r = (case r of None \<Rightarrow> Fail e | Some x \<Rightarrow> Okay x)"

definition no_err :: "'a option \<Rightarrow> ('e, 'a) outcome" where
  "no_err r = map_option Inr r"

definition ensure :: "bool \<Rightarrow> 'e \<Rightarrow> ('e, unit) outcome" where
  "ensure b e = (if b then Okay () else Fail e)"

definition debug_assert :: "bool \<Rightarrow> 'a \<Rightarrow> 'a option" where
  "debug_assert b x = (if b then Some x else None)"

definition map_fail :: "('e \<Rightarrow> 'f) \<Rightarrow> ('e, 'a) outcome \<Rightarrow> ('f, 'a) outcome" where
  "map_fail f r = map_option (map_sum f id) r"

text \<open>\<open>unwrap\<close> of a result panics on an error.\<close>

definition unwrapped :: "('e, 'a) outcome \<Rightarrow> ('f, 'a) outcome" where
  "unwrapped r = (case r of Some (Inr x) \<Rightarrow> Okay x | _ \<Rightarrow> None)"

primrec try_fold :: "('s \<Rightarrow> 'a \<Rightarrow> ('e, 's) outcome) \<Rightarrow> 's \<Rightarrow> 'a list \<Rightarrow> ('e, 's) outcome" where
  "try_fold f s [] = Okay s"
| "try_fold f s (x # xs) = and_then (f s x) (\<lambda>s'. try_fold f s' xs)"

lemma and_then_simps [simp]:
  "and_then None f = None" "and_then (Fail e) f = Fail e" "and_then (Okay x) f = f x"
  by (simp_all add: and_then_def)

lemma ok_or_simps [simp]: "ok_or e None = Fail e" "ok_or e (Some x) = Okay x"
  by (simp_all add: ok_or_def)

lemma no_err_simps [simp]: "no_err None = None" "no_err (Some x) = Okay x"
  by (simp_all add: no_err_def)

lemma map_fail_simps [simp]:
  "map_fail f None = None" "map_fail f (Fail e) = Fail (f e)" "map_fail f (Okay x) = Okay x"
  by (simp_all add: map_fail_def)

lemma and_then_eq_Ok_iff [result_iff]: "and_then r f = Okay y \<longleftrightarrow> (\<exists>x. r = Okay x \<and> f x = Okay y)"
  by (cases r rule: option.exhaust; simp add: and_then_def split: sum.splits)

lemma and_then_eq_Err_iff [result_iff]:
  "and_then r f = Fail e \<longleftrightarrow> r = Fail e \<or> (\<exists>x. r = Okay x \<and> f x = Fail e)"
  by (cases r rule: option.exhaust; auto simp add: and_then_def split: sum.splits)

lemma and_then_eq_None_iff [result_iff]:
  "and_then r f = None \<longleftrightarrow> r = None \<or> (\<exists>x. r = Okay x \<and> f x = None)"
  by (cases r rule: option.exhaust; auto simp add: and_then_def split: sum.splits)

lemma and_then_neq_NoneI: "r \<noteq> None \<Longrightarrow> (\<And>x. r = Okay x \<Longrightarrow> f x \<noteq> None) \<Longrightarrow> and_then r f \<noteq> None"
  by (auto simp: and_then_eq_None_iff)

lemma ok_or_eq_iff [result_iff]:
  "ok_or e r = Okay x \<longleftrightarrow> r = Some x" "ok_or e r = Fail e' \<longleftrightarrow> r = None \<and> e' = e" "ok_or e r \<noteq> None"
  by (cases r; auto)+

lemma no_err_eq_iff [result_iff]:
  "no_err r = Okay x \<longleftrightarrow> r = Some x" "no_err r \<noteq> Fail e" "no_err r = None \<longleftrightarrow> r = None"
  by (cases r; simp)+

lemma ensure_eq_iff [result_iff]:
  "ensure b e = Okay u \<longleftrightarrow> b" "ensure b e = Fail e' \<longleftrightarrow> \<not> b \<and> e' = e" "ensure b e \<noteq> None"
  by (auto simp: ensure_def)

lemma debug_assert_eq_iff [result_iff]:
  "debug_assert b x = Some y \<longleftrightarrow> b \<and> y = x" "debug_assert b x = None \<longleftrightarrow> \<not> b"
  by (auto simp: debug_assert_def)

lemma map_fail_eq_iff [result_iff]:
  "map_fail f r = Okay x \<longleftrightarrow> r = Okay x" "map_fail f r = Fail e \<longleftrightarrow> (\<exists>e'. r = Fail e' \<and> e = f e')"
  "map_fail f r = None \<longleftrightarrow> r = None"
  by (cases r; auto simp: map_fail_def map_sum_eq_Inr_iff map_sum_eq_Inl_iff)+

lemma unwrapped_eq_iff [result_iff]: "unwrapped r = Okay x \<longleftrightarrow> r = Okay x" "unwrapped r \<noteq> Fail e"
  by (auto simp: unwrapped_def split: option.splits sum.splits)

lemma unwrapped_simps [simp]: "unwrapped (Okay x) = Okay x" "unwrapped (Fail e) = None" "unwrapped None = None"
  by (simp_all add: unwrapped_def)

text \<open>A loop that ends normally keeps what each of its iterations keeps.\<close>

lemma try_fold_invariant:
  assumes "try_fold f s xs = Okay s'" and "I s"
    and "\<And>s x t. x \<in> set xs \<Longrightarrow> I s \<Longrightarrow> f s x = Okay t \<Longrightarrow> I t"
  shows "I s'"
  using assms
proof (induction xs arbitrary: s)
  case Nil
  then show ?case by simp
next
  case (Cons x xs)
  then show ?case by (auto simp: and_then_eq_Ok_iff)
qed

lemma try_fold_each:
  assumes "try_fold f s xs = Okay t" and "x \<in> set xs"
  obtains s' t' where "f s' x = Okay t'"
  using assms by (induction xs arbitrary: s thesis) (auto simp: result_iff)

lemma try_fold_append:
  "try_fold f s (xs @ ys) = and_then (try_fold f s xs) (\<lambda>s'. try_fold f s' ys)"
  by (induction xs arbitrary: s) (auto simp: and_then_def split: option.splits sum.splits)

lemma try_fold_neq_None:
  assumes "\<And>s x. x \<in> set xs \<Longrightarrow> f s x \<noteq> None"
  shows "try_fold f s xs \<noteq> None"
  using assms by (induction xs arbitrary: s) (auto simp: and_then_eq_None_iff)

section \<open>Methods on a mutable receiver\<close>

text \<open>
  A method that takes \<open>&mut self\<close> and returns a \<open>Result\<close> keeps the receiver it
  leaves behind also when it returns an error.
\<close>

type_synonym ('s, 'e, 'a) effect = "'s \<Rightarrow> (('e + 'a) \<times> 's) option"

definition bind_st :: "('s, 'e, 'a) effect \<Rightarrow> ('a \<Rightarrow> ('s, 'e, 'b) effect) \<Rightarrow> ('s, 'e, 'b) effect" where
  "bind_st m f s =
     (case m s of None \<Rightarrow> None | Some (Inl e, s') \<Rightarrow> Some (Inl e, s') | Some (Inr x, s') \<Rightarrow> f x s')"

definition lift_st :: "('e, 'a) outcome \<Rightarrow> ('s, 'e, 'a) effect" where
  "lift_st r s = map_option (\<lambda>x. (x, s)) r"

definition upd_st :: "('s \<Rightarrow> 's option) \<Rightarrow> ('s, 'e, unit) effect" where
  "upd_st f s = map_option (\<lambda>s'. (Inr (), s')) (f s)"

primrec for_st :: "('a \<Rightarrow> ('s, 'e, unit) effect) \<Rightarrow> 'a list \<Rightarrow> ('s, 'e, unit) effect" where
  "for_st f [] = lift_st (Okay ())"
| "for_st f (x # xs) = bind_st (f x) (\<lambda>_. for_st f xs)"

lemma bind_st_Ok_iff [result_iff]:
  "bind_st m f s = Some (Inr y, t) \<longleftrightarrow> (\<exists>x s'. m s = Some (Inr x, s') \<and> f x s' = Some (Inr y, t))"
  by (auto simp: bind_st_def split: option.splits sum.splits)

lemma bind_st_Err_iff [result_iff]:
  "bind_st m f s = Some (Inl e, t) \<longleftrightarrow>
     m s = Some (Inl e, t) \<or> (\<exists>x s'. m s = Some (Inr x, s') \<and> f x s' = Some (Inl e, t))"
  by (auto simp: bind_st_def split: option.splits sum.splits)

lemma bind_st_None_iff [result_iff]:
  "bind_st m f s = None \<longleftrightarrow> m s = None \<or> (\<exists>x s'. m s = Some (Inr x, s') \<and> f x s' = None)"
  by (auto simp: bind_st_def split: option.splits sum.splits)

lemma lift_st_iff [result_iff]:
  "lift_st r s = Some (y, t) \<longleftrightarrow> r = Some y \<and> t = s" "lift_st r s = None \<longleftrightarrow> r = None"
  by (auto simp: lift_st_def)

lemma upd_st_iff [result_iff]:
  "upd_st f s = Some (y, t) \<longleftrightarrow> y = Inr () \<and> f s = Some t" "upd_st f s = None \<longleftrightarrow> f s = None"
  by (auto simp: upd_st_def)

lemma bind_st_eval [simp]:
  "m s = Some (Inr x, s') \<Longrightarrow> bind_st m f s = f x s'"
  "m s = Some (Inl e, s') \<Longrightarrow> bind_st m f s = Some (Inl e, s')"
  by (simp_all add: bind_st_def)

lemma lift_st_eval [simp]: "lift_st (Some y) s = Some (y, s)"
  by (simp add: lift_st_def)

lemma bind_lift_Okay [simp]: "bind_st (lift_st (Okay x)) f = f x"
  by (simp add: fun_eq_iff)

text \<open>A method that panics on no receiver.\<close>

definition panic_free :: "('s, 'e, 'a) effect \<Rightarrow> bool" where
  "panic_free m \<longleftrightarrow> (\<forall>s. m s \<noteq> None)"

lemma panic_freeD: "panic_free m \<Longrightarrow> m s \<noteq> None"
  by (simp add: panic_free_def)

lemma panic_free_bind [intro!]: "panic_free m \<Longrightarrow> (\<And>x. panic_free (f x)) \<Longrightarrow> panic_free (bind_st m f)"
  unfolding panic_free_def bind_st_None_iff by blast

lemma panic_free_lift [intro]: "r \<noteq> None \<Longrightarrow> panic_free (lift_st r)"
  by (simp add: panic_free_def lift_st_def)

lemma panic_free_simps [simp]:
  "panic_free (lift_st (Some y))" "panic_free (lift_st (ok_or e r))" "panic_free (upd_st (\<lambda>s. Some (g s)))"
  by (auto simp: panic_free_def result_iff simp del: not_None_eq)

lemma panic_free_for [intro]: "(\<And>x. x \<in> set xs \<Longrightarrow> panic_free (f x)) \<Longrightarrow> panic_free (for_st f xs)"
  by (induction xs) auto

lemma for_st_invariant:
  assumes "for_st f xs s = Some (Inr u, t)" and "I s"
    and "\<And>x s t. x \<in> set xs \<Longrightarrow> I s \<Longrightarrow> f x s = Some (Inr (), t) \<Longrightarrow> I t"
  shows "I t"
  using assms by (induction xs arbitrary: s) (auto simp: result_iff)

section \<open>Checked arithmetic on \<open>usize\<close>\<close>

definition usize_checked_add :: "nat \<Rightarrow> nat \<Rightarrow> nat option" where [rust_simps]:
  "usize_checked_add a b = (if a + b \<le> usize_max then Some (a + b) else None)"

definition usize_checked_sub :: "nat \<Rightarrow> nat \<Rightarrow> nat option" where [rust_simps]:
  "usize_checked_sub a b = (if b \<le> a then Some (a - b) else None)"

definition usize_checked_mul :: "nat \<Rightarrow> nat \<Rightarrow> nat option" where [rust_simps]:
  "usize_checked_mul a b = (if a * b \<le> usize_max then Some (a * b) else None)"

lemma usize_checked_iff [result_iff]:
  "usize_checked_add a b = Some c \<longleftrightarrow> a + b \<le> usize_max \<and> c = a + b"
  "usize_checked_sub a b = Some c \<longleftrightarrow> b \<le> a \<and> c = a - b"
  "usize_checked_mul a b = Some c \<longleftrightarrow> a * b \<le> usize_max \<and> c = a * b"
  by (auto simp: rust_simps)

end
