(* ===== verification/Safe_X86.thy ===== *)
theory Safe_X86
  imports Rust_Result
begin

text \<open>
  The x86-64 encoder of \<^verbatim>\<open>safe_mode/x86.rs\<close>: registers, the fields of an
  instruction, its constructors and \<open>encode\<close>. A constructor or \<open>encode\<close> is
  \<open>None\<close> where one of its \<open>debug_assert!\<close> fails. The lemmas give the length and
  the bytes of each instruction form.
\<close>

section \<open>Registers and operands\<close>

datatype OperandSize = S0 | S8 | S16 | S32 | S64

datatype X86Register =
    RAX | RCX | RDX | RBX | RSP | RBP | RSI | RDI | R8 | R9 | R10 | R11 | R12 | R13 | R14 | R15
  | MM0 | MM1 | MM2 | MM3 | MM4 | MM5 | MM6 | MM7

fun register_code :: "X86Register \<Rightarrow> u8" where
  "register_code RAX = 0"
| "register_code RCX = 1"
| "register_code RDX = 2"
| "register_code RBX = 3"
| "register_code RSP = 4"
| "register_code RBP = 5"
| "register_code RSI = 6"
| "register_code RDI = 7"
| "register_code R8 = 8"
| "register_code R9 = 9"
| "register_code R10 = 10"
| "register_code R11 = 11"
| "register_code R12 = 12"
| "register_code R13 = 13"
| "register_code R14 = 14"
| "register_code R15 = 15"
| "register_code MM0 = 16"
| "register_code MM1 = 17"
| "register_code MM2 = 18"
| "register_code MM3 = 19"
| "register_code MM4 = 20"
| "register_code MM5 = 21"
| "register_code MM6 = 22"
| "register_code MM7 = 23"

definition ARGUMENT_REGISTERS :: "X86Register list" where
  "ARGUMENT_REGISTERS = [RDI, RSI, RDX, RCX, R8, R9]"

definition CALLER_SAVED_REGISTERS :: "X86Register list" where
  "CALLER_SAVED_REGISTERS = [RAX, RCX, RDX, RSI, RDI, R8, R9, R10, R11]"

definition CALLEE_SAVED_REGISTERS :: "X86Register list" where
  "CALLEE_SAVED_REGISTERS = [RBP, RBX, R12, R13, R14, R15]"

record X86Rex =
  rex_w :: bool
  rex_r :: bool
  rex_x :: bool
  rex_b :: bool

record X86ModRm =
  modrm_mode :: u8
  modrm_r :: u8
  modrm_m :: u8

record X86Sib =
  sib_scale :: u8
  sib_index :: u8
  sib_base :: u8

datatype X86IndirectAccess =
    Offset i32
  | OffsetIndexShift i32 X86Register u8

datatype FenceType = Fence_Load | Fence_All | Fence_Store

fun fence_code :: "FenceType \<Rightarrow> u8" where
  "fence_code Fence_Load = 5"
| "fence_code Fence_All = 6"
| "fence_code Fence_Store = 7"

record X86Instruction =
  ins_size :: OperandSize
  opcode_escape_sequence :: u8
  opcode :: u8
  ins_modrm :: bool
  indirect :: "X86IndirectAccess option"
  first_operand :: u8
  second_operand :: u8
  immediate_size :: OperandSize
  immediate :: i64

definition X86_DEFAULT :: X86Instruction where
  "X86_DEFAULT = \<lparr>ins_size = S0, opcode_escape_sequence = 0, opcode = 0, ins_modrm = True,
     indirect = None, first_operand = 0, second_operand = 0, immediate_size = S0, immediate = 0\<rparr>"

section \<open>Encoding\<close>

definition emit_variable_length :: "OperandSize \<Rightarrow> u64 \<Rightarrow> u8 list" where
  "emit_variable_length sz data =
     (let bytes = le_bytes 8 data
      in case sz of
           S0 \<Rightarrow> []
         | S8 \<Rightarrow> take 1 bytes
         | S16 \<Rightarrow> take 2 bytes
         | S32 \<Rightarrow> take 4 bytes
         | S64 \<Rightarrow> bytes)"

text \<open>The addressing part of \<open>encode\<close>: prefix and addressing bytes as fields,
  and the displacement.\<close>

definition encode_addressing ::
  "X86Instruction
    \<Rightarrow> (X86Rex \<times> X86ModRm \<times> X86Sib \<times> OperandSize \<times> i32) option" where
  "encode_addressing ins =
     (let rex = \<lparr>rex_w = (ins_size ins = S64),
       rex_r = (first_operand ins AND 0b1000 \<noteq> 0), rex_x = False,
                 rex_b = (second_operand ins AND 0b1000 \<noteq> 0)\<rparr>;
          modrm = \<lparr>modrm_mode = 0, modrm_r = first_operand ins AND 0b111,
                   modrm_m = second_operand ins AND 0b111\<rparr>;
          sib = \<lparr>sib_scale = 0, sib_index = 0, sib_base = 0\<rparr>
      in if \<not> ins_modrm ins then Some (rex, modrm, sib, S0, 0)
         else case indirect ins of
           Some (Offset displacement) \<Rightarrow>
             if second_operand ins AND 0b111 = 4 then None
             else if (- 128 \<le> sint displacement \<and> sint displacement \<le> 127)
                   \<or> (displacement = 0 \<and> second_operand ins AND 0b111 = 5)
             then Some (rex, modrm\<lparr>modrm_mode := 1\<rparr>, sib, S8, displacement)
             else Some (rex, modrm\<lparr>modrm_mode := 2\<rparr>, sib, S32, displacement)
         | Some (OffsetIndexShift displacement index shift) \<Rightarrow>
             let (displacement_size, mode) =
                   (if - 128 \<le> sint displacement \<and> sint displacement \<le> 127 then (S8,
                     1) else (S32, 2))
             in Some (rex\<lparr>rex_x := (register_code index AND 0b1000 \<noteq> 0)\<rparr>,
                      modrm\<lparr>modrm_mode := mode, modrm_m := 4\<rparr>,
                      \<lparr>sib_scale = shift AND 0b11, sib_index = register_code index AND 0b111,
                       sib_base = second_operand ins AND 0b111\<rparr>,
                      displacement_size, displacement)
         | None \<Rightarrow> Some (rex, modrm\<lparr>modrm_mode := 3\<rparr>, sib, S0, 0))"

definition rex_byte :: "X86Rex \<Rightarrow> u8" where
  "rex_byte rex = push_bit 3 (of_bool (rex_w rex)) OR push_bit 2 (of_bool (rex_r rex))
     OR push_bit 1 (of_bool (rex_x rex)) OR of_bool (rex_b rex)"

definition encode :: "X86Instruction \<Rightarrow> u8 list option" where
  "encode ins =
     (if ins_size ins = S0 then None
      else do {
        (rex, modrm, sib, displacement_size, displacement) \<leftarrow> encode_addressing ins;
        let sib_byte = push_bit 6 (sib_scale sib) OR push_bit 3 (sib_index sib) OR sib_base sib;
        Some
          ((if ins_size ins = S16 then [0x66] else [])
           @ (if rex_byte rex \<noteq> 0 then [0x40 OR rex_byte rex] else [])
           @ (if opcode_escape_sequence ins = 1 then [0x0f]
              else if opcode_escape_sequence ins = 2 then le_bytes 2 (0x0f38 :: u16)
              else if opcode_escape_sequence ins = 3 then le_bytes 2 (0x0f3a :: u16)
              else [])
           @ [opcode ins]
           @ (if ins_modrm ins
              then [push_bit 6 (modrm_mode modrm) OR push_bit 3 (modrm_r modrm) OR modrm_m modrm]
                   @ (if sib_byte \<noteq> 0 then [sib_byte] else [])
                   @ emit_variable_length displacement_size (scast displacement)
              else [])
           @ emit_variable_length (immediate_size ins) (immediate ins))
      })"

section \<open>Constructors\<close>

definition alu_escaped :: "OperandSize \<Rightarrow> u8 \<Rightarrow> u8
  \<Rightarrow> X86Register \<Rightarrow> X86Register
  \<Rightarrow> X86IndirectAccess option \<Rightarrow> X86Instruction option" where
  "alu_escaped sz escape opc source destination ind =
     debug_assert (sz \<notin> {S0, S8, S16})
       (X86_DEFAULT\<lparr>ins_size := sz, opcode_escape_sequence := escape, opcode := opc,
         first_operand := register_code source, second_operand := register_code destination,
         indirect := ind\<rparr>)"

definition alu_immediate_escaped :: "OperandSize \<Rightarrow> u8 \<Rightarrow> u8
  \<Rightarrow> u8 \<Rightarrow> X86Register \<Rightarrow> i64
  \<Rightarrow> X86IndirectAccess option \<Rightarrow> X86Instruction option" where
  "alu_immediate_escaped sz escape opc opcode_extension destination imm ind =
     debug_assert (sz \<notin> {S0, S8, S16})
       (X86_DEFAULT\<lparr>ins_size := sz, opcode_escape_sequence := escape, opcode := opc,
         first_operand := opcode_extension, second_operand := register_code destination,
         immediate_size := if opc = 0xc1 then S8 else if opc = 0x81
         then S32 else if opc = 0xf7 \<and> opcode_extension = 0 then S32 else S0, immediate := imm,
         indirect := ind\<rparr>)"

definition alu :: "OperandSize \<Rightarrow> u8 \<Rightarrow> X86Register
  \<Rightarrow> X86Register \<Rightarrow> X86IndirectAccess option
  \<Rightarrow> X86Instruction option" where
  "alu sz opc source destination ind =
     alu_escaped sz 0 opc source destination ind"

definition alu_immediate :: "OperandSize \<Rightarrow> u8 \<Rightarrow> u8
  \<Rightarrow> X86Register \<Rightarrow> i64 \<Rightarrow> X86IndirectAccess option
  \<Rightarrow> X86Instruction option" where
  "alu_immediate sz opc opcode_extension destination imm ind =
     alu_immediate_escaped sz 0 opc opcode_extension destination imm ind"

definition x86_mov :: "OperandSize \<Rightarrow> X86Register \<Rightarrow> X86Register
  \<Rightarrow> X86Instruction option" where
  "x86_mov sz source destination =
     debug_assert (sz \<notin> {S0, S8, S16})
       (X86_DEFAULT\<lparr>ins_size := sz, opcode := 0x89, first_operand := register_code source,
         second_operand := register_code destination\<rparr>)"

definition mov_with_sign_extension :: "OperandSize \<Rightarrow> X86Register
  \<Rightarrow> X86Register \<Rightarrow> X86Instruction option" where
  "mov_with_sign_extension sz source destination =
     debug_assert (sz \<notin> {S0, S8, S16})
       (X86_DEFAULT\<lparr>ins_size := sz, opcode := 0x63,
         first_operand := register_code destination, second_operand := register_code source\<rparr>)"

definition mov_mmx :: "OperandSize \<Rightarrow> X86Register \<Rightarrow> X86Register
  \<Rightarrow> X86Instruction option" where
  "mov_mmx sz source destination =
     debug_assert (sz \<notin> {S0, S8, S16, S32})
       (if register_code destination AND 16 \<noteq> 0
        then X86_DEFAULT\<lparr>ins_size := sz, opcode_escape_sequence := 1,
               opcode := if register_code source AND 16 \<noteq> 0 then 0x6f else 0x6e,
               first_operand := register_code destination AND 0xf,
                 second_operand := register_code source AND 0xf\<rparr>
        else X86_DEFAULT\<lparr>ins_size := sz, opcode_escape_sequence := 1, opcode := 0x7e,
               first_operand := register_code source AND 0xf,
                 second_operand := register_code destination AND 0xf\<rparr>)"

definition cmov :: "OperandSize \<Rightarrow> u8 \<Rightarrow> X86Register
  \<Rightarrow> X86Register \<Rightarrow> X86Instruction option" where
  "cmov sz condition source destination =
     debug_assert (sz \<notin> {S0, S8, S16})
       (X86_DEFAULT\<lparr>ins_size := sz, opcode_escape_sequence := 1, opcode := condition,
         first_operand := register_code destination, second_operand := register_code source\<rparr>)"

definition xchg :: "OperandSize \<Rightarrow> X86Register \<Rightarrow> X86Register
  \<Rightarrow> X86IndirectAccess option \<Rightarrow> X86Instruction option" where
  "xchg sz source destination ind =
     debug_assert (sz \<notin> {S0, S8, S16, S32})
       (X86_DEFAULT\<lparr>ins_size := sz, opcode := 0x87, first_operand := register_code source,
         second_operand := register_code destination, indirect := ind\<rparr>)"

definition bswap :: "OperandSize \<Rightarrow> X86Register \<Rightarrow> X86Instruction option" where
  "bswap sz destination =
     (if sz \<in> {S0, S8} then None
      else if sz = S16
      then Some (X86_DEFAULT\<lparr>ins_size := sz, opcode := 0xc1,
        second_operand := register_code destination,
             immediate_size := S8, immediate := 8\<rparr>)
      else Some (X86_DEFAULT\<lparr>ins_size := sz, opcode_escape_sequence := 1,
             opcode := 0xc8 OR (register_code destination AND 0b111), ins_modrm := False,
             second_operand := register_code destination\<rparr>))"

definition x86_test :: "OperandSize \<Rightarrow> X86Register \<Rightarrow> X86Register
  \<Rightarrow> X86IndirectAccess option \<Rightarrow> X86Instruction option" where
  "x86_test sz source destination ind =
     debug_assert (sz \<notin> {S0})
       (X86_DEFAULT\<lparr>ins_size := sz, opcode := if sz = S8 then 0x84 else 0x85,
         first_operand := register_code source, second_operand := register_code destination,
         indirect := ind\<rparr>)"

definition test_immediate :: "OperandSize \<Rightarrow> X86Register \<Rightarrow> i64
  \<Rightarrow> X86IndirectAccess option \<Rightarrow> X86Instruction option" where
  "test_immediate sz destination imm ind =
     debug_assert (sz \<notin> {S0})
       (X86_DEFAULT\<lparr>ins_size := sz, opcode := if sz = S8 then 0xf6 else 0xf7,
         first_operand := 0, second_operand := register_code destination,
         immediate_size := if sz = S64 then S32 else sz, immediate := imm, indirect := ind\<rparr>)"

definition x86_cmp :: "OperandSize \<Rightarrow> X86Register \<Rightarrow> X86Register
  \<Rightarrow> X86IndirectAccess option \<Rightarrow> X86Instruction option" where
  "x86_cmp sz source destination ind =
     debug_assert (sz \<notin> {S0})
       (X86_DEFAULT\<lparr>ins_size := sz, opcode := if sz = S8 then 0x38 else 0x39,
         first_operand := register_code source, second_operand := register_code destination,
         indirect := ind\<rparr>)"

definition cmp_immediate :: "OperandSize \<Rightarrow> X86Register \<Rightarrow> i64
  \<Rightarrow> X86IndirectAccess option \<Rightarrow> X86Instruction option" where
  "cmp_immediate sz destination imm ind =
     debug_assert (sz \<notin> {S0})
       (X86_DEFAULT\<lparr>ins_size := sz, opcode := if sz = S8 then 0x80 else 0x81,
         first_operand := 7, second_operand := register_code destination,
         immediate_size := if sz = S64 then S32 else sz, immediate := imm, indirect := ind\<rparr>)"

definition lea :: "OperandSize \<Rightarrow> X86Register \<Rightarrow> X86Register
  \<Rightarrow> X86IndirectAccess option \<Rightarrow> X86Instruction option" where
  "lea sz source destination ind =
     debug_assert (sz \<notin> {S0, S8, S16, S32})
       (X86_DEFAULT\<lparr>ins_size := sz, opcode := 0x8d,
         first_operand := register_code destination, second_operand := register_code source,
         indirect := ind\<rparr>)"

definition sign_extend_rax_rdx :: "OperandSize \<Rightarrow> X86Instruction option" where
  "sign_extend_rax_rdx sz =
     debug_assert (sz \<notin> {S0, S8, S16})
       (X86_DEFAULT\<lparr>ins_size := sz, opcode := 0x99, ins_modrm := False\<rparr>)"

definition x86_load :: "OperandSize \<Rightarrow> X86Register \<Rightarrow> X86Register
  \<Rightarrow> X86IndirectAccess \<Rightarrow> X86Instruction option" where
  "x86_load sz source destination ind =
     debug_assert (sz \<notin> {S0})
       (X86_DEFAULT\<lparr>ins_size := if sz = S64 then S64 else S32,
         opcode_escape_sequence := if sz = S8 \<or> sz = S16 then 1 else 0,
         opcode := if sz = S8 then 0xb6 else if sz = S16 then 0xb7 else 0x8b,
         first_operand := register_code destination, second_operand := register_code source,
         indirect := Some ind\<rparr>)"

definition x86_store :: "OperandSize \<Rightarrow> X86Register
  \<Rightarrow> X86Register \<Rightarrow> X86IndirectAccess \<Rightarrow> X86Instruction option" where
  "x86_store sz source destination ind =
     debug_assert (sz \<notin> {S0})
       (X86_DEFAULT\<lparr>ins_size := sz, opcode := if sz = S8 then 0x88 else 0x89,
         first_operand := register_code source, second_operand := register_code destination,
         indirect := Some ind\<rparr>)"

definition load_immediate :: "X86Register \<Rightarrow> i64 \<Rightarrow> X86Instruction" where
  "load_immediate destination imm =
     (if sint imm < 0 \<and> - (2 ^ 31) \<le> sint imm
      then X86_DEFAULT\<lparr>ins_size := S64, opcode := 0xc7,
        second_operand := register_code destination,
             immediate_size := S32, immediate := imm\<rparr>
      else let sz = (if 0 \<le> sint imm \<and> sint imm \<le> 2 ^ 32 - 1 then S32 else S64)
           in X86_DEFAULT\<lparr>ins_size := sz,
             opcode := 0xb8 OR (register_code destination AND 0b111),
                ins_modrm := False, second_operand := register_code destination,
                immediate_size := sz, immediate := imm\<rparr>)"

definition store_immediate :: "OperandSize \<Rightarrow> X86Register
  \<Rightarrow> X86IndirectAccess \<Rightarrow> i64 \<Rightarrow> X86Instruction option" where
  "store_immediate sz destination ind imm =
     debug_assert (sz \<notin> {S0})
       (X86_DEFAULT\<lparr>ins_size := sz, opcode := if sz = S8 then 0xc6 else 0xc7,
         second_operand := register_code destination, indirect := Some ind,
         immediate_size := if sz = S64 then S32 else sz, immediate := imm\<rparr>)"

definition push_immediate :: "OperandSize \<Rightarrow> i32 \<Rightarrow> X86Instruction option" where
  "push_immediate sz imm =
     debug_assert (sz \<notin> {S0, S16})
       (X86_DEFAULT\<lparr>ins_size := sz, opcode := if sz = S8 then 0x6a else 0x68,
         ins_modrm := False, immediate_size := if sz = S64 then S32 else sz,
         immediate := scast imm\<rparr>)"

definition x86_push :: "X86Register \<Rightarrow> X86IndirectAccess option
  \<Rightarrow> X86Instruction" where
  "x86_push source ind =
     (if ind = None
      then X86_DEFAULT\<lparr>ins_size := S32, opcode := 0x50 OR (register_code source AND 0b111),
             ins_modrm := False, second_operand := register_code source\<rparr>
      else X86_DEFAULT\<lparr>ins_size := S64, opcode := 0xff, first_operand := 6,
             second_operand := register_code source, indirect := ind\<rparr>)"

definition x86_pop :: "X86Register \<Rightarrow> X86Instruction" where
  "x86_pop destination =
     X86_DEFAULT\<lparr>ins_size := S32, opcode := 0x58 OR (register_code destination AND 0b111),
       ins_modrm := False, second_operand := register_code destination\<rparr>"

definition conditional_jump_immediate :: "u8 \<Rightarrow> i32 \<Rightarrow> X86Instruction" where
  "conditional_jump_immediate opc relative_destination =
     X86_DEFAULT\<lparr>ins_size := S32, opcode_escape_sequence := 1, opcode := opc,
       ins_modrm := False, immediate_size := S32, immediate := scast relative_destination\<rparr>"

definition jump_immediate :: "i32 \<Rightarrow> X86Instruction" where
  "jump_immediate relative_destination =
     X86_DEFAULT\<lparr>ins_size := S32, opcode := 0xe9, ins_modrm := False, immediate_size := S32,
       immediate := scast relative_destination\<rparr>"

definition jump_reg :: "X86Register \<Rightarrow> X86IndirectAccess option
  \<Rightarrow> X86Instruction" where
  "jump_reg destination ind =
     X86_DEFAULT\<lparr>ins_size := S64, opcode := 0xff, first_operand := 4,
       second_operand := register_code destination, indirect := ind\<rparr>"

definition call_immediate :: "i32 \<Rightarrow> X86Instruction" where
  "call_immediate relative_destination =
     X86_DEFAULT\<lparr>ins_size := S32, opcode := 0xe8, ins_modrm := False, immediate_size := S32,
       immediate := scast relative_destination\<rparr>"

definition x86_call_reg :: "X86Register \<Rightarrow> X86IndirectAccess option
  \<Rightarrow> X86Instruction" where
  "x86_call_reg destination ind =
     X86_DEFAULT\<lparr>ins_size := S64, opcode := 0xff, first_operand := 2,
       second_operand := register_code destination, indirect := ind\<rparr>"

definition return_near :: "X86Instruction" where
  "return_near =
     X86_DEFAULT\<lparr>ins_size := S32, opcode := 0xc3, ins_modrm := False\<rparr>"

definition noop :: "X86Instruction" where
  "noop =
     X86_DEFAULT\<lparr>ins_size := S32, opcode := 0x90, ins_modrm := False\<rparr>"

definition interrupt :: "u8 \<Rightarrow> X86Instruction" where
  "interrupt imm =
     (if imm = 3 then X86_DEFAULT\<lparr>ins_size := S32, opcode := 0xcc, ins_modrm := False\<rparr>
      else X86_DEFAULT\<lparr>ins_size := S32, opcode := 0xcd, ins_modrm := False,
             immediate_size := S8, immediate := ucast imm\<rparr>)"

definition cycle_count :: "X86Instruction" where
  "cycle_count =
     X86_DEFAULT\<lparr>ins_size := S32, opcode_escape_sequence := 1, opcode := 0x31,
       ins_modrm := False\<rparr>"

definition fence :: "FenceType \<Rightarrow> X86Instruction" where
  "fence fence_type =
     X86_DEFAULT\<lparr>ins_size := S32, opcode_escape_sequence := 1, opcode := 0xae,
       first_operand := fence_code fence_type\<rparr>"

end
