(* ===== verification/Safe_Jit.thy ===== *)
theory Safe_Jit
  imports Safe_X86 Ebpf
begin

text \<open>
  The code generator of \<^verbatim>\<open>safe_mode/jit.rs\<close>: instruction selection, the byte
  buffer, the table of instruction offsets and the relocation of forward jumps,
  and the lowering of decoded sBPF instructions into the subset that the generator
  handles. Methods on \<open>&mut self\<close> keep the receiver also on an error; \<open>None\<close> is a
  failed \<open>debug_assert!\<close> of the encoder.
\<close>

section \<open>Instructions of the generator\<close>

definition REGISTER_MAP :: "X86Register list" where
  "REGISTER_MAP = [RAX, RSI, RDX, RCX, R8, R9, RBX, R12, R13, R14, R15]"

definition REGISTER_SCRATCH :: X86Register where
  "REGISTER_SCRATCH = R11"

datatype AluOperation = Add | Subtract | Or | And | Xor

datatype ShiftOperation = Left | Right | ArithmeticRight

datatype JumpCondition =
    Equal | NotEqual | Greater | GreaterOrEqual | Less | LessOrEqual
  | SignedGreater | SignedGreaterOrEqual | SignedLess | SignedLessOrEqual

text \<open>The fields of each variant in the order of the source.\<close>

datatype JitInstruction =
    LoadImmediate OperandSize nat i64
  | MoveRegister OperandSize nat nat
  | AluImmediate OperandSize AluOperation nat i64
  | AluRegister OperandSize AluOperation nat nat
  | ShiftImmediate OperandSize ShiftOperation nat u8
  | ShiftRegister OperandSize ShiftOperation nat nat
  | Jump nat
  | JumpImmediate OperandSize JumpCondition nat i64 nat
  | JumpRegister OperandSize JumpCondition nat nat nat
  | JumpTestImmediate OperandSize nat i64 nat
  | JumpTestRegister OperandSize nat nat nat
  | Return

record JumpModel =
  jump_location :: nat
  jump_target_pc :: nat

datatype JitModelError =
    InvalidRegister
  | InvalidJumpTarget
  | InvalidOperandSize
  | UnsupportedInstruction
  | InvalidAnchor
  | InvalidProgramCounter
  | AnchorNotSet
  | ProgramCounterNotSet
  | RelativeOffsetOutOfRange
  | InvalidRelocation

record JitCompilerModel =
  text_section :: "u8 list"
  pc_section :: "nat option list"
  text_section_jumps :: "JumpModel list"
  anchors :: "nat option list"

type_synonym 'a jit = "(JitCompilerModel, JitModelError, 'a) effect"

section \<open>Tables\<close>

definition mapped_register :: "nat \<Rightarrow> (JitModelError, X86Register) outcome" where
  "mapped_register index = ok_or InvalidRegister (index_opt REGISTER_MAP index)"

fun alu_encoding :: "AluOperation \<Rightarrow> u8 \<times> u8" where
  "alu_encoding Add = (0x01, 0)"
| "alu_encoding Or = (0x09, 1)"
| "alu_encoding And = (0x21, 4)"
| "alu_encoding Subtract = (0x29, 5)"
| "alu_encoding Xor = (0x31, 6)"

fun shift_opcode_extension :: "ShiftOperation \<Rightarrow> u8" where
  "shift_opcode_extension Left = 4"
| "shift_opcode_extension Right = 5"
| "shift_opcode_extension ArithmeticRight = 7"

fun jump_opcode :: "JumpCondition \<Rightarrow> u8" where
  "jump_opcode Equal = 0x84"
| "jump_opcode NotEqual = 0x85"
| "jump_opcode Greater = 0x87"
| "jump_opcode GreaterOrEqual = 0x83"
| "jump_opcode Less = 0x82"
| "jump_opcode LessOrEqual = 0x86"
| "jump_opcode SignedGreater = 0x8f"
| "jump_opcode SignedGreaterOrEqual = 0x8d"
| "jump_opcode SignedLess = 0x8c"
| "jump_opcode SignedLessOrEqual = 0x8e"

definition relative_offset :: "nat \<Rightarrow> nat \<Rightarrow> (JitModelError, i32) outcome" where
  "relative_offset destination instruction_end =
     (let difference = int destination - int instruction_end
      in if - (2 ^ 31) \<le> difference \<and> difference < 2 ^ 31 then Okay (word_of_int difference)
         else Fail RelativeOffsetOutOfRange)"

section \<open>The byte buffer\<close>

definition jit_new :: "nat \<Rightarrow> nat \<Rightarrow> JitCompilerModel" where
  "jit_new program_counter_count anchor_count =
     \<lparr>text_section = [], pc_section = replicate program_counter_count None,
      text_section_jumps = [], anchors = replicate anchor_count None\<rparr>"

definition offset_in_text_section :: "JitCompilerModel \<Rightarrow> nat" where
  "offset_in_text_section jit = length (text_section jit)"

definition emit_byte :: "u8 \<Rightarrow> JitCompilerModel \<Rightarrow> JitCompilerModel" where
  "emit_byte byte jit = jit\<lparr>text_section := text_section jit @ [byte]\<rparr>"

definition emit_bytes :: "u8 list \<Rightarrow> JitCompilerModel \<Rightarrow> JitCompilerModel" where
  "emit_bytes bytes jit = jit\<lparr>text_section := text_section jit @ bytes\<rparr>"

definition jit_emit_variable_length :: "OperandSize \<Rightarrow> u64 \<Rightarrow> JitCompilerModel \<Rightarrow> JitCompilerModel" where
  "jit_emit_variable_length sz data jit =
     (let bytes = le_bytes 8 data
      in case sz of
           S0 \<Rightarrow> jit
         | S8 \<Rightarrow> emit_bytes (take 1 bytes) jit
         | S16 \<Rightarrow> emit_bytes (take 2 bytes) jit
         | S32 \<Rightarrow> emit_bytes (take 4 bytes) jit
         | S64 \<Rightarrow> emit_bytes bytes jit)"

definition emit_ins :: "X86Instruction option \<Rightarrow> unit jit" where
  "emit_ins ins = upd_st (\<lambda>jit. do { i \<leftarrow> ins; bytes \<leftarrow> encode i; Some (emit_bytes bytes jit) })"

definition set_program_counter :: "nat \<Rightarrow> unit jit" where
  "set_program_counter pc jit =
     (if pc < length (pc_section jit)
      then Some (Inr (), jit\<lparr>pc_section := (pc_section jit)[pc := Some (length (text_section jit))]\<rparr>)
      else Some (Inl InvalidProgramCounter, jit))"

definition set_anchor :: "nat \<Rightarrow> unit jit" where
  "set_anchor anchor jit =
     (if anchor < length (anchors jit)
      then Some (Inr (), jit\<lparr>anchors := (anchors jit)[anchor := Some (length (text_section jit))]\<rparr>)
      else Some (Inl InvalidAnchor, jit))"

definition relative_to_anchor :: "nat \<Rightarrow> nat \<Rightarrow> JitCompilerModel \<Rightarrow> (JitModelError, i32) outcome" where
  "relative_to_anchor anchor instruction_length jit =
     and_then (ok_or InvalidAnchor (index_opt (anchors jit) anchor)) (\<lambda>slot.
     and_then (ok_or AnchorNotSet slot) (\<lambda>destination.
     and_then (ok_or RelativeOffsetOutOfRange
                 (usize_checked_add (length (text_section jit)) instruction_length)) (\<lambda>instruction_end.
     relative_offset destination instruction_end)))"

definition relative_to_target_pc :: "nat \<Rightarrow> nat \<Rightarrow> i32 jit" where
  "relative_to_target_pc target_pc instruction_length jit =
     bind_st (lift_st (ok_or InvalidProgramCounter (index_opt (pc_section jit) target_pc))) (\<lambda>destination.
     bind_st (lift_st (ok_or RelativeOffsetOutOfRange
                 (usize_checked_add (length (text_section jit)) instruction_length))) (\<lambda>instruction_end.
     case destination of
       Some destination \<Rightarrow> lift_st (relative_offset destination instruction_end)
     | None \<Rightarrow>
         bind_st (lift_st (ok_or InvalidRelocation (usize_checked_sub instruction_end 4))) (\<lambda>location jit.
           Some (Inr 0, jit\<lparr>text_section_jumps := text_section_jumps jit
                              @ [\<lparr>jump_location = location, jump_target_pc = target_pc\<rparr>]\<rparr>)))) jit"

text \<open>The body of the loop of \<open>resolve_jumps\<close>.\<close>

definition resolve_jump :: "JumpModel \<Rightarrow> unit jit" where
  "resolve_jump jump jit =
     bind_st (lift_st (ok_or InvalidProgramCounter (index_opt (pc_section jit) (jump_target_pc jump)))) (\<lambda>slot.
     bind_st (lift_st (ok_or ProgramCounterNotSet slot)) (\<lambda>destination.
     bind_st (lift_st (ok_or InvalidRelocation (usize_checked_add (jump_location jump) 4))) (\<lambda>instruction_end.
     bind_st (lift_st (relative_offset destination instruction_end)) (\<lambda>displacement jit.
     if instruction_end \<le> length (text_section jit)
     then Some (Inr (), jit\<lparr>text_section := take (jump_location jump) (text_section jit)
                              @ le_bytes 4 displacement @ drop instruction_end (text_section jit)\<rparr>)
     else Some (Inl InvalidRelocation, jit))))) jit"

definition resolve_jumps :: "unit jit" where
  "resolve_jumps jit =
     bind_st (for_st resolve_jump (text_section_jumps jit)) (\<lambda>_ jit.
       Some (Inr (), jit\<lparr>text_section_jumps := []\<rparr>)) jit"

section \<open>Instruction selection\<close>

definition emit_register_shift ::
  "OperandSize \<Rightarrow> ShiftOperation \<Rightarrow> X86Register \<Rightarrow> X86Register \<Rightarrow> unit jit" where
  "emit_register_shift sz operation source destination =
     (let opcode_extension = shift_opcode_extension operation
      in bind_st (if sz = S32 then emit_ins (x86_mov sz destination destination) else lift_st (Okay ())) (\<lambda>_.
         if source = RCX then emit_ins (alu_immediate sz 0xd3 opcode_extension destination 0 None)
         else if destination = RCX then
           bind_st (emit_ins (Some (x86_push source None))) (\<lambda>_.
           bind_st (emit_ins (xchg S64 source RCX None)) (\<lambda>_.
           bind_st (emit_ins (alu_immediate sz 0xd3 opcode_extension source 0 None)) (\<lambda>_.
           bind_st (emit_ins (x86_mov S64 source RCX)) (\<lambda>_.
           emit_ins (Some (x86_pop source))))))
         else
           bind_st (emit_ins (Some (x86_push RCX None))) (\<lambda>_.
           bind_st (emit_ins (x86_mov S64 source RCX)) (\<lambda>_.
           bind_st (emit_ins (alu_immediate sz 0xd3 opcode_extension destination 0 None)) (\<lambda>_.
           emit_ins (Some (x86_pop RCX)))))))"

fun emit_jit_instruction :: "JitInstruction \<Rightarrow> unit jit" where
  "emit_jit_instruction (LoadImmediate sz destination val) =
     bind_st (lift_st (mapped_register destination)) (\<lambda>destination.
     bind_st (lift_st (if sz = S32 then Okay (ucast (ucast val :: u32))
                       else if sz = S64 then Okay val else Fail InvalidOperandSize)) (\<lambda>val.
     emit_ins (Some (load_immediate destination val))))"
| "emit_jit_instruction (MoveRegister sz source destination) =
     bind_st (lift_st (mapped_register source)) (\<lambda>source.
     bind_st (lift_st (mapped_register destination)) (\<lambda>destination.
     emit_ins (x86_mov sz source destination)))"
| "emit_jit_instruction (AluImmediate sz operation destination val) =
     bind_st (lift_st (mapped_register destination)) (\<lambda>destination.
     let (opc, opcode_extension) = alu_encoding operation
     in if - (2 ^ 31) \<le> sint val \<and> sint val \<le> 2 ^ 31 - 1
        then emit_ins (alu_immediate sz 0x81 opcode_extension destination val None)
        else bind_st (emit_ins (Some (load_immediate REGISTER_SCRATCH val))) (\<lambda>_.
             emit_ins (alu sz opc REGISTER_SCRATCH destination None)))"
| "emit_jit_instruction (AluRegister sz operation source destination) =
     bind_st (lift_st (mapped_register source)) (\<lambda>source.
     bind_st (lift_st (mapped_register destination)) (\<lambda>destination.
     emit_ins (alu sz (fst (alu_encoding operation)) source destination None)))"
| "emit_jit_instruction (ShiftImmediate sz operation destination amount) =
     bind_st (lift_st (mapped_register destination)) (\<lambda>destination.
     emit_ins (alu_immediate sz 0xc1 (shift_opcode_extension operation) destination (ucast amount) None))"
| "emit_jit_instruction (ShiftRegister sz operation source destination) =
     bind_st (lift_st (mapped_register source)) (\<lambda>source.
     bind_st (lift_st (mapped_register destination)) (\<lambda>destination.
     emit_register_shift sz operation source destination))"
| "emit_jit_instruction (Jump target_pc) =
     bind_st (relative_to_target_pc target_pc 5) (\<lambda>displacement.
     emit_ins (Some (jump_immediate displacement)))"
| "emit_jit_instruction (JumpImmediate sz condition destination val target_pc) =
     bind_st (lift_st (mapped_register destination)) (\<lambda>destination.
     bind_st (emit_ins (cmp_immediate sz destination val None)) (\<lambda>_.
     bind_st (relative_to_target_pc target_pc 6) (\<lambda>displacement.
     emit_ins (Some (conditional_jump_immediate (jump_opcode condition) displacement)))))"
| "emit_jit_instruction (JumpRegister sz condition source destination target_pc) =
     bind_st (lift_st (mapped_register source)) (\<lambda>source.
     bind_st (lift_st (mapped_register destination)) (\<lambda>destination.
     bind_st (emit_ins (x86_cmp sz source destination None)) (\<lambda>_.
     bind_st (relative_to_target_pc target_pc 6) (\<lambda>displacement.
     emit_ins (Some (conditional_jump_immediate (jump_opcode condition) displacement))))))"
| "emit_jit_instruction (JumpTestImmediate sz destination val target_pc) =
     bind_st (lift_st (mapped_register destination)) (\<lambda>destination.
     bind_st (emit_ins (test_immediate sz destination val None)) (\<lambda>_.
     bind_st (relative_to_target_pc target_pc 6) (\<lambda>displacement.
     emit_ins (Some (conditional_jump_immediate (jump_opcode NotEqual) displacement)))))"
| "emit_jit_instruction (JumpTestRegister sz source destination target_pc) =
     bind_st (lift_st (mapped_register source)) (\<lambda>source.
     bind_st (lift_st (mapped_register destination)) (\<lambda>destination.
     bind_st (emit_ins (x86_test sz source destination None)) (\<lambda>_.
     bind_st (relative_to_target_pc target_pc 6) (\<lambda>displacement.
     emit_ins (Some (conditional_jump_immediate (jump_opcode NotEqual) displacement))))))"
| "emit_jit_instruction Return = emit_ins (Some return_near)"

text \<open>The loop of \<open>compile\<close>, from a program counter on.\<close>

function compile_loop :: "JitInstruction list \<Rightarrow> nat \<Rightarrow> unit jit" where
  "compile_loop prog pc =
     (if pc < length prog then
        bind_st (set_program_counter pc) (\<lambda>_.
        bind_st (lift_st (ok_or InvalidProgramCounter (index_opt prog pc))) (\<lambda>instruction.
        bind_st (emit_jit_instruction instruction) (\<lambda>_.
        compile_loop prog (pc + 1))))
      else lift_st (Okay ()))"
  by pat_completeness auto
termination by (relation "measure (\<lambda>(prog, pc). length prog - pc)") auto

declare compile_loop.simps [simp del]

definition compile :: "JitInstruction list \<Rightarrow> (JitModelError, u8 list) outcome" where
  "compile prog =
     map_option (\<lambda>(r, jit). map_sum id (\<lambda>_. text_section jit) r)
       (bind_st (compile_loop prog 0) (\<lambda>_. resolve_jumps) (jit_new (length prog) 0))"

section \<open>Lowering of sBPF instructions\<close>

definition branch_target :: "nat \<Rightarrow> i16 \<Rightarrow> (JitModelError, nat) outcome" where
  "branch_target pc offset =
     (let target = int pc + sint offset + 1
      in if target < 0 \<or> target > int usize_max then Fail InvalidJumpTarget else Okay (nat target))"

definition jump_condition_from_operation :: "u8 \<Rightarrow> (JitModelError, JumpCondition) outcome" where
  "jump_condition_from_operation operation =
     (if operation = BPF_JEQ then Okay Equal
      else if operation = BPF_JNE then Okay NotEqual
      else if operation = BPF_JGT then Okay Greater
      else if operation = BPF_JGE then Okay GreaterOrEqual
      else if operation = BPF_JLT then Okay Less
      else if operation = BPF_JLE then Okay LessOrEqual
      else if operation = BPF_JSGT then Okay SignedGreater
      else if operation = BPF_JSGE then Okay SignedGreaterOrEqual
      else if operation = BPF_JSLT then Okay SignedLess
      else if operation = BPF_JSLE then Okay SignedLessOrEqual
      else Fail UnsupportedInstruction)"

definition lower_alu_instruction :: "OperandSize \<Rightarrow> Insn \<Rightarrow> (JitModelError, JitInstruction) outcome" where
  "lower_alu_instruction sz instruction =
     (let operation = i_opc instruction AND BPF_ALU_OP_MASK;
          register_source = (i_opc instruction AND BPF_X \<noteq> 0);
          source = unat (i_src instruction);
          destination = unat (i_dst instruction);
          alu_of = (\<lambda>operation. if register_source then Okay (AluRegister sz operation source destination)
                                else Okay (AluImmediate sz operation destination (i_imm instruction)));
          shift_of = (\<lambda>operation. if register_source then Okay (ShiftRegister sz operation source destination)
                                  else Okay (ShiftImmediate sz operation destination (ucast (i_imm instruction))))
      in if operation = BPF_MOV then
           (if register_source then Okay (MoveRegister sz source destination)
            else Okay (LoadImmediate sz destination (i_imm instruction)))
         else if operation = BPF_ADD then alu_of Add
         else if operation = BPF_SUB then alu_of Subtract
         else if operation = BPF_OR then alu_of Or
         else if operation = BPF_AND then alu_of And
         else if operation = BPF_XOR then alu_of Xor
         else if operation = BPF_LSH then shift_of Left
         else if operation = BPF_RSH then shift_of Right
         else if operation = BPF_ARSH then shift_of ArithmeticRight
         else Fail UnsupportedInstruction)"

definition lower_jump_instruction ::
  "OperandSize \<Rightarrow> nat \<Rightarrow> Insn \<Rightarrow> (JitModelError, JitInstruction) outcome" where
  "lower_jump_instruction sz pc instruction =
     (let operation = i_opc instruction AND BPF_ALU_OP_MASK
      in if sz = S64 \<and> operation = BPF_EXIT then Okay Return
         else and_then (branch_target pc (i_off instruction)) (\<lambda>target_pc.
           if sz = S64 \<and> operation = BPF_JA then Okay (Jump target_pc)
           else let register_source = (i_opc instruction AND BPF_X \<noteq> 0);
                    source = unat (i_src instruction);
                    destination = unat (i_dst instruction)
                in if operation = BPF_JSET then
                     (if register_source then Okay (JumpTestRegister sz source destination target_pc)
                      else Okay (JumpTestImmediate sz destination (i_imm instruction) target_pc))
                   else and_then (jump_condition_from_operation operation) (\<lambda>condition.
                     if register_source then Okay (JumpRegister sz condition source destination target_pc)
                     else Okay (JumpImmediate sz condition destination (i_imm instruction) target_pc))))"

definition lower_sbpf_instruction :: "nat \<Rightarrow> Insn \<Rightarrow> (JitModelError, JitInstruction) outcome" where
  "lower_sbpf_instruction pc instruction =
     (let class = i_opc instruction AND BPF_CLS_MASK
      in if class = BPF_ALU32_LOAD then lower_alu_instruction S32 instruction
         else if class = BPF_ALU64_STORE then lower_alu_instruction S64 instruction
         else if class = BPF_JMP32 then lower_jump_instruction S32 pc instruction
         else if class = BPF_JMP64 then lower_jump_instruction S64 pc instruction
         else Fail UnsupportedInstruction)"

function compile_sbpf_loop :: "Insn list \<Rightarrow> nat \<Rightarrow> unit jit" where
  "compile_sbpf_loop prog pc =
     (if pc < length prog then
        bind_st (set_program_counter pc) (\<lambda>_.
        bind_st (lift_st (ok_or InvalidProgramCounter (index_opt prog pc))) (\<lambda>instruction.
        bind_st (lift_st (lower_sbpf_instruction pc instruction)) (\<lambda>instruction.
        bind_st (emit_jit_instruction instruction) (\<lambda>_.
        compile_sbpf_loop prog (pc + 1)))))
      else lift_st (Okay ()))"
  by pat_completeness auto
termination by (relation "measure (\<lambda>(prog, pc). length prog - pc)") auto

declare compile_sbpf_loop.simps [simp del]

definition compile_sbpf :: "Insn list \<Rightarrow> (JitModelError, u8 list) outcome" where
  "compile_sbpf prog =
     map_option (\<lambda>(r, jit). map_sum id (\<lambda>_. text_section jit) r)
       (bind_st (compile_sbpf_loop prog 0) (\<lambda>_. resolve_jumps) (jit_new (length prog) 0))"

end
