(* ===== verification/Safe_Jit_Layout.thy ===== *)
theory Safe_Jit_Layout
  imports Safe_Jit
begin

text \<open>
  What the code generator of the safe mode produces. \<open>selection\<close> gives the
  instructions that stand for one generator instruction when its jump
  displacement is known, \<open>assemble\<close> lays a whole program out in two passes (the
  offsets first, then the bytes). The lemmas relate the one-pass generator with
  its table of pending relocations to this reference.
\<close>

section \<open>Bytes of the instruction forms\<close>

lemma take_le_bytes: "take n (le_bytes m w) = le_bytes (min n m) w"
proof (induction m arbitrary: n w)
  case 0
  then show ?case by simp
next
  case (Suc m)
  then show ?case by (cases n) simp_all
qed

lemma le_bytes_scast:
  assumes "8 * n \<le> LENGTH('a::len)" and "8 * n \<le> LENGTH('b::len)"
  shows "le_bytes n (scast (w :: 'a word) :: 'b word) = le_bytes n w"
proof (rule nth_equalityI)
  fix i
  assume "i < length (le_bytes n (scast w :: 'b word))"
  then have "i < n" by simp
  moreover have "ucast (drop_bit (8 * i) (scast w :: 'b word)) = (ucast (drop_bit (8 * i) w) :: u8)"
    using assms \<open>i < n\<close> by (intro bit_word_eqI) (auto simp: bit_simps)
  ultimately show "le_bytes n (scast w :: 'b word) ! i = le_bytes n w ! i"
    by (simp add: nth_le_bytes)
qed simp

lemma emit_variable_length_simps [simp]:
  "emit_variable_length S0 data = []"
  "emit_variable_length S8 data = le_bytes 1 data"
  "emit_variable_length S16 data = le_bytes 2 data"
  "emit_variable_length S32 data = le_bytes 4 data"
  "emit_variable_length S64 data = le_bytes 8 data"
  by (simp_all add: emit_variable_length_def take_le_bytes)

text \<open>An instruction without memory operand.\<close>

definition rex_bits :: "X86Instruction \<Rightarrow> u8" where
  "rex_bits ins = push_bit 3 (of_bool (ins_size ins = S64))
     OR push_bit 2 (of_bool (first_operand ins AND 0b1000 \<noteq> 0))
     OR of_bool (second_operand ins AND 0b1000 \<noteq> 0)"

definition direct_bytes :: "X86Instruction \<Rightarrow> u8 list" where
  "direct_bytes ins =
     (if ins_size ins = S16 then [0x66] else [])
     @ (if rex_bits ins \<noteq> 0 then [0x40 OR rex_bits ins] else [])
     @ (if opcode_escape_sequence ins = 1 then [0x0f] else [])
     @ [opcode ins]
     @ (if ins_modrm ins
        then [0b11000000 OR push_bit 3 (first_operand ins AND 0b111) OR (second_operand ins AND 0b111)] else [])
     @ emit_variable_length (immediate_size ins) (immediate ins)"

lemma encode_direct:
  assumes "ins_size ins \<noteq> S0" and "indirect ins = None" and "opcode_escape_sequence ins \<in> {0, 1}"
  shows "encode ins = Some (direct_bytes ins)"
  using assms by (auto simp: encode_def encode_addressing_def direct_bytes_def rex_byte_def rex_bits_def Let_def)

lemmas constructor_defs =
  alu_escaped_def alu_immediate_escaped_def alu_def alu_immediate_def x86_mov_def xchg_def x86_test_def
  test_immediate_def x86_cmp_def cmp_immediate_def load_immediate_def x86_push_def x86_pop_def
  conditional_jump_immediate_def jump_immediate_def return_near_def X86_DEFAULT_def debug_assert_def Let_def

lemma encode_jump_immediate: "encode (jump_immediate d) = Some (0xe9 # le_bytes 4 d)"
  by (simp add: encode_direct direct_bytes_def rex_bits_def constructor_defs le_bytes_scast)

lemma encode_conditional_jump_immediate:
  "encode (conditional_jump_immediate opc d) = Some ([0x0f, opc] @ le_bytes 4 d)"
  by (simp add: encode_direct direct_bytes_def rex_bits_def constructor_defs le_bytes_scast)

section \<open>Selection\<close>

text \<open>A constructor that passes its \<open>debug_assert!\<close>.\<close>

abbreviation one_ins :: "X86Instruction option \<Rightarrow> (JitModelError, X86Instruction list) outcome" where
  "one_ins c \<equiv> map_option (\<lambda>i. Inr [i]) c"

definition cat_ins ::
  "(JitModelError, X86Instruction list) outcome \<Rightarrow> (JitModelError, X86Instruction list) outcome \<Rightarrow>
   (JitModelError, X86Instruction list) outcome" where
  "cat_ins a b = and_then a (\<lambda>is. and_then b (\<lambda>js. Okay (is @ js)))"

definition select_shift ::
  "OperandSize \<Rightarrow> ShiftOperation \<Rightarrow> X86Register \<Rightarrow> X86Register \<Rightarrow> (JitModelError, X86Instruction list) outcome" where
  "select_shift sz operation source destination =
     (let shift = (\<lambda>r. one_ins (alu_immediate sz 0xd3 (shift_opcode_extension operation) r 0 None))
      in cat_ins (if sz = S32 then one_ins (x86_mov sz destination destination) else Okay [])
          (if source = RCX then shift destination
           else if destination = RCX then
             cat_ins (Okay [x86_push source None]) (cat_ins (one_ins (xchg S64 source RCX None))
               (cat_ins (shift source) (cat_ins (one_ins (x86_mov S64 source RCX)) (Okay [x86_pop source]))))
           else
             cat_ins (Okay [x86_push RCX None]) (cat_ins (one_ins (x86_mov S64 source RCX))
               (cat_ins (shift destination) (Okay [x86_pop RCX])))))"

fun selection :: "JitInstruction \<Rightarrow> (JitModelError, X86Instruction list) outcome" where
  "selection (LoadImmediate sz destination val) =
     and_then (mapped_register destination) (\<lambda>destination.
       if sz = S32 then Okay [load_immediate destination (ucast (ucast val :: u32))]
       else if sz = S64 then Okay [load_immediate destination val] else Fail InvalidOperandSize)"
| "selection (MoveRegister sz source destination) =
     and_then (mapped_register source) (\<lambda>source. and_then (mapped_register destination) (\<lambda>destination.
       one_ins (x86_mov sz source destination)))"
| "selection (AluImmediate sz operation destination val) =
     and_then (mapped_register destination) (\<lambda>destination.
       if - (2 ^ 31) \<le> sint val \<and> sint val \<le> 2 ^ 31 - 1
       then one_ins (alu_immediate sz 0x81 (snd (alu_encoding operation)) destination val None)
       else cat_ins (Okay [load_immediate REGISTER_SCRATCH val])
              (one_ins (alu sz (fst (alu_encoding operation)) REGISTER_SCRATCH destination None)))"
| "selection (AluRegister sz operation source destination) =
     and_then (mapped_register source) (\<lambda>source. and_then (mapped_register destination) (\<lambda>destination.
       one_ins (alu sz (fst (alu_encoding operation)) source destination None)))"
| "selection (ShiftImmediate sz operation destination amount) =
     and_then (mapped_register destination) (\<lambda>destination.
       one_ins (alu_immediate sz 0xc1 (shift_opcode_extension operation) destination (ucast amount) None))"
| "selection (ShiftRegister sz operation source destination) =
     and_then (mapped_register source) (\<lambda>source. and_then (mapped_register destination) (\<lambda>destination.
       select_shift sz operation source destination))"
| "selection (Jump target_pc) = Okay []"
| "selection (JumpImmediate sz condition destination val target_pc) =
     and_then (mapped_register destination) (\<lambda>destination. one_ins (cmp_immediate sz destination val None))"
| "selection (JumpRegister sz condition source destination target_pc) =
     and_then (mapped_register source) (\<lambda>source. and_then (mapped_register destination) (\<lambda>destination.
       one_ins (x86_cmp sz source destination None)))"
| "selection (JumpTestImmediate sz destination val target_pc) =
     and_then (mapped_register destination) (\<lambda>destination. one_ins (test_immediate sz destination val None))"
| "selection (JumpTestRegister sz source destination target_pc) =
     and_then (mapped_register source) (\<lambda>source. and_then (mapped_register destination) (\<lambda>destination.
       one_ins (x86_test sz source destination None)))"
| "selection Return = Okay [return_near]"

text \<open>The final jump of a generator instruction: the bytes before its displacement and its target.\<close>

fun jump_part :: "JitInstruction \<Rightarrow> (u8 list \<times> nat) option" where
  "jump_part (Jump target_pc) = Some ([0xe9], target_pc)"
| "jump_part (JumpImmediate sz condition destination val target_pc) =
     Some ([0x0f, jump_opcode condition], target_pc)"
| "jump_part (JumpRegister sz condition source destination target_pc) =
     Some ([0x0f, jump_opcode condition], target_pc)"
| "jump_part (JumpTestImmediate sz destination val target_pc) =
     Some ([0x0f, jump_opcode NotEqual], target_pc)"
| "jump_part (JumpTestRegister sz source destination target_pc) =
     Some ([0x0f, jump_opcode NotEqual], target_pc)"
| "jump_part _ = None"

text \<open>The bytes that a generator instruction appends before its final jump.\<close>

definition code_of :: "X86Instruction list \<Rightarrow> u8 list option" where
  "code_of inss = map_option concat (those (map encode inss))"

definition ins_code :: "JitInstruction \<Rightarrow> u8 list option" where
  "ins_code i = (case selection i of Some (Inr inss) \<Rightarrow> code_of inss | _ \<Rightarrow> None)"

lemma code_of_simps [simp]:
  "code_of [] = Some []"
  "code_of (i # is) = (case encode i of None \<Rightarrow> None | Some bs \<Rightarrow> map_option ((@) bs) (code_of is))"
  by (auto simp: code_of_def option.map_comp comp_def split: option.splits)

lemma emit_ins_Ok_iff:
  "emit_ins c s = Some (Inr u, t) \<longleftrightarrow> (\<exists>i bs. c = Some i \<and> encode i = Some bs \<and> t = emit_bytes bs s)"
  by (auto simp: emit_ins_def upd_st_def bind_eq_Some_conv)

lemma emit_bytes_emit_bytes [simp]: "emit_bytes ys (emit_bytes xs s) = emit_bytes (xs @ ys) s"
  by (simp add: emit_bytes_def)

lemma emit_bytes_Nil [simp]: "emit_bytes [] s = s"
  by (simp add: emit_bytes_def)

lemma emit_bytes_sel [simp]:
  "text_section (emit_bytes bs s) = text_section s @ bs"
  "pc_section (emit_bytes bs s) = pc_section s"
  "text_section_jumps (emit_bytes bs s) = text_section_jumps s"
  "anchors (emit_bytes bs s) = anchors s"
  by (simp_all add: emit_bytes_def)

lemma cat_ins_Ok_iff: "cat_ins a b = Okay xs \<longleftrightarrow> (\<exists>ys zs. a = Okay ys \<and> b = Okay zs \<and> xs = ys @ zs)"
  by (auto simp: cat_ins_def result_iff)

lemma code_of_append:
  "code_of (xs @ ys) = Some bs \<longleftrightarrow> (\<exists>as cs. code_of xs = Some as \<and> code_of ys = Some cs \<and> bs = as @ cs)"
  by (induction xs arbitrary: bs) (auto split: option.splits)

lemma code_of_Cons_iff:
  "code_of (i # is) = Some bs \<longleftrightarrow> (\<exists>as cs. encode i = Some as \<and> code_of is = Some cs \<and> bs = as @ cs)"
  by (auto split: option.splits)

lemma ins_code_iff: "ins_code i = Some bs \<longleftrightarrow> (\<exists>inss. selection i = Okay inss \<and> code_of inss = Some bs)"
  by (auto simp: ins_code_def split: option.splits sum.splits)

lemma one_ins_Ok_iff: "one_ins c = Okay xs \<longleftrightarrow> (\<exists>i. c = Some i \<and> xs = [i])"
  by auto

lemmas emission = emit_ins_Ok_iff ins_code_iff cat_ins_Ok_iff one_ins_Ok_iff result_iff

lemma emit_register_shift_Ok_iff:
  "emit_register_shift sz operation source destination s = Some (Inr u, t) \<longleftrightarrow>
     (\<exists>inss bs. select_shift sz operation source destination = Okay inss \<and> code_of inss = Some bs \<and>
        t = emit_bytes bs s)"
  by (auto simp: emit_register_shift_def select_shift_def Let_def emission code_of_append code_of_Cons_iff
      simp del: code_of_simps(2))

lemma emit_jit_Ok_iff:
  "emit_jit_instruction i s = Some (Inr u, t) \<longleftrightarrow>
     (\<exists>bs. ins_code i = Some bs \<and>
       (case jump_part i of
          None \<Rightarrow> t = emit_bytes bs s
        | Some (op, target) \<Rightarrow> \<exists>d s'. relative_to_target_pc target (length op + 4) (emit_bytes bs s) = Some (Inr d, s')
            \<and> t = emit_bytes (op @ le_bytes 4 d) s'))"
proof (cases i)
  case (AluImmediate sz operation destination val)
  then show ?thesis
    by (cases "- (2 ^ 31) \<le> sint val \<and> sint val \<le> 2 ^ 31 - 1")
       (auto simp: emission code_of_Cons_iff case_prod_beta simp del: code_of_simps(2))
qed (auto simp: emission code_of_Cons_iff emit_register_shift_Ok_iff encode_jump_immediate
       encode_conditional_jump_immediate simp del: code_of_simps(2))

section \<open>The reference layout\<close>

definition ins_bytes :: "JitInstruction \<Rightarrow> i32 \<Rightarrow> u8 list" where
  "ins_bytes i d = the (ins_code i) @ (case jump_part i of None \<Rightarrow> [] | Some (op, _) \<Rightarrow> op @ le_bytes 4 d)"

definition offset_of :: "JitInstruction list \<Rightarrow> nat \<Rightarrow> nat" where
  "offset_of prog pc = sum_list (map (\<lambda>i. length (ins_bytes i 0)) (take pc prog))"

definition distance :: "JitInstruction list \<Rightarrow> nat \<Rightarrow> nat \<Rightarrow> int" where
  "distance prog pc target = int (offset_of prog target) - int (offset_of prog (Suc pc))"

definition displacement :: "JitInstruction list \<Rightarrow> nat \<Rightarrow> i32" where
  "displacement prog pc =
     (case jump_part (prog ! pc) of None \<Rightarrow> 0 | Some (_, target) \<Rightarrow> word_of_int (distance prog pc target))"

definition laid_out :: "JitInstruction list \<Rightarrow> (nat \<Rightarrow> i32) \<Rightarrow> nat \<Rightarrow> u8 list" where
  "laid_out prog d pc = concat (map (\<lambda>q. ins_bytes (prog ! q) (d q)) [0..<pc])"

definition assemble :: "JitInstruction list \<Rightarrow> u8 list" where
  "assemble prog = laid_out prog (displacement prog) (length prog)"

definition in_reach :: "int \<Rightarrow> bool" where
  "in_reach k \<longleftrightarrow> - (2 ^ 31) \<le> k \<and> k < 2 ^ 31"

definition encodable :: "JitInstruction list \<Rightarrow> nat \<Rightarrow> bool" where
  "encodable prog pc \<longleftrightarrow> ins_code (prog ! pc) \<noteq> None \<and>
     (case jump_part (prog ! pc) of None \<Rightarrow> True
      | Some (_, target) \<Rightarrow> target < length prog \<and> offset_of prog (Suc pc) \<le> usize_max \<and>
          in_reach (distance prog pc target))"

definition layout_ok :: "JitInstruction list \<Rightarrow> bool" where
  "layout_ok prog \<longleftrightarrow> (\<forall>pc < length prog. encodable prog pc)"

lemma length_ins_bytes: "length (ins_bytes i d) = length (ins_bytes i 0)"
  by (auto simp: ins_bytes_def split: option.splits)

lemma offset_of_0 [simp]: "offset_of prog 0 = 0"
  by (simp add: offset_of_def)

lemma offset_of_Suc: "pc < length prog \<Longrightarrow> offset_of prog (Suc pc) = offset_of prog pc + length (ins_bytes (prog ! pc) d)"
  by (simp add: offset_of_def take_Suc_conv_app_nth length_ins_bytes [of _ d])

lemma laid_out_Suc: "laid_out prog d (Suc pc) = laid_out prog d pc @ ins_bytes (prog ! pc) (d pc)"
  by (simp add: laid_out_def)

lemma laid_out_0 [simp]: "laid_out prog d 0 = []"
  by (simp add: laid_out_def)

lemma length_laid_out: "pc \<le> length prog \<Longrightarrow> length (laid_out prog d pc) = offset_of prog pc"
proof (induction pc)
  case (Suc pc)
  then show ?case
    by (simp add: laid_out_Suc offset_of_Suc [of pc prog "d pc"])
qed simp

lemma laid_out_cong: "(\<And>q. q < pc \<Longrightarrow> d q = d' q) \<Longrightarrow> laid_out prog d pc = laid_out prog d' pc"
  unfolding laid_out_def by (rule arg_cong [of _ _ concat], rule map_cong) simp_all

lemma jump_part_op: "jump_part i = Some (op, target) \<Longrightarrow> op \<noteq> [] \<and> length op \<le> 2"
  by (cases i) auto

lemma jump_part_length: "jump_part i = Some (op, target) \<Longrightarrow> 5 \<le> length (ins_bytes i d)"
  using jump_part_op [of i op target] by (cases op) (simp_all add: ins_bytes_def)

section \<open>The loop of the generator\<close>

definition forward :: "JitInstruction list \<Rightarrow> nat \<Rightarrow> bool" where
  "forward prog pc \<longleftrightarrow> (case jump_part (prog ! pc) of None \<Rightarrow> False | Some (_, target) \<Rightarrow> pc < target)"

definition pending_disp :: "JitInstruction list \<Rightarrow> nat \<Rightarrow> i32" where
  "pending_disp prog pc = (if forward prog pc then 0 else displacement prog pc)"

definition relocation :: "JitInstruction list \<Rightarrow> nat \<Rightarrow> JumpModel" where
  "relocation prog pc =
     \<lparr>jump_location = offset_of prog (Suc pc) - 4, jump_target_pc = snd (the (jump_part (prog ! pc)))\<rparr>"

definition loop_state :: "JitInstruction list \<Rightarrow> nat \<Rightarrow> JitCompilerModel" where
  "loop_state prog pc =
     \<lparr>text_section = laid_out prog (pending_disp prog) pc,
      pc_section = map (\<lambda>q. if q < pc then Some (offset_of prog q) else None) [0..<length prog],
      text_section_jumps = map (relocation prog) (filter (forward prog) [0..<pc]),
      anchors = []\<rparr>"

definition entered :: "JitInstruction list \<Rightarrow> nat \<Rightarrow> JitCompilerModel" where
  "entered prog pc = (loop_state prog pc)\<lparr>pc_section :=
     map (\<lambda>q. if q < Suc pc then Some (offset_of prog q) else None) [0..<length prog]\<rparr>"

definition emitted :: "JitInstruction list \<Rightarrow> nat \<Rightarrow> bool" where
  "emitted prog pc \<longleftrightarrow> ins_code (prog ! pc) \<noteq> None \<and>
     (case jump_part (prog ! pc) of None \<Rightarrow> True
      | Some (_, target) \<Rightarrow> target < length prog \<and> offset_of prog (Suc pc) \<le> usize_max \<and>
          (target \<le> pc \<longrightarrow> in_reach (distance prog pc target)))"

lemma set_program_counter_loop_state:
  assumes "pc < length prog"
  shows "set_program_counter pc (loop_state prog pc) = Some (Inr (), entered prog pc)"
proof -
  have "(map (\<lambda>q. if q < pc then Some (offset_of prog q) else None) [0..<length prog])[pc := Some (offset_of prog pc)]
      = map (\<lambda>q. if q < Suc pc then Some (offset_of prog q) else None) [0..<length prog]"
    using assms by (auto intro!: nth_equalityI simp: nth_list_update)
  then show ?thesis
    using assms length_laid_out [of pc prog "pending_disp prog"]
    by (simp add: set_program_counter_def loop_state_def entered_def)
qed

lemma relative_offset_Ok_iff:
  "relative_offset destination e = Okay d \<longleftrightarrow>
     in_reach (int destination - int e) \<and> d = word_of_int (int destination - int e)"
  by (auto simp: relative_offset_def in_reach_def Let_def)

lemma relative_to_target_pc_Ok_iff:
  "relative_to_target_pc target n s = Some (Inr d, t) \<longleftrightarrow>
     target < length (pc_section s) \<and> length (text_section s) + n \<le> usize_max \<and>
     (case pc_section s ! target of
        Some destination \<Rightarrow> in_reach (int destination - int (length (text_section s) + n)) \<and>
          d = word_of_int (int destination - int (length (text_section s) + n)) \<and> t = s
      | None \<Rightarrow> 4 \<le> length (text_section s) + n \<and> d = 0 \<and>
          t = s\<lparr>text_section_jumps := text_section_jumps s
                 @ [\<lparr>jump_location = length (text_section s) + n - 4, jump_target_pc = target\<rparr>]\<rparr>)"
  by (auto simp: relative_to_target_pc_def result_iff index_opt_eq_Some_iff relative_offset_Ok_iff
      split: option.splits)

lemma emit_entered:
  assumes pc: "pc < length prog"
  shows "emit_jit_instruction (prog ! pc) (entered prog pc) = Some (Inr u, t) \<longleftrightarrow>
     emitted prog pc \<and> t = loop_state prog (Suc pc)"
proof (cases "jump_part (prog ! pc)")
  case None
  then have "\<not> forward prog pc"
    by (simp add: forward_def)
  with None pc show ?thesis
    by (auto simp: emit_jit_Ok_iff emitted_def entered_def loop_state_def laid_out_Suc emit_bytes_def ins_bytes_def)
next
  case (Some p)
  obtain op target where p: "jump_part (prog ! pc) = Some (op, target)"
    using Some by (cases p) auto
  have len: "length (laid_out prog (pending_disp prog) pc) = offset_of prog pc"
    using pc by (simp add: length_laid_out)
  have suc: "offset_of prog (Suc pc) = offset_of prog pc + length bs + (length op + 4)"
    if "ins_code (prog ! pc) = Some bs" for bs
    using pc p that by (simp add: offset_of_Suc [of _ _ 0] ins_bytes_def)
  show ?thesis
  proof (cases "target \<le> pc")
    case True
    then have "\<not> forward prog pc" "pending_disp prog pc = word_of_int (distance prog pc target)"
      using p by (simp_all add: forward_def pending_disp_def displacement_def)
    with True p pc suc len show ?thesis
      by (auto simp: emit_jit_Ok_iff relative_to_target_pc_Ok_iff emitted_def entered_def loop_state_def
          laid_out_Suc emit_bytes_def ins_bytes_def distance_def add.assoc)
  next
    case False
    then have "forward prog pc" "pending_disp prog pc = 0"
      using p by (simp_all add: forward_def pending_disp_def)
    with False p pc suc len show ?thesis
      by (auto simp: emit_jit_Ok_iff relative_to_target_pc_Ok_iff emitted_def entered_def loop_state_def
          laid_out_Suc emit_bytes_def ins_bytes_def relocation_def add.assoc)
  qed
qed

lemma compile_loop_Ok_iff:
  assumes "pc \<le> length prog"
  shows "compile_loop prog pc (loop_state prog pc) = Some (Inr u, t) \<longleftrightarrow>
     (\<forall>q. pc \<le> q \<and> q < length prog \<longrightarrow> emitted prog q) \<and> t = loop_state prog (length prog)"
  using assms
proof (induction "length prog - pc" arbitrary: pc)
  case 0
  then show ?case
    by (subst compile_loop.simps) (auto simp: result_iff)
next
  case (Suc k)
  then have pc: "pc < length prog" and IH: "compile_loop prog (Suc pc) (loop_state prog (Suc pc)) = Some (Inr u, t) \<longleftrightarrow>
     (\<forall>q. Suc pc \<le> q \<and> q < length prog \<longrightarrow> emitted prog q) \<and> t = loop_state prog (length prog)"
    by simp_all
  have "compile_loop prog pc (loop_state prog pc) = Some (Inr u, t) \<longleftrightarrow>
      emitted prog pc \<and> compile_loop prog (Suc pc) (loop_state prog (Suc pc)) = Some (Inr u, t)"
    using pc by (subst compile_loop.simps)
      (auto simp: bind_st_Ok_iff set_program_counter_loop_state emit_entered)
  moreover have "(\<forall>q. pc \<le> q \<and> q < length prog \<longrightarrow> emitted prog q) \<longleftrightarrow>
      emitted prog pc \<and> (\<forall>q. Suc pc \<le> q \<and> q < length prog \<longrightarrow> emitted prog q)"
    using pc by (metis Suc_le_eq nat_less_le order.refl)
  ultimately show ?case
    using IH by blast
qed

section \<open>Relocation\<close>

lemma patch_concat:
  assumes "q < length cs" and "4 \<le> length (cs ! q)"
    and "l = length (concat (take q cs)) + length (cs ! q) - 4"
  shows "take l (concat cs) @ bs @ drop (l + 4) (concat cs)
     = concat (cs[q := take (length (cs ! q) - 4) (cs ! q) @ bs])"
proof -
  have "concat cs = concat (take q cs) @ cs ! q @ concat (drop (Suc q) cs)"
    using id_take_nth_drop [OF assms(1)] by (metis concat.simps(2) concat_append)
  then have "take l (concat cs) @ bs @ drop (l + 4) (concat cs)
      = concat (take q cs) @ (take (length (cs ! q) - 4) (cs ! q) @ bs) @ concat (drop (Suc q) cs)"
    using assms(2,3) by simp
  then show ?thesis
    using assms(1) by (simp add: upd_conv_take_nth_drop)
qed

lemma ins_bytes_patch:
  assumes "jump_part i = Some (op, target)"
  shows "take (length (ins_bytes i d) - 4) (ins_bytes i d) @ le_bytes 4 d' = ins_bytes i d'"
  using assms by (simp add: ins_bytes_def)

lemma laid_out_patch:
  assumes q: "q < length prog" and j: "jump_part (prog ! q) = Some (op, target)"
    and l: "l = offset_of prog (Suc q) - 4"
  shows "take l (laid_out prog d (length prog)) @ le_bytes 4 d' @ drop (l + 4) (laid_out prog d (length prog))
     = laid_out prog (d(q := d')) (length prog)"
proof -
  let ?cs = "map (\<lambda>p. ins_bytes (prog ! p) (d p)) [0..<length prog]"
  have take: "concat (take q ?cs) = laid_out prog d q"
    using q by (simp add: laid_out_def take_map take_upt)
  have upd: "?cs[q := ins_bytes (prog ! q) d'] = map (\<lambda>p. ins_bytes (prog ! p) ((d(q := d')) p)) [0..<length prog]"
    using q by (auto intro!: nth_equalityI simp: nth_list_update)
  have len: "5 \<le> length (ins_bytes (prog ! q) (d q))"
    using jump_part_length [OF j] .
  have "l = length (concat (take q ?cs)) + length (?cs ! q) - 4"
    using q l by (simp add: take length_laid_out offset_of_Suc [of q prog "d q"])
  then have "take l (concat ?cs) @ le_bytes 4 d' @ drop (l + 4) (concat ?cs)
      = concat (?cs[q := take (length (?cs ! q) - 4) (?cs ! q) @ le_bytes 4 d'])"
    using q len by (intro patch_concat) simp_all
  also have "\<dots> = concat (?cs[q := ins_bytes (prog ! q) d'])"
    using q ins_bytes_patch [OF j] by simp
  finally show ?thesis
    by (simp add: upd laid_out_def)
qed

text \<open>The state once every instruction is emitted, with displacements \<open>d\<close>.\<close>

definition linked :: "JitInstruction list \<Rightarrow> (nat \<Rightarrow> i32) \<Rightarrow> JitCompilerModel" where
  "linked prog d = (loop_state prog (length prog))\<lparr>text_section := laid_out prog d (length prog)\<rparr>"

lemma linked_pending: "linked prog (pending_disp prog) = loop_state prog (length prog)"
  by (simp add: linked_def loop_state_def)

lemma resolve_jump_linked:
  assumes q: "q < length prog" and e: "emitted prog q" and f: "forward prog q"
  shows "resolve_jump (relocation prog q) (linked prog d) = Some (Inr u, t) \<longleftrightarrow>
     encodable prog q \<and> t = linked prog (d(q := displacement prog q))"
proof -
  obtain op target where j: "jump_part (prog ! q) = Some (op, target)" and "q < target"
    using f by (auto simp: forward_def split: option.splits)
  have t: "target < length prog" "offset_of prog (Suc q) \<le> usize_max"
    using e j by (simp_all add: emitted_def)
  have "5 \<le> offset_of prog (Suc q)"
    using q jump_part_length [OF j, of 0] by (simp add: offset_of_Suc [of _ _ 0])
  then have l: "offset_of prog (Suc q) - 4 + 4 = offset_of prog (Suc q)"
    by simp
  have "offset_of prog (Suc q) \<le> length (laid_out prog d (length prog))"
    using q by (simp add: length_laid_out offset_of_def)
      (metis Suc_leI add_leE append_take_drop_id map_append order_refl sum_list_append)
  then show ?thesis
    using t l e j laid_out_patch [OF q j refl, of d "displacement prog q"]
    by (auto simp: resolve_jump_def relocation_def result_iff linked_def loop_state_def index_opt_eq_Some_iff
        relative_offset_Ok_iff encodable_def emitted_def displacement_def distance_def)
qed

lemma resolve_all:
  assumes "\<And>q. q \<in> set qs \<Longrightarrow> q < length prog \<and> emitted prog q \<and> forward prog q"
  shows "for_st resolve_jump (map (relocation prog) qs) (linked prog d) = Some (Inr u, t) \<longleftrightarrow>
     (\<forall>q \<in> set qs. encodable prog q) \<and> t = linked prog (\<lambda>q. if q \<in> set qs then displacement prog q else d q)"
  using assms
proof (induction qs arbitrary: d)
  case Nil
  then show ?case by (auto simp: result_iff)
next
  case (Cons q qs)
  have "(\<lambda>p. if p \<in> set qs then displacement prog p else (d(q := displacement prog q)) p)
      = (\<lambda>p. if p \<in> set (q # qs) then displacement prog p else d p)"
    by auto
  with Cons show ?case
    by (auto simp: bind_st_Ok_iff resolve_jump_linked)
qed

lemma resolve_jumps_Ok_iff:
  assumes "\<forall>q < length prog. emitted prog q"
  shows "resolve_jumps (loop_state prog (length prog)) = Some (Inr u, t) \<longleftrightarrow>
     layout_ok prog \<and> t = (linked prog (displacement prog))\<lparr>text_section_jumps := []\<rparr>"
proof -
  let ?qs = "filter (forward prog) [0..<length prog]"
  have "laid_out prog (\<lambda>q. if q \<in> set ?qs then displacement prog q else pending_disp prog q) (length prog)
      = laid_out prog (displacement prog) (length prog)"
    by (rule laid_out_cong) (auto simp: pending_disp_def)
  then have d: "linked prog (\<lambda>q. if q \<in> set ?qs then displacement prog q else pending_disp prog q)
      = linked prog (displacement prog)"
    by (simp add: linked_def)
  have "encodable prog q" if "q < length prog" "\<not> forward prog q" for q
    using assms that by (auto simp: emitted_def encodable_def forward_def split: option.splits)
  then have ok: "layout_ok prog \<longleftrightarrow> (\<forall>q \<in> set ?qs. encodable prog q)"
    by (auto simp: layout_ok_def)
  have "text_section_jumps (loop_state prog (length prog)) = map (relocation prog) ?qs"
    by (simp add: loop_state_def)
  then show ?thesis
    using assms resolve_all [of ?qs prog "pending_disp prog"]
    unfolding resolve_jumps_def ok bind_st_Ok_iff by (auto simp: linked_pending d [simplified])
qed

lemma encodable_emitted: "encodable prog q \<Longrightarrow> emitted prog q"
  by (auto simp: encodable_def emitted_def split: option.splits)

lemma compile_eq_Ok_iff: "compile prog = Okay code \<longleftrightarrow> layout_ok prog \<and> code = assemble prog"
proof -
  have start: "jit_new (length prog) 0 = loop_state prog 0"
    by (auto simp: jit_new_def loop_state_def intro: nth_equalityI)
  have "compile prog = Okay code \<longleftrightarrow> (\<exists>u t. bind_st (compile_loop prog 0) (\<lambda>_. resolve_jumps) (loop_state prog 0)
      = Some (Inr u, t) \<and> code = text_section t)"
    by (auto simp: compile_def start map_sum_eq_Inr_iff)
  also have "\<dots> \<longleftrightarrow> (\<forall>q < length prog. emitted prog q) \<and>
      (\<exists>u t. resolve_jumps (loop_state prog (length prog)) = Some (Inr u, t) \<and> code = text_section t)"
    by (auto simp: bind_st_Ok_iff compile_loop_Ok_iff)
  also have "\<dots> \<longleftrightarrow> layout_ok prog \<and> code = assemble prog"
    using encodable_emitted [of prog]
    by (auto simp: resolve_jumps_Ok_iff linked_def assemble_def layout_ok_def)
  finally show ?thesis .
qed

section \<open>Lowered programs\<close>

definition lowered :: "Insn list \<Rightarrow> JitInstruction list \<Rightarrow> bool" where
  "lowered insns prog \<longleftrightarrow> length prog = length insns \<and>
     (\<forall>pc < length insns. lower_sbpf_instruction pc (insns ! pc) = Okay (prog ! pc))"

lemma compile_sbpf_loop_lowered:
  assumes "lowered insns prog"
  shows "compile_sbpf_loop insns pc = compile_loop prog pc"
proof (induction "length insns - pc" arbitrary: pc)
  case 0
  then show ?case
    using assms by (subst compile_sbpf_loop.simps, subst compile_loop.simps) (simp add: lowered_def)
next
  case (Suc k)
  then have "compile_sbpf_loop insns (pc + 1) = compile_loop prog (pc + 1)"
    by simp
  then show ?case
    using Suc.hyps(2) assms
    by (subst compile_sbpf_loop.simps, subst compile_loop.simps) (simp add: lowered_def)
qed

lemma compile_sbpf_lowered: "lowered insns prog \<Longrightarrow> compile_sbpf insns = compile prog"
  by (simp add: compile_sbpf_def compile_def compile_sbpf_loop_lowered) (simp add: lowered_def)

lemma compile_sbpf_loop_Okay:
  assumes "compile_sbpf_loop insns pc s = Some (Inr u, t)" and "pc \<le> q" and "q < length insns"
  shows "\<exists>i. lower_sbpf_instruction q (insns ! q) = Okay i"
  using assms
proof (induction "length insns - pc" arbitrary: pc s)
  case (Suc k)
  then have "compile_sbpf_loop insns pc s = Some (Inr u, t)" "pc < length insns"
    by simp_all
  then obtain i s' where "lower_sbpf_instruction pc (insns ! pc) = Okay i"
    and "compile_sbpf_loop insns (pc + 1) s' = Some (Inr u, t)"
    by (subst (asm) compile_sbpf_loop.simps) (auto simp: result_iff index_opt_eq_Some_iff)
  then show ?case
    using Suc.hyps(1) [of "pc + 1" s'] Suc.hyps(2) Suc.prems(2,3) by (cases "q = pc") auto
qed simp

lemma compile_sbpf_Okay_lowered:
  assumes "compile_sbpf insns = Okay code"
  obtains prog where "lowered insns prog"
proof -
  obtain u t where "compile_sbpf_loop insns 0 (jit_new (length insns) 0) = Some (Inr u, t)"
    using assms by (auto simp: compile_sbpf_def map_sum_eq_Inr_iff bind_st_Ok_iff)
  then have "\<forall>q < length insns. \<exists>i. lower_sbpf_instruction q (insns ! q) = Okay i"
    using compile_sbpf_loop_Okay by blast
  then obtain f where f: "\<And>q. q < length insns \<Longrightarrow> lower_sbpf_instruction q (insns ! q) = Okay (f q)"
    by metis
  have "lowered insns (map f [0..<length insns])"
    using f by (simp add: lowered_def)
  then show thesis ..
qed

section \<open>Panics\<close>

text \<open>The operand sizes for which no \<open>debug_assert!\<close> of the encoder fails.\<close>

fun sizes_ok :: "JitInstruction \<Rightarrow> bool" where
  "sizes_ok (MoveRegister sz s d) \<longleftrightarrow> sz \<in> {S32, S64}"
| "sizes_ok (AluImmediate sz op d v) \<longleftrightarrow> sz \<in> {S32, S64}"
| "sizes_ok (AluRegister sz op s d) \<longleftrightarrow> sz \<in> {S32, S64}"
| "sizes_ok (ShiftImmediate sz op d n) \<longleftrightarrow> sz \<in> {S32, S64}"
| "sizes_ok (ShiftRegister sz op s d) \<longleftrightarrow> sz \<in> {S32, S64}"
| "sizes_ok (JumpImmediate sz c d v t) \<longleftrightarrow> sz \<noteq> S0"
| "sizes_ok (JumpRegister sz c s d t) \<longleftrightarrow> sz \<noteq> S0"
| "sizes_ok (JumpTestImmediate sz d v t) \<longleftrightarrow> sz \<noteq> S0"
| "sizes_ok (JumpTestRegister sz s d t) \<longleftrightarrow> sz \<noteq> S0"
| "sizes_ok _ \<longleftrightarrow> True"

lemma encode_not_None: "ins_size ins \<noteq> S0 \<Longrightarrow> indirect ins = None \<Longrightarrow> encode ins \<noteq> None"
  by (auto simp: encode_def encode_addressing_def Let_def)

lemma emit_ins_panic_free: "c = Some i \<and> ins_size i \<noteq> S0 \<and> indirect i = None \<Longrightarrow> panic_free (emit_ins c)"
  using encode_not_None [of i] by (auto simp: emit_ins_def)

lemma emit_ins_total:
  "panic_free (emit_ins (Some (load_immediate r v)))" "panic_free (emit_ins (Some (jump_immediate d)))"
  "panic_free (emit_ins (Some (conditional_jump_immediate opc d)))" "panic_free (emit_ins (Some return_near))"
  "panic_free (emit_ins (Some (x86_push r None)))" "panic_free (emit_ins (Some (x86_pop r)))"
  "sz \<in> {S32, S64} \<Longrightarrow> panic_free (emit_ins (x86_mov sz a b))"
  "sz \<in> {S32, S64} \<Longrightarrow> panic_free (emit_ins (alu sz opc a b None))"
  "sz \<in> {S32, S64} \<Longrightarrow> panic_free (emit_ins (alu_immediate sz opc e b v None))"
  "panic_free (emit_ins (xchg S64 a b None))"
  "sz \<noteq> S0 \<Longrightarrow> panic_free (emit_ins (x86_cmp sz a b None))"
  "sz \<noteq> S0 \<Longrightarrow> panic_free (emit_ins (cmp_immediate sz b v None))"
  "sz \<noteq> S0 \<Longrightarrow> panic_free (emit_ins (x86_test sz a b None))"
  "sz \<noteq> S0 \<Longrightarrow> panic_free (emit_ins (test_immediate sz b v None))"
  by (auto intro!: emit_ins_panic_free simp: constructor_defs)

lemma relative_to_target_pc_panic_free: "panic_free (relative_to_target_pc t n)"
  unfolding panic_free_def relative_to_target_pc_def
  by (auto simp: result_iff relative_offset_def Let_def split: option.split simp del: not_None_eq)

lemma mapped_register_panic_free [simp]: "panic_free (lift_st (mapped_register k))"
  by (simp add: mapped_register_def)

lemma emit_jit_panic_free: "sizes_ok i \<Longrightarrow> panic_free (emit_jit_instruction i)"
  by (cases i) (auto intro!: panic_free_bind simp: emit_ins_total relative_to_target_pc_panic_free emit_register_shift_def Let_def
      split: prod.splits)

lemma resolve_jumps_not_None: "resolve_jumps s \<noteq> None"
proof -
  have "panic_free (resolve_jump j)" for j
    unfolding panic_free_def resolve_jump_def
    by (auto simp: result_iff relative_offset_def Let_def simp del: not_None_eq)
  then have "panic_free (for_st resolve_jump js)" for js
    by auto
  then show ?thesis
    by (simp add: resolve_jumps_def panic_free_def result_iff del: not_None_eq)
qed

lemma set_program_counter_panic_free: "panic_free (set_program_counter pc)"
  by (simp add: panic_free_def set_program_counter_def)

lemma compile_loop_panic_free:
  assumes "\<forall>i \<in> set prog. sizes_ok i"
  shows "panic_free (compile_loop prog pc)"
proof (induction "length prog - pc" arbitrary: pc)
  case 0
  then show ?case
    by (subst compile_loop.simps) auto
next
  case (Suc k)
  then have "panic_free (compile_loop prog (pc + 1))" "pc < length prog"
    by simp_all
  then show ?case
    using assms by (subst compile_loop.simps) (auto simp: set_program_counter_panic_free intro!: panic_free_bind emit_jit_panic_free)
qed

lemma compile_not_None: "\<forall>i \<in> set prog. sizes_ok i \<Longrightarrow> compile prog \<noteq> None"
  using compile_loop_panic_free [of prog 0] resolve_jumps_not_None
  by (simp add: compile_def panic_free_def result_iff del: not_None_eq)

lemma lower_alu_sizes_ok: "lower_alu_instruction sz insn = Okay i \<Longrightarrow> sz \<in> {S32, S64} \<Longrightarrow> sizes_ok i"
  unfolding lower_alu_instruction_def Let_def by (auto split: if_split_asm)

lemma lower_jump_sizes_ok: "lower_jump_instruction sz pc insn = Okay i \<Longrightarrow> sz \<noteq> S0 \<Longrightarrow> sizes_ok i"
  unfolding lower_jump_instruction_def Let_def by (auto simp: result_iff split: if_split_asm)

lemma lower_sizes_ok: "lower_sbpf_instruction pc insn = Okay i \<Longrightarrow> sizes_ok i"
  unfolding lower_sbpf_instruction_def Let_def
  by (simp add: lower_alu_sizes_ok lower_jump_sizes_ok split: if_split_asm)

lemma lower_parts_not_None:
  "lower_alu_instruction sz insn \<noteq> None" "branch_target pc off \<noteq> None" "jump_condition_from_operation opc \<noteq> None"
  by (simp_all add: lower_alu_instruction_def branch_target_def jump_condition_from_operation_def result_iff Let_def
      del: not_None_eq)

lemma lower_jump_not_None: "lower_jump_instruction sz pc insn \<noteq> None"
  unfolding lower_jump_instruction_def Let_def
  by (simp add: result_iff lower_parts_not_None del: not_None_eq)

lemma lower_not_None: "lower_sbpf_instruction pc insn \<noteq> None"
  unfolding lower_sbpf_instruction_def Let_def
  by (simp add: lower_parts_not_None lower_jump_not_None del: not_None_eq)

lemma compile_sbpf_loop_panic_free: "panic_free (compile_sbpf_loop insns pc)"
proof (induction "length insns - pc" arbitrary: pc)
  case 0
  then show ?case
    by (subst compile_sbpf_loop.simps) auto
next
  case (Suc k)
  then have pc: "pc < length insns" and IH: "panic_free (compile_sbpf_loop insns (pc + 1))"
    by simp_all
  have "panic_free (bind_st (lift_st (lower_sbpf_instruction pc insn)) (\<lambda>i.
      bind_st (emit_jit_instruction i) (\<lambda>_. compile_sbpf_loop insns (pc + 1))))" for insn
    using lower_sizes_ok [of pc insn] emit_jit_panic_free lower_not_None [of pc insn] panic_free_bind [OF _ IH]
    unfolding panic_free_def bind_st_None_iff lift_st_iff by blast
  then show ?case
    using pc by (subst compile_sbpf_loop.simps)
      (simp add: panic_free_bind [OF set_program_counter_panic_free])
qed

lemma compile_sbpf_not_None: "compile_sbpf insns \<noteq> None"
  using compile_sbpf_loop_panic_free [of insns 0] resolve_jumps_not_None
  by (simp add: compile_sbpf_def panic_free_def result_iff del: not_None_eq)

end
