(* ===== verification/X86_Machine.thy ===== *)
theory X86_Machine
  imports Safe_Jit_Layout
begin

text \<open>
  The part of the x86-64 instruction set that the generator of the safe mode uses,
  as the processor manual specifies it: the decoding of register-to-register
  instructions, immediates and relative jumps, and their effect on the sixteen
  general-purpose registers, the flags and the stack. It is the specification
  against which the emitted bytes are judged; no source file corresponds to it.
  Flags that an instruction leaves undefined are \<open>None\<close>, an instruction outside
  this part does not decode. The lemmas decode what the encoder writes.
\<close>

section \<open>Decoding\<close>

datatype alu_op = ADD | OR' | AND' | SUB | XOR' | CMP | TEST
datatype shift_op = SHL | SHR | SAR

text \<open>The flag \<open>bool\<close> is the operand width: 64 bits if set, 32 bits otherwise.\<close>

datatype x86_op =
    Mov_rr bool u8 u8
  | Mov_ri bool u8 u64
  | Alu_rr alu_op bool u8 u8
  | Alu_ri alu_op bool u8 u64
  | Shift_ri shift_op bool u8 u8
  | Shift_cl shift_op bool u8
  | Push_r u8
  | Pop_r u8
  | Xchg_rr bool u8 u8
  | Jmp_rel i32
  | Jcc_rel u8 i32
  | Ret

definition reg_of :: "bool \<Rightarrow> u8 \<Rightarrow> u8" where
  "reg_of ext low = (low AND 0b111) OR (if ext then 0b1000 else 0)"

definition modrm_regs :: "u8 \<Rightarrow> u8 \<Rightarrow> (u8 \<times> u8) option" where
  "modrm_regs rex m =
     (if m AND 0b11000000 = 0b11000000
      then Some (reg_of (rex AND 0b0100 \<noteq> 0) (drop_bit 3 m), reg_of (rex AND 0b0001 \<noteq> 0) m) else None)"

definition imm32 :: "u8 list \<Rightarrow> (u32 \<times> u8 list) option" where
  "imm32 bs = (if 4 \<le> length bs then Some (le_word (take 4 bs), drop 4 bs) else None)"

definition imm64 :: "u8 list \<Rightarrow> (u64 \<times> u8 list) option" where
  "imm64 bs = (if 8 \<le> length bs then Some (le_word (take 8 bs), drop 8 bs) else None)"

definition alu_of_opcode :: "u8 \<Rightarrow> alu_op option" where
  "alu_of_opcode opc =
     (if opc = 0x01 then Some ADD else if opc = 0x09 then Some OR' else if opc = 0x21 then Some AND'
      else if opc = 0x29 then Some SUB else if opc = 0x31 then Some XOR' else if opc = 0x39 then Some CMP
      else if opc = 0x85 then Some TEST else None)"

definition alu_of_extension :: "u8 \<Rightarrow> alu_op option" where
  "alu_of_extension e =
     (if e = 0 then Some ADD else if e = 1 then Some OR' else if e = 4 then Some AND'
      else if e = 5 then Some SUB else if e = 6 then Some XOR' else if e = 7 then Some CMP else None)"

definition shift_of_extension :: "u8 \<Rightarrow> shift_op option" where
  "shift_of_extension e = (if e = 4 then Some SHL else if e = 5 then Some SHR else if e = 7 then Some SAR else None)"

definition decode_modrm :: "u8 \<Rightarrow> u8 \<Rightarrow> u8 \<Rightarrow> u8 list \<Rightarrow> (x86_op \<times> u8 list) option" where
  "decode_modrm rex opc m bs = do {
     (reg, rm) \<leftarrow> modrm_regs rex m;
     let w = (rex AND 0b1000 \<noteq> 0);
     let ext = drop_bit 3 m AND 0b111;
     if opc = 0x89 then Some (Mov_rr w rm reg, bs)
     else if opc = 0x87 then Some (Xchg_rr w rm reg, bs)
     else if opc = 0x81 then do {
       op \<leftarrow> alu_of_extension ext; (i, bs) \<leftarrow> imm32 bs; Some (Alu_ri op w rm (scast i), bs) }
     else if opc = 0xc7 then
       if ext = 0 then do { (i, bs) \<leftarrow> imm32 bs; Some (Mov_ri w rm (scast i), bs) } else None
     else if opc = 0xf7 then
       if ext = 0 then do { (i, bs) \<leftarrow> imm32 bs; Some (Alu_ri TEST w rm (scast i), bs) } else None
     else if opc = 0xc1 then do {
       op \<leftarrow> shift_of_extension ext;
       case bs of [] \<Rightarrow> None | i # bs \<Rightarrow> Some (Shift_ri op w rm i, bs) }
     else if opc = 0xd3 then do { op \<leftarrow> shift_of_extension ext; Some (Shift_cl op w rm, bs) }
     else do { op \<leftarrow> alu_of_opcode opc; Some (Alu_rr op w rm reg, bs) }
   }"

definition has_modrm :: "u8 \<Rightarrow> bool" where
  "has_modrm opc \<longleftrightarrow>
     opc \<in> {0x89, 0x87, 0x81, 0xc7, 0xf7, 0xc1, 0xd3, 0x01, 0x09, 0x21, 0x29, 0x31, 0x39, 0x85}"

definition decode_opcode :: "u8 \<Rightarrow> u8 \<Rightarrow> u8 list \<Rightarrow> (x86_op \<times> u8 list) option" where
  "decode_opcode rex opc bs =
     (let w = (rex AND 0b1000 \<noteq> 0); r = reg_of (rex AND 0b0001 \<noteq> 0) opc
      in if opc = 0x0f then
           (case bs of [] \<Rightarrow> None
            | c # bs \<Rightarrow> if c AND 0xf0 = 0x80
                then do { (i, bs) \<leftarrow> imm32 bs; Some (Jcc_rel (c AND 0x0f) i, bs) } else None)
         else if opc AND 0xf8 = 0xb8 then
           (if w then do { (i, bs) \<leftarrow> imm64 bs; Some (Mov_ri True r i, bs) }
            else do { (i, bs) \<leftarrow> imm32 bs; Some (Mov_ri False r (ucast i), bs) })
         else if opc AND 0xf8 = 0x50 then Some (Push_r r, bs)
         else if opc AND 0xf8 = 0x58 then Some (Pop_r r, bs)
         else if opc = 0xe9 then do { (i, bs) \<leftarrow> imm32 bs; Some (Jmp_rel i, bs) }
         else if opc = 0xc3 then Some (Ret, bs)
         else if has_modrm opc then (case bs of [] \<Rightarrow> None | m # bs \<Rightarrow> decode_modrm rex opc m bs)
         else None)"

fun decode :: "u8 list \<Rightarrow> (x86_op \<times> u8 list) option" where
  "decode [] = None"
| "decode (b # bs) =
     (if b AND 0xf0 = 0x40
      then (case bs of [] \<Rightarrow> None | opc # bs \<Rightarrow> decode_opcode (b AND 0x0f) opc bs)
      else decode_opcode 0 b bs)"

section \<open>Execution\<close>

record flags =
  CF :: bool
  ZF :: bool
  SF :: bool
  OF' :: bool

record x86 =
  regs :: "u8 \<Rightarrow> u64"
  flags_of :: "flags option"
  stack :: "u64 list"
  rip :: nat

datatype x86_result = Running x86 | Returned x86

definition logic_flags :: "'a::len word \<Rightarrow> flags" where
  "logic_flags r = \<lparr>CF = False, ZF = (r = 0), SF = (sint r < 0), OF' = False\<rparr>"

definition sub_flags :: "'a::len word \<Rightarrow> 'a word \<Rightarrow> flags" where
  "sub_flags a b = \<lparr>CF = (a < b), ZF = (a = b), SF = (sint (a - b) < 0), OF' = (sint (a - b) \<noteq> sint a - sint b)\<rparr>"

definition add_flags :: "'a::len word \<Rightarrow> 'a word \<Rightarrow> flags" where
  "add_flags a b = \<lparr>CF = (2 ^ LENGTH('a) \<le> unat a + unat b), ZF = (a + b = 0), SF = (sint (a + b) < 0),
     OF' = (sint (a + b) \<noteq> sint a + sint b)\<rparr>"

text \<open>Result (\<open>None\<close> when the operation only sets flags) and flags.\<close>

fun alu_exec :: "alu_op \<Rightarrow> 'a::len word \<Rightarrow> 'a word \<Rightarrow> 'a word option \<times> flags" where
  "alu_exec ADD a b = (Some (a + b), add_flags a b)"
| "alu_exec OR' a b = (Some (a OR b), logic_flags (a OR b))"
| "alu_exec AND' a b = (Some (a AND b), logic_flags (a AND b))"
| "alu_exec SUB a b = (Some (a - b), sub_flags a b)"
| "alu_exec XOR' a b = (Some (a XOR b), logic_flags (a XOR b))"
| "alu_exec CMP a b = (None, sub_flags a b)"
| "alu_exec TEST a b = (None, logic_flags (a AND b))"

fun shift_exec :: "shift_op \<Rightarrow> 'a::len word \<Rightarrow> nat \<Rightarrow> 'a word" where
  "shift_exec SHL a n = push_bit n a"
| "shift_exec SHR a n = drop_bit n a"
| "shift_exec SAR a n = signed_drop_bit n a"

text \<open>A 32-bit result clears the upper half of the register.\<close>

definition set_reg :: "bool \<Rightarrow> u8 \<Rightarrow> u64 \<Rightarrow> x86 \<Rightarrow> x86" where
  "set_reg w r v s = s\<lparr>regs := (regs s)(r := if w then v else ucast (ucast v :: u32))\<rparr>"

definition run_alu :: "alu_op \<Rightarrow> bool \<Rightarrow> u8 \<Rightarrow> u64 \<Rightarrow> x86 \<Rightarrow> x86" where
  "run_alu op w r b s =
     (let a = regs s r;
          (result, fl) = (if w then alu_exec op a b
                          else map_prod (map_option ucast) id (alu_exec op (ucast a :: u32) (ucast b)))
      in (case result of None \<Rightarrow> s | Some v \<Rightarrow> set_reg w r v s)\<lparr>flags_of := Some fl\<rparr>)"

definition run_shift :: "shift_op \<Rightarrow> bool \<Rightarrow> u8 \<Rightarrow> u8 \<Rightarrow> x86 \<Rightarrow> x86" where
  "run_shift op w r amount s =
     (let a = regs s r;
          v = (if w then shift_exec op a (unat amount mod 64)
               else ucast (shift_exec op (ucast a :: u32) (unat amount mod 32)))
      in (set_reg w r v s)\<lparr>flags_of := None\<rparr>)"

definition condition :: "u8 \<Rightarrow> flags \<Rightarrow> bool option" where
  "condition c f =
     (if c = 0x2 then Some (CF f) else if c = 0x3 then Some (\<not> CF f)
      else if c = 0x4 then Some (ZF f) else if c = 0x5 then Some (\<not> ZF f)
      else if c = 0x6 then Some (CF f \<or> ZF f) else if c = 0x7 then Some (\<not> CF f \<and> \<not> ZF f)
      else if c = 0xc then Some (SF f \<noteq> OF' f) else if c = 0xd then Some (SF f = OF' f)
      else if c = 0xe then Some (ZF f \<or> SF f \<noteq> OF' f) else if c = 0xf then Some (\<not> ZF f \<and> SF f = OF' f)
      else None)"

text \<open>A relative jump lands outside of the address space below zero: not part of the machine.\<close>

definition jump_by :: "i32 \<Rightarrow> x86 \<Rightarrow> x86_result option" where
  "jump_by d s = (if 0 \<le> int (rip s) + sint d then Some (Running (s\<lparr>rip := nat (int (rip s) + sint d)\<rparr>)) else None)"

text \<open>The effect of an instruction; \<open>rip\<close> points behind it already.\<close>

fun exec :: "x86_op \<Rightarrow> x86 \<Rightarrow> x86_result option" where
  "exec (Mov_rr w d r) s = Some (Running (set_reg w d (regs s r) s))"
| "exec (Mov_ri w d v) s = Some (Running (set_reg w d v s))"
| "exec (Alu_rr op w d r) s = Some (Running (run_alu op w d (regs s r) s))"
| "exec (Alu_ri op w d v) s = Some (Running (run_alu op w d v s))"
| "exec (Shift_ri op w d n) s = Some (Running (run_shift op w d n s))"
| "exec (Shift_cl op w d) s = Some (Running (run_shift op w d (ucast (regs s 1)) s))"
| "exec (Push_r r) s = Some (Running (s\<lparr>stack := regs s r # stack s\<rparr>))"
| "exec (Pop_r r) s =
     (case stack s of [] \<Rightarrow> None | v # st \<Rightarrow> Some (Running (s\<lparr>regs := (regs s)(r := v), stack := st\<rparr>)))"
| "exec (Xchg_rr w a b) s = Some (Running (set_reg w a (regs s b) (set_reg w b (regs s a) s)))"
| "exec (Jmp_rel d) s = jump_by d s"
| "exec (Jcc_rel c d) s =
     do { f \<leftarrow> flags_of s; taken \<leftarrow> condition c f; if taken then jump_by d s else Some (Running s) }"
| "exec Ret s = (if stack s = [] then Some (Returned s) else None)"

definition x86_step :: "u8 list \<Rightarrow> x86 \<Rightarrow> x86_result option" where
  "x86_step code s =
     do { (op, rest) \<leftarrow> decode (drop (rip s) code); exec op (s\<lparr>rip := length code - length rest\<rparr>) }"

inductive x86_run :: "u8 list \<Rightarrow> x86 \<Rightarrow> x86_result \<Rightarrow> bool" for code where
  here: "x86_run code s (Running s)"
| next_step: "x86_step code s = Some (Running s') \<Longrightarrow> x86_run code s' r \<Longrightarrow> x86_run code s r"
| return: "x86_step code s = Some (Returned s') \<Longrightarrow> x86_run code s (Returned s')"

section \<open>Decoding what the encoder writes\<close>

lemma byte_eqI:
  assumes "\<And>k. k = 0 \<or> k = 1 \<or> k = 2 \<or> k = 3 \<or> k = 4 \<or> k = 5 \<or> k = 6 \<or> k = 7 \<Longrightarrow> bit a k \<longleftrightarrow> bit (b :: u8) k"
  shows "a = b"
proof (rule bit_word_eqI)
  fix k
  assume "k < LENGTH(8)"
  then have "k = 0 \<or> k = 1 \<or> k = 2 \<or> k = 3 \<or> k = 4 \<or> k = 5 \<or> k = 6 \<or> k = 7"
    by auto
  then show "bit a k \<longleftrightarrow> bit b k"
    by (rule assms)
qed

lemma modrm_fields:
  fixes f s :: u8
  defines "m \<equiv> 0b11000000 OR push_bit 3 (f AND 0b111) OR (s AND 0b111)"
  shows "m AND 0b11000000 = 0b11000000" and "drop_bit 3 m AND 0b111 = f AND 0b111" and "m AND 0b111 = s AND 0b111"
  unfolding m_def by (rule byte_eqI, elim disjE, simp_all add: bit_simps)+

lemma byte_below_16:
  assumes "c < (16 :: u8)" and "4 \<le> k"
  shows "\<not> bit c k"
proof -
  have "take_bit 4 (uint c) = uint c"
    using assms(1) by (simp add: word_less_def take_bit_int_eq_self)
  then have "\<not> bit (uint c) k"
    using assms(2) by (metis bit_take_bit_iff not_less)
  then show ?thesis
    using bit_imp_le_length [of c k] by (auto simp: bit_uint_iff)
qed

lemma and_8_eq_0_iff: "(c AND 0b1000 = 0) = (\<not> bit (c :: u8) 3)"
proof
  assume "c AND 0b1000 = 0"
  then have "bit (c AND 0b1000) 3 = bit (0 :: u8) 3"
    by simp
  then show "\<not> bit c 3"
    by (simp add: bit_simps)
next
  assume "\<not> bit c 3"
  then show "c AND 0b1000 = 0"
    by (intro byte_eqI, elim disjE) (simp_all add: bit_simps)
qed

lemma reg_of_id:
  assumes "c < 16"
  shows "reg_of (c AND 0b1000 \<noteq> 0) c = c"
  unfolding reg_of_def and_8_eq_0_iff not_not
  by (rule byte_eqI, elim disjE) (simp_all add: bit_simps byte_below_16 [OF assms])

lemma reg_of_and_7: "reg_of e (c AND 0b111) = reg_of e c"
  by (simp add: reg_of_def and.assoc)

lemma reg_of_cong: "a AND 0b111 = b AND 0b111 \<Longrightarrow> reg_of e a = reg_of e b"
  by (simp add: reg_of_def)

lemma rex_bits_fields:
  "(0x40 OR rex_bits ins) AND 0xf0 = 0x40" "(0x40 OR rex_bits ins) AND 0x0f = rex_bits ins"
  "rex_bits ins AND 0b1000 \<noteq> 0 \<longleftrightarrow> ins_size ins = S64"
  "rex_bits ins AND 0b0100 \<noteq> 0 \<longleftrightarrow> first_operand ins AND 0b1000 \<noteq> 0"
  "rex_bits ins AND 0b0001 \<noteq> 0 \<longleftrightarrow> second_operand ins AND 0b1000 \<noteq> 0"
  unfolding rex_bits_def
  by (cases "ins_size ins = S64"; cases "first_operand ins AND 0b1000 = 0";
      cases "second_operand ins AND 0b1000 = 0"; simp)+

lemma decode_rex:
  assumes "opc AND 0xf0 \<noteq> 0x40"
  shows "decode ((if rex_bits ins \<noteq> 0 then [0x40 OR rex_bits ins] else []) @ opc # bs)
     = decode_opcode (rex_bits ins) opc bs"
  using assms by (auto simp: rex_bits_fields)

lemma modrm_regs_encoded:
  assumes "first_operand ins < 16" and "second_operand ins < 16"
  shows "modrm_regs (rex_bits ins)
      (0b11000000 OR push_bit 3 (first_operand ins AND 0b111) OR (second_operand ins AND 0b111))
     = Some (first_operand ins, second_operand ins)"
  unfolding modrm_regs_def rex_bits_fields
  by (simp only: modrm_fields reg_of_cong [OF modrm_fields(2)] reg_of_cong [OF modrm_fields(3)]
      reg_of_id [OF assms(1)] reg_of_id [OF assms(2)] simp_thms if_True)

lemma has_modrm_opcode:
  assumes "has_modrm opc"
  shows "opc AND 0xf0 \<noteq> 0x40" "decode_opcode rex opc (m # bs) = decode_modrm rex opc m bs"
  using assms by (auto simp: has_modrm_def decode_opcode_def Let_def)

lemma decode_direct_modrm:
  assumes "ins_size ins \<in> {S32, S64}" and "opcode_escape_sequence ins = 0" and "ins_modrm ins"
    and "has_modrm (opcode ins)"
  shows "decode (direct_bytes ins @ bs) = decode_modrm (rex_bits ins) (opcode ins)
      (0b11000000 OR push_bit 3 (first_operand ins AND 0b111) OR (second_operand ins AND 0b111))
      (emit_variable_length (immediate_size ins) (immediate ins) @ bs)"
  using assms decode_rex [OF has_modrm_opcode(1) [OF assms(4)]]
  by (auto simp: direct_bytes_def has_modrm_opcode)

lemma decode_direct_plain:
  assumes "ins_size ins \<in> {S32, S64}" and "opcode_escape_sequence ins = 0" and "\<not> ins_modrm ins"
    and "opcode ins AND 0xf0 \<noteq> 0x40"
  shows "decode (direct_bytes ins @ bs) = decode_opcode (rex_bits ins) (opcode ins)
      (emit_variable_length (immediate_size ins) (immediate ins) @ bs)"
  using assms decode_rex [OF assms(4)] by (auto simp: direct_bytes_def)

text \<open>The bytes of an instruction decode to an operation, whatever follows them.\<close>

definition runs_as :: "X86Instruction \<Rightarrow> x86_op \<Rightarrow> bool" where
  "runs_as i op \<longleftrightarrow> (\<exists>bs. encode i = Some bs \<and> (\<forall>rest. decode (bs @ rest) = Some (op, rest)))"

abbreviation gpr :: "X86Register \<Rightarrow> bool" where
  "gpr r \<equiv> register_code r < 16"

lemma le_word_le_bytes_down:
  assumes "8 * n = LENGTH('b::len)" and "LENGTH('b) \<le> LENGTH('a::len)"
  shows "le_word (le_bytes n (w :: 'a word)) = (ucast w :: 'b word)"
proof (rule bit_word_eqI)
  fix k
  assume k: "k < LENGTH('b)"
  then have "k div 8 < n" using assms by auto
  moreover have "8 * (k div 8) + k mod 8 = k" by simp
  ultimately show "bit (le_word (le_bytes n w) :: 'b word) k \<longleftrightarrow> bit (ucast w :: 'b word) k"
    using k assms by (auto simp: bit_le_word nth_le_bytes bit_simps)
qed

lemma imm_simps [simp]:
  "imm32 (le_bytes 4 (v :: u64) @ bs) = Some (ucast v, bs)"
  "imm32 (le_bytes 4 (d :: u32) @ bs) = Some (d, bs)"
  "imm64 (le_bytes 8 (v :: u64) @ bs) = Some (v, bs)"
  by (simp_all add: imm32_def imm64_def le_word_le_bytes_down le_word_le_bytes)

lemma runs_as_modrm:
  assumes "ins_size ins \<in> {S32, S64}" and "opcode_escape_sequence ins = 0" and "ins_modrm ins"
    and "indirect ins = None" and "has_modrm (opcode ins)" and "first_operand ins < 16" and "second_operand ins < 16"
    and "\<And>rest. (let w = (ins_size ins = S64); rm = second_operand ins; reg = first_operand ins; opc = opcode ins;
          bs = emit_variable_length (immediate_size ins) (immediate ins) @ rest
        in if opc = 0x89 then Some (Mov_rr w rm reg, bs)
           else if opc = 0x87 then Some (Xchg_rr w rm reg, bs)
           else if opc = 0x81 then do {
             op \<leftarrow> alu_of_extension (reg AND 0b111); (i, bs) \<leftarrow> imm32 bs; Some (Alu_ri op w rm (scast i), bs) }
           else if opc = 0xc7 then
             if reg AND 0b111 = 0 then do { (i, bs) \<leftarrow> imm32 bs; Some (Mov_ri w rm (scast i), bs) } else None
           else if opc = 0xf7 then
             if reg AND 0b111 = 0 then do { (i, bs) \<leftarrow> imm32 bs; Some (Alu_ri TEST w rm (scast i), bs) } else None
           else if opc = 0xc1 then do {
             op \<leftarrow> shift_of_extension (reg AND 0b111);
             case bs of [] \<Rightarrow> None | i # bs \<Rightarrow> Some (Shift_ri op w rm i, bs) }
           else if opc = 0xd3 then do { op \<leftarrow> shift_of_extension (reg AND 0b111); Some (Shift_cl op w rm, bs) }
           else do { op \<leftarrow> alu_of_opcode opc; Some (Alu_rr op w rm reg, bs) }) = Some (op, rest)"
  shows "runs_as ins op"
proof -
  have "encode ins = Some (direct_bytes ins)"
    using assms(1,2,4) by (intro encode_direct) auto
  moreover have "decode (direct_bytes ins @ rest) = Some (op, rest)" for rest
    using assms(8) [of rest] unfolding decode_direct_modrm [OF assms(1,2,3,5)] decode_modrm_def
      modrm_regs_encoded [OF assms(6,7)] modrm_fields rex_bits_fields Let_def by simp
  ultimately show ?thesis
    by (auto simp: runs_as_def)
qed

lemmas modrm_eval = constructor_defs has_modrm_def alu_of_opcode_def alu_of_extension_def shift_of_extension_def
  take_le_bytes

lemma runs_as_mov:
  "x86_mov sz s d = Some i \<Longrightarrow> gpr s \<Longrightarrow> gpr d \<Longrightarrow> runs_as i (Mov_rr (sz = S64) (register_code d) (register_code s))"
  by (cases sz) (auto intro!: runs_as_modrm simp: modrm_eval)

lemma runs_as_xchg:
  "xchg sz s d None = Some i \<Longrightarrow> gpr s \<Longrightarrow> gpr d \<Longrightarrow> runs_as i (Xchg_rr True (register_code d) (register_code s))"
  by (cases sz) (auto intro!: runs_as_modrm simp: modrm_eval)

fun alu_op_of :: "AluOperation \<Rightarrow> alu_op" where
  "alu_op_of Add = ADD"
| "alu_op_of Subtract = SUB"
| "alu_op_of Or = OR'"
| "alu_op_of And = AND'"
| "alu_op_of Xor = XOR'"

fun shift_op_of :: "ShiftOperation \<Rightarrow> shift_op" where
  "shift_op_of Left = SHL"
| "shift_op_of Right = SHR"
| "shift_op_of ArithmeticRight = SAR"

lemma runs_as_alu:
  "alu sz (fst (alu_encoding op)) s d None = Some i \<Longrightarrow> gpr s \<Longrightarrow> gpr d \<Longrightarrow>
     runs_as i (Alu_rr (alu_op_of op) (sz = S64) (register_code d) (register_code s))"
  by (cases sz; cases op) (auto intro!: runs_as_modrm simp: modrm_eval)

lemma runs_as_alu_immediate:
  "alu_immediate sz 0x81 (snd (alu_encoding op)) d v None = Some i \<Longrightarrow> gpr d \<Longrightarrow>
     runs_as i (Alu_ri (alu_op_of op) (sz = S64) (register_code d) (scast (ucast v :: u32)))"
  by (cases sz; cases op) (auto intro!: runs_as_modrm simp: modrm_eval)

lemma runs_as_shift_immediate:
  "alu_immediate sz 0xc1 (shift_opcode_extension op) d (ucast n) None = Some i \<Longrightarrow> gpr d \<Longrightarrow>
     runs_as i (Shift_ri (shift_op_of op) (sz = S64) (register_code d) n)"
  by (cases sz; cases op) (auto intro!: runs_as_modrm simp: modrm_eval ucast_ucast_up_id)

lemma runs_as_shift_cl:
  "alu_immediate sz 0xd3 (shift_opcode_extension op) d 0 None = Some i \<Longrightarrow> gpr d \<Longrightarrow>
     runs_as i (Shift_cl (shift_op_of op) (sz = S64) (register_code d))"
  by (cases sz; cases op) (auto intro!: runs_as_modrm simp: modrm_eval)

lemma runs_as_cmp:
  "x86_cmp sz s d None = Some i \<Longrightarrow> sz \<in> {S32, S64} \<Longrightarrow> gpr s \<Longrightarrow> gpr d \<Longrightarrow>
     runs_as i (Alu_rr CMP (sz = S64) (register_code d) (register_code s))"
  by (cases sz) (auto intro!: runs_as_modrm simp: modrm_eval)

lemma runs_as_cmp_immediate:
  "cmp_immediate sz d v None = Some i \<Longrightarrow> sz \<in> {S32, S64} \<Longrightarrow> gpr d \<Longrightarrow>
     runs_as i (Alu_ri CMP (sz = S64) (register_code d) (scast (ucast v :: u32)))"
  by (cases sz) (auto intro!: runs_as_modrm simp: modrm_eval)

lemma runs_as_test:
  "x86_test sz s d None = Some i \<Longrightarrow> sz \<in> {S32, S64} \<Longrightarrow> gpr s \<Longrightarrow> gpr d \<Longrightarrow>
     runs_as i (Alu_rr TEST (sz = S64) (register_code d) (register_code s))"
  by (cases sz) (auto intro!: runs_as_modrm simp: modrm_eval)

lemma runs_as_test_immediate:
  "test_immediate sz d v None = Some i \<Longrightarrow> sz \<in> {S32, S64} \<Longrightarrow> gpr d \<Longrightarrow>
     runs_as i (Alu_ri TEST (sz = S64) (register_code d) (scast (ucast v :: u32)))"
  by (cases sz) (auto intro!: runs_as_modrm simp: modrm_eval)

text \<open>Forms with the register in the opcode.\<close>

lemma opcode_register:
  fixes c :: u8
  defines "opc b \<equiv> b OR (c AND 0b111)"
  shows "opc 0xb8 AND 0xf8 = 0xb8" "opc 0x50 AND 0xf8 = 0x50" "opc 0x58 AND 0xf8 = 0x58"
    "opc 0xb8 AND 0xf0 = 0xb0" "opc 0x50 AND 0xf0 = 0x50" "opc 0x58 AND 0xf0 = 0x50"
    "opc 0xb8 AND 0b111 = c AND 0b111" "opc 0x50 AND 0b111 = c AND 0b111" "opc 0x58 AND 0b111 = c AND 0b111"
    "opc 0xb8 \<noteq> 0x0f" "opc 0x50 \<noteq> 0x0f" "opc 0x58 \<noteq> 0x0f"
proof -
  show "opc 0xb8 AND 0xf8 = 0xb8" "opc 0x50 AND 0xf8 = 0x50" "opc 0x58 AND 0xf8 = 0x58"
    "opc 0xb8 AND 0xf0 = 0xb0" "opc 0x50 AND 0xf0 = 0x50" "opc 0x58 AND 0xf0 = 0x50"
    "opc 0xb8 AND 0b111 = c AND 0b111" "opc 0x50 AND 0b111 = c AND 0b111" "opc 0x58 AND 0b111 = c AND 0b111"
    unfolding opc_def by (rule byte_eqI, elim disjE, simp_all add: bit_simps)+
  have "\<not> bit (0x0f :: u8) 4" "bit (opc 0xb8) 4" "bit (opc 0x50) 4" "bit (opc 0x58) 4"
    by (simp_all add: opc_def bit_simps)
  then show "opc 0xb8 \<noteq> 0x0f" "opc 0x50 \<noteq> 0x0f" "opc 0x58 \<noteq> 0x0f"
    by metis+
qed

lemma reg_of_encoded:
  assumes "opc AND 0b111 = second_operand ins AND 0b111" and "second_operand ins < 16"
  shows "reg_of (rex_bits ins AND 0b0001 \<noteq> 0) opc = second_operand ins"
  using assms by (simp only: rex_bits_fields reg_of_cong [OF assms(1)] reg_of_id)

lemma runs_as_plain:
  assumes "ins_size ins \<in> {S32, S64}" and "opcode_escape_sequence ins = 0" and "\<not> ins_modrm ins"
    and "indirect ins = None" and "opcode ins AND 0xf0 \<noteq> 0x40"
    and "\<And>rest. decode_opcode (rex_bits ins) (opcode ins)
      (emit_variable_length (immediate_size ins) (immediate ins) @ rest) = Some (op, rest)"
  shows "runs_as ins op"
proof -
  have "encode ins = Some (direct_bytes ins)"
    using assms(1,2,4) by (intro encode_direct) auto
  then show ?thesis
    using assms(6) decode_direct_plain [OF assms(1,2,3,5)] by (auto simp: runs_as_def)
qed

lemma runs_as_push: "gpr r \<Longrightarrow> runs_as (x86_push r None) (Push_r (register_code r))"
  by (rule runs_as_plain; simp add: x86_push_def X86_DEFAULT_def opcode_register)
     (simp add: decode_opcode_def opcode_register reg_of_encoded Let_def)

lemma runs_as_pop: "gpr r \<Longrightarrow> runs_as (x86_pop r) (Pop_r (register_code r))"
  by (rule runs_as_plain; simp add: x86_pop_def X86_DEFAULT_def opcode_register)
     (simp add: decode_opcode_def opcode_register reg_of_encoded Let_def)

lemma runs_as_ret: "runs_as return_near Ret"
  by (rule runs_as_plain; simp add: return_near_def X86_DEFAULT_def) (simp add: decode_opcode_def Let_def)

lemma scast_ucast_small:
  fixes v :: u64
  assumes "- (2 ^ 31) \<le> sint v" and "sint v < 2 ^ 31"
  shows "scast (ucast v :: u32) = v"
proof -
  have "signed_take_bit 31 (uint v) = signed_take_bit 31 (sint v)"
    by (simp add: sint_uint signed_take_bit_signed_take_bit)
  then have "sint (ucast v :: u32) = sint v"
    using assms by (simp add: signed_ucast_eq signed_take_bit_int_eq_self)
  then have "of_int (sint (ucast v :: u32)) = (of_int (sint v) :: u64)"
    by simp
  then show ?thesis
    by simp
qed

lemma ucast_ucast_small:
  fixes v :: u64
  assumes "0 \<le> sint v" and "sint v < 2 ^ 32"
  shows "ucast (ucast v :: u32) = v"
proof -
  have "uint v = sint v" using assms by (simp add: uint_eq_sint_nonneg)
  then show ?thesis using assms
    by (intro word_uint_eqI) (simp add: unsigned_ucast_eq unsigned_take_bit_eq take_bit_int_eq_self)
qed

lemma runs_as_load_immediate:
  assumes "gpr r"
  shows "\<exists>w x. runs_as (load_immediate r v) (Mov_ri w (register_code r) x) \<and> (if w then x else ucast (ucast x :: u32)) = v"
proof -
  consider (neg) "sint v < 0" "- (2 ^ 31) \<le> sint v" | (small) "0 \<le> sint v" "sint v \<le> 2 ^ 32 - 1"
    | (wide) "\<not> (sint v < 0 \<and> - (2 ^ 31) \<le> sint v)" "\<not> (0 \<le> sint v \<and> sint v \<le> 2 ^ 32 - 1)"
    by linarith
  then show ?thesis
  proof cases
    case neg
    have "runs_as (load_immediate r v) (Mov_ri True (register_code r) (scast (ucast v :: u32)))"
      using assms neg by (intro runs_as_modrm) (simp_all add: modrm_eval)
    then show ?thesis
      using neg scast_ucast_small [of v] by force
  next
    case small
    have "runs_as (load_immediate r v) (Mov_ri False (register_code r) (ucast (ucast v :: u32)))"
      using assms small by (intro runs_as_plain)
        (simp_all add: load_immediate_def X86_DEFAULT_def opcode_register decode_opcode_def reg_of_encoded
          rex_bits_fields(3) [simplified] Let_def)
    then show ?thesis
      using small ucast_ucast_small [of v] by force
  next
    case wide
    have "load_immediate r v = X86_DEFAULT\<lparr>ins_size := S64, opcode := 0xb8 OR (register_code r AND 0b111),
        ins_modrm := False, second_operand := register_code r, immediate_size := S64, immediate := v\<rparr>"
      using wide by (auto simp: load_immediate_def Let_def)
    then have "runs_as (load_immediate r v) (Mov_ri True (register_code r) v)"
      using assms by (intro runs_as_plain)
        (simp_all add: X86_DEFAULT_def opcode_register decode_opcode_def reg_of_encoded
          rex_bits_fields(3) [simplified] Let_def)
    then show ?thesis
      by force
  qed
qed

lemma decode_jump: "decode (0xe9 # le_bytes 4 d @ rest) = Some (Jmp_rel d, rest)"
  by (simp add: decode_opcode_def Let_def)

lemma decode_conditional_jump:
  "decode (0x0f # jump_opcode c # le_bytes 4 d @ rest) = Some (Jcc_rel (jump_opcode c AND 0x0f) d, rest)"
  by (cases c) (simp_all add: decode_opcode_def Let_def)

end
