(* ===== verification/Safe_Jit_Correct.thy ===== *)
theory Safe_Jit_Correct
  imports X86_Machine
begin

text \<open>
  Correctness of the emitted machine code. \<open>exec_jit\<close> is the meaning of one
  generator instruction on the eleven sBPF registers; the lemmas show that the
  x86 machine, started at the offset of an instruction with the sBPF registers in
  their host registers, reaches the offset of the next one with the registers that
  \<open>exec_jit\<close> gives.
\<close>

section \<open>Meaning of the generator instructions\<close>

type_synonym sbpf_regs = "nat \<Rightarrow> u64"

datatype jit_result = Goes nat sbpf_regs | Returns sbpf_regs

fun alu_value :: "AluOperation \<Rightarrow> 'a::len word \<Rightarrow> 'a word \<Rightarrow> 'a word" where
  "alu_value Add a b = a + b"
| "alu_value Subtract a b = a - b"
| "alu_value Or a b = a OR b"
| "alu_value And a b = a AND b"
| "alu_value Xor a b = a XOR b"

text \<open>The shift amount is taken modulo the operand width.\<close>

fun shift_value :: "ShiftOperation \<Rightarrow> 'a::len word \<Rightarrow> u64 \<Rightarrow> 'a word" where
  "shift_value Left a b = push_bit (unat b mod LENGTH('a)) a"
| "shift_value Right a b = drop_bit (unat b mod LENGTH('a)) a"
| "shift_value ArithmeticRight a b = signed_drop_bit (unat b mod LENGTH('a)) a"

fun holds :: "JumpCondition \<Rightarrow> 'a::len word \<Rightarrow> 'a word \<Rightarrow> bool" where
  "holds Equal a b \<longleftrightarrow> a = b"
| "holds NotEqual a b \<longleftrightarrow> a \<noteq> b"
| "holds Greater a b \<longleftrightarrow> a > b"
| "holds GreaterOrEqual a b \<longleftrightarrow> a \<ge> b"
| "holds Less a b \<longleftrightarrow> a < b"
| "holds LessOrEqual a b \<longleftrightarrow> a \<le> b"
| "holds SignedGreater a b \<longleftrightarrow> sint a > sint b"
| "holds SignedGreaterOrEqual a b \<longleftrightarrow> sint a \<ge> sint b"
| "holds SignedLess a b \<longleftrightarrow> sint a < sint b"
| "holds SignedLessOrEqual a b \<longleftrightarrow> sint a \<le> sint b"

definition low :: "u64 \<Rightarrow> u32" where
  "low v = ucast v"

fun exec_jit :: "JitInstruction \<Rightarrow> nat \<Rightarrow> sbpf_regs \<Rightarrow> jit_result" where
  "exec_jit (LoadImmediate sz d v) pc R = Goes (Suc pc) (R(d := if sz = S64 then v else ucast (low v)))"
| "exec_jit (MoveRegister sz s d) pc R = Goes (Suc pc) (R(d := if sz = S64 then R s else ucast (low (R s))))"
| "exec_jit (AluImmediate sz op d v) pc R = Goes (Suc pc)
     (R(d := if sz = S64 then alu_value op (R d) v else ucast (alu_value op (low (R d)) (low v))))"
| "exec_jit (AluRegister sz op s d) pc R = Goes (Suc pc)
     (R(d := if sz = S64 then alu_value op (R d) (R s) else ucast (alu_value op (low (R d)) (low (R s)))))"
| "exec_jit (ShiftImmediate sz op d n) pc R = Goes (Suc pc)
     (R(d := if sz = S64 then shift_value op (R d) (ucast n) else ucast (shift_value op (low (R d)) (ucast n))))"
| "exec_jit (ShiftRegister sz op s d) pc R = Goes (Suc pc)
     (R(d := if sz = S64 then shift_value op (R d) (R s) else ucast (shift_value op (low (R d)) (R s))))"
| "exec_jit (Jump t) pc R = Goes t R"
| "exec_jit (JumpImmediate sz c d v t) pc R =
     Goes (if (if sz = S64 then holds c (R d) v else holds c (low (R d)) (low v)) then t else Suc pc) R"
| "exec_jit (JumpRegister sz c s d t) pc R =
     Goes (if (if sz = S64 then holds c (R d) (R s) else holds c (low (R d)) (low (R s))) then t else Suc pc) R"
| "exec_jit (JumpTestImmediate sz d v t) pc R =
     Goes (if (if sz = S64 then R d AND v \<noteq> 0 else low (R d) AND low v \<noteq> 0) then t else Suc pc) R"
| "exec_jit (JumpTestRegister sz s d t) pc R =
     Goes (if (if sz = S64 then R d AND R s \<noteq> 0 else low (R d) AND low (R s) \<noteq> 0) then t else Suc pc) R"
| "exec_jit Return pc R = Returns R"

text \<open>
  The operands that the machine code handles: 32 and 64 bits, and constants of a
  64-bit comparison that fit into a sign-extended 32-bit immediate.
\<close>

definition fits_i32 :: "i64 \<Rightarrow> bool" where
  "fits_i32 v \<longleftrightarrow> - (2 ^ 31) \<le> sint v \<and> sint v < 2 ^ 31"

fun supported :: "JitInstruction \<Rightarrow> bool" where
  "supported (JumpImmediate sz c d v t) \<longleftrightarrow> sz = S32 \<or> sz = S64 \<and> fits_i32 v"
| "supported (JumpTestImmediate sz d v t) \<longleftrightarrow> sz = S32 \<or> sz = S64 \<and> fits_i32 v"
| "supported (JumpRegister sz c s d t) \<longleftrightarrow> sz = S32 \<or> sz = S64"
| "supported (JumpTestRegister sz s d t) \<longleftrightarrow> sz = S32 \<or> sz = S64"
| "supported _ \<longleftrightarrow> True"

section \<open>Registers\<close>

definition host :: "nat \<Rightarrow> u8" where
  "host k = register_code (REGISTER_MAP ! k)"

definition mapped :: "sbpf_regs \<Rightarrow> x86 \<Rightarrow> bool" where
  "mapped R s \<longleftrightarrow> (\<forall>k < 11. regs s (host k) = R k)"

lemma register_codes: "map register_code REGISTER_MAP = [0, 6, 2, 1, 8, 9, 3, 12, 13, 14, 15]"
  by (simp add: REGISTER_MAP_def)

lemma host_nth: "k < 11 \<Longrightarrow> host k = [0, 6, 2, 1, 8, 9, 3, 12, 13, 14, 15] ! k"
  using register_codes nth_map [of k REGISTER_MAP register_code] by (simp add: host_def REGISTER_MAP_def)

lemma host_inj: "j < 11 \<Longrightarrow> k < 11 \<Longrightarrow> host j = host k \<longleftrightarrow> j = k"
  by (simp add: host_nth nth_eq_iff_index_eq)

lemma host_gpr: "k < 11 \<Longrightarrow> host k < 16" and host_not_scratch: "k < 11 \<Longrightarrow> host k \<noteq> 11"
proof -
  assume "k < 11"
  then have "host k \<in> set [0, 6, 2, 1, 8, 9, 3, 12, 13, 14, 15]"
    unfolding host_nth [OF \<open>k < 11\<close>] by (intro nth_mem) simp
  then show "host k < 16" "host k \<noteq> 11"
    by auto
qed

lemma mapped_register_Ok_iff: "mapped_register k = Okay r \<longleftrightarrow> k < 11 \<and> r = REGISTER_MAP ! k"
  by (auto simp: mapped_register_def result_iff index_opt_eq_Some_iff REGISTER_MAP_def)

lemma mapped_register_host: "mapped_register k = Okay r \<Longrightarrow> register_code r = host k"
  by (simp add: mapped_register_Ok_iff host_def)

lemma mapped_set_reg:
  assumes "mapped R s" and "k < 11" and "v = (if w then x else ucast (ucast x :: u32))"
  shows "mapped (R(k := v)) (set_reg w (host k) x s)"
  using assms by (auto simp: mapped_def set_reg_def host_inj)

lemma mapped_update [simp]:
  "mapped R (s\<lparr>flags_of := f\<rparr>) = mapped R s" "mapped R (s\<lparr>rip := n\<rparr>) = mapped R s"
  "mapped R (s\<lparr>stack := st\<rparr>) = mapped R s"
  by (simp_all add: mapped_def)

lemma mapped_scratch [simp]: "mapped R (set_reg w 11 v s) = mapped R s"
  by (auto simp: mapped_def set_reg_def host_not_scratch)

section \<open>Flags\<close>

lemma signed_less_flags:
  fixes a b :: "'a::len word"
  shows "(sint (a - b) < 0) \<noteq> (sint (a - b) \<noteq> sint a - sint b) \<longleftrightarrow> sint a < sint b"
proof -
  let ?h = "2 ^ (LENGTH('a) - 1) :: int"
  let ?x = "sint a - sint b"
  have "2 ^ Suc (LENGTH('a) - 1) = 2 * ?h"
    by (rule power_Suc)
  then have n: "sint (a - b) = (?x + ?h) mod (2 * ?h) - ?h"
    by (simp only: sint_word_ariths signed_take_bit_eq_take_bit_shift take_bit_eq_mod)
  have r: "- ?h \<le> sint a" "sint a < ?h" "- ?h \<le> sint b" "sint b < ?h"
    using sint_ge [of a] sint_lt [of a] sint_ge [of b] sint_lt [of b] by simp_all
  consider "- ?h \<le> ?x" "?x < ?h" | "?h \<le> ?x" | "?x < - ?h"
    by linarith
  then show ?thesis
  proof cases
    case 1
    then have "(?x + ?h) mod (2 * ?h) = ?x + ?h"
      by (intro mod_pos_pos_trivial) simp_all
    then show ?thesis
      using n by auto
  next
    case 2
    have "(?x + ?h - 2 * ?h) mod (2 * ?h) = ?x - ?h"
      using 2 r by (subst mod_pos_pos_trivial) simp_all
    then have "(?x + ?h) mod (2 * ?h) = ?x - ?h"
      by (simp only: minus_mod_self2)
    then show ?thesis
      using 2 n r by linarith
  next
    case 3
    have "(?x + ?h + 2 * ?h) mod (2 * ?h) = ?x + 3 * ?h"
      using 3 r by (subst mod_pos_pos_trivial) simp_all
    then have "(?x + ?h) mod (2 * ?h) = ?x + 3 * ?h"
      by (simp only: mod_add_self2)
    then show ?thesis
      using 3 n r by linarith
  qed
qed

lemma condition_sub_flags:
  "condition (jump_opcode c AND 0x0f) (sub_flags a b) = Some (holds c a b)"
proof -
  have "a = b \<longleftrightarrow> sint a = sint b"
    by (auto intro: signed_word_eqI)
  with signed_less_flags [of a b] show ?thesis
    by (cases c) (auto simp: condition_def sub_flags_def)
qed

lemma condition_test_flags:
  "condition (jump_opcode NotEqual AND 0x0f) (logic_flags r) = Some (r \<noteq> 0)"
  by (simp add: condition_def logic_flags_def)

section \<open>Running straight-line code\<close>

fun linear :: "x86_op \<Rightarrow> bool" where
  "linear (Jmp_rel d) \<longleftrightarrow> False"
| "linear (Jcc_rel c d) \<longleftrightarrow> False"
| "linear Ret \<longleftrightarrow> False"
| "linear _ \<longleftrightarrow> True"

primrec exec_seq :: "x86_op list \<Rightarrow> x86 \<Rightarrow> x86 option" where
  "exec_seq [] s = Some s"
| "exec_seq (op # ops) s =
     (case exec op s of Some (Running s') \<Rightarrow> if linear op then exec_seq ops s' else None | _ \<Rightarrow> None)"

lemma x86_step_at:
  assumes "code = pre @ bs @ post" and "rip s = length pre" and "decode (bs @ post) = Some (op, post)"
  shows "x86_step code s = exec op (s\<lparr>rip := length pre + length bs\<rparr>)"
  using assms by (simp add: x86_step_def)

lemma exec_linear_rip:
  assumes "linear op" and "exec op s = Some (Running s')"
  shows "exec op (s\<lparr>rip := n\<rparr>) = Some (Running (s'\<lparr>rip := n\<rparr>))"
  using assms
  by (cases op) (auto simp: set_reg_def run_alu_def run_shift_def Let_def split: option.splits prod.splits list.splits)

text \<open>The operations that a list of instructions decodes to.\<close>

abbreviation run_as :: "X86Instruction list \<Rightarrow> x86_op list \<Rightarrow> bool" where
  "run_as \<equiv> list_all2 runs_as"

lemma x86_run_seq:
  assumes "run_as inss ops" and "code_of inss = Some bs" and "exec_seq ops s = Some s'"
    and "code = pre @ bs @ post" and "x86_run code (s'\<lparr>rip := length pre + length bs\<rparr>) r"
  shows "x86_run code (s\<lparr>rip := length pre\<rparr>) r"
  using assms
proof (induction inss ops arbitrary: s pre bs rule: list_all2_induct)
  case Nil
  then show ?case by simp
next
  case (Cons i inss op ops)
  obtain as cs where bs: "encode i = Some as" "code_of inss = Some cs" "bs = as @ cs"
    using Cons.prems(1) by (auto split: option.splits)
  have dec: "decode (as @ cs @ post) = Some (op, cs @ post)"
    using Cons.hyps(1) bs(1) by (auto simp: runs_as_def)
  obtain t where t: "exec op s = Some (Running t)" "linear op" "exec_seq ops t = Some s'"
    using Cons.prems(2) by (auto split: option.splits x86_result.splits if_splits)
  have "x86_run code (t\<lparr>rip := length (pre @ as)\<rparr>) r"
    using Cons.prems(3,4) bs t(3) by (intro Cons.IH [of cs]) (simp_all add: add.assoc)
  moreover have "x86_step code (s\<lparr>rip := length pre\<rparr>) = Some (Running (t\<lparr>rip := length (pre @ as)\<rparr>))"
    using x86_step_at [of code pre as "cs @ post" "s\<lparr>rip := length pre\<rparr>" op] Cons.prems(3) bs(3) dec
      exec_linear_rip [OF t(2,1)] by simp
  ultimately show ?case
    by (rule x86_run.next_step [rotated])
qed

section \<open>Simulation of one instruction\<close>

lemma low_ucast_low [simp]: "low (ucast (low v)) = low v"
  by (simp add: low_def ucast_ucast_up_id)

lemma ucast_ucast_u32 [simp]: "ucast (ucast (ucast (x :: u32) :: u64) :: u32) = (ucast x :: u64)"
  by (simp add: ucast_ucast_up_id)

lemma unat_ucast_mod:
  assumes "m dvd 2 ^ LENGTH('b::len)"
  shows "unat (ucast (b :: 'a::len word) :: 'b word) mod m = unat b mod m"
  using assms by (simp add: unsigned_ucast_eq take_bit_eq_mod mod_mod_cancel)

lemma shift_value_byte:
  "shift_exec (shift_op_of op) (a :: u64) (unat (ucast (b :: u64) :: u8) mod 64) = shift_value op a b"
  "shift_exec (shift_op_of op) (a' :: u32) (unat (ucast (b :: u64) :: u8) mod 32) = shift_value op a' b"
  by (cases op; simp add: unat_ucast_mod)+

lemma shift_value_low: "shift_value op (a :: u32) (ucast (low b)) = shift_value op a b"
  by (cases op) (simp_all add: unat_ucast_mod low_def)

lemma run_shift_stack [simp]: "stack (run_shift op w r n s) = stack s"
  by (simp add: run_shift_def set_reg_def Let_def)

lemma run_alu_stack [simp]: "stack (run_alu op w r b s) = stack s"
  by (auto simp: run_alu_def set_reg_def Let_def split: option.splits prod.splits)

lemma set_reg_stack [simp]: "stack (set_reg w r v s) = stack s"
  by (simp add: set_reg_def)

lemma mapped_run_shift:
  assumes "mapped R s" and "k < 11"
    and "v = (if w then shift_value op (R k) b else ucast (shift_value op (low (R k)) b))"
  shows "mapped (R(k := v)) (run_shift (shift_op_of op) w (host k) (ucast b) s)"
proof -
  have "regs s (host k) = R k"
    using assms(1,2) by (simp add: mapped_def)
  with assms show ?thesis
    unfolding run_shift_def shift_value_byte Let_def
    by (simp add: low_def shift_value_byte) (intro conjI impI mapped_set_reg; simp)
qed

lemma mapped_run_alu:
  assumes "mapped R s" and "k < 11"
    and "v = (if w then alu_value op (R k) b else ucast (alu_value op (low (R k)) (low b)))"
  shows "mapped (R(k := v)) (run_alu (alu_op_of op) w (host k) b s)"
proof -
  have "regs s (host k) = R k"
    using assms(1,2) by (simp add: mapped_def)
  with assms show ?thesis
    by (cases op; cases w) (auto simp: run_alu_def Let_def low_def intro!: mapped_set_reg)
qed

text \<open>A list of instructions that takes the registers from \<open>R\<close> to \<open>R'\<close>.\<close>

definition carries :: "X86Instruction list \<Rightarrow> sbpf_regs \<Rightarrow> sbpf_regs \<Rightarrow> bool" where
  "carries inss R R' \<longleftrightarrow> (\<exists>ops. run_as inss ops \<and>
     (\<forall>s. mapped R s \<longrightarrow> (\<exists>s'. exec_seq ops s = Some s' \<and> mapped R' s' \<and> stack s' = stack s)))"

lemma exec_seq_append:
  "exec_seq (xs @ ys) s = (case exec_seq xs s of None \<Rightarrow> None | Some s' \<Rightarrow> exec_seq ys s')"
  by (induction xs arbitrary: s) (auto split: option.splits x86_result.splits)

lemma carries_append:
  assumes "carries xs R R'" and "carries ys R' R''"
  shows "carries (xs @ ys) R R''"
proof -
  obtain opx opy where "run_as xs opx" "run_as ys opy"
    and x: "\<And>s. mapped R s \<Longrightarrow> \<exists>s'. exec_seq opx s = Some s' \<and> mapped R' s' \<and> stack s' = stack s"
    and y: "\<And>s. mapped R' s \<Longrightarrow> \<exists>s'. exec_seq opy s = Some s' \<and> mapped R'' s' \<and> stack s' = stack s"
    using assms by (auto simp: carries_def)
  then have "run_as (xs @ ys) (opx @ opy)"
    by (simp add: list_all2_appendI)
  moreover have "\<exists>s'. exec_seq (opx @ opy) s = Some s' \<and> mapped R'' s' \<and> stack s' = stack s" if "mapped R s" for s
    using x [OF that] y by (fastforce simp: exec_seq_append)
  ultimately show ?thesis
    by (auto simp: carries_def)
qed

lemma carries_single:
  assumes "runs_as i op" and "linear op"
    and "\<And>s. mapped R s \<Longrightarrow> \<exists>s'. exec op s = Some (Running s') \<and> mapped R' s' \<and> stack s' = stack s"
  shows "carries [i] R R'"
proof -
  have "\<exists>s'. exec_seq [op] s = Some s' \<and> mapped R' s' \<and> stack s' = stack s" if "mapped R s" for s
    using assms(2) assms(3) [OF that] by auto
  then show ?thesis
    using assms(1) unfolding carries_def by (intro exI [of _ "[op]"]) simp
qed

lemma carries_load_immediate:
  assumes "k < 11" and "register_code r = host k"
  shows "carries [load_immediate r v] R (R(k := v))"
proof -
  obtain w x where "runs_as (load_immediate r v) (Mov_ri w (host k) x)" "(if w then x else ucast (ucast x :: u32)) = v"
    using runs_as_load_immediate [of r v] assms host_gpr by auto
  then show ?thesis
    using assms(1) by (intro carries_single) (auto intro: mapped_set_reg)
qed

lemma carries_mov:
  assumes "x86_mov sz a b = Some i" and "j < 11" "register_code a = host j" and "k < 11" "register_code b = host k"
  shows "carries [i] R (R(k := if sz = S64 then R j else ucast (low (R j))))"
  using assms runs_as_mov [OF assms(1)] host_gpr
  by (intro carries_single) (auto simp: mapped_def [of R] low_def intro!: mapped_set_reg)

lemma carries_shift_immediate:
  assumes "alu_immediate sz 0xc1 (shift_opcode_extension op) a (ucast (n :: u8)) None = Some i"
    and "k < 11" "register_code a = host k"
  shows "carries [i] R (R(k := if sz = S64 then shift_value op (R k) (ucast n)
     else ucast (shift_value op (low (R k)) (ucast n))))"
  using assms runs_as_shift_immediate [OF assms(1)] host_gpr mapped_run_shift [of R _ k _ "sz = S64" op "ucast n"]
  by (intro carries_single) (auto simp: ucast_ucast_up_id)

lemma carries_alu:
  assumes "alu sz (fst (alu_encoding op)) a b None = Some i" and "j < 11" "register_code a = host j"
    and "k < 11" "register_code b = host k"
  shows "carries [i] R (R(k := if sz = S64 then alu_value op (R k) (R j)
     else ucast (alu_value op (low (R k)) (low (R j)))))"
  using assms runs_as_alu [OF assms(1)] host_gpr mapped_run_alu [of R _ k _ "sz = S64" op "R j"]
  by (intro carries_single) (auto simp: mapped_def [of R])

lemma carries_alu_immediate:
  assumes "alu_immediate sz 0x81 (snd (alu_encoding op)) b v None = Some i" and "k < 11" "register_code b = host k"
    and "fits_i32 v"
  shows "carries [i] R (R(k := if sz = S64 then alu_value op (R k) v else ucast (alu_value op (low (R k)) (low v))))"
  using assms runs_as_alu_immediate [OF assms(1)] host_gpr mapped_run_alu [of R _ k _ "sz = S64" op v]
    scast_ucast_small [of v]
  by (intro carries_single) (auto simp: fits_i32_def)

lemma carries_alu_scratch:
  assumes "alu sz (fst (alu_encoding op)) REGISTER_SCRATCH b None = Some i" and "k < 11" "register_code b = host k"
  shows "carries [load_immediate REGISTER_SCRATCH v, i] R
    (R(k := if sz = S64 then alu_value op (R k) v else ucast (alu_value op (low (R k)) (low v))))" (is "carries _ _ ?R'")
proof -
  obtain w x where mov: "runs_as (load_immediate REGISTER_SCRATCH v) (Mov_ri w 11 x)"
    and x: "(if w then x else ucast (ucast x :: u32)) = v"
    using runs_as_load_immediate [of REGISTER_SCRATCH v] by (auto simp: REGISTER_SCRATCH_def)
  let ?ops = "[Mov_ri w 11 x, Alu_rr (alu_op_of op) (sz = S64) (host k) 11]"
  have "run_as [load_immediate REGISTER_SCRATCH v, i] ?ops"
    using mov runs_as_alu [OF assms(1)] assms(2,3) host_gpr by (simp add: REGISTER_SCRATCH_def)
  moreover have "\<exists>s'. exec_seq ?ops s = Some s' \<and> mapped ?R' s' \<and> stack s' = stack s" if "mapped R s" for s
  proof -
    have "regs (set_reg w 11 x s) 11 = v"
      using x by (simp add: set_reg_def)
    then show ?thesis
      using that assms(2) mapped_run_alu [of R "set_reg w 11 x s" k _ "sz = S64" op v] by simp
  qed
  ultimately show ?thesis
    unfolding carries_def by blast
qed

text \<open>The register-controlled shift: the amount has to be in \<open>CL\<close>.\<close>

lemma host_3: "host 3 = 1" and code_RCX: "register_code RCX = host 3"
  by (simp_all add: host_nth)

definition shifted :: "OperandSize \<Rightarrow> ShiftOperation \<Rightarrow> u64 \<Rightarrow> u64 \<Rightarrow> u64" where
  "shifted sz op a b = (if sz = S64 then shift_value op a b else ucast (shift_value op (low a) b))"

lemma run_shift_regs:
  "regs (run_shift (shift_op_of op) (sz = S64) r (ucast b) s) = (regs s)(r := shifted sz op (regs s r) b)"
  by (auto simp: run_shift_def set_reg_def shifted_def Let_def low_def shift_value_byte)

lemma mapped_rcx: "mapped R s \<Longrightarrow> regs s 1 = R 3"
  unfolding mapped_def using host_3 by (auto dest: spec [of _ 3])

lemma carries_shift_by_rcx:
  assumes "alu_immediate sz 0xd3 (shift_opcode_extension op) a 0 None = Some i" and "k < 11" "register_code a = host k"
  shows "carries [i] R (R(k := shifted sz op (R k) (R 3)))"
proof (rule carries_single)
  show "runs_as i (Shift_cl (shift_op_of op) (sz = S64) (host k))"
    using runs_as_shift_cl [OF assms(1)] host_gpr [OF assms(2)] assms(3) by simp
  fix s
  assume "mapped R s"
  then have "mapped (R(k := shifted sz op (R k) (R 3)))
      (run_shift (shift_op_of op) (sz = S64) (host k) (ucast (R 3)) s)"
    using mapped_run_shift [of R s k _ "sz = S64" op "R 3"] assms(2)
    by (auto simp: shifted_def)
  with mapped_rcx [OF \<open>mapped R s\<close>] show "\<exists>s'. exec (Shift_cl (shift_op_of op) (sz = S64) (host k)) s = Some (Running s') \<and>
      mapped (R(k := shifted sz op (R k) (R 3))) s' \<and> stack s' = stack s"
    by simp
qed simp

lemma carries_shift_into_rcx:
  assumes "xchg S64 a RCX None = Some i1" and "alu_immediate sz 0xd3 (shift_opcode_extension op) a 0 None = Some i2"
    and "x86_mov S64 a RCX = Some i3" and "j < 11" "register_code a = host j" "j \<noteq> 3"
  shows "carries [x86_push a None, i1, i2, i3, x86_pop a] R (R(3 := shifted sz op (R 3) (R j)))"
proof -
  let ?ops = "[Push_r (host j), Xchg_rr True 1 (host j), Shift_cl (shift_op_of op) (sz = S64) (host j),
    Mov_rr True 1 (host j), Pop_r (host j)]"
  have g: "gpr a" "gpr RCX"
    using assms(4,5) host_gpr by simp_all
  have "run_as [x86_push a None, i1, i2, i3, x86_pop a] ?ops"
    using runs_as_push [OF g(1)] runs_as_pop [OF g(1)] runs_as_xchg [OF assms(1) g] runs_as_shift_cl [OF assms(2) g(1)]
      runs_as_mov [OF assms(3) g] assms(5) by simp
  moreover have "\<exists>s'. exec_seq ?ops s = Some s' \<and> mapped (R(3 := shifted sz op (R 3) (R j))) s' \<and> stack s' = stack s"
    if "mapped R s" for s
    using that mapped_rcx [OF that] assms(4,6) host_inj [of j 3]
    by (auto simp: run_shift_regs set_reg_def mapped_def host_3 host_inj host_inj [of _ 3, unfolded host_3])
  ultimately show ?thesis
    unfolding carries_def by blast
qed

lemma carries_shift_by_other:
  assumes "x86_mov S64 a RCX = Some i1" and "alu_immediate sz 0xd3 (shift_opcode_extension op) b 0 None = Some i2"
    and "j < 11" "register_code a = host j" "j \<noteq> 3" and "k < 11" "register_code b = host k" "k \<noteq> 3"
  shows "carries [x86_push RCX None, i1, i2, x86_pop RCX] R (R(k := shifted sz op (R k) (R j)))"
proof -
  let ?ops = "[Push_r 1, Mov_rr True 1 (host j), Shift_cl (shift_op_of op) (sz = S64) (host k), Pop_r 1]"
  have g: "gpr a" "gpr RCX" "gpr b"
    using assms(3,4,6,7) host_gpr by simp_all
  have "run_as [x86_push RCX None, i1, i2, x86_pop RCX] ?ops"
    using runs_as_push [OF g(2)] runs_as_pop [OF g(2)] runs_as_shift_cl [OF assms(2) g(3)]
      runs_as_mov [OF assms(1) g(1,2)] assms(4,7) by simp
  moreover have "\<exists>s'. exec_seq ?ops s = Some s' \<and> mapped (R(k := shifted sz op (R k) (R j))) s' \<and> stack s' = stack s"
    if "mapped R s" for s
    using that mapped_rcx [OF that] assms(3,5,6,8) host_inj [of j 3] host_inj [of k 3]
    by (auto simp: run_shift_regs set_reg_def mapped_def host_3 host_inj host_inj [of _ 3, unfolded host_3])
  ultimately show ?thesis
    unfolding carries_def by blast
qed

lemma map_nth_3: "k < 11 \<Longrightarrow> REGISTER_MAP ! k = RCX \<longleftrightarrow> k = 3"
  using host_inj [of k 3] by (auto simp: host_def [of k] host_3) (simp add: REGISTER_MAP_def)

lemma low_shifted_narrow:
  "shifted S32 op (ucast (low a)) b = shifted S32 op a b" "shifted S32 op a (ucast (low b)) = shifted S32 op a b"
  by (simp_all add: shifted_def shift_value_low)

lemma carries_select_shift:
  assumes sel: "select_shift sz op (REGISTER_MAP ! j) (REGISTER_MAP ! k) = Okay inss" and j: "j < 11" and k: "k < 11"
  shows "carries inss R (R(k := shifted sz op (R k) (R j)))"
proof -
  let ?a = "REGISTER_MAP ! j" and ?b = "REGISTER_MAP ! k"
  have codes: "register_code ?a = host j" "register_code ?b = host k"
    by (simp_all add: host_def)
  define narrow where "narrow R = (if sz = S32 then R(k := ucast (low (R k))) else R)" for R :: sbpf_regs
  obtain pre core where inss: "inss = pre @ core"
    and pre: "(if sz = S32 then one_ins (x86_mov sz ?b ?b) else Okay []) = Okay pre"
    and core: "(let shift = (\<lambda>r. one_ins (alu_immediate sz 0xd3 (shift_opcode_extension op) r 0 None))
      in if ?a = RCX then shift ?b
         else if ?b = RCX then
             cat_ins (Okay [x86_push ?a None]) (cat_ins (one_ins (xchg S64 ?a RCX None))
               (cat_ins (shift ?a) (cat_ins (one_ins (x86_mov S64 ?a RCX)) (Okay [x86_pop ?a]))))
         else cat_ins (Okay [x86_push RCX None]) (cat_ins (one_ins (x86_mov S64 ?a RCX))
               (cat_ins (shift ?b) (Okay [x86_pop RCX])))) = Okay core"
    using sel by (auto simp: select_shift_def Let_def cat_ins_Ok_iff)
  have 1: "carries pre R (narrow R)"
  proof (cases "sz = S32")
    case True
    then show ?thesis
      using pre carries_mov [of S32 ?b ?b _ k k R] k codes by (auto simp: narrow_def)
  next
    case False
    then show ?thesis
      using pre by (auto simp: narrow_def carries_def)
  qed
  have 2: "carries core R' (R'(k := shifted sz op (R' k) (R' j)))" for R'
    using core j k codes map_nth_3 [OF j] map_nth_3 [OF k]
    by (auto simp: Let_def cat_ins_Ok_iff split: if_splits
        intro: carries_shift_by_rcx carries_shift_into_rcx carries_shift_by_other)
  have "(narrow R)(k := shifted sz op (narrow R k) (narrow R j)) = R(k := shifted sz op (R k) (R j))"
    by (cases "sz = S32"; cases "j = k") (simp_all add: narrow_def low_shifted_narrow)
  with carries_append [OF 1 2 [of "narrow R"]] inss show ?thesis
    by simp
qed

lemma carries_selection:
  assumes "selection i = Okay inss" and "jump_part i = None" and "i \<noteq> Return"
  shows "\<exists>R'. exec_jit i pc R = Goes (Suc pc) R' \<and> carries inss R R'"
proof (cases i)
  case (LoadImmediate sz d v)
  then show ?thesis
    using assms(1) carries_load_immediate [of d "REGISTER_MAP ! d" _ R]
    by (auto simp: result_iff mapped_register_Ok_iff host_def low_def split: if_splits)
next
  case (MoveRegister sz s d)
  then show ?thesis
    using assms(1) carries_mov [of sz "REGISTER_MAP ! s" "REGISTER_MAP ! d" _ s d R]
    by (auto simp: result_iff mapped_register_Ok_iff host_def)
next
  case (AluImmediate sz op d v)
  show ?thesis
  proof (cases "fits_i32 v")
    case True
    then show ?thesis
      using AluImmediate assms(1) carries_alu_immediate [of sz op "REGISTER_MAP ! d" v _ d R]
      by (auto simp: result_iff mapped_register_Ok_iff host_def fits_i32_def)
  next
    case False
    then obtain i2 where d: "d < 11" "alu sz (fst (alu_encoding op)) REGISTER_SCRATCH (REGISTER_MAP ! d) None = Some i2"
      and inss: "inss = [load_immediate REGISTER_SCRATCH v, i2]"
      using AluImmediate assms(1)
      by (auto simp: result_iff mapped_register_Ok_iff fits_i32_def cat_ins_Ok_iff split: if_splits)
    show ?thesis
      using carries_alu_scratch [OF d(2,1)] AluImmediate inss by (simp add: host_def)
  qed
next
  case (AluRegister sz op s d)
  then show ?thesis
    using assms(1) carries_alu [of sz op "REGISTER_MAP ! s" "REGISTER_MAP ! d" _ s d R]
    by (auto simp: result_iff mapped_register_Ok_iff host_def)
next
  case (ShiftImmediate sz op d n)
  then show ?thesis
    using assms(1) carries_shift_immediate [of sz op "REGISTER_MAP ! d" n _ d R]
    by (auto simp: result_iff mapped_register_Ok_iff host_def)
next
  case (ShiftRegister sz op s d)
  then show ?thesis
    using assms(1) carries_select_shift [of sz op s d inss R]
    by (auto simp: result_iff mapped_register_Ok_iff host_def shifted_def)
qed (use assms in simp_all)

section \<open>Simulation of the jumps\<close>

text \<open>A comparison leaves flags on which the condition code of the jump gives \<open>taken\<close>.\<close>

definition compares :: "X86Instruction list \<Rightarrow> u8 \<Rightarrow> sbpf_regs \<Rightarrow> bool \<Rightarrow> bool" where
  "compares inss c R taken \<longleftrightarrow> (\<exists>ops. run_as inss ops \<and>
     (\<forall>s. mapped R s \<longrightarrow> (\<exists>s' f. exec_seq ops s = Some s' \<and> mapped R s' \<and> stack s' = stack s \<and>
        flags_of s' = Some f \<and> condition c f = Some taken)))"

lemma run_cmp_flags:
  "run_alu CMP w r b s = s\<lparr>flags_of := Some (if w then sub_flags (regs s r) b else sub_flags (low (regs s r)) (low b))\<rparr>"
  "run_alu TEST w r b s = s\<lparr>flags_of := Some (if w then logic_flags (regs s r AND b) else logic_flags (low (regs s r) AND low b))\<rparr>"
  by (simp_all add: run_alu_def low_def)

lemma comparesI:
  assumes "runs_as i op" and "linear op"
    and "\<And>s. mapped R s \<Longrightarrow> exec op s = Some (Running (s\<lparr>flags_of := Some f\<rparr>))" and "condition c f = Some taken"
  shows "compares [i] c R taken"
proof -
  have "\<exists>s' f. exec_seq [op] s = Some s' \<and> mapped R s' \<and> stack s' = stack s \<and> flags_of s' = Some f \<and>
      condition c f = Some taken" if "mapped R s" for s
    using assms(2,4) assms(3) [OF that] that by simp
  then show ?thesis
    using assms(1) unfolding compares_def by (intro exI [of _ "[op]"]) simp
qed

lemma scast_low: "fits_i32 v \<Longrightarrow> scast (low v) = v" and low_scast: "low (scast (low v)) = low v"
  using scast_ucast_small [of v] by (simp_all add: fits_i32_def low_def ucast_scast_id)

definition compared :: "JumpCondition \<Rightarrow> bool \<Rightarrow> u64 \<Rightarrow> u64 \<Rightarrow> bool" where
  "compared c w a b \<longleftrightarrow> (if w then holds c a b else holds c (low a) (low b))"

definition tested :: "bool \<Rightarrow> u64 \<Rightarrow> u64 \<Rightarrow> bool" where
  "tested w a b \<longleftrightarrow> (if w then a AND b \<noteq> 0 else low a AND low b \<noteq> 0)"

lemma compared_scast: "w \<longrightarrow> fits_i32 b \<Longrightarrow> compared c w a (scast (low b)) = compared c w a b"
  and tested_scast: "w \<longrightarrow> fits_i32 b \<Longrightarrow> tested w a (scast (low b)) = tested w a b"
  by (cases w; simp add: compared_def tested_def scast_low low_scast)+

lemma condition_cmp: "condition (jump_opcode c AND 0x0f)
    (if w then sub_flags a b else sub_flags (low a) (low b)) = Some (compared c w a b)"
  by (cases w) (simp_all only: compared_def condition_sub_flags if_True if_False)

lemma condition_test: "condition (jump_opcode NotEqual AND 0x0f)
    (if w then logic_flags (a AND b) else logic_flags (low a AND low b)) = Some (tested w a b)"
  by (cases w) (simp_all only: tested_def condition_test_flags if_True if_False)

lemma mapped_host: "mapped R s \<Longrightarrow> k < 11 \<Longrightarrow> regs s (host k) = R k"
  by (simp add: mapped_def)

lemma compares_cmp:
  assumes "d < 11" and "runs_as j (Alu_ri CMP w (host d) b)"
  shows "compares [j] (jump_opcode c AND 0x0f) R (compared c w (R d) b)"
  using assms(1) by (intro comparesI [OF assms(2) _ _ condition_cmp]) (simp_all add: run_cmp_flags mapped_host)

lemma compares_cmp_reg:
  assumes "d < 11" and "s < 11" and "runs_as j (Alu_rr CMP w (host d) (host s))"
  shows "compares [j] (jump_opcode c AND 0x0f) R (compared c w (R d) (R s))"
  using assms(1,2) by (intro comparesI [OF assms(3) _ _ condition_cmp]) (simp_all add: run_cmp_flags mapped_host)

lemma compares_test:
  assumes "d < 11" and "runs_as j (Alu_ri TEST w (host d) b)"
  shows "compares [j] (jump_opcode NotEqual AND 0x0f) R (tested w (R d) b)"
  using assms(1) by (intro comparesI [OF assms(2) _ _ condition_test]) (simp_all add: run_cmp_flags mapped_host)

lemma compares_test_reg:
  assumes "d < 11" and "s < 11" and "runs_as j (Alu_rr TEST w (host d) (host s))"
  shows "compares [j] (jump_opcode NotEqual AND 0x0f) R (tested w (R d) (R s))"
  using assms(1,2) by (intro comparesI [OF assms(3) _ _ condition_test]) (simp_all add: run_cmp_flags mapped_host)

text \<open>The decision that a conditional jump takes.\<close>

fun decides :: "JitInstruction \<Rightarrow> sbpf_regs \<Rightarrow> bool" where
  "decides (JumpImmediate sz c d v t) R = compared c (sz = S64) (R d) v"
| "decides (JumpRegister sz c s d t) R = compared c (sz = S64) (R d) (R s)"
| "decides (JumpTestImmediate sz d v t) R = tested (sz = S64) (R d) v"
| "decides (JumpTestRegister sz s d t) R = tested (sz = S64) (R d) (R s)"
| "decides _ R = True"

lemma exec_jit_jump:
  "jump_part i = Some (op, t) \<Longrightarrow> exec_jit i pc R = Goes (if decides i R then t else Suc pc) R"
  by (cases i) (simp_all add: compared_def tested_def)

lemma compares_selection:
  assumes "selection i = Okay inss" and "jump_part i = Some ([0x0f, opc], t)" and "supported i"
  shows "compares inss (opc AND 0x0f) R (decides i R)"
proof (cases i)
  case (JumpImmediate sz c d v t')
  then obtain j where "d < 11" and "cmp_immediate sz (REGISTER_MAP ! d) v None = Some j" "inss = [j]"
    using assms(1) by (auto simp: result_iff mapped_register_Ok_iff)
  moreover from this have "runs_as j (Alu_ri CMP (sz = S64) (host d) (scast (low v)))"
    using runs_as_cmp_immediate [of sz _ v j] assms(3) JumpImmediate host_gpr [of d] by (auto simp: host_def low_def)
  ultimately show ?thesis
    using compares_cmp JumpImmediate assms(2,3) compared_scast [of "sz = S64" v] by fastforce
next
  case (JumpRegister sz c s d t')
  then obtain j where "d < 11" "s < 11" and "x86_cmp sz (REGISTER_MAP ! s) (REGISTER_MAP ! d) None = Some j" "inss = [j]"
    using assms(1) by (auto simp: result_iff mapped_register_Ok_iff)
  moreover from this have "runs_as j (Alu_rr CMP (sz = S64) (host d) (host s))"
    using runs_as_cmp [of sz _ _ j] assms(3) JumpRegister host_gpr by (auto simp: host_def)
  ultimately show ?thesis
    using compares_cmp_reg JumpRegister assms(2) by fastforce
next
  case (JumpTestImmediate sz d v t')
  then obtain j where "d < 11" and "test_immediate sz (REGISTER_MAP ! d) v None = Some j" "inss = [j]"
    using assms(1) by (auto simp: result_iff mapped_register_Ok_iff)
  moreover from this have "runs_as j (Alu_ri TEST (sz = S64) (host d) (scast (low v)))"
    using runs_as_test_immediate [of sz _ v j] assms(3) JumpTestImmediate host_gpr [of d] by (auto simp: host_def low_def)
  ultimately show ?thesis
    using compares_test JumpTestImmediate assms(2,3) tested_scast [of "sz = S64" v] by fastforce
next
  case (JumpTestRegister sz s d t')
  then obtain j where "d < 11" "s < 11" and "x86_test sz (REGISTER_MAP ! s) (REGISTER_MAP ! d) None = Some j" "inss = [j]"
    using assms(1) by (auto simp: result_iff mapped_register_Ok_iff)
  moreover from this have "runs_as j (Alu_rr TEST (sz = S64) (host d) (host s))"
    using runs_as_test [of sz _ _ j] assms(3) JumpTestRegister host_gpr by (auto simp: host_def)
  ultimately show ?thesis
    using compares_test_reg JumpTestRegister assms(2) by fastforce
qed (use assms in simp_all)

section \<open>Simulation of a program\<close>

lemma assemble_at:
  assumes "pc < length prog"
  obtains pre post where "assemble prog = pre @ ins_bytes (prog ! pc) (displacement prog pc) @ post"
    and "length pre = offset_of prog pc"
proof
  have "[0..<length prog] = [0..<pc] @ pc # [Suc pc..<length prog]"
    using assms by (metis less_imp_le_nat upt_add_eq_append upt_conv_Cons le_add_diff_inverse zero_le)
  then show "assemble prog = laid_out prog (displacement prog) pc
      @ ins_bytes (prog ! pc) (displacement prog pc)
      @ concat (map (\<lambda>q. ins_bytes (prog ! q) (displacement prog q)) [Suc pc..<length prog])"
    by (simp add: assemble_def laid_out_def)
  show "length (laid_out prog (displacement prog) pc) = offset_of prog pc"
    using assms by (simp add: length_laid_out)
qed

lemma sint_in_reach: "in_reach k \<Longrightarrow> sint (word_of_int k :: i32) = k"
  by (simp add: in_reach_def signed_of_int signed_take_bit_int_eq_self)

lemma sint_displacement:
  assumes "encodable prog pc" and "jump_part (prog ! pc) = Some (op, t)"
  shows "sint (displacement prog pc) = int (offset_of prog t) - int (offset_of prog (Suc pc))"
  using assms
  by (simp add: encodable_def displacement_def sint_in_reach) (simp add: distance_def)

text \<open>The machine is at an instruction: registers in place, stack empty.\<close>

definition at_pc :: "JitInstruction list \<Rightarrow> nat \<Rightarrow> sbpf_regs \<Rightarrow> x86 \<Rightarrow> bool" where
  "at_pc prog pc R s \<longleftrightarrow> mapped R s \<and> stack s = [] \<and> rip s = offset_of prog pc"

lemma jump_by_at:
  assumes "encodable prog pc" and "jump_part (prog ! pc) = Some (op, t)" and "rip s = offset_of prog (Suc pc)"
  shows "jump_by (displacement prog pc) s = Some (Running (s\<lparr>rip := offset_of prog t\<rparr>))"
  using assms by (simp add: jump_by_def sint_displacement)

lemma simulate_plain:
  assumes ok: "encodable prog pc" and pc: "pc < length prog" and at: "at_pc prog pc R s"
    and "jump_part (prog ! pc) = None" and "prog ! pc \<noteq> Return"
  obtains R' s' where "exec_jit (prog ! pc) pc R = Goes (Suc pc) R'" and "at_pc prog (Suc pc) R' s'"
    and "\<And>r. x86_run (assemble prog) s' r \<Longrightarrow> x86_run (assemble prog) s r"
proof -
  obtain pre post where code: "assemble prog = pre @ ins_bytes (prog ! pc) (displacement prog pc) @ post"
    and pre: "length pre = offset_of prog pc"
    using assemble_at [OF pc] .
  obtain inss bs where sel: "selection (prog ! pc) = Okay inss" "code_of inss = Some bs"
    using ok by (auto simp: encodable_def ins_code_iff)
  then have bytes: "ins_bytes (prog ! pc) d = bs" for d
    using assms(4) by (simp add: ins_bytes_def ins_code_def)
  obtain R' ops where R': "exec_jit (prog ! pc) pc R = Goes (Suc pc) R'" and ops: "run_as inss ops"
    and run: "\<And>s. mapped R s \<Longrightarrow> \<exists>s'. exec_seq ops s = Some s' \<and> mapped R' s' \<and> stack s' = stack s"
    using carries_selection [OF sel(1) assms(4,5), of pc R] by (auto simp: carries_def)
  obtain s' where s': "exec_seq ops s = Some s'" "mapped R' s'" "stack s' = stack s"
    using run [of s] at by (auto simp: at_pc_def)
  have "at_pc prog (Suc pc) R' (s'\<lparr>rip := length pre + length bs\<rparr>)"
    using s' at pre pc bytes [of 0] by (simp add: at_pc_def offset_of_Suc [of _ _ 0])
  moreover have "s\<lparr>rip := length pre\<rparr> = s"
    using at pre by (simp add: at_pc_def)
  ultimately show thesis
    using that [OF R'] x86_run_seq [OF ops sel(2) s'(1)] code bytes by fastforce
qed

lemma jump_part_form:
  assumes "jump_part i = Some (op, t)"
  obtains "op = [0xe9]" "selection i = Okay []" "decides i R" | c where "op = [0x0f, jump_opcode c]"
  using assms that(2) [of NotEqual] by (cases i) auto

lemma jump_prefix:
  assumes "selection i = Okay inss" and "jump_part i = Some (op, t)" and "supported i" and "mapped R s"
  obtains ops s' jop where "run_as inss ops" and "exec_seq ops s = Some s'" and "mapped R s'" and "stack s' = stack s"
    and "\<forall>d rest. decode ((op @ le_bytes 4 d) @ rest) = Some (jop d, rest)"
    and "\<forall>d n. exec (jop d) (s'\<lparr>rip := n\<rparr>)
        = (if decides i R then jump_by d (s'\<lparr>rip := n\<rparr>) else Some (Running (s'\<lparr>rip := n\<rparr>)))"
proof (rule jump_part_form [OF assms(2), of R])
  assume "op = [0xe9]" "selection i = Okay []" "decides i R"
  then show thesis
    using assms decode_jump by (intro that [of "[]" s "Jmp_rel"]) simp_all
next
  fix c
  assume op: "op = [0x0f, jump_opcode c]"
  then have "compares inss (jump_opcode c AND 0x0f) R (decides i R)"
    using compares_selection [OF assms(1) _ assms(3), of "jump_opcode c" t R] assms(2) by simp
  then obtain ops s' f where "run_as inss ops" "exec_seq ops s = Some s'" "mapped R s'" "stack s' = stack s"
    and f: "flags_of s' = Some f" "condition (jump_opcode c AND 0x0f) f = Some (decides i R)"
    using assms(4) unfolding compares_def by blast
  then show thesis
    using op decode_conditional_jump by (intro that [of ops s' "Jcc_rel (jump_opcode c AND 0x0f)"]) simp_all
qed

lemma simulate_jump:
  assumes ok: "encodable prog pc" and pc: "pc < length prog" and at: "at_pc prog pc R s"
    and j: "jump_part (prog ! pc) = Some (op, t)" and "supported (prog ! pc)"
  obtains s' where "at_pc prog (if decides (prog ! pc) R then t else Suc pc) R s'"
    and "\<And>r. x86_run (assemble prog) s' r \<Longrightarrow> x86_run (assemble prog) s r"
proof -
  obtain pre post where code: "assemble prog = pre @ ins_bytes (prog ! pc) (displacement prog pc) @ post"
    and pre: "length pre = offset_of prog pc"
    using assemble_at [OF pc] .
  obtain inss bs where sel: "selection (prog ! pc) = Okay inss" "code_of inss = Some bs"
    using ok by (auto simp: encodable_def ins_code_iff)
  then have bytes: "ins_bytes (prog ! pc) d = bs @ op @ le_bytes 4 d" for d
    using j by (simp add: ins_bytes_def ins_code_def)
  have suc: "offset_of prog (Suc pc) = length (pre @ bs) + length (op @ le_bytes 4 (displacement prog pc))"
    using pc pre bytes [of 0] by (simp add: offset_of_Suc [of _ _ 0])
  have same: "s\<lparr>rip := length pre\<rparr> = s"
    using at pre by (simp add: at_pc_def)
  have mp: "mapped R s" "stack s = []"
    using at by (simp_all add: at_pc_def)
  obtain ops s1 jop where ops: "run_as inss ops" "exec_seq ops s = Some s1" and m: "mapped R s1" "stack s1 = stack s"
    and dec: "\<forall>d rest. decode ((op @ le_bytes 4 d) @ rest) = Some (jop d, rest)"
    and ex: "\<forall>d n. exec (jop d) (s1\<lparr>rip := n\<rparr>)
        = (if decides (prog ! pc) R then jump_by d (s1\<lparr>rip := n\<rparr>) else Some (Running (s1\<lparr>rip := n\<rparr>)))"
    using jump_prefix [OF sel(1) j assms(5) mp(1)] .
  define s2 where "s2 = s1\<lparr>rip := offset_of prog (if decides (prog ! pc) R then t else Suc pc)\<rparr>"
  have "x86_step (assemble prog) (s1\<lparr>rip := length (pre @ bs)\<rparr>) = Some (Running s2)"
    using x86_step_at [OF _ _ dec [rule_format], of "assemble prog" "pre @ bs" "displacement prog pc" post "s1\<lparr>rip := length (pre @ bs)\<rparr>"]
      code bytes suc jump_by_at [OF ok j] by (simp add: ex s2_def)
  moreover have "x86_run (assemble prog) (s\<lparr>rip := length pre\<rparr>) r"
    if "x86_run (assemble prog) (s1\<lparr>rip := length (pre @ bs)\<rparr>) r" for r
    using x86_run_seq [OF ops(1) sel(2) ops(2)] code bytes that by simp
  moreover have "at_pc prog (if decides (prog ! pc) R then t else Suc pc) R s2"
    using m mp by (simp add: at_pc_def s2_def)
  ultimately show thesis
    using that same x86_run.next_step by metis
qed

lemma simulate_return:
  assumes ok: "encodable prog pc" and pc: "pc < length prog" and at: "at_pc prog pc R s" and "prog ! pc = Return"
  obtains s' where "x86_run (assemble prog) s (Returned s')" and "mapped R s'"
proof -
  obtain pre post where code: "assemble prog = pre @ ins_bytes Return (displacement prog pc) @ post"
    and pre: "length pre = offset_of prog pc"
    using assemble_at [OF pc] assms(4) by metis
  obtain bs where bs: "encode return_near = Some bs" "\<And>rest. decode (bs @ rest) = Some (Ret, rest)"
    using runs_as_ret by (auto simp: runs_as_def)
  then have "ins_bytes Return d = bs" for d
    by (simp add: ins_bytes_def ins_code_def)
  then have "x86_step (assemble prog) s = exec Ret (s\<lparr>rip := length pre + length bs\<rparr>)"
    using code at pre bs(2) by (intro x86_step_at) (simp_all add: at_pc_def)
  then show thesis
    using at x86_run.return that by (simp add: at_pc_def) (metis mapped_update(2))
qed

text \<open>A run of the generator program from an instruction to its return.\<close>

inductive jit_run :: "JitInstruction list \<Rightarrow> nat \<Rightarrow> sbpf_regs \<Rightarrow> sbpf_regs \<Rightarrow> bool" for prog where
  returns: "pc < length prog \<Longrightarrow> exec_jit (prog ! pc) pc R = Returns R' \<Longrightarrow> jit_run prog pc R R'"
| goes: "pc < length prog \<Longrightarrow> exec_jit (prog ! pc) pc R = Goes pc' R' \<Longrightarrow> jit_run prog pc' R' R'' \<Longrightarrow>
     jit_run prog pc R R''"

lemma exec_jit_Returns: "exec_jit i pc R = Returns R' \<longleftrightarrow> i = Return \<and> R' = R"
  by (cases i) auto

lemma simulate_step:
  assumes "layout_ok prog" and "\<forall>i \<in> set prog. supported i" and pc: "pc < length prog" and at: "at_pc prog pc R s"
    and step: "exec_jit (prog ! pc) pc R = Goes pc' R'"
  obtains s' where "at_pc prog pc' R' s'" and "\<And>r. x86_run (assemble prog) s' r \<Longrightarrow> x86_run (assemble prog) s r"
proof (cases "jump_part (prog ! pc)")
  case None
  have "encodable prog pc" "prog ! pc \<noteq> Return"
    using assms(1) pc step by (auto simp: layout_ok_def)
  from simulate_plain [OF this(1) pc at None this(2)] step show thesis
    using that by auto
next
  case (Some p)
  then obtain op t where j: "jump_part (prog ! pc) = Some (op, t)"
    by (cases p) auto
  have "encodable prog pc" "supported (prog ! pc)"
    using assms(1,2) pc by (auto simp: layout_ok_def)
  from simulate_jump [OF this(1) pc at j this(2)] step exec_jit_jump [OF j] show thesis
    using that by auto
qed

lemma simulate_run:
  assumes "jit_run prog pc R R'" and "layout_ok prog" and "\<forall>i \<in> set prog. supported i" and "at_pc prog pc R s"
  shows "\<exists>s'. x86_run (assemble prog) s (Returned s') \<and> mapped R' s'"
  using assms(1,4)
proof (induction arbitrary: s)
  case (returns pc R R')
  then have "encodable prog pc" "prog ! pc = Return" "R' = R"
    using assms(2) by (simp_all add: layout_ok_def exec_jit_Returns)
  with simulate_return returns show ?case
    by metis
next
  case (goes pc R pc' R' R'')
  then show ?case
    using simulate_step [OF assms(2,3) goes.hyps(1) goes.prems goes.hyps(2)] by metis
qed

end
