(* ===== verification/Safe_Jit_Total.thy ===== *)
theory Safe_Jit_Total
  imports Safe_Jit_Correct
begin

text \<open>
  Which programs the code generator of the safe mode accepts: every program whose instructions
  have a lowering, whose registers exist and whose jumps stay inside the program, as long as it
  is short enough for its jumps to reach. No generator instruction takes more than sixteen bytes.
\<close>

section \<open>The size of the code\<close>

fun size_bytes :: "OperandSize \<Rightarrow> nat" where
  "size_bytes S0 = 0"
| "size_bytes S8 = 1"
| "size_bytes S16 = 2"
| "size_bytes S32 = 4"
| "size_bytes S64 = 8"

definition direct_bound :: "X86Instruction \<Rightarrow> nat" where
  "direct_bound ins = of_bool (ins_size ins = S16) + 2 + of_bool (opcode_escape_sequence ins = 1)
     + of_bool (ins_modrm ins) + size_bytes (immediate_size ins)"

lemma length_emit_variable_length [simp]: "length (emit_variable_length sz v) = size_bytes sz"
  by (cases sz) simp_all

lemma direct_bound_record:
  "direct_bound \<lparr>ins_size = sz, opcode_escape_sequence = e, opcode = opc, ins_modrm = b, indirect = ind, first_operand = r,
     second_operand = r', immediate_size = isz, immediate = v\<rparr> =
   of_bool (sz = S16) + 2 + of_bool (e = 1) + of_bool b + size_bytes isz"
  by (simp add: direct_bound_def)

lemma length_direct_bytes: "length (direct_bytes ins) \<le> direct_bound ins"
  by (simp add: direct_bytes_def direct_bound_def)

definition plain :: "X86Instruction \<Rightarrow> bool" where
  "plain ins \<longleftrightarrow> ins_size ins \<noteq> S0 \<and> indirect ins = None \<and> opcode_escape_sequence ins \<in> {0, 1}"

lemma code_of_plain:
  assumes "\<forall>ins \<in> set inss. plain ins"
  shows "\<exists>bs. code_of inss = Some bs \<and> length bs \<le> sum_list (map direct_bound inss)"
  using assms
proof (induction inss)
  case (Cons ins inss)
  then obtain bs where "code_of inss = Some bs" "length bs \<le> sum_list (map direct_bound inss)"
    by auto
  then show ?case
    using Cons.prems encode_direct [of ins] length_direct_bytes [of ins] by (auto simp: plain_def)
qed simp

text \<open>The sBPF registers that an instruction names.\<close>

fun registers_of :: "JitInstruction \<Rightarrow> nat set" where
  "registers_of (LoadImmediate sz d v) = {d}"
| "registers_of (MoveRegister sz s d) = {s, d}"
| "registers_of (AluImmediate sz op d v) = {d}"
| "registers_of (AluRegister sz op s d) = {s, d}"
| "registers_of (ShiftImmediate sz op d n) = {d}"
| "registers_of (ShiftRegister sz op s d) = {s, d}"
| "registers_of (JumpImmediate sz c d v t) = {d}"
| "registers_of (JumpRegister sz c s d t) = {s, d}"
| "registers_of (JumpTestImmediate sz d v t) = {d}"
| "registers_of (JumpTestRegister sz s d t) = {s, d}"
| "registers_of _ = {}"

lemma selection_registers: "selection i = Okay inss \<Longrightarrow> k \<in> registers_of i \<Longrightarrow> k < 11"
  by (cases i) (auto simp: result_iff mapped_register_Ok_iff)

text \<open>The operand sizes that the generator handles.\<close>

fun sized :: "JitInstruction \<Rightarrow> bool" where
  "sized (LoadImmediate sz d v) \<longleftrightarrow> sz \<in> {S32, S64}"
| "sized i \<longleftrightarrow> sizes_ok i"

lemmas bound_eval = alu_def alu_escaped_def alu_immediate_def alu_immediate_escaped_def x86_mov_def xchg_def
  x86_cmp_def cmp_immediate_def x86_test_def test_immediate_def x86_push_def x86_pop_def return_near_def
  X86_DEFAULT_def plain_def direct_bound_record debug_assert_def

lemma mapped_register_less: "k < 11 \<Longrightarrow> mapped_register k = Okay (REGISTER_MAP ! k)"
  by (simp add: mapped_register_Ok_iff)

lemma load_immediate_plain:
  "ins_size (load_immediate r v) \<noteq> S0" "indirect (load_immediate r v) = None"
  "opcode_escape_sequence (load_immediate r v) = 0" "10 \<le> n \<Longrightarrow> direct_bound (load_immediate r v) \<le> n"
  by (simp_all add: load_immediate_def X86_DEFAULT_def plain_def direct_bound_def Let_def)

lemma size_bytes_le: "sz \<noteq> S64 \<Longrightarrow> 4 \<le> n \<Longrightarrow> size_bytes sz \<le> n"
  by (cases sz) simp_all

lemma select_shift_plain:
  assumes "sz \<in> {S32, S64}"
  shows "\<exists>inss. select_shift sz op s d = Okay inss \<and> (\<forall>ins \<in> set inss. plain ins) \<and>
    sum_list (map direct_bound inss) \<le> 16"
  using assms by (auto simp: select_shift_def cat_ins_def bound_eval)

lemma selection_plain:
  assumes "sized i" and "registers_of i \<subseteq> {..<11}"
  shows "\<exists>inss. selection i = Okay inss \<and> (\<forall>ins \<in> set inss. plain ins) \<and>
    sum_list (map direct_bound inss) + (case jump_part i of None \<Rightarrow> 0 | Some (op, _) \<Rightarrow> length op + 4) \<le> 16"
proof (cases i)
  case (ShiftRegister sz op s d)
  then show ?thesis
    using assms select_shift_plain [of sz op "REGISTER_MAP ! s" "REGISTER_MAP ! d"] by (simp add: mapped_register_less)
qed (use assms in \<open>auto simp: mapped_register_less cat_ins_def bound_eval load_immediate_plain size_bytes_le\<close>)

lemma ins_code_sized:
  assumes "sized i" and "registers_of i \<subseteq> {..<11}"
  shows "ins_code i \<noteq> None" "length (ins_bytes i d) \<le> 16"
proof -
  obtain inss where sel: "selection i = Okay inss" "\<forall>ins \<in> set inss. plain ins"
    "sum_list (map direct_bound inss) + (case jump_part i of None \<Rightarrow> 0 | Some (op, _) \<Rightarrow> length op + 4) \<le> 16"
    using selection_plain [OF assms] by blast
  then obtain bs where bs: "code_of inss = Some bs" "length bs \<le> sum_list (map direct_bound inss)"
    using code_of_plain by blast
  show "ins_code i \<noteq> None" "length (ins_bytes i d) \<le> 16"
    using sel bs by (auto simp: ins_code_def ins_bytes_def split: option.splits)
qed

section \<open>Acceptance\<close>

definition acceptable :: "nat \<Rightarrow> JitInstruction \<Rightarrow> bool" where
  "acceptable n i \<longleftrightarrow> sized i \<and> registers_of i \<subseteq> {..<11} \<and>
     (case jump_part i of None \<Rightarrow> True | Some (_, t) \<Rightarrow> t < n)"

lemma offset_of_bound:
  assumes "\<forall>i \<in> set prog. acceptable n i"
  shows "offset_of prog pc \<le> 16 * length prog"
proof -
  have "sum_list (map (\<lambda>i. length (ins_bytes i 0)) (take pc prog)) \<le> sum_list (map (\<lambda>i. 16) (take pc prog))"
    using assms ins_code_sized(2) by (intro sum_list_mono) (auto simp: acceptable_def dest!: in_set_takeD)
  then show ?thesis
    by (simp add: offset_of_def sum_list_triv)
qed

lemma acceptable_layout:
  assumes "\<forall>i \<in> set prog. acceptable (length prog) i" and "length prog < 2 ^ 27"
  shows "layout_ok prog"
  unfolding layout_ok_def encodable_def
proof (intro allI impI conjI)
  fix pc
  assume "pc < length prog"
  have near: "offset_of prog q < 2 ^ 31" "int (offset_of prog q) < 2 ^ 31" for q
    using offset_of_bound [OF assms(1), of q] assms(2) by simp_all
  have ok: "acceptable (length prog) (prog ! pc)"
    using assms(1) \<open>pc < length prog\<close> by simp
  then show "ins_code (prog ! pc) \<noteq> None"
    by (simp add: acceptable_def ins_code_sized)
  show "case jump_part (prog ! pc) of None \<Rightarrow> True
    | Some (_, target) \<Rightarrow> target < length prog \<and> offset_of prog (Suc pc) \<le> usize_max \<and> in_reach (distance prog pc target)"
    using ok near(1) [of "Suc pc"] near(2) [of "Suc pc"] near(2) [of "snd (the (jump_part (prog ! pc)))"]
    by (auto simp: acceptable_def in_reach_def distance_def split: option.splits)
qed

lemma compile_accepts:
  assumes "\<forall>i \<in> set prog. acceptable (length prog) i" and "length prog < 2 ^ 27"
  shows "\<exists>code. compile prog = Okay code \<and> length code \<le> 16 * length prog"
  using acceptable_layout [OF assms] offset_of_bound [OF assms(1)] length_laid_out [of "length prog" prog]
  by (simp add: compile_eq_Ok_iff assemble_def)

section \<open>Lowered instructions\<close>

lemma lower_registers: "lower_sbpf_instruction pc insn = Okay i \<Longrightarrow> registers_of i \<subseteq> {unat (i_dst insn), unat (i_src insn)}"
  unfolding lower_sbpf_instruction_def lower_alu_instruction_def lower_jump_instruction_def Let_def
  by (auto simp: result_iff split: if_split_asm)

lemma lower_sized: "lower_sbpf_instruction pc insn = Okay i \<Longrightarrow> sized i"
  unfolding lower_sbpf_instruction_def lower_alu_instruction_def lower_jump_instruction_def Let_def
  by (auto simp: result_iff split: if_split_asm)

lemma lower_jump_part:
  "lower_sbpf_instruction pc insn = Okay i \<Longrightarrow> jump_part i = Some (op, t) \<Longrightarrow> branch_target pc (i_off insn) = Okay t"
  unfolding lower_sbpf_instruction_def lower_alu_instruction_def lower_jump_instruction_def Let_def
  by (auto simp: result_iff split: if_split_asm)

end
