(* ===== verification/Jit_Interpreter.thy ===== *)
theory Jit_Interpreter
  imports Instruction_Semantics Safe_Jit_Total
begin

text \<open>
  The code generator of the safe mode against the interpreter: for the operation
  codes on which they agree, the lowered instruction has the meaning that the
  interpreter gives to the sBPF instruction, so that the emitted machine code
  returns the result of the interpreted program. \<open>agrees\<close> spells out for which
  versions of the bytecode the generator can be used with which instruction.
\<close>

section \<open>Arithmetic\<close>

text \<open>The value that a lowered arithmetic instruction writes, from the old value and the operand.\<close>

fun alu_result :: "JitInstruction \<Rightarrow> u64 \<Rightarrow> u64 \<Rightarrow> u64" where
  "alu_result (LoadImmediate sz d v) a b = (if sz = S64 then b else ucast (low b))"
| "alu_result (MoveRegister sz s d) a b = (if sz = S64 then b else ucast (low b))"
| "alu_result (AluImmediate sz op d v) a b = (if sz = S64 then alu_value op a b else ucast (alu_value op (low a) (low b)))"
| "alu_result (AluRegister sz op s d) a b = (if sz = S64 then alu_value op a b else ucast (alu_value op (low a) (low b)))"
| "alu_result (ShiftImmediate sz op d n) a b = (if sz = S64 then shift_value op a b else ucast (shift_value op (low a) b))"
| "alu_result (ShiftRegister sz op s d) a b = (if sz = S64 then shift_value op a b else ucast (shift_value op (low a) b))"
| "alu_result _ a b = a"

definition alu64_imm :: "u8 list" where
  "alu64_imm = [ADD64_IMM, OR64_IMM, AND64_IMM, LSH64_IMM, RSH64_IMM, XOR64_IMM, MOV64_IMM, ARSH64_IMM]"

definition alu64_reg :: "u8 list" where
  "alu64_reg = [ADD64_REG, SUB64_REG, OR64_REG, AND64_REG, LSH64_REG, RSH64_REG, XOR64_REG, MOV64_REG, ARSH64_REG]"

definition alu32_imm :: "u8 list" where
  "alu32_imm = [OR32_IMM, AND32_IMM, LSH32_IMM, RSH32_IMM, XOR32_IMM, MOV32_IMM, ARSH32_IMM]"

definition alu32_reg :: "u8 list" where
  "alu32_reg = [OR32_REG, AND32_REG, LSH32_REG, RSH32_REG, XOR32_REG, ARSH32_REG]"

text \<open>
  Operation codes whose interpretation does not depend on the version, or does in the
  way the generator assumes: plain subtraction, and 32-bit results that are zero extended.
\<close>

definition agrees_imm :: "SBPFVersion \<Rightarrow> u8 \<Rightarrow> bool" where
  "agrees_imm v opc \<longleftrightarrow> opc \<in> set alu64_imm \<union> set alu32_imm \<or> opc = SUB64_IMM \<and> \<not> swap_sub_reg_imm_operands v
     \<or> opc = ADD32_IMM \<and> explicit_sign_extension_of_results v"

definition agrees_reg :: "SBPFVersion \<Rightarrow> u8 \<Rightarrow> bool" where
  "agrees_reg v opc \<longleftrightarrow> opc \<in> set alu64_reg \<union> set alu32_reg
     \<or> opc \<in> {ADD32_REG, SUB32_REG} \<and> explicit_sign_extension_of_results v
     \<or> opc = MOV32_REG \<and> \<not> explicit_sign_extension_of_results v"

lemmas lower_eval = lower_sbpf_instruction_def lower_alu_instruction_def lower_jump_instruction_def
  jump_condition_from_operation_def opcode_val Let_def

lemma shift_wrapping:
  "wrapping_shl (a :: u64) (low b) = push_bit (unat b mod 64) a" "wrapping_shl (c :: u32) (low b) = push_bit (unat b mod 32) c"
  "wrapping_shr (a :: u64) (low b) = drop_bit (unat b mod 64) a" "wrapping_shr (c :: u32) (low b) = drop_bit (unat b mod 32) c"
  "wrapping_sshr (a :: u64) (low b) = signed_drop_bit (unat b mod 64) a"
  "wrapping_sshr (c :: u32) (low b) = signed_drop_bit (unat b mod 32) c"
  by (simp_all add: wrapping_shl_def wrapping_shr_def wrapping_sshr_def low_def unat_ucast_mod)

lemma shift_value_imm:
  "shift_value op (a :: u64) (ucast (ucast (b :: u64) :: u8)) = shift_value op a b"
  "shift_value op (a' :: u32) (ucast (ucast (b :: u64) :: u8)) = shift_value op a' b"
  by (cases op; simp add: unat_ucast_mod)+

lemmas arms_eval = step_insn_def arms_ld_st_def arms_alu32_load_def arms_alu64_store_def arms_step_pqr_def
  arms_jmp32_def arms_jmp64_def arms_call_def Let_def opcode_val

lemma agrees_imm_lower:
  assumes "agrees_imm v (i_opc insn)"
  shows "\<exists>i. lower_sbpf_instruction pc insn = Okay i \<and> unat (i_dst insn) \<in> registers_of i \<and>
    (\<forall>R. exec_jit i pc R = Goes (Suc pc) (R(unat (i_dst insn) := alu_result i (R (unat (i_dst insn))) (i_imm insn)))) \<and>
    (get_sbpf_version (executable st) = v \<longrightarrow>
       step_insn co syscalls config insn next_pc st = alu_imm (pure_op (alu_result i)) insn next_pc st)"
  using assms unfolding agrees_imm_def alu64_imm_def alu32_imm_def set_simps Un_iff insert_iff empty_iff
  by (elim disjE conjE)
    (simp_all add: lower_eval arms_eval shift_value_imm shift_wrapping sign_extension_def low_def [symmetric]
      alu_result.simps [abs_def])

lemma agrees_reg_lower:
  assumes "agrees_reg v (i_opc insn)"
  shows "\<exists>i. lower_sbpf_instruction pc insn = Okay i \<and> {unat (i_dst insn), unat (i_src insn)} \<subseteq> registers_of i \<and>
    (\<forall>R. exec_jit i pc R = Goes (Suc pc)
       (R(unat (i_dst insn) := alu_result i (R (unat (i_dst insn))) (R (unat (i_src insn)))))) \<and>
    (get_sbpf_version (executable st) = v \<longrightarrow>
       step_insn co syscalls config insn next_pc st = alu_reg (pure_op (alu_result i)) insn next_pc st)"
  using assms unfolding agrees_reg_def alu64_reg_def alu32_reg_def set_simps Un_iff insert_iff empty_iff
  by (elim disjE conjE)
    (simp_all add: lower_eval arms_eval shift_wrapping sign_extension_def low_def [symmetric]
      alu_result.simps [abs_def])

section \<open>Jumps\<close>

definition jump64_imm :: "u8 list" where
  "jump64_imm = [JEQ64_IMM, JGT64_IMM, JGE64_IMM, JLT64_IMM, JLE64_IMM, JSET64_IMM, JNE64_IMM, JSGT64_IMM,
     JSGE64_IMM, JSLT64_IMM, JSLE64_IMM]"

definition jump64_reg :: "u8 list" where
  "jump64_reg = [JEQ64_REG, JGT64_REG, JGE64_REG, JLT64_REG, JLE64_REG, JSET64_REG, JNE64_REG, JSGT64_REG,
     JSGE64_REG, JSLT64_REG, JSLE64_REG]"

definition jump32_imm :: "u8 list" where
  "jump32_imm = [JEQ32_IMM, JGT32_IMM, JGE32_IMM, JLT32_IMM, JLE32_IMM, JSET32_IMM, JNE32_IMM, JSGT32_IMM,
     JSGE32_IMM, JSLT32_IMM, JSLE32_IMM]"

definition jump32_reg :: "u8 list" where
  "jump32_reg = [JEQ32_REG, JGT32_REG, JGE32_REG, JLT32_REG, JLE32_REG, JSET32_REG, JNE32_REG, JSGT32_REG,
     JSGE32_REG, JSLT32_REG, JSLE32_REG]"

definition agrees_jump_imm :: "SBPFVersion \<Rightarrow> u8 \<Rightarrow> bool" where
  "agrees_jump_imm v opc \<longleftrightarrow> opc \<in> set jump64_imm \<or> opc \<in> set jump32_imm \<and> enable_jmp32 v"

definition agrees_jump_reg :: "SBPFVersion \<Rightarrow> u8 \<Rightarrow> bool" where
  "agrees_jump_reg v opc \<longleftrightarrow> opc \<in> set jump64_reg \<or> opc \<in> set jump32_reg \<and> enable_jmp32 v"

text \<open>The decision of a lowered jump, from the register and the operand.\<close>

fun jump_test :: "JitInstruction \<Rightarrow> u64 \<Rightarrow> u64 \<Rightarrow> bool" where
  "jump_test (JumpImmediate sz c d v t) a b = compared c (sz = S64) a b"
| "jump_test (JumpRegister sz c s d t) a b = compared c (sz = S64) a b"
| "jump_test (JumpTestImmediate sz d v t) a b = tested (sz = S64) a b"
| "jump_test (JumpTestRegister sz s d t) a b = tested (sz = S64) a b"
| "jump_test _ a b = True"

lemma compared_fun: "compared c True = holds c" "compared c False = (\<lambda>a b. holds c (low a) (low b))"
  and tested_fun: "tested True = (\<lambda>a b. a AND b \<noteq> 0)" "tested False = (\<lambda>a b. low a AND low b \<noteq> 0)"
  by (simp_all add: compared_def tested_def fun_eq_iff)

lemma jmp32_not_pqr: "enable_jmp32 v \<Longrightarrow> \<not> enable_pqr v"
  by (cases v) (simp_all add: version_features)

lemma agrees_jump_imm_lower:
  assumes "agrees_jump_imm v (i_opc insn)" and "lower_sbpf_instruction pc insn = Okay i"
  shows "(\<exists>op t. jump_part i = Some (op, t) \<and> branch_target pc (i_off insn) = Okay t) \<and> unat (i_dst insn) \<in> registers_of i \<and>
    decides i R = jump_test i (R (unat (i_dst insn))) (i_imm insn) \<and>
    (get_sbpf_version (executable st) = v \<longrightarrow>
       step_insn co syscalls config insn next_pc st = jmp_imm (jump_test i) insn next_pc st)"
  using assms unfolding agrees_jump_imm_def jump64_imm_def jump32_imm_def set_simps insert_iff empty_iff
  by (elim disjE conjE) (auto simp add: lower_eval arms_eval result_iff low_def [symmetric]
        jump_test.simps [abs_def] compared_fun tested_fun dest: jmp32_not_pqr)

lemma agrees_jump_reg_lower:
  assumes "agrees_jump_reg v (i_opc insn)" and "lower_sbpf_instruction pc insn = Okay i"
  shows "(\<exists>op t. jump_part i = Some (op, t) \<and> branch_target pc (i_off insn) = Okay t) \<and>
    {unat (i_dst insn), unat (i_src insn)} \<subseteq> registers_of i \<and>
    decides i R = jump_test i (R (unat (i_dst insn))) (R (unat (i_src insn))) \<and>
    (get_sbpf_version (executable st) = v \<longrightarrow>
       step_insn co syscalls config insn next_pc st = jmp_reg (jump_test i) insn next_pc st)"
  using assms unfolding agrees_jump_reg_def jump64_reg_def jump32_reg_def set_simps insert_iff empty_iff
  by (elim disjE conjE) (auto simp add: lower_eval arms_eval result_iff low_def [symmetric]
        jump_test.simps [abs_def] compared_fun tested_fun dest: jmp32_not_pqr)

section \<open>One instruction\<close>

definition agrees :: "SBPFVersion \<Rightarrow> Insn \<Rightarrow> bool" where
  "agrees v insn \<longleftrightarrow> agrees_imm v (i_opc insn) \<or> agrees_reg v (i_opc insn) \<or>
     agrees_jump_imm v (i_opc insn) \<or> agrees_jump_reg v (i_opc insn) \<or> i_opc insn = JA \<or> i_opc insn = EXIT"

definition same_registers :: "sbpf_regs \<Rightarrow> 'c Interpreter \<Rightarrow> bool" where
  "same_registers R st \<longleftrightarrow> length (reg st) = 12 \<and> (\<forall>k < 11. reg st ! k = R k)"

text \<open>Neither the program nor the call depth changes.\<close>

definition same_program :: "'c Interpreter \<Rightarrow> 'c Interpreter \<Rightarrow> bool" where
  "same_program st st' \<longleftrightarrow> executable st' = executable st \<and> program st' = program st \<and>
     call_depth (vm st') = call_depth (vm st)"

text \<open>What the interpreter does in an instruction is what the generator instruction means.\<close>

definition follows :: "'c Interpreter \<Rightarrow> jit_result \<Rightarrow> 'c flow option \<Rightarrow> bool" where
  "follows st r f \<longleftrightarrow>
     (case r of
        Goes pc' R' \<Rightarrow> (\<exists>st'. f = Some (Next (of_nat pc') st') \<and> same_registers R' st' \<and> same_program st st')
      | Returns R' \<Rightarrow> (\<exists>st'. f = Some (Stop st') \<and> (\<exists>e. program_result (vm st') = Err e) \<or>
          f = Some (Stop st') \<and> program_result (vm st') = Ok (R' 0)))"

lemma follows_alu_imm:
  assumes "same_registers R st" and "unat (i_dst insn) < 11" and "next_pc = of_nat (Suc pc)"
  shows "follows st (Goes (Suc pc) (R(unat (i_dst insn) := f (R (unat (i_dst insn))) (i_imm insn))))
    (alu_imm (pure_op f) insn next_pc st)"
  using assms by (auto simp: follows_def alu_imm_def reg_get_def pure_op_def alu_write_def reg_set_def
      same_registers_def same_program_def nth_list_update)

lemma follows_alu_reg:
  assumes "same_registers R st" and "unat (i_dst insn) < 11" and "unat (i_src insn) < 11" and "next_pc = of_nat (Suc pc)"
  shows "follows st (Goes (Suc pc) (R(unat (i_dst insn) := f (R (unat (i_dst insn))) (R (unat (i_src insn))))))
    (alu_reg (pure_op f) insn next_pc st)"
  using assms by (auto simp: follows_def alu_reg_def reg_get_def pure_op_def alu_write_def reg_set_def
      same_registers_def same_program_def nth_list_update)

lemma branch_target_Okay_iff:
  "branch_target pc off = Okay t \<longleftrightarrow> int t = int pc + sint off + 1 \<and> t \<le> usize_max"
  by (auto simp: branch_target_def Let_def)

lemma jump_pc_branch_target:
  assumes "branch_target pc off = Okay t" and "Suc pc < 2 ^ 60" and "t < 2 ^ 60"
  shows "jump_pc (of_nat (Suc pc)) off = Some (of_nat t)"
proof -
  have "sint (of_nat (Suc pc) :: u64) = int pc + 1"
    using assms(2) by (simp only: signed_of_nat) (subst signed_take_bit_int_eq_self; simp)
  then have "sint (of_nat (Suc pc) :: u64) + sint off = int t"
    using assms(1) by (simp add: branch_target_Okay_iff)
  then show ?thesis
    using assms(3) by (simp add: jump_pc_def Let_def)
qed

lemma follows_jump:
  assumes "same_registers R st" and "branch_target pc (i_off insn) = Okay t" and "Suc pc < 2 ^ 60" and "t < 2 ^ 60"
  shows "unat (i_dst insn) < 11 \<Longrightarrow> follows st (Goes (if cond (R (unat (i_dst insn))) (i_imm insn) then t else Suc pc) R)
      (jmp_imm cond insn (of_nat (Suc pc)) st)"
    and "unat (i_dst insn) < 11 \<Longrightarrow> unat (i_src insn) < 11 \<Longrightarrow>
      follows st (Goes (if cond (R (unat (i_dst insn))) (R (unat (i_src insn))) then t else Suc pc) R)
        (jmp_reg cond insn (of_nat (Suc pc)) st)"
    and "follows st (Goes t R) (jump_arm insn (of_nat (Suc pc)) st)"
  using assms(1) jump_pc_branch_target [OF assms(2-4)]
  by (auto simp: follows_def jmp_imm_def jmp_reg_def jump_arm_def reg_get_def same_registers_def same_program_def
      simp del: of_nat_Suc)

lemma agrees_JA:
  assumes "i_opc insn = JA" and "lower_sbpf_instruction pc insn = Okay i"
  shows "\<exists>op t. jump_part i = Some (op, t) \<and> branch_target pc (i_off insn) = Okay t"
    and "step_insn co syscalls config insn next_pc st = jump_arm insn next_pc st" and "decides i R"
  using assms by (auto simp: lower_eval arms_eval result_iff)

lemma agrees_EXIT:
  assumes "i_opc insn = EXIT" and "call_depth (vm st) = 0" and "same_registers R st"
  shows "lower_sbpf_instruction pc insn = Okay Return"
    and "follows st (Returns R) (step_insn co syscalls config insn next_pc st)"
  using assms by (auto simp: lower_eval arms_eval exit_arm_def follows_def same_registers_def throw_error_def)

lemma step_insn_follows:
  assumes "agrees (get_sbpf_version (executable st)) insn" and low: "lower_sbpf_instruction pc insn = Okay i"
    and sel: "selection i = Okay inss" and R: "same_registers R st" and "call_depth (vm st) = 0"
    and pc: "Suc pc < 2 ^ 60" and t: "\<And>op t. jump_part i = Some (op, t) \<Longrightarrow> t < 2 ^ 60"
  shows "follows st (exec_jit i pc R) (step_insn co syscalls config insn (of_nat (Suc pc)) st)"
proof -
  let ?v = "get_sbpf_version (executable st)"
  note used = selection_registers [OF sel]
  consider "agrees_imm ?v (i_opc insn)" | "agrees_reg ?v (i_opc insn)" | "agrees_jump_imm ?v (i_opc insn)"
    | "agrees_jump_reg ?v (i_opc insn)" | "i_opc insn = JA" | "i_opc insn = EXIT"
    using assms(1) by (auto simp: agrees_def)
  then show ?thesis
  proof cases
    case 1
    then show ?thesis
      using agrees_imm_lower [OF 1, of pc st] low used follows_alu_imm [OF R, of insn _ pc]
      by (auto simp del: of_nat_Suc)
  next
    case 2
    then show ?thesis
      using agrees_reg_lower [OF 2, of pc st] low used follows_alu_reg [OF R, of insn _ pc]
      by (auto simp del: of_nat_Suc)
  next
    case 3
    note j = agrees_jump_imm_lower [OF 3 low, of R st co syscalls config "of_nat (Suc pc)"]
    then obtain op t where "jump_part i = Some (op, t)" "branch_target pc (i_off insn) = Okay t"
      by auto
    then show ?thesis
      using j used follows_jump(1) [OF R _ pc t] by (simp add: exec_jit_jump)
  next
    case 4
    note j = agrees_jump_reg_lower [OF 4 low, of R st co syscalls config "of_nat (Suc pc)"]
    then obtain op t where "jump_part i = Some (op, t)" "branch_target pc (i_off insn) = Okay t"
      by auto
    then show ?thesis
      using j used follows_jump(2) [OF R _ pc t] by (simp add: exec_jit_jump)
  next
    case 5
    note j = agrees_JA [OF 5 low]
    then obtain op t where "jump_part i = Some (op, t)" "branch_target pc (i_off insn) = Okay t"
      by auto
    then show ?thesis
      using j(2) [of co syscalls config "of_nat (Suc pc)" st] j(3) [of R] follows_jump(3) [OF R _ pc t]
      by (simp add: exec_jit_jump)
  next
    case 6
    then show ?thesis
      using agrees_EXIT [OF 6 assms(5) R] low by simp
  qed
qed

section \<open>A whole run\<close>

text \<open>The program as the interpreter decodes it.\<close>

definition decodes_to :: "u8 list \<Rightarrow> Insn list \<Rightarrow> bool" where
  "decodes_to bytes insns \<longleftrightarrow> length bytes = INSN_SIZE * length insns \<and>
     (\<forall>pc < length insns. get_insn_unchecked bytes pc = Some (insns ! pc))"

lemma step_cases:
  assumes "step co syscalls st = Some (go_on, st')"
  shows "(\<not> go_on \<and> (\<exists>e. program_result (vm st') = Err e)) \<or>
    (\<exists>config insn st2 f. same_program st st2 \<and> reg st2 = reg st \<and>
       unat (reg st ! 11) * INSN_SIZE < length (program st) \<and>
       get_insn_unchecked (program st) (unat (reg st ! 11)) = Some insn \<and>
       step_insn co syscalls config insn (reg st ! 11 + 1) st2 = Some f \<and>
       (case f of Next pc st3 \<Rightarrow> go_on \<and> st' = st3\<lparr>reg := (reg st3)[11 := pc]\<rparr> | Stop st3 \<Rightarrow> \<not> go_on \<and> st' = st3))"
proof -
  obtain config where config: "ex_get_config (executable st) = Some config"
    using assms by (auto simp: step_def bind_eq_Some_conv)
  show ?thesis
  proof (cases "enable_instruction_meter config \<and> due_insn_count (vm st) \<ge> previous_instruction_meter (vm st)
      \<or> unat (reg st ! 11) * INSN_SIZE \<ge> length (program st)")
    case True
    then show ?thesis
      using assms config by (auto simp: step_def bind_eq_Some_conv throw_error_def Let_def split: if_splits)
  next
    case False
    then obtain insn f where "get_insn_unchecked (program st) (unat (reg st ! 11)) = Some insn"
      and "step_insn co syscalls config insn (reg st ! 11 + 1) (enter config st) = Some f"
      and "(go_on, st') = (case f of Next pc st3 \<Rightarrow> (True, st3\<lparr>reg := (reg st3)[11 := pc]\<rparr>) | Stop st3 \<Rightarrow> (False, st3))"
      using assms config
      by (auto simp: step_def bind_eq_Some_conv checked_add_def enter_def Let_def split: if_splits)
    with False show ?thesis
      by (intro disjI2 exI [of _ config] exI [of _ insn] exI [of _ "enter config st"] exI [of _ f])
        (auto simp: same_program_def split: flow.splits)
  qed
qed

text \<open>A program for which the generated code and the interpreter can be compared.\<close>

definition comparable :: "'c Interpreter \<Rightarrow> Insn list \<Rightarrow> JitInstruction list \<Rightarrow> bool" where
  "comparable st insns prog \<longleftrightarrow> decodes_to (program st) insns \<and> lowered insns prog \<and> layout_ok prog \<and>
     length insns < 2 ^ 60 - 1 \<and> call_depth (vm st) = 0 \<and>
     (\<forall>insn \<in> set insns. agrees (get_sbpf_version (executable st)) insn)"

definition tracks :: "nat \<Rightarrow> sbpf_regs \<Rightarrow> 'c Interpreter \<Rightarrow> bool" where
  "tracks pc R st \<longleftrightarrow> same_registers R st \<and> reg st ! 11 = of_nat pc \<and> pc \<le> 2 ^ 60"

lemma comparable_same_program: "comparable st insns prog \<Longrightarrow> same_program st st' \<Longrightarrow> comparable st' insns prog"
  by (simp add: comparable_def same_program_def)

lemma layout_ok_selection:
  assumes "layout_ok prog" and "pc < length prog"
  obtains inss where "selection (prog ! pc) = Okay inss"
  using assms by (auto simp: layout_ok_def encodable_def ins_code_iff)

lemma layout_ok_target:
  assumes "layout_ok prog" and "pc < length prog" and "jump_part (prog ! pc) = Some (op, t)"
  shows "t < length prog"
  using assms by (auto simp: layout_ok_def encodable_def)

lemma exec_jit_pc:
  assumes "layout_ok prog" and "pc < length prog" and "exec_jit (prog ! pc) pc R = Goes pc' R'"
  shows "pc' \<le> length prog"
proof (cases "jump_part (prog ! pc)")
  case None
  then have "pc' = Suc pc"
    using assms(3) by (cases "prog ! pc") auto
  then show ?thesis using assms(2) by simp
next
  case (Some p)
  then show ?thesis
    using assms layout_ok_target [OF assms(1,2), of "fst p" "snd p"] exec_jit_jump [of "prog ! pc" "fst p" "snd p" pc R]
    by (auto split: if_splits)
qed

lemma step_simulated:
  assumes ok: "comparable st insns prog" and at: "tracks pc R st" and step: "step co syscalls st = Some (go_on, st')"
  shows "(\<not> go_on \<and> (\<exists>e. program_result (vm st') = Err e)) \<or>
    (pc < length prog \<and>
     (case exec_jit (prog ! pc) pc R of
        Goes pc' R' \<Rightarrow> go_on \<and> tracks pc' R' st' \<and> comparable st' insns prog
      | Returns R' \<Rightarrow> \<not> go_on \<and> program_result (vm st') = Ok (R' 0)))"
  using step_cases [OF step]
proof (elim disjE exE conjE)
  fix config insn st2 f
  assume st2: "same_program st st2" "reg st2 = reg st"
    and len: "unat (reg st ! 11) * INSN_SIZE < length (program st)"
    and insn: "get_insn_unchecked (program st) (unat (reg st ! 11)) = Some insn"
    and f: "step_insn co syscalls config insn (reg st ! 11 + 1) st2 = Some f"
    and res: "case f of Next pc st3 \<Rightarrow> go_on \<and> st' = st3\<lparr>reg := (reg st3)[11 := pc]\<rparr> | Stop st3 \<Rightarrow> \<not> go_on \<and> st' = st3"
  have lay: "layout_ok prog" "lowered insns prog" "length prog = length insns" "length prog < 2 ^ 60 - 1"
    using ok by (simp_all add: comparable_def lowered_def)
  have pc: "unat (reg st ! 11) = pc" "reg st ! 11 + 1 = of_nat (Suc pc)"
    using at by (simp_all add: tracks_def unsigned_of_nat take_bit_nat_eq_self)
  have lt: "pc < length prog"
    using len ok lay(3) by (simp add: pc comparable_def decodes_to_def)
  have i: "insn = insns ! pc" "agrees (get_sbpf_version (executable st2)) insn"
    "lower_sbpf_instruction pc insn = Okay (prog ! pc)"
    using insn ok lay lt st2 by (auto simp: pc comparable_def decodes_to_def lowered_def same_program_def)
  obtain inss where sel: "selection (prog ! pc) = Okay inss"
    using layout_ok_selection [OF lay(1) lt] .
  have "follows st2 (exec_jit (prog ! pc) pc R) (Some f)"
    unfolding f [symmetric] pc(2)
  proof (rule step_insn_follows [OF i(2,3) sel])
    show "same_registers R st2" "call_depth (vm st2) = 0" "Suc pc < 2 ^ 60"
      using at st2 ok lt lay(4) by (simp_all add: tracks_def same_registers_def same_program_def comparable_def)
    show "t < 2 ^ 60" if "jump_part (prog ! pc) = Some (op, t)" for op t
      using layout_ok_target [OF lay(1) lt that] lay(4) by simp
  qed
  then show ?thesis
  proof (cases "exec_jit (prog ! pc) pc R")
    case (Goes pc' R')
    have "pc' \<le> 2 ^ 60"
      using exec_jit_pc [OF lay(1) lt Goes] lay(4) by simp
    then show ?thesis
      using Goes res lt st2 \<open>follows st2 (exec_jit (prog ! pc) pc R) (Some f)\<close> comparable_same_program [OF ok]
      by (auto simp: follows_def tracks_def same_registers_def same_program_def)
  next
    case (Returns R')
    then show ?thesis
      using res lt \<open>follows st2 (exec_jit (prog ! pc) pc R) (Some f)\<close> by (auto simp: follows_def)
  qed
qed (use step in simp)

lemma run_simulated:
  assumes "run_interpreter co syscalls st = Some (Some st')" and "program_result (vm st') = Ok r"
    and "comparable st insns prog" and "tracks pc R st"
  shows "\<exists>R'. jit_run prog pc R R' \<and> R' 0 = r"
proof -
  have "\<forall>R pc st'. y = Some st' \<longrightarrow> program_result (vm st') = Ok r \<longrightarrow> comparable st insns prog \<longrightarrow> tracks pc R st \<longrightarrow>
      (\<exists>R'. jit_run prog pc R R' \<and> R' 0 = r)" if "run_interpreter co syscalls st = Some y" for st y
    using that
  proof (induction rule: run_interpreter.raw_induct [rotated, consumes 1, case_names unfold])
    case (unfold run co syscalls st y)
    show ?case
    proof (intro allI impI)
      fix R pc st'
      assume y: "y = Some st'" and r: "program_result (vm st') = Ok r" and ok: "comparable st insns prog"
        and at: "tracks pc R st"
      obtain go_on st1 where step: "step co syscalls st = Some (go_on, st1)"
        using unfold(2) y by (auto split: option.splits)
      show "\<exists>R'. jit_run prog pc R R' \<and> R' 0 = r"
      proof (cases "exec_jit (prog ! pc) pc R")
        case (Goes pc1 R1)
        then have "pc < length prog" "tracks pc1 R1 st1" "comparable st1 insns prog" "run co syscalls st1 = Some (Some st')"
          using step_simulated [OF ok at step] unfold(2) y r step by (auto split: if_splits)
        then show ?thesis
          using unfold(1) [of co syscalls st1 "Some st'"] r jit_run.goes [OF _ Goes] by blast
      next
        case (Returns R')
        then show ?thesis
          using step_simulated [OF ok at step] unfold(2) y r step
          by (auto intro: jit_run.returns split: if_splits)
      qed
    qed
  qed
  with assms show ?thesis by blast
qed

lemma compiled_result:
  assumes "run_interpreter co syscalls st = Some (Some st')" and "program_result (vm st') = Ok r"
    and "comparable st insns prog" and "tracks 0 (\<lambda>k. reg st ! k) st" and "\<forall>i \<in> set prog. supported i"
    and "mapped (\<lambda>k. reg st ! k) s" and "stack s = []" and "rip s = 0"
  shows "\<exists>s'. x86_run (assemble prog) s (Returned s') \<and> regs s' (register_code RAX) = r"
proof -
  obtain R' where "jit_run prog 0 (\<lambda>k. reg st ! k) R'" and "R' 0 = r"
    using run_simulated [OF assms(1-4)] by auto
  moreover have "at_pc prog 0 (\<lambda>k. reg st ! k) s"
    using assms(6-8) by (simp add: at_pc_def)
  ultimately obtain s' where "x86_run (assemble prog) s (Returned s')" "mapped R' s'"
    using simulate_run [OF _ _ assms(5)] assms(3) unfolding comparable_def by blast
  moreover have "regs s' 0 = r" if "mapped R' s'" for s'
    using that \<open>R' 0 = r\<close> host_nth [of 0] by (auto simp: mapped_def dest: spec [of _ 0])
  ultimately show ?thesis by auto
qed

lemma lower_supported:
  assumes "lower_sbpf_instruction pc insn = Okay i" and "fits_i32 (i_imm insn)"
  shows "supported i"
  using assms by (auto simp: lower_sbpf_instruction_def lower_alu_instruction_def lower_jump_instruction_def
      result_iff Let_def split: if_splits)

lemma scast_fits_i32: "fits_i32 (scast (y :: u32))"
proof -
  have "- (2 ^ 31) \<le> sint y" "sint y < 2 ^ 31"
    using sint_ge [of y] sint_lt [of y] by simp_all
  then show ?thesis
    by (simp add: fits_i32_def signed_scast_eq signed_take_bit_int_eq_self)
qed

lemma decoded_fits: "get_insn_unchecked bytes pc = Some insn \<Longrightarrow> fits_i32 (i_imm insn)"
  by (auto simp: get_insn_unchecked_def bind_eq_Some_conv scast_fits_i32)

section \<open>Verified programs\<close>

lemma agrees_jump_arm:
  assumes "agrees_jump_imm v (i_opc insn) \<or> agrees_jump_reg v (i_opc insn) \<or> i_opc insn = JA"
  shows "opcode_arm v insn = Some Arm_jmp_offset"
  using assms
  unfolding agrees_jump_imm_def agrees_jump_reg_def jump64_imm_def jump64_reg_def jump32_imm_def jump32_reg_def
    set_simps insert_iff empty_iff
  by (elim disjE conjE) (simp_all add: opcode_arm_jmp64 opcode_arm_jmp32)

lemma jump_lowers:
  assumes "agrees_jump_imm v (i_opc insn) \<or> agrees_jump_reg v (i_opc insn) \<or> i_opc insn = JA"
    and "branch_target pc (i_off insn) = Okay t"
  shows "\<exists>i. lower_sbpf_instruction pc insn = Okay i"
  using assms
  unfolding agrees_jump_imm_def agrees_jump_reg_def jump64_imm_def jump64_reg_def jump32_imm_def jump32_reg_def
    set_simps insert_iff empty_iff
  by (elim disjE conjE) (simp_all add: lower_eval)

lemma verified_target:
  assumes "insn_ok prog v pc" and "get_insn_unchecked prog pc = Some insn" and "opcode_arm v insn = Some Arm_jmp_offset"
    and "length prog < usize_max"
  shows "branch_target pc (i_off insn) = Okay (nat (jump_target insn pc))" "nat (jump_target insn pc) < insn_count prog"
  using assms by (auto simp: insn_ok_def arm_ok_def branch_target_def jump_target_def algebra_simps)

lemma verified_registers:
  assumes "insn_ok prog v pc" and "get_insn_unchecked prog pc = Some insn"
  shows "unat (i_dst insn) < 11" "unat (i_src insn) < 11"
  using assms by (auto simp: insn_ok_def registers_ok_def word_le_nat_alt split: option.splits)

lemma EXIT_lowers: "i_opc insn = EXIT \<Longrightarrow> lower_sbpf_instruction pc insn = Okay Return"
  by (simp add: lower_eval)

lemma alu_no_jump:
  assumes "agrees_imm v (i_opc insn) \<or> agrees_reg v (i_opc insn)" and "lower_sbpf_instruction pc insn = Okay i"
  shows "jump_part i = None"
  using assms
  unfolding agrees_imm_def alu64_imm_def alu32_imm_def agrees_reg_def alu64_reg_def alu32_reg_def set_simps Un_iff
    insert_iff empty_iff
  by (elim disjE conjE) (auto simp add: lower_eval)

lemma lower_jump:
  assumes "lower_sbpf_instruction pc insn = Okay i" and "jump_part i = Some (op, t)" and "agrees v insn"
  shows "agrees_jump_imm v (i_opc insn) \<or> agrees_jump_reg v (i_opc insn) \<or> i_opc insn = JA"
  using assms alu_no_jump [OF _ assms(1)] EXIT_lowers [of insn pc] unfolding agrees_def by auto

lemma verified_acceptable:
  assumes ok: "insn_ok prog v pc" and insn: "get_insn_unchecked prog pc = Some insn" and agr: "agrees v insn"
    and len: "length prog < usize_max"
  shows "\<exists>i. lower_sbpf_instruction pc insn = Okay i \<and> acceptable (insn_count prog) i"
proof -
  obtain i where i: "lower_sbpf_instruction pc insn = Okay i"
    using agr agrees_imm_lower [of v insn pc] agrees_reg_lower [of v insn pc] EXIT_lowers [of insn pc]
      jump_lowers [of v insn pc] agrees_jump_arm [of v insn] verified_target(1) [OF ok insn _ len]
    unfolding agrees_def by metis
  have "t < insn_count prog" if "jump_part i = Some (op, t)" for op t
    using lower_jump_part [OF i that] agrees_jump_arm [OF lower_jump [OF i that agr]] verified_target [OF ok insn _ len]
    by auto
  then show ?thesis
    using i lower_sized [OF i] lower_registers [OF i] verified_registers [OF ok insn]
    by (auto simp: acceptable_def split: option.splits)
qed

lemma decoded_opcode: "get_insn_unchecked prog pc = Some insn \<Longrightarrow> i_opc insn = opcode_at prog pc"
  by (auto simp: get_insn_unchecked_def index_opt_def opcode_at_def bind_eq_Some_conv split: if_splits)

lemma verified_compiles:
  assumes "verify prog config v = Some (Inr ())" and "decodes_to prog insns"
    and "\<forall>insn \<in> set insns. agrees v insn" and "length insns < 2 ^ 27"
  shows "\<exists>code. compile_sbpf insns = Okay code \<and> length code \<le> 16 * length insns"
proof -
  have n: "insn_count prog = length insns" and len: "length prog < usize_max"
    using assms(2,4) by (simp_all add: decodes_to_def)
  have "\<exists>i. lower_sbpf_instruction pc (insns ! pc) = Okay i \<and> acceptable (length insns) i" if "pc < length insns" for pc
  proof -
    have "get_insn_unchecked prog pc = Some (insns ! pc)" and "agrees v (insns ! pc)"
      using that assms(2,3) by (simp_all add: decodes_to_def)
    moreover have "i_opc (insns ! pc) \<noteq> 0"
      using \<open>agrees v (insns ! pc)\<close>
      by (auto simp: agrees_def agrees_imm_def agrees_reg_def agrees_jump_imm_def agrees_jump_reg_def alu64_imm_def
          alu32_imm_def alu64_reg_def alu32_reg_def jump64_imm_def jump32_imm_def jump64_reg_def jump32_reg_def opcode_val)
    moreover have "opcode_at prog pc = i_opc (insns ! pc)"
      using decoded_opcode [OF calculation(1)] by simp
    ultimately show ?thesis
      using verified_slot [OF assms(1) len, of pc] verified_acceptable [of prog v pc "insns ! pc"] that n len by simp
  qed
  then obtain f where f: "\<And>pc. pc < length insns \<Longrightarrow>
      lower_sbpf_instruction pc (insns ! pc) = Okay (f pc) \<and> acceptable (length insns) (f pc)"
    by metis
  then have "lowered insns (map f [0..<length insns])"
    by (simp add: lowered_def)
  moreover have "\<forall>i \<in> set (map f [0..<length insns]). acceptable (length (map f [0..<length insns])) i"
    using f by auto
  ultimately show ?thesis
    using compile_accepts [of "map f [0..<length insns]"] assms(4) by (simp add: compile_sbpf_lowered)
qed

lemma compiled_code_result:
  assumes "run_interpreter co syscalls st = Some (Some st')" and "program_result (vm st') = Ok r"
    and "decodes_to (program st) insns" and "\<forall>insn \<in> set insns. agrees (get_sbpf_version (executable st)) insn"
    and "compile_sbpf insns = Okay code" and "length insns < 2 ^ 60 - 1"
    and "call_depth (vm st) = 0" and "length (reg st) = 12" and "reg st ! 11 = 0"
    and "mapped (\<lambda>k. reg st ! k) s" and "stack s = []" and "rip s = 0"
  shows "\<exists>s'. x86_run code s (Returned s') \<and> regs s' (register_code RAX) = r"
proof -
  obtain prog where prog: "lowered insns prog"
    using compile_sbpf_Okay_lowered [OF assms(5)] .
  then have lay: "layout_ok prog" "code = assemble prog"
    using assms(5) compile_sbpf_lowered [OF prog] by (simp_all add: compile_eq_Ok_iff)
  have "supported i" if i: "i \<in> set prog" for i
  proof -
    obtain pc where "pc < length prog" "prog ! pc = i"
      using i by (auto simp: in_set_conv_nth)
    then have "lower_sbpf_instruction pc (insns ! pc) = Okay i" "get_insn_unchecked (program st) pc = Some (insns ! pc)"
      using prog assms(3) by (auto simp: lowered_def decodes_to_def)
    then show ?thesis
      by (intro lower_supported decoded_fits)
  qed
  moreover have "comparable st insns prog" "tracks 0 (\<lambda>k. reg st ! k) st"
    using assms(3,4,6-9) prog lay by (simp_all add: comparable_def tracks_def same_registers_def)
  ultimately show ?thesis
    using compiled_result [OF assms(1,2) _ _ _ assms(10-12)] lay(2) by blast
qed

end
