(* ===== verification/Safe_Jit_Properties.thy ===== *)
theory Safe_Jit_Properties
  imports Jit_Interpreter
begin

text \<open>
  The properties of the code generator of the safe mode, with the sample program
  \<open>mov64 r0, 5; jeq r0, 5, +1; mov64 r0, 1; add64 r0, 37; exit\<close> that their
  witnesses compile, interpret and run.
\<close>

section \<open>A sample program\<close>

definition jit_sample_prog :: "u8 list" where
  "jit_sample_prog =
     [0xb7, 0, 0, 0, 5, 0, 0, 0,
      0x15, 0, 1, 0, 5, 0, 0, 0,
      0xb7, 0, 0, 0, 1, 0, 0, 0,
      0x07, 0, 0, 0, 37, 0, 0, 0,
      0x95, 0, 0, 0, 0, 0, 0, 0]"

definition jit_sample_insns :: "Insn list" where
  "jit_sample_insns =
     [\<lparr>i_ptr = 0, i_opc = MOV64_IMM, i_dst = 0, i_src = 0, i_off = 0, i_imm = 5\<rparr>,
      \<lparr>i_ptr = 1, i_opc = JEQ64_IMM, i_dst = 0, i_src = 0, i_off = 1, i_imm = 5\<rparr>,
      \<lparr>i_ptr = 2, i_opc = MOV64_IMM, i_dst = 0, i_src = 0, i_off = 0, i_imm = 1\<rparr>,
      \<lparr>i_ptr = 3, i_opc = ADD64_IMM, i_dst = 0, i_src = 0, i_off = 0, i_imm = 37\<rparr>,
      \<lparr>i_ptr = 4, i_opc = EXIT, i_dst = 0, i_src = 0, i_off = 0, i_imm = 0\<rparr>]"

definition jit_sample :: "JitInstruction list" where
  "jit_sample = [LoadImmediate S64 0 5, JumpImmediate S64 Equal 0 5 3, LoadImmediate S64 0 1,
     AluImmediate S64 Add 0 37, Return]"

definition jit_sample_code :: "u8 list" where
  "jit_sample_code =
     [0xb8, 5, 0, 0, 0,
      0x48, 0x81, 0xf8, 5, 0, 0, 0, 0x0f, 0x84, 5, 0, 0, 0,
      0xb8, 1, 0, 0, 0,
      0x48, 0x81, 0xc0, 37, 0, 0, 0,
      0xc3]"

lemma jit_sample_decodes: "decodes_to jit_sample_prog jit_sample_insns"
  by (simp add: decodes_to_def jit_sample_prog_def jit_sample_insns_def All_less_Suc get_insn_unchecked_def
      index_opt_def read_le_def opcode_val)

lemmas lower_sample_eval = lower_eval branch_target_def rust_simps

lemma jit_sample_lowered: "lowered jit_sample_insns jit_sample"
  by (simp add: lowered_def jit_sample_insns_def jit_sample_def All_less_Suc lower_sample_eval)

lemmas select_eval = mapped_register_def REGISTER_MAP_def index_opt_def constructor_defs encode_direct direct_bytes_def rex_bits_def

lemma jit_sample_bytes:
  "ins_bytes (LoadImmediate S64 0 5) d = [0xb8, 5, 0, 0, 0]"
  "ins_bytes (JumpImmediate S64 Equal 0 5 3) d = [0x48, 0x81, 0xf8, 5, 0, 0, 0, 0x0f, 0x84] @ le_bytes 4 d"
  "ins_bytes (LoadImmediate S64 0 1) d = [0xb8, 1, 0, 0, 0]"
  "ins_bytes (AluImmediate S64 Add 0 37) d = [0x48, 0x81, 0xc0, 37, 0, 0, 0]"
  "ins_bytes Return d = [0xc3]"
  by (simp_all add: ins_bytes_def ins_code_def select_eval le_bytes_def)

lemma jit_sample_codes: "i \<in> set jit_sample \<Longrightarrow> ins_code i \<noteq> None"
  by (auto simp: jit_sample_def ins_code_def select_eval)

lemma jit_sample_compiles: "compile jit_sample = Okay jit_sample_code"
proof -
  have "\<forall>q < length jit_sample. ins_code (jit_sample ! q) \<noteq> None"
    using jit_sample_codes nth_mem by blast
  then have "layout_ok jit_sample"
    by (simp add: layout_ok_def encodable_def jit_sample_def All_less_Suc distance_def offset_of_def
        jit_sample_bytes in_reach_def)
  moreover have "assemble jit_sample = jit_sample_code"
    by (simp add: assemble_def laid_out_def displacement_def distance_def offset_of_def jit_sample_def
        jit_sample_code_def jit_sample_bytes le_bytes_def upt_rec)
  ultimately show ?thesis
    by (simp add: compile_eq_Ok_iff)
qed

lemma jit_sample_supported: "\<forall>i \<in> set jit_sample. supported i"
  by (simp add: jit_sample_def fits_i32_def)

lemma jit_sample_compiles_sbpf: "compile_sbpf jit_sample_insns = Okay jit_sample_code"
  using compile_sbpf_lowered [OF jit_sample_lowered] by (simp add: jit_sample_compiles)

definition jit_sample_executable :: Executable where
  "jit_sample_executable = sample_executable\<lparr>elf_bytes := jit_sample_prog, ro_section := Borrowed 0 (0, 40),
     sbpf_version := V0\<rparr>"

definition jit_sample_state :: "u64 \<Rightarrow> u64 \<Rightarrow> u64 \<Rightarrow> ProgramResult \<Rightarrow> TestContextObject Interpreter" where
  "jit_sample_state due r0 pc result =
     \<lparr>vm = sample_vm\<lparr>due_insn_count := due, program_result := result\<rparr>, executable = jit_sample_executable,
      program = jit_sample_prog, program_vm_addr = MM_BYTECODE_START, call_frames = fresh_frames,
      reg = [r0, 0, 0, 0, 0, 0, 0, 0, 0, 0, 0x200001000, pc]\<rparr>"

definition x86_sample :: x86 where
  "x86_sample = \<lparr>regs = (\<lambda>_. 0)(register_code R15 := 0x200001000), flags_of = None, stack = [], rip = 0\<rparr>"

lemmas jit_sample_eval = jit_sample_state_def jit_sample_executable_def jit_sample_prog_def sample_eval
  jmp_imm_def jump_arm_def jump_pc_def

lemma jit_sample_steps:
  "step test_context_object sample_syscalls (jit_sample_state 0 0 0 (Ok 0)) = Some (True, jit_sample_state 1 5 1 (Ok 0))"
  "step test_context_object sample_syscalls (jit_sample_state 1 5 1 (Ok 0)) = Some (True, jit_sample_state 2 5 3 (Ok 0))"
  "step test_context_object sample_syscalls (jit_sample_state 2 5 3 (Ok 0)) = Some (True, jit_sample_state 3 42 4 (Ok 0))"
  "step test_context_object sample_syscalls (jit_sample_state 3 42 4 (Ok 0)) = Some (False, jit_sample_state 4 42 4 (Ok 42))"
  by (simp_all add: jit_sample_eval)

lemma jit_sample_interpreted:
  "run_interpreter test_context_object sample_syscalls (jit_sample_state 0 0 0 (Ok 0)) =
     Some (Some (jit_sample_state 4 42 4 (Ok 42)))"
  by (subst run_interpreter.simps, simp add: jit_sample_steps(1), subst run_interpreter.simps, simp add: jit_sample_steps(2),
      subst run_interpreter.simps, simp add: jit_sample_steps(3), subst run_interpreter.simps, simp add: jit_sample_steps(4))

lemma all_less_11:
  "(\<forall>k < 11. P (k :: nat)) \<longleftrightarrow> P 0 \<and> P 1 \<and> P 2 \<and> P 3 \<and> P 4 \<and> P 5 \<and> P 6 \<and> P 7 \<and> P 8 \<and> P 9 \<and> P 10"
  by (simp add: numeral_eq_Suc All_less_Suc conj_ac)

lemma jit_sample_mapped: "mapped (\<lambda>k. reg (jit_sample_state 0 0 0 (Ok 0)) ! k) x86_sample"
  by (simp add: mapped_def jit_sample_state_def x86_sample_def all_less_11 host_nth)

lemma jit_sample_agrees: "\<forall>insn \<in> set jit_sample_insns. agrees V0 insn"
  by (simp add: jit_sample_insns_def agrees_def agrees_imm_def agrees_jump_imm_def alu64_imm_def jump64_imm_def opcode_val)

lemma jit_sample_verified: "verify jit_sample_prog Config_default V0 = Some (Inr ())"
  by (simp add: jit_sample_prog_def verify_eval version_features check_jmp_offset_def)

section \<open>The encoder\<close>

text \<open>
  C38. Encoding is invertible. The bytes of a register-to-register arithmetic instruction decode,
  in front of any other code, to this operation on these registers at this width.
\<close>

theorem alu_encode_decode:
  assumes "sz \<in> {S32, S64}" and "register_code s < 16" and "register_code d < 16"
  shows "\<exists>ins bs. alu sz (fst (alu_encoding op)) s d None = Some ins \<and> encode ins = Some bs \<and>
    decode (bs @ rest) = Some (Alu_rr (alu_op_of op) (sz = S64) (register_code d) (register_code s), rest)"
proof -
  obtain ins where "alu sz (fst (alu_encoding op)) s d None = Some ins"
    using assms(1) by (auto simp: alu_def alu_escaped_def debug_assert_def)
  with runs_as_alu [OF this assms(2,3)] show ?thesis
    by (auto simp: runs_as_def)
qed

theorem alu_encode_decode_witness:
  "\<exists>ins bs. alu S64 (fst (alu_encoding Add)) R9 RCX None = Some ins \<and> encode ins = Some bs \<and>
    decode (bs @ [0xc3]) = Some (Alu_rr ADD True 1 9, [0xc3])"
  using alu_encode_decode [of S64 R9 RCX Add "[0xc3]"] by simp

text \<open>
  C39. Whichever of its three encodings \<open>load_immediate\<close> chooses for a constant, its bytes fit in ten
  and running them sets the register to exactly this constant.
\<close>

theorem load_immediate_exact:
  assumes "register_code r < 16"
  shows "\<exists>bs op. encode (load_immediate r v) = Some bs \<and> length bs \<le> 10 \<and> decode bs = Some (op, []) \<and>
    exec op s = Some (Running (s\<lparr>regs := (regs s)(register_code r := v)\<rparr>))"
proof -
  obtain w x bs where bs: "encode (load_immediate r v) = Some bs" "decode (bs @ []) = Some (Mov_ri w (register_code r) x, [])"
      "(if w then x else ucast (ucast x :: u32)) = v"
    using runs_as_load_immediate [OF assms, of v] unfolding runs_as_def by blast
  moreover have "length bs \<le> 10"
    using bs(1) by (auto simp: load_immediate_def X86_DEFAULT_def encode_direct direct_bytes_def Let_def split: if_splits)
  ultimately show ?thesis
    by (auto simp: set_reg_def)
qed

theorem load_immediate_exact_witness:
  "\<exists>bs op. encode (load_immediate R11 (- 5)) = Some bs \<and> length bs \<le> 10 \<and> decode bs = Some (op, []) \<and>
    exec op x86_sample = Some (Running (x86_sample\<lparr>regs := (regs x86_sample)(11 := - 5)\<rparr>))"
  using load_immediate_exact [of R11 "- 5" x86_sample] by simp

section \<open>The code generator\<close>

text \<open>
  C13. The code generator is an assembler. Compilation in one pass with jumps patched at the end
  succeeds exactly on the programs that have a layout, and yields the concatenation of the
  instruction encodings in which every jump has the distance to its target in this layout.
\<close>

theorem compile_is_assemble: "compile prog = Okay code \<longleftrightarrow> layout_ok prog \<and> code = assemble prog"
  by (rule compile_eq_Ok_iff)


lemma jit_sample_run: "jit_run jit_sample 0 R (R(0 := 42))"
  by (rule jit_run.goes, simp add: jit_sample_def, simp add: jit_sample_def,
      rule jit_run.goes, simp add: jit_sample_def, simp add: jit_sample_def,
      rule jit_run.goes, simp add: jit_sample_def, simp add: jit_sample_def,
      rule jit_run.returns) (simp_all add: jit_sample_def)




text \<open>
  C37. Compiling sBPF never panics: on every list of instructions, \<open>compile_sbpf\<close> returns code or an
  error.
\<close>

theorem compile_sbpf_never_panics: "\<exists>r. compile_sbpf insns = Some r"
  using compile_sbpf_not_None by blast

section \<open>Divergences\<close>

text \<open>
  C40. The generator has no notion of a version. In version 2 the operation code 0x36 is
  \<open>uhmul64\<close>: the verifier accepts it and the interpreter multiplies, but lowering treats every
  such instruction as the 32-bit jump \<open>jge32\<close> of version 3.
\<close>

theorem pqr_lowered_as_jump:
  "verify [0x36, 1, 0, 0, 7, 0, 0, 0, 0x95, 0, 0, 0, 0, 0, 0, 0] Config_default V2 = Some (Inr ()) \<and>
   opcode_arm V2 \<lparr>i_ptr = pc, i_opc = UHMUL64_IMM, i_dst = d, i_src = s, i_off = off, i_imm = imm\<rparr> = Some Arm_plain \<and>
   lower_sbpf_instruction pc \<lparr>i_ptr = pc, i_opc = UHMUL64_IMM, i_dst = d, i_src = s, i_off = off, i_imm = imm\<rparr> =
     and_then (branch_target pc off) (\<lambda>t. Okay (JumpImmediate S32 GreaterOrEqual (unat d) imm t))"
proof (intro conjI)
  show "verify [0x36, 1, 0, 0, 7, 0, 0, 0, 0x95, 0, 0, 0, 0, 0, 0, 0] Config_default V2 = Some (Inr ())"
    by (simp add: verify_eval version_features)
qed (simp_all add: opcode_arm_def arms_defs opcode_val version_features lower_eval)

text \<open>
  A 64-bit comparison with a constant drops its upper half. \<open>JumpImmediate\<close> encodes the
  constant in 32 bits without the detour through the scratch register that \<open>AluImmediate\<close> takes,
  so it emits the same code for a constant and for the sign extension of its lower half.
\<close>

lemma le_bytes_truncated: "le_bytes 4 (v :: u64) = le_bytes 4 (scast (low v) :: u64)"
  by (intro nth_equalityI) (auto simp: nth_le_bytes low_def intro!: bit_word_eqI simp: bit_simps)

lemma jump_constant_truncated:
  "emit_jit_instruction (JumpImmediate S64 c d v t) jit =
     emit_jit_instruction (JumpImmediate S64 c d (scast (low v)) t) jit"
proof -
  have "emit_ins (cmp_immediate S64 r v None) = emit_ins (cmp_immediate S64 r (scast (low v)) None)" for r
    using le_bytes_truncated [of v]
    by (simp add: emit_ins_def cmp_immediate_def debug_assert_def X86_DEFAULT_def encode_direct direct_bytes_def rex_bits_def)
  then show ?thesis
    by simp
qed

text \<open>
  The encoder drops a scale-index-base byte that is zero: for the operand \<open>[rax + rax * 1 + 0]\<close>
  the \<open>ModRM\<close> byte 0x4c announces such a byte, but the next byte is the displacement.
\<close>

lemma zero_sib_dropped:
  "Option.bind (x86_load S64 RAX RCX (OffsetIndexShift 0 RAX 0)) encode = Some [0x48, 0x8b, 0x4c, 0]"
  by (simp add: x86_load_def X86_DEFAULT_def debug_assert_def encode_def encode_addressing_def rex_byte_def le_bytes_def)

end
