(* ===== verification/Elf_Types.thy ===== *)
theory Elf_Types
  imports Rust_Result
begin

text \<open>
  The file format of \<^verbatim>\<open>elf_parser/types.rs\<close> and \<^verbatim>\<open>elf_parser/consts.rs\<close>:
  the headers and table entries with the readers of their C layout (the parser casts a pointer
  into the file, which is little endian, to the struct), the constants that the parser and the
  loader use, the errors of the parser with their messages, and the accessors of headers, symbols
  and relocations of \<^verbatim>\<open>elf_parser/mod.rs\<close>. A range of a file is the pair of its start
  and its end. A Rust \<open>String\<close> is the list of the bytes of its UTF-8 form, as characters.
\<close>

section \<open>Strings\<close>

text \<open>
  \<open>String::from_utf8_lossy\<close>: a malformed sequence is replaced by U+FFFD. \<open>utf8_chunk\<close> tells of the
  first sequence whether it is well formed and how many bytes it takes.
\<close>

definition utf8_tail :: "u8 \<Rightarrow> bool" where
  "utf8_tail b \<longleftrightarrow> 0x80 \<le> b \<and> b \<le> 0xBF"

definition utf8_second :: "u8 \<Rightarrow> u8 \<Rightarrow> bool" where
  "utf8_second b c \<longleftrightarrow> utf8_tail c \<and> (b = 0xE0 \<longrightarrow> 0xA0 \<le> c) \<and> (b = 0xED \<longrightarrow> c \<le> 0x9F) \<and>
     (b = 0xF0 \<longrightarrow> 0x90 \<le> c) \<and> (b = 0xF4 \<longrightarrow> c \<le> 0x8F)"

definition utf8_chunk :: "u8 \<Rightarrow> u8 list \<Rightarrow> bool \<times> nat" where
  "utf8_chunk b bs =
     (let at = (\<lambda>k. if k < length bs then bs ! k else 0) in
      if b < 0x80 then (True, 1)
      else if 0xC2 \<le> b \<and> b \<le> 0xDF then (if utf8_tail (at 0) then (True, 2) else (False, 1))
      else if 0xE0 \<le> b \<and> b \<le> 0xEF then
        (if \<not> utf8_second b (at 0) then (False, 1) else if utf8_tail (at 1) then (True, 3) else (False, 2))
      else if 0xF0 \<le> b \<and> b \<le> 0xF4 then
        (if \<not> utf8_second b (at 0) then (False, 1) else if \<not> utf8_tail (at 1) then (False, 2)
         else if utf8_tail (at 2) then (True, 4) else (False, 3))
      else (False, 1))"

function from_utf8_lossy :: "u8 list \<Rightarrow> string" where
  "from_utf8_lossy [] = []"
| "from_utf8_lossy (b # bs) =
     (let (valid, n) = utf8_chunk b bs
      in (if valid then map (char_of \<circ> unat) (b # take (n - 1) bs) else map char_of [0xEF, 0xBF, 0xBD :: nat])
           @ from_utf8_lossy (drop (n - 1) bs))"
  by pat_completeness auto
termination by (relation "measure length") auto

function valid_utf8 :: "u8 list \<Rightarrow> bool" where
  "valid_utf8 [] \<longleftrightarrow> True"
| "valid_utf8 (b # bs) \<longleftrightarrow> (let (valid, n) = utf8_chunk b bs in valid \<and> valid_utf8 (drop (n - 1) bs))"
  by pat_completeness auto
termination by (relation "measure length") auto

text \<open>The decimal form of a number, as \<open>format!\<close> writes it.\<close>

fun decimal :: "nat \<Rightarrow> string" where
  "decimal n = (if n < 10 then [char_of (48 + n)] else decimal (n div 10) @ [char_of (48 + n mod 10)])"

declare decimal.simps [simp del]

section \<open>Headers and table entries\<close>

text \<open>The field of \<open>n\<close> bytes at an offset of a struct.\<close>

definition field :: "nat \<Rightarrow> nat \<Rightarrow> u8 list \<Rightarrow> 'a::len word" where
  "field off n bs = le_word (take n (drop off bs))"

record ElfIdent =
  ei_mag :: "u8 list"
  ei_class :: u8
  ei_data :: u8
  ei_version :: u8
  ei_osabi :: u8
  ei_abiversion :: u8
  ei_pad :: "u8 list"

record Elf64Ehdr =
  e_ident :: ElfIdent
  e_type :: u16
  e_machine :: u16
  e_version :: u32
  e_entry :: u64
  e_phoff :: u64
  e_shoff :: u64
  e_flags :: u32
  e_ehsize :: u16
  e_phentsize :: u16
  e_phnum :: u16
  e_shentsize :: u16
  e_shnum :: u16
  e_shstrndx :: u16

record Elf64Phdr =
  p_type :: u32
  p_flags :: u32
  p_offset :: u64
  p_vaddr :: u64
  p_paddr :: u64
  p_filesz :: u64
  p_memsz :: u64
  p_align :: u64

record Elf64Shdr =
  sh_name :: u32
  sh_type :: u32
  sh_flags :: u64
  sh_addr :: u64
  sh_offset :: u64
  sh_size :: u64
  sh_link :: u32
  sh_info :: u32
  sh_addralign :: u64
  sh_entsize :: u64

record Elf64Sym =
  st_name :: u32
  st_info :: u8
  st_other :: u8
  st_shndx :: u16
  st_value :: u64
  st_size :: u64

record Elf64Dyn =
  d_tag :: u64
  d_val :: u64

record Elf64Rel =
  r_offset :: u64
  r_info :: u64

definition read_ident :: "u8 list \<Rightarrow> ElfIdent" where
  "read_ident bs = \<lparr>ei_mag = take 4 bs, ei_class = field 4 1 bs, ei_data = field 5 1 bs, ei_version = field 6 1 bs,
     ei_osabi = field 7 1 bs, ei_abiversion = field 8 1 bs, ei_pad = take 7 (drop 9 bs)\<rparr>"

definition read_ehdr :: "u8 list \<Rightarrow> Elf64Ehdr" where
  "read_ehdr bs = \<lparr>e_ident = read_ident bs, e_type = field 16 2 bs, e_machine = field 18 2 bs, e_version = field 20 4 bs,
     e_entry = field 24 8 bs, e_phoff = field 32 8 bs, e_shoff = field 40 8 bs, e_flags = field 48 4 bs,
     e_ehsize = field 52 2 bs, e_phentsize = field 54 2 bs, e_phnum = field 56 2 bs, e_shentsize = field 58 2 bs,
     e_shnum = field 60 2 bs, e_shstrndx = field 62 2 bs\<rparr>"

definition read_phdr :: "u8 list \<Rightarrow> Elf64Phdr" where
  "read_phdr bs = \<lparr>p_type = field 0 4 bs, p_flags = field 4 4 bs, p_offset = field 8 8 bs, p_vaddr = field 16 8 bs,
     p_paddr = field 24 8 bs, p_filesz = field 32 8 bs, p_memsz = field 40 8 bs, p_align = field 48 8 bs\<rparr>"

definition read_shdr :: "u8 list \<Rightarrow> Elf64Shdr" where
  "read_shdr bs = \<lparr>sh_name = field 0 4 bs, sh_type = field 4 4 bs, sh_flags = field 8 8 bs, sh_addr = field 16 8 bs,
     sh_offset = field 24 8 bs, sh_size = field 32 8 bs, sh_link = field 40 4 bs, sh_info = field 44 4 bs,
     sh_addralign = field 48 8 bs, sh_entsize = field 56 8 bs\<rparr>"

definition read_sym :: "u8 list \<Rightarrow> Elf64Sym" where
  "read_sym bs = \<lparr>st_name = field 0 4 bs, st_info = field 4 1 bs, st_other = field 5 1 bs, st_shndx = field 6 2 bs,
     st_value = field 8 8 bs, st_size = field 16 8 bs\<rparr>"

definition read_dyn :: "u8 list \<Rightarrow> Elf64Dyn" where
  "read_dyn bs = \<lparr>d_tag = field 0 8 bs, d_val = field 8 8 bs\<rparr>"

definition read_rel :: "u8 list \<Rightarrow> Elf64Rel" where
  "read_rel bs = \<lparr>r_offset = field 0 8 bs, r_info = field 8 8 bs\<rparr>"

text \<open>\<open>size_of\<close> of the structs; each of them holds an \<open>u64\<close>, so that \<open>align_of\<close> is 8.\<close>

abbreviation (input) "SIZE_EHDR \<equiv> 64 :: nat"
abbreviation (input) "SIZE_PHDR \<equiv> 56 :: nat"
abbreviation (input) "SIZE_SHDR \<equiv> 64 :: nat"
abbreviation (input) "SIZE_SYM \<equiv> 24 :: nat"
abbreviation (input) "SIZE_DYN \<equiv> 16 :: nat"
abbreviation (input) "SIZE_REL \<equiv> 16 :: nat"
abbreviation (input) "STRUCT_ALIGN \<equiv> 8 :: nat"

section \<open>Constants\<close>

abbreviation (input) "ELFMAG \<equiv> [0x7F, 0x45, 0x4C, 0x46] :: u8 list"
abbreviation (input) "ELFCLASS64 \<equiv> 2 :: u8"
abbreviation (input) "ELFDATA2LSB \<equiv> 1 :: u8"
abbreviation (input) "ELFOSABI_NONE \<equiv> 0 :: u8"
abbreviation (input) "EM_BPF \<equiv> 247 :: u16"
abbreviation (input) "EM_SBPF \<equiv> 263 :: u16"
abbreviation (input) "ET_DYN \<equiv> 3 :: u16"
abbreviation (input) "EV_CURRENT \<equiv> 1 :: u32"
abbreviation (input) "PT_LOAD \<equiv> 1 :: u32"
abbreviation (input) "PT_DYNAMIC \<equiv> 2 :: u32"
abbreviation (input) "PF_X \<equiv> 1 :: u32"
abbreviation (input) "PF_R \<equiv> 4 :: u32"
abbreviation (input) "SHT_NULL \<equiv> 0 :: u32"
abbreviation (input) "SHT_SYMTAB \<equiv> 2 :: u32"
abbreviation (input) "SHT_STRTAB \<equiv> 3 :: u32"
abbreviation (input) "SHT_DYNAMIC \<equiv> 6 :: u32"
abbreviation (input) "SHT_NOBITS \<equiv> 8 :: u32"
abbreviation (input) "SHT_DYNSYM \<equiv> 11 :: u32"
abbreviation (input) "SHF_WRITE \<equiv> 1 :: u64"
abbreviation (input) "SHF_ALLOC \<equiv> 2 :: u64"
abbreviation (input) "SHN_UNDEF \<equiv> 0 :: u16"
abbreviation (input) "DT_NULL \<equiv> 0 :: u64"
abbreviation (input) "DT_SYMTAB \<equiv> 6 :: nat"
abbreviation (input) "DT_REL \<equiv> 17 :: nat"
abbreviation (input) "DT_RELSZ \<equiv> 18 :: nat"
abbreviation (input) "DT_RELENT \<equiv> 19 :: nat"
abbreviation (input) "DT_NUM \<equiv> 35 :: nat"
abbreviation (input) "STT_FUNC \<equiv> 2 :: u8"
abbreviation (input) "R_X86_64_NONE \<equiv> 0 :: u32"
abbreviation (input) "R_X86_64_64 \<equiv> 1 :: u32"
abbreviation (input) "R_X86_64_RELATIVE \<equiv> 8 :: u32"
abbreviation (input) "R_X86_64_32 \<equiv> 10 :: u32"

section \<open>Errors\<close>

datatype ElfParserError =
    InvalidFileHeader
  | InvalidProgramHeader
  | InvalidSectionHeader
  | InvalidString
  | StringTooLong string nat
  | OutOfBounds
  | InvalidSize
  | Overlap
  | SectionNotInOrder
  | NoSectionNameStringTable
  | InvalidDynamicSectionTable
  | InvalidRelocationTable
  | InvalidAlignment
  | NoStringTable
  | NoDynamicStringTable

text \<open>The messages of the errors (\<open>to_string\<close>).\<close>

fun parser_message :: "ElfParserError \<Rightarrow> string" where
  "parser_message InvalidFileHeader = ''invalid file header''"
| "parser_message InvalidProgramHeader = ''invalid program header''"
| "parser_message InvalidSectionHeader = ''invalid section header''"
| "parser_message InvalidString = ''invalid string''"
| "parser_message (StringTooLong s n) =
     ''Section or symbol name `'' @ s @ ''` is longer than `'' @ decimal n @ ''` bytes''"
| "parser_message OutOfBounds = ''value out of bounds''"
| "parser_message InvalidSize = ''invalid size''"
| "parser_message Overlap = ''values overlap''"
| "parser_message SectionNotInOrder = ''sections not in ascending order''"
| "parser_message NoSectionNameStringTable = ''no section name string table found''"
| "parser_message InvalidDynamicSectionTable = ''invalid dynamic section table''"
| "parser_message InvalidRelocationTable = ''invalid relocation table''"
| "parser_message InvalidAlignment = ''invalid alignment''"
| "parser_message NoStringTable = ''no string table''"
| "parser_message NoDynamicStringTable = ''no dynamic string table''"

section \<open>Accessors\<close>

definition phdr_file_range :: "Elf64Phdr \<Rightarrow> (nat \<times> nat) option" where
  "phdr_file_range p =
     (if p_type p = PT_LOAD
      then Some (unat (p_offset p), usize_saturating_add (unat (p_offset p)) (unat (p_filesz p))) else None)"

definition phdr_vm_range :: "Elf64Phdr \<Rightarrow> u64 \<times> u64" where
  "phdr_vm_range p = (p_vaddr p, saturating_add (p_vaddr p) (p_memsz p))"

definition is_writable :: "Elf64Shdr \<Rightarrow> bool" where
  "is_writable s \<longleftrightarrow> sh_flags s AND (SHF_ALLOC OR SHF_WRITE) = SHF_ALLOC OR SHF_WRITE"

definition shdr_file_range :: "Elf64Shdr \<Rightarrow> (nat \<times> nat) option" where
  "shdr_file_range s =
     (if sh_type s \<noteq> SHT_NOBITS
      then Some (unat (sh_offset s), usize_saturating_add (unat (sh_offset s)) (unat (sh_size s))) else None)"

definition shdr_vm_range :: "Elf64Shdr \<Rightarrow> u64 \<times> u64" where
  "shdr_vm_range s = (sh_addr s, saturating_add (sh_addr s) (sh_size s))"

text \<open>\<open>Range::contains\<close> and \<open>unwrap_or_default\<close> of an optional range.\<close>

definition in_range :: "'a::ord \<times> 'a \<Rightarrow> 'a \<Rightarrow> bool" where
  "in_range r x \<longleftrightarrow> fst r \<le> x \<and> x < snd r"

definition range_or_default :: "(nat \<times> nat) option \<Rightarrow> nat \<times> nat" where
  "range_or_default r = (case r of None \<Rightarrow> (0, 0) | Some r \<Rightarrow> r)"

definition is_function :: "Elf64Sym \<Rightarrow> bool" where
  "is_function s \<longleftrightarrow> st_info s AND 0xF = STT_FUNC"

definition r_type :: "Elf64Rel \<Rightarrow> u32" where
  "r_type r = ucast (r_info r AND 0xFFFFFFFF)"

definition r_sym :: "Elf64Rel \<Rightarrow> u32" where
  "r_sym r = ucast (case checked_shr (r_info r) 32 of None \<Rightarrow> 0 | Some x \<Rightarrow> x)"

end
