(* ===== verification/Elf_Parser.thy ===== *)
theory Elf_Parser
  imports Elf_Types
begin

text \<open>
  The parser of \<^verbatim>\<open>elf_parser/mod.rs\<close>: the file header, the tables of program and section
  headers with the checks of their ranges, the sections found by name, and the dynamic table with
  its relocations and symbols. The address of the first byte of the file in the host is the
  argument \<open>base\<close>, since the parser checks the alignment of the tables that it reads in place.
\<close>

section \<open>Reading tables\<close>

definition check_that_there_is_no_overlap :: "nat \<times> nat \<Rightarrow> nat \<times> nat \<Rightarrow> (ElfParserError, unit) outcome" where
  "check_that_there_is_no_overlap range_a range_b =
     (if snd range_a \<le> fst range_b \<or> snd range_b \<le> fst range_a then Okay () else Fail Overlap)"

text \<open>\<open>slice_from_bytes::<T>\<close>, with the size of \<open>T\<close> and the reader of its layout.\<close>

definition slice_from_bytes ::
  "nat \<Rightarrow> (u8 list \<Rightarrow> 'a) \<Rightarrow> nat \<Rightarrow> u8 list \<Rightarrow> nat \<times> nat \<Rightarrow> (ElfParserError, 'a list) outcome" where
  "slice_from_bytes size_of read base bytes rng =
     (let len = snd rng - fst rng in
      if len mod size_of \<noteq> 0 then Fail InvalidSize
      else and_then (ok_or OutOfBounds (slice_opt bytes (fst rng) (snd rng))) (\<lambda>bs.
        if (base + fst rng) mod STRUCT_ALIGN \<noteq> 0 then Fail InvalidAlignment
        else Okay (map (\<lambda>k. read (take size_of (drop (size_of * k) bs))) [0..<len div size_of])))"

definition slice_from_program_header ::
  "nat \<Rightarrow> (u8 list \<Rightarrow> 'a) \<Rightarrow> nat \<Rightarrow> u8 list \<Rightarrow> Elf64Phdr \<Rightarrow> (ElfParserError, 'a list) outcome" where
  "slice_from_program_header size_of read base bytes p =
     and_then (ok_or OutOfBounds (usize_checked_add (unat (p_offset p)) (unat (p_filesz p)))) (\<lambda>end.
       slice_from_bytes size_of read base bytes (unat (p_offset p), end))"

definition slice_from_section_header ::
  "nat \<Rightarrow> (u8 list \<Rightarrow> 'a) \<Rightarrow> nat \<Rightarrow> u8 list \<Rightarrow> Elf64Shdr \<Rightarrow> (ElfParserError, 'a list) outcome" where
  "slice_from_section_header size_of read base bytes s =
     and_then (ok_or OutOfBounds (usize_checked_add (unat (sh_offset s)) (unat (sh_size s)))) (\<lambda>end.
       slice_from_bytes size_of read base bytes (unat (sh_offset s), end))"

definition parse_file_header :: "nat \<Rightarrow> u8 list \<Rightarrow> (ElfParserError, (nat \<times> nat) \<times> Elf64Ehdr) outcome" where
  "parse_file_header base bytes =
     and_then (ok_or OutOfBounds (slice_opt bytes 0 SIZE_EHDR)) (\<lambda>bs.
       if base mod STRUCT_ALIGN \<noteq> 0 then Fail InvalidAlignment
       else Okay ((0, SIZE_EHDR), read_ehdr bs))"

definition parse_program_header_table ::
  "nat \<Rightarrow> u8 list \<Rightarrow> nat \<times> nat \<Rightarrow> Elf64Ehdr \<Rightarrow> (ElfParserError, (nat \<times> nat) \<times> Elf64Phdr list) outcome" where
  "parse_program_header_table base bytes file_header_range file_header =
     and_then (ok_or OutOfBounds (usize_checked_mul SIZE_PHDR (unat (e_phnum file_header)))) (\<lambda>len.
     and_then (ok_or OutOfBounds (usize_checked_add len (unat (e_phoff file_header)))) (\<lambda>end.
       let rng = (unat (e_phoff file_header), end) in
       and_then (check_that_there_is_no_overlap file_header_range rng) (\<lambda>_.
       and_then (slice_from_bytes SIZE_PHDR read_phdr base bytes rng) (\<lambda>table.
       Okay (rng, table)))))"

definition parse_section_header_table ::
  "nat \<Rightarrow> u8 list \<Rightarrow> nat \<times> nat \<Rightarrow> Elf64Ehdr \<Rightarrow> nat \<times> nat \<Rightarrow>
     (ElfParserError, (nat \<times> nat) \<times> Elf64Shdr list) outcome" where
  "parse_section_header_table base bytes file_header_range file_header program_header_table_range =
     and_then (ok_or OutOfBounds (usize_checked_mul SIZE_SHDR (unat (e_shnum file_header)))) (\<lambda>len.
     and_then (ok_or OutOfBounds (usize_checked_add len (unat (e_shoff file_header)))) (\<lambda>end.
       let rng = (unat (e_shoff file_header), end) in
       and_then (check_that_there_is_no_overlap file_header_range rng) (\<lambda>_.
       and_then (check_that_there_is_no_overlap program_header_table_range rng) (\<lambda>_.
       and_then (slice_from_bytes SIZE_SHDR read_shdr base bytes rng) (\<lambda>table.
       Okay (rng, table))))))"

abbreviation (input) "SECTION_NAME_LENGTH_MAXIMUM \<equiv> 16 :: nat"
abbreviation (input) "SYMBOL_NAME_LENGTH_MAXIMUM \<equiv> 64 :: nat"

definition get_string_in_section :: "u8 list \<Rightarrow> Elf64Shdr \<Rightarrow> u32 \<Rightarrow> nat \<Rightarrow> (ElfParserError, u8 list) outcome" where
  "get_string_in_section bytes section_header offset_in_section maximum_length =
     (if sh_type section_header \<noteq> SHT_STRTAB then Fail InvalidSectionHeader
      else
        and_then (ok_or OutOfBounds (usize_checked_add (unat (sh_offset section_header)) (unat offset_in_section))) (\<lambda>start.
        and_then (ok_or OutOfBounds (usize_checked_add (unat (sh_offset section_header)) (unat (sh_size section_header)))) (\<lambda>section_end.
        and_then (ok_or OutOfBounds (usize_checked_add start maximum_length)) (\<lambda>string_end.
        and_then (ok_or OutOfBounds (slice_opt bytes start (min section_end string_end))) (\<lambda>unterminated.
        if 0 \<in> set unterminated then Okay (takeWhile (\<lambda>byte. byte \<noteq> 0) unterminated)
        else Fail (StringTooLong (from_utf8_lossy unterminated) maximum_length))))))"

section \<open>The parsed file\<close>

record Elf64 =
  elf64_bytes :: "u8 list"
  file_header :: Elf64Ehdr
  program_header_table :: "Elf64Phdr list"
  section_header_table :: "Elf64Shdr list"
  section_names_section_header :: "Elf64Shdr option"
  symbol_section_header :: "Elf64Shdr option"
  symbol_names_section_header :: "Elf64Shdr option"
  dynamic_table :: "u64 list"
  dynamic_relocations_table :: "Elf64Rel list option"
  dynamic_symbol_table :: "Elf64Sym list option"
  dynamic_symbol_names_section_header :: "Elf64Shdr option"

definition section_name :: "Elf64 \<Rightarrow> u32 \<Rightarrow> (ElfParserError, u8 list) outcome" where
  "section_name elf name =
     and_then (ok_or NoSectionNameStringTable (section_names_section_header elf)) (\<lambda>header.
       get_string_in_section (elf64_bytes elf) header name SECTION_NAME_LENGTH_MAXIMUM)"

definition symbol_name :: "Elf64 \<Rightarrow> u32 \<Rightarrow> (ElfParserError, u8 list) outcome" where
  "symbol_name elf name =
     and_then (ok_or NoStringTable (symbol_names_section_header elf)) (\<lambda>header.
       get_string_in_section (elf64_bytes elf) header name SYMBOL_NAME_LENGTH_MAXIMUM)"

definition dynamic_symbol_name :: "Elf64 \<Rightarrow> u32 \<Rightarrow> (ElfParserError, u8 list) outcome" where
  "dynamic_symbol_name elf name =
     and_then (ok_or NoDynamicStringTable (dynamic_symbol_names_section_header elf)) (\<lambda>header.
       get_string_in_section (elf64_bytes elf) header name SYMBOL_NAME_LENGTH_MAXIMUM)"

definition get_symbol_table_of_section :: "nat \<Rightarrow> Elf64 \<Rightarrow> Elf64Shdr \<Rightarrow> (ElfParserError, Elf64Sym list) outcome" where
  "get_symbol_table_of_section base elf section_header =
     (if sh_type section_header \<noteq> SHT_SYMTAB \<and> sh_type section_header \<noteq> SHT_DYNSYM then Fail InvalidSectionHeader
      else slice_from_section_header SIZE_SYM read_sym base (elf64_bytes elf) section_header)"

definition symbol_table :: "nat \<Rightarrow> Elf64 \<Rightarrow> (ElfParserError, Elf64Sym list option) outcome" where
  "symbol_table base elf =
     (case symbol_section_header elf of None \<Rightarrow> Okay None
      | Some header \<Rightarrow> and_then (get_symbol_table_of_section base elf header) (\<lambda>table. Okay (Some table)))"

text \<open>The body of the loop of \<open>parse_sections\<close>: a name that occurs twice is an error.\<close>

definition parse_section :: "Elf64Shdr \<Rightarrow> Elf64 \<Rightarrow> Elf64Shdr \<Rightarrow> (ElfParserError, Elf64) outcome" where
  "parse_section names elf section_header =
     and_then (get_string_in_section (elf64_bytes elf) names (sh_name section_header) SECTION_NAME_LENGTH_MAXIMUM) (\<lambda>name.
       if name = map of_char ''.symtab'' then
         (if symbol_section_header elf \<noteq> None then Fail InvalidSectionHeader
          else Okay (elf\<lparr>symbol_section_header := Some section_header\<rparr>))
       else if name = map of_char ''.strtab'' then
         (if symbol_names_section_header elf \<noteq> None then Fail InvalidSectionHeader
          else Okay (elf\<lparr>symbol_names_section_header := Some section_header\<rparr>))
       else if name = map of_char ''.dynstr'' then
         (if dynamic_symbol_names_section_header elf \<noteq> None then Fail InvalidSectionHeader
          else Okay (elf\<lparr>dynamic_symbol_names_section_header := Some section_header\<rparr>))
       else Okay elf)"

definition parse_sections :: "Elf64 \<Rightarrow> (ElfParserError, Elf64) outcome" where
  "parse_sections elf =
     and_then (ok_or NoSectionNameStringTable (section_names_section_header elf)) (\<lambda>names.
       try_fold (parse_section names) elf (section_header_table elf))"

section \<open>The dynamic table\<close>

primrec program_header_for_vaddr :: "Elf64Phdr list \<Rightarrow> u64 \<Rightarrow> (ElfParserError, Elf64Phdr option) outcome" where
  "program_header_for_vaddr [] vaddr = Okay None"
| "program_header_for_vaddr (p # ps) vaddr =
     and_then (ok_or OutOfBounds (checked_add (p_vaddr p) (p_memsz p))) (\<lambda>end.
       if in_range (p_vaddr p, end) vaddr then Okay (Some p) else program_header_for_vaddr ps vaddr)"

definition parse_dynamic_relocations :: "nat \<Rightarrow> Elf64 \<Rightarrow> (ElfParserError, Elf64Rel list option) outcome" where
  "parse_dynamic_relocations base elf =
     (let vaddr = dynamic_table elf ! DT_REL;
          size = unat (dynamic_table elf ! DT_RELSZ)
      in if vaddr = 0 then Okay None
         else if unat (dynamic_table elf ! DT_RELENT) \<noteq> SIZE_REL then Fail InvalidDynamicSectionTable
         else if size = 0 then Fail InvalidDynamicSectionTable
         else
           and_then (program_header_for_vaddr (program_header_table elf) vaddr) (\<lambda>program_header.
           and_then
             (case program_header of
                Some p \<Rightarrow>
                  and_then (ok_or OutOfBounds (checked_sub vaddr (p_vaddr p))) (\<lambda>d.
                    ok_or OutOfBounds (checked_add d (p_offset p)))
              | None \<Rightarrow>
                  and_then (ok_or InvalidDynamicSectionTable
                      (find (\<lambda>s. sh_addr s = vaddr) (section_header_table elf))) (\<lambda>s. Okay (sh_offset s))) (\<lambda>offset.
           and_then (ok_or OutOfBounds (usize_checked_add (unat offset) size)) (\<lambda>end.
             map_fail (\<lambda>_. InvalidDynamicSectionTable)
               (and_then (slice_from_bytes SIZE_REL read_rel base (elf64_bytes elf) (unat offset, end)) (\<lambda>table.
                  Okay (Some table)))))))"

definition parse_dynamic_symbol_table :: "nat \<Rightarrow> Elf64 \<Rightarrow> (ElfParserError, Elf64Sym list option) outcome" where
  "parse_dynamic_symbol_table base elf =
     (let vaddr = dynamic_table elf ! DT_SYMTAB
      in if vaddr = 0 then Okay None
         else
           and_then (ok_or InvalidDynamicSectionTable (find (\<lambda>s. sh_addr s = vaddr) (section_header_table elf))) (\<lambda>s.
           and_then (get_symbol_table_of_section base elf s) (\<lambda>table. Okay (Some table))))"

text \<open>The loop that expands the entries into the table indexed by their tags.\<close>

primrec expand_dynamic :: "Elf64Dyn list \<Rightarrow> u64 list \<Rightarrow> u64 list" where
  "expand_dynamic [] table = table"
| "expand_dynamic (d # ds) table =
     (if d_tag d = DT_NULL then table
      else if DT_NUM \<le> unat (d_tag d) then expand_dynamic ds table
      else expand_dynamic ds (table[unat (d_tag d) := d_val d]))"

definition parse_dynamic :: "nat \<Rightarrow> Elf64 \<Rightarrow> (ElfParserError, Elf64) outcome" where
  "parse_dynamic base elf =
     (let from_program =
            (case find (\<lambda>p. p_type p = PT_DYNAMIC) (program_header_table elf) of
               None \<Rightarrow> None
             | Some p \<Rightarrow>
                 (case slice_from_program_header SIZE_DYN read_dyn base (elf64_bytes elf) p of
                    Some (Inr table) \<Rightarrow> Some table | _ \<Rightarrow> None))
      in
      and_then
        (case from_program of
           Some table \<Rightarrow> Okay (Some table)
         | None \<Rightarrow>
             (case find (\<lambda>s. sh_type s = SHT_DYNAMIC) (section_header_table elf) of
                None \<Rightarrow> Okay None
              | Some s \<Rightarrow>
                  map_fail (\<lambda>_. InvalidDynamicSectionTable)
                    (and_then (slice_from_section_header SIZE_DYN read_dyn base (elf64_bytes elf) s) (\<lambda>table.
                       Okay (Some table))))) (\<lambda>entries.
      case entries of
        None \<Rightarrow> Okay elf
      | Some entries \<Rightarrow>
          let elf = elf\<lparr>dynamic_table := expand_dynamic entries (dynamic_table elf)\<rparr> in
          and_then (parse_dynamic_relocations base elf) (\<lambda>relocations.
          let elf = elf\<lparr>dynamic_relocations_table := relocations\<rparr> in
          and_then (parse_dynamic_symbol_table base elf) (\<lambda>symbols.
          Okay (elf\<lparr>dynamic_symbol_table := symbols\<rparr>)))))"

section \<open>Parsing a file\<close>

definition bad_file_header :: "Elf64Ehdr \<Rightarrow> bool" where
  "bad_file_header header \<longleftrightarrow>
     ei_mag (e_ident header) \<noteq> ELFMAG \<or>
     ei_class (e_ident header) \<noteq> ELFCLASS64 \<or>
     ei_data (e_ident header) \<noteq> ELFDATA2LSB \<or>
     ei_version (e_ident header) \<noteq> ucast EV_CURRENT \<or>
     e_version header \<noteq> EV_CURRENT \<or>
     e_ehsize header \<noteq> of_nat SIZE_EHDR \<or>
     e_phentsize header \<noteq> of_nat SIZE_PHDR \<or>
     e_shentsize header \<noteq> of_nat SIZE_SHDR \<or>
     e_shnum header \<le> e_shstrndx header"

text \<open>The bodies of the two loops over the headers: the address and the offset reached so far.\<close>

definition check_program_header :: "nat \<Rightarrow> u64 \<Rightarrow> Elf64Phdr \<Rightarrow> (ElfParserError, u64) outcome" where
  "check_program_header file_len vaddr p =
     (if p_type p \<noteq> PT_LOAD then Okay vaddr
      else if p_vaddr p < vaddr then Fail InvalidProgramHeader
      else and_then (ok_or OutOfBounds (checked_add (p_offset p) (p_filesz p))) (\<lambda>end.
        if unat end > file_len then Fail OutOfBounds else Okay (p_vaddr p)))"

definition check_section_header ::
  "nat \<times> nat \<Rightarrow> nat \<times> nat \<Rightarrow> nat \<times> nat \<Rightarrow> nat \<Rightarrow> nat \<Rightarrow> Elf64Shdr \<Rightarrow> (ElfParserError, nat) outcome" where
  "check_section_header file_header_range program_header_table_range section_header_table_range file_len offset s =
     (if sh_type s = SHT_NOBITS then Okay offset
      else and_then (ok_or OutOfBounds (usize_checked_add (unat (sh_offset s)) (unat (sh_size s)))) (\<lambda>end.
        let section_range = (unat (sh_offset s), end) in
        and_then (check_that_there_is_no_overlap section_range file_header_range) (\<lambda>_.
        and_then (check_that_there_is_no_overlap section_range program_header_table_range) (\<lambda>_.
        and_then (check_that_there_is_no_overlap section_range section_header_table_range) (\<lambda>_.
        if fst section_range < offset then Fail SectionNotInOrder
        else if end > file_len then Fail OutOfBounds
        else Okay end)))))"

definition elf_parse :: "nat \<Rightarrow> u8 list \<Rightarrow> (ElfParserError, Elf64) outcome" where
  "elf_parse base bytes =
     and_then (parse_file_header base bytes) (\<lambda>(file_header_range, header).
     if bad_file_header header then Fail InvalidFileHeader
     else
       and_then (parse_program_header_table base bytes file_header_range header) (\<lambda>(ph_range, phs).
       and_then (parse_section_header_table base bytes file_header_range header ph_range) (\<lambda>(sh_range, shs).
       if shs = [] \<or> sh_type (hd shs) \<noteq> SHT_NULL then Fail InvalidSectionHeader
       else
         and_then (try_fold (check_program_header (length bytes)) 0 phs) (\<lambda>_.
         and_then (try_fold (check_section_header file_header_range ph_range sh_range (length bytes)) 0 shs) (\<lambda>_.
         and_then
           (if e_shstrndx header \<noteq> SHN_UNDEF
            then and_then (ok_or OutOfBounds (index_opt shs (unat (e_shstrndx header)))) (\<lambda>s. Okay (Some s))
            else Okay None) (\<lambda>names.
         let parser = \<lparr>elf64_bytes = bytes, file_header = header, program_header_table = phs,
               section_header_table = shs, section_names_section_header = names, symbol_section_header = None,
               symbol_names_section_header = None, dynamic_table = replicate DT_NUM 0,
               dynamic_relocations_table = None, dynamic_symbol_table = None,
               dynamic_symbol_names_section_header = None\<rparr> in
         and_then (parse_sections parser) (\<lambda>parser. parse_dynamic base parser)))))))"

end
