(* ===== verification/Elf_Loader.thy ===== *)
theory Elf_Loader
  imports Executable Elf_Parser
begin

text \<open>
  The first part of the loader of \<^verbatim>\<open>elf.rs\<close>: the version field, the conversion of errors, the
  search for a section by name, and the strict parser, which loads the versions with strict headers
  without relocation. \<open>mem_addr\<close> is the address of the aligned copy of the file.
\<close>

section \<open>Versions, errors and sections\<close>

definition elf_sbpf_version :: "u8 list \<Rightarrow> (ElfParserError, SBPFVersion) outcome" where
  "elf_sbpf_version bytes =
     and_then (ok_or OutOfBounds (slice_opt bytes 48 52)) (\<lambda>bs.
       let flags = le_word bs :: u32 in
       Okay (if flags = 0 then V0 else if flags = 1 then V1 else if flags = 2 then V2
             else if flags = 3 then V3 else if flags = 4 then V4 else Reserved))"

definition elf_error_from :: "ElfParserError \<Rightarrow> ElfError" where
  "elf_error_from err =
     (case err of
        ElfParserError.InvalidProgramHeader \<Rightarrow> ElfError.InvalidProgramHeader
      | OutOfBounds \<Rightarrow> ValueOutOfBounds
      | _ \<Rightarrow> FailedToParse (parser_message err))"

primrec get_section_from :: "Elf64 \<Rightarrow> u8 list \<Rightarrow> Elf64Shdr list \<Rightarrow> (ElfError, Elf64Shdr) outcome" where
  "get_section_from elf name [] =
     Fail (SectionNotFound (if valid_utf8 name then map (char_of \<circ> unat) name else ''UTF-8 error''))"
| "get_section_from elf name (s # ss) =
     and_then (map_fail elf_error_from (section_name elf (sh_name s))) (\<lambda>this.
       if this = name then Okay s else get_section_from elf name ss)"

definition get_section :: "Elf64 \<Rightarrow> u8 list \<Rightarrow> (ElfError, Elf64Shdr) outcome" where
  "get_section elf name = get_section_from elf name (section_header_table elf)"

section \<open>The strict parser\<close>

definition strict_bad_header :: "nat \<Rightarrow> nat \<Rightarrow> Elf64Ehdr \<Rightarrow> bool" where
  "strict_bad_header file_len table_end header \<longleftrightarrow>
     ei_mag (e_ident header) \<noteq> ELFMAG \<or>
     ei_class (e_ident header) \<noteq> ELFCLASS64 \<or>
     ei_data (e_ident header) \<noteq> ELFDATA2LSB \<or>
     ei_version (e_ident header) \<noteq> ucast EV_CURRENT \<or>
     ei_osabi (e_ident header) \<noteq> ELFOSABI_NONE \<or>
     ei_abiversion (e_ident header) \<noteq> 0 \<or>
     ei_pad (e_ident header) \<noteq> replicate 7 0 \<or>
     e_machine header \<noteq> EM_BPF \<or>
     e_version header \<noteq> EV_CURRENT \<or>
     e_phoff header \<noteq> of_nat SIZE_EHDR \<or>
     e_ehsize header \<noteq> of_nat SIZE_EHDR \<or>
     e_phentsize header \<noteq> of_nat SIZE_PHDR \<or>
     e_phnum header = 0 \<or>
     table_end > file_len"

text \<open>The body of the loop over the expected program headers: the next file offset.\<close>

definition strict_program_header :: "nat \<Rightarrow> u64 \<Rightarrow> Elf64Phdr \<times> u32 \<times> u64 \<Rightarrow> (ElfParserError, u64) outcome" where
  "strict_program_header file_len expected_offset = (\<lambda>(p, flags, vaddr).
     if p_type p \<noteq> PT_LOAD \<or> p_flags p \<noteq> flags \<or> p_offset p \<noteq> expected_offset \<or>
        file_len \<le> unat (p_offset p) \<or> p_offset p mod of_nat INSN_SIZE \<noteq> 0 \<or>
        p_vaddr p \<noteq> vaddr \<or> p_paddr p \<noteq> vaddr \<or> p_filesz p \<noteq> p_memsz p \<or>
        unat (p_filesz p) > file_len - unat (p_offset p) \<or>
        p_filesz p mod of_nat INSN_SIZE \<noteq> 0 \<or> MM_REGION_SIZE \<le> p_memsz p
     then Fail ElfParserError.InvalidProgramHeader
     else Okay (saturating_add expected_offset (p_filesz p)))"

abbreviation expected_program_headers :: "(u32 \<times> u64) list" where
  "expected_program_headers \<equiv> [(PF_R, MM_RODATA_START), (PF_X, MM_BYTECODE_START)]"

text \<open>The loop that registers the symbols of the symbol table, when labels are enabled.\<close>

definition strict_symbol ::
  "u8 list \<Rightarrow> Elf64Shdr \<Rightarrow> u64 \<Rightarrow> nat FunctionRegistry \<Rightarrow> Elf64Sym \<Rightarrow> (ElfParserError, nat FunctionRegistry) outcome" where
  "strict_symbol bytes names vaddr registry symbol =
     (if st_info symbol AND STT_FUNC = 0 then Okay registry
      else
        let target_pc = unat (saturating_sub (st_value symbol) vaddr) div INSN_SIZE in
        and_then (unwrapped (get_string_in_section bytes names (st_name symbol) 255)) (\<lambda>name.
        case register_function (of_nat target_pc) name target_pc registry of
          (Inl _, _) \<Rightarrow> None
        | (Inr _, registry) \<Rightarrow> Okay registry))"

definition strict_labels ::
  "nat \<Rightarrow> u8 list \<Rightarrow> nat \<times> nat \<Rightarrow> Elf64Ehdr \<Rightarrow> nat \<times> nat \<Rightarrow> u64 \<Rightarrow> (ElfParserError, nat FunctionRegistry) outcome" where
  "strict_labels mem_addr bytes header_range header table_range vaddr =
     and_then (unwrapped (parse_section_header_table mem_addr bytes header_range header table_range)) (\<lambda>(_, shs).
     and_then
       (if e_shstrndx header \<noteq> SHN_UNDEF then ok_or OutOfBounds (index_opt shs (unat (e_shstrndx header))) else None)
       (\<lambda>section_names.
     and_then
       (try_fold (\<lambda>(names, symbols) s.
          and_then (unwrapped (get_string_in_section bytes section_names (sh_name s) 64)) (\<lambda>name.
          Okay (if name = str_bytes ''.strtab'' then Some s else names,
                if name = str_bytes ''.symtab'' then Some s else symbols)))
        (None, None) shs) (\<lambda>(names, symbols).
     case (names, symbols) of
       (Some names, Some symbols) \<Rightarrow>
         and_then (unwrapped (slice_from_section_header SIZE_SYM read_sym mem_addr bytes symbols)) (\<lambda>table.
           try_fold (strict_symbol bytes names vaddr) FunctionRegistry_default table)
     | (None, None) \<Rightarrow> Okay FunctionRegistry_default
     | _ \<Rightarrow> Fail InvalidSectionHeader)))"

definition load_with_strict_parser ::
  "nat \<Rightarrow> u8 list \<Rightarrow> BuiltinProgram \<Rightarrow> (ElfParserError, Executable) outcome" where
  "load_with_strict_parser mem_addr bytes loader =
     and_then (parse_file_header mem_addr bytes) (\<lambda>(header_range, header).
     let table_range = (SIZE_EHDR,
           usize_saturating_add (usize_saturating_mul SIZE_PHDR (unat (e_phnum header))) SIZE_EHDR) in
     if strict_bad_header (length bytes) (snd table_range) header then Fail InvalidFileHeader
     else
       and_then (slice_from_bytes SIZE_PHDR read_phdr mem_addr bytes table_range) (\<lambda>phs.
       and_then (no_err (index_opt phs 0)) (\<lambda>ph0.
       let skip_rodata = (p_flags ph0 \<noteq> PF_R) in
       if \<not> skip_rodata \<and> e_phnum header < 2 then Fail InvalidFileHeader
       else
         and_then
           (try_fold (strict_program_header (length bytes)) (of_nat (snd table_range))
              (zip phs (if skip_rodata then tl expected_program_headers else expected_program_headers))) (\<lambda>_.
         and_then
           (if skip_rodata then Okay ((snd table_range, snd table_range), ph0)
            else and_then (no_err (index_opt phs 1)) (\<lambda>ph1. Okay (range_or_default (phdr_file_range ph0), ph1)))
           (\<lambda>(ro_section_range, bytecode_header).
         if \<not> in_range (phdr_vm_range bytecode_header)
                (saturating_sub (saturating_add (e_entry header) (of_nat INSN_SIZE)) 1) \<or>
            e_entry header mod of_nat INSN_SIZE \<noteq> 0
         then Fail InvalidFileHeader
         else
           and_then (no_err (get_config loader)) (\<lambda>config.
           and_then
             (if enable_symbol_and_section_labels config
              then strict_labels mem_addr bytes header_range header table_range (p_vaddr bytecode_header)
              else Okay FunctionRegistry_default) (\<lambda>registry.
           Okay \<lparr>elf_bytes = bytes, sbpf_version = Reserved,
             ro_section = Borrowed (unat MM_RODATA_START) ro_section_range,
             text_section_vaddr = p_vaddr bytecode_header,
             text_section_range = range_or_default (phdr_file_range bytecode_header),
             entry_pc = unat (saturating_sub (e_entry header) (p_vaddr bytecode_header)) div INSN_SIZE,
             ex_function_registry = registry, ex_loader = loader\<rparr>)))))))"

end
