(* ===== verification/Elf_Lenient.thy ===== *)
theory Elf_Lenient
  imports Elf_Loader
begin

text \<open>
  The second part of the loader of \<^verbatim>\<open>elf.rs\<close>: the lenient parser of the older versions, with the
  validation of the file, the relocation of calls and addresses, the collection of the read-only
  sections, and the entry point \<open>load\<close>. Relocation changes the bytes of the file, the registry of
  functions and a cache of hashes; the loader drops all three when it returns an error, so they are
  passed from step to step. \<open>hash_symbol_name\<close> is the hash of the \<open>hash32\<close> package.
\<close>

section \<open>Validation\<close>

definition starts_with :: "u8 list \<Rightarrow> string \<Rightarrow> bool" where
  "starts_with name prefix \<longleftrightarrow> take (length prefix) name = str_bytes prefix"

text \<open>The name of a section, if it has a valid one (\<open>if let Ok(name)\<close>, \<open>ok()\<close>).\<close>

definition name_ok :: "Elf64 \<Rightarrow> Elf64Shdr \<Rightarrow> u8 list option" where
  "name_ok elf s = (case section_name elf (sh_name s) of Some (Inr name) \<Rightarrow> Some name | _ \<Rightarrow> None)"

definition check_writable :: "Elf64 \<Rightarrow> unit \<Rightarrow> Elf64Shdr \<Rightarrow> (ElfError, unit) outcome" where
  "check_writable elf u s =
     (case name_ok elf s of
        None \<Rightarrow> Okay ()
      | Some name \<Rightarrow>
          if starts_with name ''.bss'' \<or>
             is_writable s \<and> starts_with name ''.data'' \<and> \<not> starts_with name ''.data.rel''
          then Fail (WritableSectionNotSupported (from_utf8_lossy name)) else Okay ())"

definition check_in_file :: "u8 list \<Rightarrow> unit \<Rightarrow> Elf64Shdr \<Rightarrow> (ElfError, unit) outcome" where
  "check_in_file bytes u s =
     and_then (ok_or ValueOutOfBounds (checked_add (sh_offset s) (sh_size s))) (\<lambda>end.
     and_then (ok_or ValueOutOfBounds (slice_opt bytes (unat (sh_offset s)) (unat end))) (\<lambda>_. Okay ()))"

definition validate :: "Elf64 \<Rightarrow> u8 list \<Rightarrow> (ElfError, unit) outcome" where
  "validate elf bytes =
     (let header = file_header elf in
      if ei_class (e_ident header) \<noteq> ELFCLASS64 then Fail WrongClass
      else if ei_data (e_ident header) \<noteq> ELFDATA2LSB then Fail WrongEndianess
      else if ei_osabi (e_ident header) \<noteq> ELFOSABI_NONE then Fail WrongAbi
      else if e_machine header \<noteq> EM_BPF \<and> e_machine header \<noteq> EM_SBPF then Fail WrongMachine
      else if e_type header \<noteq> ET_DYN then Fail WrongType
      else if length (filter (\<lambda>s. name_ok elf s = Some (str_bytes ''.text'')) (section_header_table elf)) \<noteq> 1
      then Fail NotOneTextSection
      else
        and_then (try_fold (check_writable elf) () (section_header_table elf)) (\<lambda>_.
        and_then (try_fold (check_in_file bytes) () (section_header_table elf)) (\<lambda>_.
        and_then (get_section elf (str_bytes ''.text'')) (\<lambda>text_section.
        if \<not> in_range (shdr_vm_range text_section) (e_entry header) then Fail EntrypointOutOfBounds
        else Okay ()))))"

section \<open>Read-only sections\<close>

text \<open>The local variables of \<open>parse_ro_sections\<close>.\<close>

record RoSections =
  lowest_addr :: nat
  highest_addr :: nat
  ro_fill_length :: nat
  invalid_offsets :: bool
  first_ro_section :: nat
  last_ro_section :: nat
  n_ro_sections :: nat
  ro_slices :: "(nat \<times> u8 list) list"

definition ro_section_names :: "u8 list list" where
  "ro_section_names = [str_bytes ''.text'', str_bytes ''.rodata'', str_bytes ''.data.rel.ro'', str_bytes ''.eh_frame'']"

text \<open>The body of its loop.\<close>

definition parse_ro_section ::
  "Config \<Rightarrow> u8 list \<Rightarrow> RoSections \<Rightarrow> nat \<times> u8 list option \<times> Elf64Shdr \<Rightarrow> (ElfError, RoSections) outcome" where
  "parse_ro_section config bytes st = (\<lambda>(i, name, s).
     if name = None \<or> the name \<notin> set ro_section_names then Okay st
     else
       let first = (if n_ro_sections st = 0 then i else first_ro_section st);
           invalid = (invalid_offsets st \<or> sh_addr s \<noteq> sh_offset s);
           vaddr_end = saturating_add (sh_addr s) MM_REGION_SIZE
       in if reject_broken_elfs config \<and> invalid \<or> vaddr_end > MM_STACK_START then Fail ValueOutOfBounds
          else
            and_then (ok_or ValueOutOfBounds
                (slice_opt bytes (fst (range_or_default (shdr_file_range s))) (snd (range_or_default (shdr_file_range s)))))
              (\<lambda>data.
               let addr = unat (sh_addr s) in
               Okay \<lparr>lowest_addr = min (lowest_addr st) addr,
                 highest_addr = max (highest_addr st) (usize_saturating_add addr (length data)),
                 ro_fill_length = usize_saturating_add (ro_fill_length st) (length data),
                 invalid_offsets = invalid, first_ro_section = first, last_ro_section = i,
                 n_ro_sections = usize_saturating_add (n_ro_sections st) 1,
                 ro_slices = ro_slices st @ [(addr, data)]\<rparr>))"

text \<open>\<open>copy_from_slice\<close> into a part of the buffer, which panics outside of it.\<close>

definition copy_slice :: "nat \<Rightarrow> u8 list \<Rightarrow> nat \<times> u8 list \<Rightarrow> (ElfError, u8 list) outcome" where
  "copy_slice lowest buf = (\<lambda>(addr, data).
     let start = usize_saturating_sub addr lowest; end = usize_saturating_add start (length data)
     in case slice_opt buf start end of
          None \<Rightarrow> None
        | Some part \<Rightarrow>
            if length part \<noteq> length data then None
            else Okay (take start buf @ data @ drop end buf))"

definition region_offset :: "nat \<Rightarrow> nat" where
  "region_offset lowest =
     (if unat MM_REGION_SIZE \<le> lowest then lowest else usize_saturating_add lowest (unat MM_REGION_SIZE))"

definition parse_ro_sections ::
  "Config \<Rightarrow> (u8 list option \<times> Elf64Shdr) list \<Rightarrow> u8 list \<Rightarrow> (ElfError, Section) outcome" where
  "parse_ro_sections config sections bytes =
     and_then
       (try_fold (parse_ro_section config bytes)
          \<lparr>lowest_addr = usize_max, highest_addr = 0, ro_fill_length = 0, invalid_offsets = False,
           first_ro_section = 0, last_ro_section = 0, n_ro_sections = 0, ro_slices = []\<rparr>
          (zip [0..<length sections] sections)) (\<lambda>st.
     if reject_broken_elfs config \<and> usize_saturating_add (lowest_addr st) (ro_fill_length st) > highest_addr st
     then Fail ValueOutOfBounds
     else
       let can_borrow = (\<not> invalid_offsets st \<and>
             usize_saturating_sub (usize_saturating_add (last_ro_section st) 1) (first_ro_section st) = n_ro_sections st)
       in if optimize_rodata config \<and> can_borrow
          then Okay (Borrowed (region_offset (lowest_addr st)) (lowest_addr st, highest_addr st))
          else
            let (lowest, buf_len) =
                  (if optimize_rodata config
                   then (lowest_addr st, usize_saturating_sub (highest_addr st) (lowest_addr st))
                   else (0, highest_addr st))
            in if buf_len > length bytes then Fail ValueOutOfBounds
               else
                 and_then (try_fold (copy_slice lowest) (replicate buf_len 0) (ro_slices st)) (\<lambda>buf.
                   Okay (Owned (region_offset lowest) buf)))"

section \<open>Relocation\<close>

datatype BpfRelocationType = R_Bpf_None | R_Bpf_64_64 | R_Bpf_64_Relative | R_Bpf_64_32

definition from_x86_relocation_type :: "u32 \<Rightarrow> BpfRelocationType option" where
  "from_x86_relocation_type from =
     (if from = R_X86_64_NONE then Some R_Bpf_None
      else if from = R_X86_64_64 then Some R_Bpf_64_64
      else if from = R_X86_64_RELATIVE then Some R_Bpf_64_Relative
      else if from = R_X86_64_32 then Some R_Bpf_64_32
      else None)"

abbreviation (input) "BYTE_OFFSET_IMMEDIATE \<equiv> 4 :: nat"
abbreviation (input) "BYTE_LENGTH_IMMEDIATE \<equiv> 4 :: nat"

text \<open>
  A little-endian value in the checked slice \<open>bytes.get(off..off.saturating_add(n))\<close>; reading
  from or writing to a slice that is too short panics.
\<close>

definition get_le :: "nat \<Rightarrow> u8 list \<Rightarrow> nat \<Rightarrow> (ElfError, 'a::len word) outcome" where
  "get_le n bytes off =
     and_then (ok_or ValueOutOfBounds (slice_opt bytes off (usize_saturating_add off n))) (\<lambda>bs.
       if length bs < n then None else Okay (le_word (take n bs)))"

definition put_le :: "nat \<Rightarrow> u8 list \<Rightarrow> nat \<Rightarrow> 'a::len word \<Rightarrow> (ElfError, u8 list) outcome" where
  "put_le n bytes off w =
     and_then (ok_or ValueOutOfBounds (slice_opt bytes off (usize_saturating_add off n))) (\<lambda>bs.
       if length bs < n then None else Okay (take off bytes @ le_bytes n w @ drop (off + n) bytes))"

text \<open>The result of a registration together with the registry afterwards, which an error drops.\<close>

definition registered :: "((ElfError + u32) \<times> 'r) option \<Rightarrow> (ElfError, u32 \<times> 'r) outcome" where
  "registered r = map_option (\<lambda>(res, registry). map_sum id (\<lambda>key. (key, registry)) res) r"

text \<open>The body of the loop over the instructions of the text section.\<close>

definition relocate_call ::
  "(u8 list \<Rightarrow> u32) \<Rightarrow> Config \<Rightarrow> BuiltinProgram \<Rightarrow> nat \<Rightarrow> u8 list \<times> nat FunctionRegistry \<Rightarrow> nat \<Rightarrow>
     (ElfError, u8 list \<times> nat FunctionRegistry) outcome" where
  "relocate_call hash_symbol_name config loader instruction_count = (\<lambda>(text, registry) i.
     and_then (no_err (get_insn text i)) (\<lambda>insn.
     if i_opc insn = CALL_IMM \<and> i_imm insn \<noteq> - 1 then
       let target_pc = int_clamp TYPE(64) (int_clamp TYPE(64) (int i + 1) + sint (i_imm insn)) in
       if target_pc < 0 \<or> int instruction_count \<le> target_pc then Fail (RelativeJumpOutOfBounds i)
       else
         let name = (if enable_symbol_and_section_labels config
                     then str_bytes (''function_'' @ decimal (nat target_pc)) else []) in
         and_then (registered
             (register_function_hashed_legacy hash_symbol_name of_nat loader True name (nat target_pc) registry))
           (\<lambda>(key, registry).
             and_then (put_le 4 text (usize_saturating_add (usize_saturating_mul i INSN_SIZE) 4) key) (\<lambda>text.
               Okay (text, registry)))
     else Okay (text, registry)))"

definition dynamic_symbol :: "Elf64 \<Rightarrow> Elf64Rel \<Rightarrow> (ElfError, Elf64Sym) outcome" where
  "dynamic_symbol elf relocation =
     ok_or (UnknownSymbol (unat (r_sym relocation)))
       (case dynamic_symbol_table elf of None \<Rightarrow> None | Some table \<Rightarrow> index_opt table (unat (r_sym relocation)))"

definition relocate_64_64 :: "Elf64 \<Rightarrow> Elf64Rel \<Rightarrow> u8 list \<Rightarrow> (ElfError, u8 list) outcome" where
  "relocate_64_64 elf relocation bytes =
     (let imm_offset = usize_saturating_add (unat (r_offset relocation)) BYTE_OFFSET_IMMEDIATE in
      and_then (get_le BYTE_LENGTH_IMMEDIATE bytes imm_offset) (\<lambda>refd :: u32.
      and_then (dynamic_symbol elf relocation) (\<lambda>symbol.
      let addr = saturating_add (st_value symbol) (ucast refd);
          addr = (if addr < MM_REGION_SIZE then saturating_add MM_REGION_SIZE addr else addr);
          imm_high_offset = usize_saturating_add imm_offset INSN_SIZE
      in
      and_then (put_le BYTE_LENGTH_IMMEDIATE bytes imm_offset (ucast (addr AND 0xFFFFFFFF) :: u32)) (\<lambda>bytes.
      put_le BYTE_LENGTH_IMMEDIATE bytes imm_high_offset
        (ucast (case checked_shr addr 32 of None \<Rightarrow> 0 | Some x \<Rightarrow> x) :: u32)))))"

definition relocate_relative :: "Elf64Shdr \<Rightarrow> Elf64Rel \<Rightarrow> u8 list \<Rightarrow> (ElfError, u8 list) outcome" where
  "relocate_relative text_section relocation bytes =
     (let offset = unat (r_offset relocation);
          imm_offset = usize_saturating_add offset BYTE_OFFSET_IMMEDIATE
      in
      if in_range (range_or_default (shdr_file_range text_section)) offset then
        let imm_high_offset = usize_saturating_add (usize_saturating_add offset INSN_SIZE) BYTE_OFFSET_IMMEDIATE in
        and_then (get_le BYTE_LENGTH_IMMEDIATE bytes imm_offset) (\<lambda>low :: u32.
        and_then (get_le BYTE_LENGTH_IMMEDIATE bytes imm_high_offset) (\<lambda>high :: u32.
        let refd_addr = (case checked_shl (ucast high :: u64) 32 of None \<Rightarrow> 0 | Some x \<Rightarrow> x) OR ucast low in
        if refd_addr = 0 then Fail (InvalidVirtualAddress refd_addr)
        else
          let refd_addr = (if refd_addr < MM_REGION_SIZE then saturating_add MM_REGION_SIZE refd_addr else refd_addr) in
          and_then (put_le BYTE_LENGTH_IMMEDIATE bytes imm_offset (ucast (refd_addr AND 0xFFFFFFFF) :: u32)) (\<lambda>bytes.
          put_le BYTE_LENGTH_IMMEDIATE bytes imm_high_offset
            (ucast (case checked_shr refd_addr 32 of None \<Rightarrow> 0 | Some x \<Rightarrow> x) :: u32))))
      else
        and_then (get_le BYTE_LENGTH_IMMEDIATE bytes imm_offset) (\<lambda>refd :: u32.
        put_le 8 bytes offset (saturating_add MM_REGION_SIZE (ucast refd))))"

type_synonym relocation_state = "u8 list \<times> nat FunctionRegistry \<times> (u32, u32) btree"

definition relocate_64_32 ::
  "(u8 list \<Rightarrow> u32) \<Rightarrow> Config \<Rightarrow> BuiltinProgram \<Rightarrow> Elf64 \<Rightarrow> Elf64Shdr \<Rightarrow> Elf64Rel \<Rightarrow> relocation_state \<Rightarrow>
     (ElfError, relocation_state) outcome" where
  "relocate_64_32 hash_symbol_name config loader elf text_section relocation = (\<lambda>(bytes, registry, cache).
     let offset = unat (r_offset relocation);
         imm_offset = usize_saturating_add offset BYTE_OFFSET_IMMEDIATE
     in
     and_then (dynamic_symbol elf relocation) (\<lambda>symbol.
     and_then (map_fail (\<lambda>_. UnknownSymbol (unat (st_name symbol))) (dynamic_symbol_name elf (st_name symbol))) (\<lambda>name.
     and_then
       (if is_function symbol \<and> st_value symbol \<noteq> 0 then
          if \<not> in_range (shdr_vm_range text_section) (st_value symbol) then Fail ValueOutOfBounds
          else
            let target_pc = unat (saturating_sub (st_value symbol) (sh_addr text_section)) div INSN_SIZE in
            and_then (registered
                (register_function_hashed_legacy hash_symbol_name of_nat loader True name target_pc registry))
              (\<lambda>(key, registry). Okay (key, registry, cache))
        else
          let hash = (case bt_get cache (st_name symbol) of Some hash \<Rightarrow> hash | None \<Rightarrow> hash_symbol_name name);
              cache = (if bt_get cache (st_name symbol) = None then bt_insert (st_name symbol) hash cache else cache)
          in if reject_broken_elfs config \<and> lookup_by_key (get_function_registry loader) hash = None
             then Fail (UnresolvedSymbol (from_utf8_lossy name) (offset div INSN_SIZE) offset)
             else Okay (hash, registry, cache)) (\<lambda>(key, registry, cache).
     and_then (put_le BYTE_LENGTH_IMMEDIATE bytes imm_offset key) (\<lambda>bytes.
     Okay (bytes, registry, cache))))))"

text \<open>The body of the loop over the relocations.\<close>

definition relocate_entry ::
  "(u8 list \<Rightarrow> u32) \<Rightarrow> Config \<Rightarrow> BuiltinProgram \<Rightarrow> Elf64 \<Rightarrow> Elf64Shdr \<Rightarrow> relocation_state \<Rightarrow> Elf64Rel \<Rightarrow>
     (ElfError, relocation_state) outcome" where
  "relocate_entry hash_symbol_name config loader elf text_section = (\<lambda>(bytes, registry, cache) relocation.
     case from_x86_relocation_type (r_type relocation) of
       Some R_Bpf_64_64 \<Rightarrow>
         and_then (relocate_64_64 elf relocation bytes) (\<lambda>bytes. Okay (bytes, registry, cache))
     | Some R_Bpf_64_Relative \<Rightarrow>
         and_then (relocate_relative text_section relocation bytes) (\<lambda>bytes. Okay (bytes, registry, cache))
     | Some R_Bpf_64_32 \<Rightarrow>
         relocate_64_32 hash_symbol_name config loader elf text_section relocation (bytes, registry, cache)
     | _ \<Rightarrow> Fail (UnknownRelocation (r_type relocation)))"

text \<open>The body of the loop over the symbol table, when labels are enabled.\<close>

definition relocate_symbol ::
  "(u8 list \<Rightarrow> u32) \<Rightarrow> BuiltinProgram \<Rightarrow> Elf64 \<Rightarrow> Elf64Shdr \<Rightarrow> nat FunctionRegistry \<Rightarrow> Elf64Sym \<Rightarrow>
     (ElfError, nat FunctionRegistry) outcome" where
  "relocate_symbol hash_symbol_name loader elf text_section registry symbol =
     (if st_info symbol AND 0xEF \<noteq> 0x02 then Okay registry
      else if \<not> in_range (shdr_vm_range text_section) (st_value symbol) then Fail ValueOutOfBounds
      else
        let target_pc = unat (saturating_sub (st_value symbol) (sh_addr text_section)) div INSN_SIZE in
        and_then (map_fail (\<lambda>_. UnknownSymbol (unat (st_name symbol))) (symbol_name elf (st_name symbol))) (\<lambda>name.
        and_then (registered
            (register_function_hashed_legacy hash_symbol_name of_nat loader True name target_pc registry))
          (\<lambda>(_, registry). Okay registry)))"

definition relocate ::
  "(u8 list \<Rightarrow> u32) \<Rightarrow> nat \<Rightarrow> nat FunctionRegistry \<Rightarrow> BuiltinProgram \<Rightarrow> Elf64 \<Rightarrow> u8 list \<Rightarrow>
     (ElfError, u8 list \<times> nat FunctionRegistry) outcome" where
  "relocate hash_symbol_name base registry loader elf bytes =
     and_then (get_section elf (str_bytes ''.text'')) (\<lambda>text_section.
     and_then (no_err (get_config loader)) (\<lambda>config.
     let (text_start, text_end) = range_or_default (shdr_file_range text_section) in
     and_then (ok_or ValueOutOfBounds (slice_opt bytes text_start text_end)) (\<lambda>text.
     let instruction_count = length text div INSN_SIZE in
     and_then (try_fold (relocate_call hash_symbol_name config loader instruction_count) (text, registry)
        [0..<instruction_count]) (\<lambda>(text, registry).
     let bytes = take text_start bytes @ text @ drop text_end bytes in
     and_then (try_fold (relocate_entry hash_symbol_name config loader elf text_section) (bytes, registry, [])
        (case dynamic_relocations_table elf of None \<Rightarrow> [] | Some table \<Rightarrow> table)) (\<lambda>(bytes, registry, _).
     if enable_symbol_and_section_labels config then
       and_then (try_fold (relocate_symbol hash_symbol_name loader elf text_section) registry
          (case symbol_table base elf of Some (Inr (Some table)) \<Rightarrow> table | _ \<Rightarrow> [])) (\<lambda>registry.
       Okay (bytes, registry))
     else Okay (bytes, registry))))))"

section \<open>Loading\<close>

lemma registered_eq_iff [result_iff]: "registered r = Okay (k, registry) \<longleftrightarrow> r = Some (Inr k, registry)"
  by (auto simp: registered_def map_sum_eq_Inr_iff)

definition load_with_lenient_parser ::
  "(u8 list \<Rightarrow> u32) \<Rightarrow> nat \<Rightarrow> nat \<Rightarrow> u8 list \<Rightarrow> BuiltinProgram \<Rightarrow> (ElfError, Executable) outcome" where
  "load_with_lenient_parser hash_symbol_name src_addr mem_addr bytes loader =
     (let base = (if src_addr mod HOST_ALIGN = 0 then src_addr else mem_addr) in
      and_then (map_fail elf_error_from (elf_parse base bytes)) (\<lambda>elf.
      and_then (no_err (get_config loader)) (\<lambda>config.
      let header = file_header elf in
      and_then (validate elf bytes) (\<lambda>_.
      and_then (get_section elf (str_bytes ''.text'')) (\<lambda>text_section.
      let text_vaddr = saturating_add (sh_addr text_section) MM_REGION_SIZE in
      if reject_broken_elfs config \<and> sh_addr text_section \<noteq> sh_offset text_section \<or> text_vaddr > MM_STACK_START
      then Fail ValueOutOfBounds
      else
        and_then (relocate hash_symbol_name base FunctionRegistry_default loader elf bytes) (\<lambda>(relocated, registry).
        let offset = saturating_sub (e_entry header) (sh_addr text_section) in
        if offset mod of_nat INSN_SIZE \<noteq> 0 then Fail InvalidEntrypoint
        else
          let pc = unat offset div INSN_SIZE;
              registry = snd (unregister_function (hash_symbol_name (str_bytes ''entrypoint'')) registry)
          in
          and_then (registered
              (register_function_hashed_legacy hash_symbol_name of_nat loader True (str_bytes ''entrypoint'') pc registry))
            (\<lambda>(_, registry).
              and_then (parse_ro_sections config (map (\<lambda>s. (name_ok elf s, s)) (section_header_table elf)) relocated) (\<lambda>ro.
              let ro_vaddr = of_nat (case ro of Owned offset _ \<Rightarrow> offset | Borrowed offset _ \<Rightarrow> offset) :: u64 in
              and_then
                (if optimize_rodata config
                 then ensure ((case checked_shr ro_vaddr VIRTUAL_ADDRESS_BITS of None \<Rightarrow> 0 | Some x \<Rightarrow> x) = 1) ValueOutOfBounds
                 else no_err (debug_assert (ro_vaddr = MM_REGION_SIZE) ())) (\<lambda>_.
              Okay \<lparr>elf_bytes = relocated, sbpf_version = Reserved, ro_section = ro, text_section_vaddr = text_vaddr,
                text_section_range = range_or_default (shdr_file_range text_section), entry_pc = pc,
                ex_function_registry = registry, ex_loader = loader\<rparr>)))))))))"

definition load ::
  "(u8 list \<Rightarrow> u32) \<Rightarrow> nat \<Rightarrow> nat \<Rightarrow> u8 list \<Rightarrow> BuiltinProgram \<Rightarrow> (ElfError, Executable) outcome" where
  "load hash_symbol_name src_addr mem_addr bytes loader =
     and_then (map_fail elf_error_from (elf_sbpf_version bytes)) (\<lambda>version.
     and_then (no_err (get_config loader)) (\<lambda>config.
     if \<not> (fst (enabled_sbpf_versions config) \<le> version \<and> version \<le> snd (enabled_sbpf_versions config))
     then Fail UnsupportedSBPFVersion
     else
       and_then
         (if enable_stricter_elf_headers version
          then map_fail elf_error_from (load_with_strict_parser mem_addr bytes loader)
          else load_with_lenient_parser hash_symbol_name src_addr mem_addr bytes loader) (\<lambda>ex.
       Okay (ex\<lparr>sbpf_version := version\<rparr>))))"

end
