(* ===== verification/Elf_Lemmas.thy ===== *)
theory Elf_Lemmas
  imports Elf_Lenient
begin

text \<open>
  What a successful load by the strict parser guarantees: the segments lie in the file one after the
  other and the entry point is an instruction of the text segment.
\<close>

section \<open>Words\<close>

lemma unat_saturating_sub: "unat (saturating_sub a b) = unat a - unat b" for a b :: "'a::len word"
  by (auto simp: saturating_sub_def word_le_nat_alt unat_sub)

lemma mod_8_iff: "x mod 8 = 0 \<longleftrightarrow> unat x mod 8 = 0" for x :: u64
  by (simp flip: unat_eq_zero add: unat_mod)

lemma in_range_iff: "in_range (a, b) x \<longleftrightarrow> unat a \<le> unat x \<and> unat x < unat b" for x :: u64
  by (simp add: in_range_def word_le_nat_alt word_less_nat_alt)

section \<open>Tables\<close>

lemma length_slice_from_bytes:
  assumes "slice_from_bytes size_of read base bytes (a, b) = Okay xs"
  shows "length xs = (b - a) div size_of" "a \<le> b" "b \<le> length bytes"
  using assms by (auto simp: slice_from_bytes_def result_iff Let_def slice_opt_eq_Some_iff split: if_split_asm)

lemma parse_file_header_Okay:
  "parse_file_header base bytes = Okay (r, h) \<longleftrightarrow>
     64 \<le> length bytes \<and> base mod 8 = 0 \<and> r = (0, 64) \<and> h = read_ehdr (take 64 bytes)"
  by (auto simp: parse_file_header_def result_iff slice_opt_eq_Some_iff)

section \<open>The strict parser\<close>

text \<open>A segment at a file offset, with the address and the properties that the strict parser asks for.\<close>

definition strict_segment :: "nat \<Rightarrow> u64 \<Rightarrow> u64 \<Rightarrow> Elf64Phdr \<Rightarrow> bool" where
  "strict_segment file_len off vaddr p \<longleftrightarrow>
     p_type p = 1 \<and> p_offset p = off \<and> p_vaddr p = vaddr \<and> p_memsz p = p_filesz p \<and>
     unat off mod 8 = 0 \<and> unat (p_filesz p) mod 8 = 0 \<and> unat (p_filesz p) < 2 ^ 32 \<and>
     unat off + unat (p_filesz p) \<le> file_len"

lemma strict_program_header_Okay:
  assumes "strict_program_header file_len off (p, flags, vaddr) = Okay off'"
  shows "strict_segment file_len off vaddr p \<and> off' = saturating_add off (p_filesz p)"
  using assms
  by (auto simp: strict_program_header_def strict_segment_def mod_8_iff MM_REGION_SIZE_def not_le word_less_nat_alt
      split: if_split_asm)

lemma strict_segment_range:
  assumes "strict_segment file_len off vaddr p" and "file_len < 2 ^ 63"
  shows "phdr_file_range p = Some (unat off, unat off + unat (p_filesz p))"
    "unat (saturating_add off (p_filesz p)) = unat off + unat (p_filesz p)"
  using assms by (auto simp: strict_segment_def phdr_file_range_def usize_saturating_add_def unat_saturating_add)

lemma strict_entry:
  assumes "strict_segment file_len off MM_BYTECODE_START p"
    and "in_range (phdr_vm_range p) (saturating_sub (saturating_add entry 8) 1)" and "entry mod 8 = 0"
  shows "unat (saturating_sub entry (p_vaddr p)) div 8 < unat (p_filesz p) div 8"
proof -
  have m: "unat (MM_BYTECODE_START) = 2 ^ 32" "unat (p_vaddr p) = 2 ^ 32" "p_memsz p = p_filesz p"
    using assms(1) by (simp_all add: strict_segment_def MM_BYTECODE_START_def MM_REGION_SIZE_def)
  have size: "unat (p_filesz p) < 2 ^ 32"
    using assms(1) by (simp add: strict_segment_def)
  have "unat (p_filesz p) mod 8 = 0" "unat entry mod 8 = 0"
    using assms(1,3) by (simp_all add: strict_segment_def mod_8_iff)
  then obtain f e where ef: "unat (p_filesz p) = 8 * f" "unat entry = 8 * e"
    by (auto elim!: dvdE)
  have "min (unat entry + 8) (2 ^ 64 - 1) - 1 < 2 ^ 32 + unat (p_filesz p)"
    "2 ^ 32 \<le> min (unat entry + 8) (2 ^ 64 - 1) - 1"
    using assms(2) m size by (simp_all add: phdr_vm_range_def in_range_iff unat_saturating_add unat_saturating_sub)
  then have "8 * e + 7 < 2 ^ 32 + 8 * f" "2 ^ 32 \<le> 8 * e + 7"
    using size unfolding ef by (auto simp: min_def split: if_split_asm)
  then have "e - 2 ^ 29 < f"
    by simp
  moreover have "unat (saturating_sub entry (p_vaddr p)) = 8 * (e - 2 ^ 29)"
    by (simp add: unat_saturating_sub m ef diff_mult_distrib2)
  ultimately show ?thesis
    by (simp add: ef)
qed

definition well_placed :: "u8 list \<Rightarrow> Executable \<Rightarrow> bool" where
  "well_placed bytes ex \<longleftrightarrow>
     (\<exists>c d a b. ro_section ex = Borrowed 0 (c, d) \<and> text_section_range ex = (a, b) \<and>
        c \<le> d \<and> d \<le> a \<and> a \<le> b \<and> b \<le> length bytes \<and> (b - a) mod 8 = 0 \<and> entry_pc ex < (b - a) div 8)"

lemma strict_header_phnum: "\<not> strict_bad_header n k header \<Longrightarrow> e_phnum header \<noteq> 0"
  by (simp add: strict_bad_header_def)

lemma strict_load_cases:
  assumes "load_with_strict_parser mem_addr bytes loader = Okay ex"
  obtains header table_end phs ph0 off ro seg registry where
    "header = read_ehdr (take 64 bytes)" "table_end = usize_saturating_add (usize_saturating_mul 56 (unat (e_phnum header))) 64"
    "e_phnum header \<noteq> 0" "slice_from_bytes 56 read_phdr mem_addr bytes (64, table_end) = Okay phs"
    "index_opt phs 0 = Some ph0" "p_flags ph0 = 4 \<Longrightarrow> 2 \<le> e_phnum header"
    "try_fold (strict_program_header (length bytes)) (of_nat table_end)
       (zip phs (if p_flags ph0 \<noteq> 4 then [(1, MM_BYTECODE_START)] else [(4, MM_RODATA_START), (1, MM_BYTECODE_START)])) = Okay off"
    "if p_flags ph0 \<noteq> 4 then ro = (table_end, table_end) \<and> seg = ph0
     else index_opt phs 1 = Some seg \<and> ro = range_or_default (phdr_file_range ph0)"
    "in_range (phdr_vm_range seg) (saturating_sub (saturating_add (e_entry header) 8) 1)" "e_entry header mod 8 = 0"
    "ex = \<lparr>elf_bytes = bytes, sbpf_version = Reserved, ro_section = Borrowed 0 ro, text_section_vaddr = p_vaddr seg,
       text_section_range = range_or_default (phdr_file_range seg),
       entry_pc = unat (saturating_sub (e_entry header) (p_vaddr seg)) div 8, ex_function_registry = registry, ex_loader = loader\<rparr>"
  using assms
  by (auto simp: load_with_strict_parser_def result_iff Let_def parse_file_header_Okay not_less
      MM_RODATA_START_def dest: strict_header_phnum split: if_split_asm)

lemma strict_load:
  assumes "load_with_strict_parser mem_addr bytes loader = Okay ex" and len: "length bytes < 2 ^ 63"
  shows "well_placed bytes ex \<and> elf_bytes ex = bytes \<and> ex_loader ex = loader \<and> text_section_vaddr ex = MM_BYTECODE_START"
  using assms(1)
proof (rule strict_load_cases)
  fix header table_end phs ph0 off ro seg registry
  assume te: "table_end = usize_saturating_add (usize_saturating_mul 56 (unat (e_phnum header))) 64"
    and nz: "e_phnum header \<noteq> 0" and phs: "slice_from_bytes 56 read_phdr mem_addr bytes (64, table_end) = Okay phs"
    and ph0: "index_opt phs 0 = Some ph0" and two: "p_flags ph0 = 4 \<Longrightarrow> 2 \<le> e_phnum header"
    and fold: "try_fold (strict_program_header (length bytes)) (of_nat table_end)
       (zip phs (if p_flags ph0 \<noteq> 4 then [(1, MM_BYTECODE_START)] else [(4, MM_RODATA_START), (1, MM_BYTECODE_START)])) = Okay off"
    and seg: "if p_flags ph0 \<noteq> 4 then ro = (table_end, table_end) \<and> seg = ph0
       else index_opt phs 1 = Some seg \<and> ro = range_or_default (phdr_file_range ph0)"
    and entry: "in_range (phdr_vm_range seg) (saturating_sub (saturating_add (e_entry header) 8) 1)" "e_entry header mod 8 = 0"
    and ex: "ex = \<lparr>elf_bytes = bytes, sbpf_version = Reserved, ro_section = Borrowed 0 ro, text_section_vaddr = p_vaddr seg,
       text_section_range = range_or_default (phdr_file_range seg),
       entry_pc = unat (saturating_sub (e_entry header) (p_vaddr seg)) div 8, ex_function_registry = registry, ex_loader = loader\<rparr>"
  have te_le: "table_end \<le> length bytes" and te_word: "unat (of_nat table_end :: u64) = table_end"
    using length_slice_from_bytes(3) [OF phs] len by (simp_all add: unsigned_of_nat take_bit_nat_eq_self)
  obtain off' where seg_ok: "strict_segment (length bytes) off' MM_BYTECODE_START seg"
    and ro: "fst ro \<le> snd ro" "snd ro = unat off'"
  proof (cases "p_flags ph0 = 4")
    case False
    then have "strict_segment (length bytes) (of_nat table_end) MM_BYTECODE_START seg"
      using fold ph0 seg by (cases phs) (auto simp: index_opt_def result_iff dest: strict_program_header_Okay)
    with that [of "of_nat table_end"] seg False te_word show thesis
      by simp
  next
    case True
    then obtain ps where "phs = ph0 # seg # ps"
      using ph0 seg by (cases phs; cases "tl phs") (auto simp: index_opt_def)
    then have "strict_segment (length bytes) (of_nat table_end) MM_RODATA_START ph0"
      "strict_segment (length bytes) (saturating_add (of_nat table_end) (p_filesz ph0)) MM_BYTECODE_START seg"
      using fold True by (auto simp: result_iff dest!: strict_program_header_Okay)
    with that [of "saturating_add (of_nat table_end) (p_filesz ph0)"] True seg
      strict_segment_range [of "length bytes" "of_nat table_end" MM_RODATA_START ph0] len te_word show thesis
      by (simp add: range_or_default_def)
  qed
  have "text_section_range ex = (unat off', unat off' + unat (p_filesz seg))"
    using strict_segment_range(1) [OF seg_ok len] by (simp add: ex range_or_default_def)
  moreover have "entry_pc ex < unat (p_filesz seg) div 8"
    using strict_entry [OF seg_ok entry] by (simp add: ex)
  moreover have "ro_section ex = Borrowed 0 (fst ro, snd ro)"
    by (simp add: ex)
  ultimately show ?thesis
    using seg_ok ro unfolding well_placed_def by (auto simp: strict_segment_def ex)
qed

end
