(* ===== verification/Elf_Lenient_Lemmas.thy ===== *)
theory Elf_Lenient_Lemmas
  imports Elf_Lemmas
begin

text \<open>
  What a successful load by the lenient parser guarantees: relocation keeps the length of the
  file, the text section is one of the sections of the file, the entry point is in it, and the
  read-only data is not longer than the file.
\<close>

section \<open>Relocation\<close>

lemma get_section_in_table:
  assumes "get_section elf name = Okay s"
  shows "s \<in> set (section_header_table elf)"
proof -
  have "get_section_from elf name ss = Okay s \<Longrightarrow> s \<in> set ss" for ss
    by (induction ss) (auto simp: result_iff split: if_split_asm)
  then show ?thesis
    using assms by (simp add: get_section_def)
qed

lemma put_le_length:
  assumes "put_le n bytes off w = Okay bytes'"
  shows "length bytes' = length bytes"
proof -
  have "off \<le> length bytes" "off + n \<le> length bytes"
    using assms by (auto simp: put_le_def result_iff slice_opt_eq_Some_iff not_less split: if_split_asm)
  with assms show ?thesis
    by (auto simp: put_le_def result_iff split: if_split_asm)
qed

lemma relocate_call_length:
  "relocate_call h config loader n (text, r) i = Okay (text', r') \<Longrightarrow> length text' = length text"
  by (auto simp: relocate_call_def result_iff Let_def put_le_length split: if_split_asm)

lemma relocate_64_64_length: "relocate_64_64 elf rel bytes = Okay bytes' \<Longrightarrow> length bytes' = length bytes"
  by (auto simp: relocate_64_64_def result_iff Let_def dest!: put_le_length)

lemma relocate_relative_length: "relocate_relative ts rel bytes = Okay bytes' \<Longrightarrow> length bytes' = length bytes"
  by (auto simp: relocate_relative_def result_iff Let_def dest!: put_le_length split: if_split_asm)

lemma relocate_64_32_length:
  "relocate_64_32 h config loader elf ts rel (bytes, r, c) = Okay (bytes', r', c') \<Longrightarrow> length bytes' = length bytes"
  by (auto simp: relocate_64_32_def result_iff Let_def dest!: put_le_length)

lemma relocate_entry_length:
  "relocate_entry h config loader elf ts (bytes, r, c) rel = Okay (bytes', r', c') \<Longrightarrow> length bytes' = length bytes"
  by (auto simp: relocate_entry_def result_iff relocate_64_64_length relocate_relative_length relocate_64_32_length
      split: option.split_asm BpfRelocationType.split_asm)

lemma relocate_calls_length:
  assumes "try_fold (relocate_call h config loader n) (t, r) xs = Okay (t', r')"
  shows "length t' = length t"
  using try_fold_invariant [OF assms, of "\<lambda>(u, _). length u = length t"] relocate_call_length by fastforce

lemma relocate_entries_length:
  assumes "try_fold (relocate_entry h config loader elf ts) (bytes, r, c) xs = Okay (bytes', r', c')"
  shows "length bytes' = length bytes"
  using try_fold_invariant [OF assms, of "\<lambda>(b, _). length b = length bytes"] relocate_entry_length by fastforce

lemma relocate_length:
  assumes "relocate h base r loader elf bytes = Okay (bytes', r')"
  shows "length bytes' = length bytes"
  using assms
  by (auto simp: relocate_def result_iff Let_def slice_opt_eq_Some_iff case_prod_beta
      dest!: relocate_calls_length relocate_entries_length split: if_split_asm)

section \<open>Read-only sections\<close>

lemma copy_slice_length: "copy_slice lowest buf x = Okay buf' \<Longrightarrow> length buf' = length buf"
  by (auto simp: copy_slice_def Let_def slice_opt_eq_Some_iff case_prod_beta split: option.split_asm if_split_asm)

lemma ro_data_length:
  assumes "parse_ro_sections config sections bytes = Okay (Owned offset data)"
  shows "length data \<le> length bytes"
proof -
  have "length buf' = length buf" if "try_fold (copy_slice lowest) buf xs = Okay buf'" for lowest buf xs buf'
    using try_fold_invariant [OF that, of "\<lambda>b. length b = length buf"] copy_slice_length by fastforce
  then show ?thesis
    using assms by (auto simp: parse_ro_sections_def result_iff Let_def split: if_split_asm)
qed

section \<open>Loading\<close>

lemma validate_entry:
  assumes "validate elf bytes = Okay ()" and "get_section elf (str_bytes ''.text'') = Okay ts"
  shows "in_range (shdr_vm_range ts) (e_entry (file_header elf))"
  using assms by (auto simp: validate_def result_iff Let_def split: if_split_asm)

lemma validate_in_file:
  assumes "validate elf bytes = Okay ()" and "s \<in> set (section_header_table elf)"
  shows "unat (sh_offset s) + unat (sh_size s) \<le> length bytes"
proof -
  have "try_fold (check_in_file bytes) () (section_header_table elf) = Okay ()"
    using assms(1) by (auto simp: validate_def result_iff Let_def split: if_split_asm)
  then obtain u v where "check_in_file bytes u s = Okay v"
    using assms(2) by (rule try_fold_each)
  then show ?thesis
    by (auto simp: check_in_file_def result_iff slice_opt_eq_Some_iff checked_add_def unat_word_ariths
        split: if_split_asm)
qed

lemma lenient_load_cases:
  assumes "load_with_lenient_parser h src_addr mem_addr bytes loader = Okay ex"
  obtains base elf config ts relocated ro where
    "elf_parse base bytes = Okay elf" "get_config loader = Some config"
    "validate elf bytes = Okay ()" "get_section elf (str_bytes ''.text'') = Okay ts"
    "saturating_add (sh_addr ts) MM_REGION_SIZE \<le> MM_STACK_START"
    "8 dvd saturating_sub (e_entry (file_header elf)) (sh_addr ts)"
    "length relocated = length bytes"
    "parse_ro_sections config (map (\<lambda>s. (name_ok elf s, s)) (section_header_table elf)) relocated = Okay ro"
    "elf_bytes ex = relocated" "ro_section ex = ro" "text_section_vaddr ex = saturating_add (sh_addr ts) MM_REGION_SIZE"
    "text_section_range ex = range_or_default (shdr_file_range ts)"
    "entry_pc ex = unat (saturating_sub (e_entry (file_header elf)) (sh_addr ts)) div 8" "ex_loader ex = loader"
  using assms
  by (auto simp: load_with_lenient_parser_def result_iff Let_def not_less dest!: relocate_length split: if_split_asm)

end
