(* ===== verification/Elf_Safety.thy ===== *)
theory Elf_Safety
  imports Elf_Lenient_Lemmas
begin

text \<open>
  Parsing and loading do not panic, whatever the bytes of the file are. The lemmas of the
  collection \<open>no_panic\<close> say of each operation that it has an outcome; the operations that copy or
  patch bytes rest on the bounds that the loader has checked before.
\<close>

declare not_None_eq [iff del]

named_theorems no_panic \<open>operations that do not panic\<close>

lemma try_fold_total [no_panic]: "(\<And>s x. f s x \<noteq> None) \<Longrightarrow> try_fold f s xs \<noteq> None"
  by (rule try_fold_neq_None)

text \<open>A loop whose iterations need an invariant.\<close>

lemma try_fold_total_inv:
  assumes "I s" and "\<And>s x. x \<in> set xs \<Longrightarrow> I s \<Longrightarrow> f s x \<noteq> None"
    and "\<And>s x t. x \<in> set xs \<Longrightarrow> I s \<Longrightarrow> f s x = Okay t \<Longrightarrow> I t"
  shows "try_fold f s xs \<noteq> None"
  using assms
proof (induction xs arbitrary: s)
  case (Cons x xs)
  then show ?case
    by (simp add: and_then_eq_None_iff) blast
qed simp

section \<open>The parser\<close>

lemma slice_total [no_panic]:
  "slice_from_bytes size_of read base bytes rng \<noteq> None"
  "slice_from_program_header size_of read base bytes p \<noteq> None"
  "slice_from_section_header size_of read base bytes s \<noteq> None"
  by (auto simp: slice_from_bytes_def slice_from_program_header_def slice_from_section_header_def Let_def result_iff
     )

lemma get_string_in_section_total [no_panic]: "get_string_in_section bytes s off n \<noteq> None"
  by (auto simp: get_string_in_section_def result_iff)

lemma names_total [no_panic]: "section_name elf n \<noteq> None" "symbol_name elf n \<noteq> None" "dynamic_symbol_name elf n \<noteq> None"
  by (auto simp: section_name_def symbol_name_def dynamic_symbol_name_def result_iff no_panic)

lemma overlap_total [no_panic]: "check_that_there_is_no_overlap a b \<noteq> None"
  by (simp add: check_that_there_is_no_overlap_def)

lemma header_tables_total [no_panic]:
  "parse_file_header base bytes \<noteq> None" "parse_program_header_table base bytes r h \<noteq> None"
  "parse_section_header_table base bytes r h t \<noteq> None"
  by (auto simp: parse_file_header_def parse_program_header_table_def parse_section_header_table_def Let_def result_iff
      no_panic)

lemma parse_sections_total [no_panic]: "parse_sections elf \<noteq> None"
  by (auto simp: parse_sections_def parse_section_def result_iff no_panic)

lemma program_header_for_vaddr_total [no_panic]: "program_header_for_vaddr ps vaddr \<noteq> None"
  by (induction ps) (auto simp: result_iff)

lemma symbol_table_of_section_total [no_panic]: "get_symbol_table_of_section base elf s \<noteq> None"
  by (auto simp: get_symbol_table_of_section_def no_panic)

lemma dynamic_tables_total [no_panic]:
  "parse_dynamic_relocations base elf \<noteq> None" "parse_dynamic_symbol_table base elf \<noteq> None"
  by (auto simp: parse_dynamic_relocations_def parse_dynamic_symbol_table_def Let_def result_iff no_panic
      split: option.split)

lemma parse_dynamic_total [no_panic]: "parse_dynamic base elf \<noteq> None"
  by (auto simp: parse_dynamic_def Let_def result_iff no_panic split: option.split_asm)

lemma check_headers_total [no_panic]:
  "check_program_header n vaddr p \<noteq> None" "check_section_header a b c n off s \<noteq> None"
  by (auto simp: check_program_header_def check_section_header_def Let_def result_iff no_panic)

lemma elf_parse_total [no_panic]: "elf_parse base bytes \<noteq> None"
  by (auto simp: elf_parse_def Let_def result_iff no_panic split: if_split_asm)

section \<open>Relocation\<close>

lemma get_section_total [no_panic]: "get_section elf name \<noteq> None"
proof -
  have "get_section_from elf name ss \<noteq> None" for ss
    by (induction ss) (auto simp: result_iff no_panic)
  then show ?thesis
    by (simp add: get_section_def)
qed

lemma checks_total [no_panic]: "check_writable elf u s \<noteq> None" "check_in_file bytes u s \<noteq> None"
  by (auto simp: check_writable_def check_in_file_def result_iff split: option.split)

lemma validate_total [no_panic]: "validate elf bytes \<noteq> None"
  by (auto simp: validate_def Let_def result_iff no_panic)

lemma registered_total [no_panic]:
  assumes "get_config loader = Some config"
  shows "registered (register_function_hashed_legacy h usize_from loader b name v r) \<noteq> None"
  using assms by (auto simp: registered_def register_function_hashed_legacy_def Let_def case_prod_beta)

lemma access_total:
  assumes "length bytes < 2 ^ 63"
  shows "n < 2 ^ 63 \<Longrightarrow> (get_le n bytes off :: (ElfError, 'a::len word) outcome) \<noteq> None"
    "n < 2 ^ 63 \<Longrightarrow> put_le n bytes off w \<noteq> None"
  using assms
  by (auto simp: get_le_def put_le_def result_iff slice_opt_eq_Some_iff usize_saturating_add_def)

lemma relocate_call_total:
  assumes "get_config loader = Some config" and "length code < 2 ^ 63" and "i < length code div 8"
  shows "relocate_call h config loader n (code, r) i \<noteq> None"
proof -
  have "get_insn code i \<noteq> None"
    using get_insn_total [of i code] assms by auto
  then show ?thesis
    using assms by (auto simp: relocate_call_def Let_def result_iff no_panic access_total)
qed

lemma dynamic_symbol_total [no_panic]: "dynamic_symbol elf rel \<noteq> None"
  by (simp add: dynamic_symbol_def result_iff)

lemma relocate_entry_total:
  assumes "get_config loader = Some config" and "length bytes < 2 ^ 63"
  shows "relocate_entry h config loader elf ts (bytes, r, c) rel \<noteq> None"
proof -
  have "relocate_64_64 elf rel bytes \<noteq> None"
    using assms(2) by (auto simp: relocate_64_64_def Let_def result_iff no_panic access_total dest!: put_le_length)
  moreover have "relocate_relative ts rel bytes \<noteq> None"
    using assms(2) by (auto simp: relocate_relative_def Let_def result_iff no_panic access_total dest!: put_le_length)
  moreover have "relocate_64_32 h config loader elf ts rel (bytes, r, c) \<noteq> None"
    using assms by (auto simp: relocate_64_32_def Let_def result_iff no_panic access_total)
  ultimately show ?thesis
    by (auto simp: relocate_entry_def result_iff split: option.split BpfRelocationType.split)
qed

lemma relocate_total:
  assumes config: "get_config loader = Some config" and len: "length bytes < 2 ^ 63"
  shows "relocate h base r loader elf bytes \<noteq> None"
proof -
  have calls: "try_fold (relocate_call h config loader n) (t, r) [0..<k] \<noteq> None"
    if "length t < 2 ^ 63" "k \<le> length t div 8" for n t r k
    by (rule try_fold_total_inv [where I = "\<lambda>(u, _). length u = length t"])
      (use relocate_call_total [OF config] relocate_call_length that in fastforce)+
  have entries: "try_fold (relocate_entry h config loader elf ts) (b, r, c) xs \<noteq> None"
    if "length b < 2 ^ 63" for ts b r c xs
    by (rule try_fold_total_inv [where I = "\<lambda>(u, _). length u = length b"])
      (use relocate_entry_total [OF config] relocate_entry_length that in fastforce)+
  have symbols: "relocate_symbol h loader elf ts r s \<noteq> None" for ts r s
    using config by (auto simp: relocate_symbol_def Let_def result_iff no_panic)
  show ?thesis
    using config len unfolding relocate_def
    by (auto simp: Let_def result_iff no_panic slice_opt_eq_Some_iff case_prod_beta calls entries symbols
        dest!: relocate_calls_length)
qed

section \<open>Read-only sections\<close>

text \<open>The slices that the loop collects lie between the lowest and the highest address.\<close>

definition collected :: "nat \<Rightarrow> RoSections \<Rightarrow> bool" where
  "collected len st \<longleftrightarrow>
     lowest_addr st \<le> usize_max \<and> highest_addr st \<le> usize_max \<and>
     (\<forall>(addr, data) \<in> set (ro_slices st).
        length data \<le> len \<and> lowest_addr st \<le> addr \<and> addr + length data \<le> highest_addr st)"

lemma parse_ro_section_collected:
  assumes "parse_ro_section config bytes st x = Okay st'" and "collected (length bytes) st" and "length bytes < 2 ^ 63"
  shows "collected (length bytes) st'"
proof -
  have "unat addr \<le> 2 ^ 33" if "saturating_add addr MM_REGION_SIZE \<le> MM_STACK_START" for addr :: u64
    using that by (simp add: word_le_nat_alt unat_saturating_add MM_STACK_START_def MM_REGION_SIZE_def split: if_splits)
  with assms show ?thesis
    by (fastforce simp: parse_ro_section_def collected_def result_iff Let_def slice_opt_eq_Some_iff usize_saturating_add_def
        not_less split: if_split_asm prod.split_asm)
qed

lemma copy_slices_total:
  assumes "\<And>addr data. (addr, data) \<in> set xs \<Longrightarrow> lowest \<le> addr \<and> addr + length data \<le> lowest + length buf"
    and "lowest + length buf \<le> usize_max"
  shows "try_fold (copy_slice lowest) buf xs \<noteq> None"
proof (rule try_fold_total_inv [where I = "\<lambda>b. length b = length buf"])
  fix b :: "u8 list" and x
  assume x: "x \<in> set xs" "length b = length buf"
  obtain addr data where "x = (addr, data)"
    by fastforce
  with x assms(1) [of addr data] assms(2) show "copy_slice lowest b x \<noteq> None"
    by (auto simp: copy_slice_def Let_def slice_opt_def usize_saturating_add_def usize_saturating_sub_def)
qed (auto dest: copy_slice_length)

lemma parse_ro_sections_total:
  assumes len: "length bytes < 2 ^ 63"
  shows "parse_ro_sections config sections bytes \<noteq> None"
proof -
  have loop: "collected (length bytes) st"
    if "try_fold (parse_ro_section config bytes)
          \<lparr>lowest_addr = usize_max, highest_addr = 0, ro_fill_length = 0, invalid_offsets = False,
           first_ro_section = 0, last_ro_section = 0, n_ro_sections = 0, ro_slices = []\<rparr> xs = Okay st" for st xs
    using try_fold_invariant [OF that, of "collected (length bytes)"] parse_ro_section_collected len
    by (fastforce simp: collected_def)
  have copies: "try_fold (copy_slice lowest) (replicate n 0) (ro_slices st) \<noteq> None"
    if "collected (length bytes) st" "(lowest, n) = (lowest_addr st, highest_addr st - lowest_addr st) \<or> (lowest, n) = (0, highest_addr st)"
    for st lowest n
    using that by (intro copy_slices_total) (fastforce simp: collected_def)+
  have "parse_ro_section config bytes st x \<noteq> None" for st x
    by (auto simp: parse_ro_section_def Let_def result_iff split: prod.split)
  then show ?thesis
    by (auto simp: parse_ro_sections_def Let_def result_iff no_panic usize_saturating_sub_def copies dest!: loop)
qed

section \<open>Loading\<close>

lemma ro_section_offset:
  assumes "parse_ro_sections config sections bytes = Okay ro" and "\<not> optimize_rodata config"
  obtains data where "ro = Owned 0x100000000 data"
  using assms
  by (auto simp: parse_ro_sections_def Let_def result_iff region_offset_def usize_saturating_add_def opcode_values(1)
      split: if_split_asm)

lemma lenient_total:
  assumes "get_config loader = Some config" and "length bytes < 2 ^ 63"
  shows "load_with_lenient_parser h src_addr mem_addr bytes loader \<noteq> None"
  using assms
  by (auto simp: load_with_lenient_parser_def Let_def result_iff no_panic relocate_total parse_ro_sections_total
      opcode_values(1) dest!: relocate_length elim: ro_section_offset)

lemma strict_total:
  assumes config: "get_config loader = Some config" "\<not> enable_symbol_and_section_labels config"
  shows "load_with_strict_parser mem_addr bytes loader \<noteq> None"
proof -
  have table: "length phs = unat (e_phnum h)"
    if "slice_from_bytes 56 read_phdr mem_addr bytes
          (64, usize_saturating_add (usize_saturating_mul 56 (unat (e_phnum h))) 64) = Okay phs" for phs h
  proof -
    have "unat (e_phnum h) < 2 ^ 16"
      using unsigned_less [of "e_phnum h"] by simp
    then show ?thesis
      using length_slice_from_bytes(1) [OF that] by (simp add: usize_saturating_add_def usize_saturating_mul_def)
  qed
  have "strict_program_header n off x \<noteq> None" for n off x
    by (auto simp: strict_program_header_def split: prod.split)
  then show ?thesis
    using config
    by (auto simp: load_with_strict_parser_def Let_def result_iff no_panic index_opt_def word_le_nat_alt not_less unat_eq_zero
        dest!: table dest: strict_header_phnum)
qed

text \<open>
  With labels enabled the strict parser unwraps the results of reading the section table and the
  symbols, so labels are asked for only where all versions use the lenient parser.
\<close>

lemma load_file_total:
  assumes "get_config loader = Some config" and "length bytes < 2 ^ 63"
    and "enable_symbol_and_section_labels config \<Longrightarrow> snd (enabled_sbpf_versions config) < V3"
  shows "load h src_addr mem_addr bytes loader \<noteq> None"
proof -
  have "elf_sbpf_version bytes \<noteq> None"
    by (simp add: elf_sbpf_version_def Let_def result_iff)
  moreover have "\<not> enable_symbol_and_section_labels config"
    if "v \<le> snd (enabled_sbpf_versions config)" "enable_stricter_elf_headers v" for v
    using assms(3) that by (auto simp: enable_stricter_elf_headers_def)
  ultimately show ?thesis
    using assms(1,2) by (auto simp: load_def result_iff strict_total lenient_total)
qed

declare not_None_eq [iff]

end
