(* ===== verification/Elf_Text.thy ===== *)
theory Elf_Text
  imports Elf_Safety Execution
begin

text \<open>
  The text of a loaded executable: it can be read, unless the lenient parser placed it at the end of
  the bytecode region, it lies in the file, and the entry point is one of its instructions if it is
  a whole number of instructions. The locale \<open>image_loader\<close> states this as what the verifier and the
  interpreter rely on, and shows once what follows for them; both parsers and \<open>load\<close> provide it.
\<close>

section \<open>Loaded programs\<close>

lemma get_text_bytes_length:
  assumes "get_text_bytes ex = Some (vaddr, code)"
  shows "length code = snd (text_section_range ex) - fst (text_section_range ex)"
  using assms
  by (auto simp: get_text_bytes_def Let_def slice_opt_eq_Some_iff split: bind_splits Section.split_asm if_split_asm)

lemma verified_text:
  assumes "ex_verify ex = Some (Inr ())"
  obtains vaddr code where "get_text_bytes ex = Some (vaddr, code)" "length code mod 8 = 0" "code \<noteq> []"
  using assms
  by (auto simp: ex_verify_def verify_def map_sum_eq_Inr_iff check_prog_len_ok split: bind_splits sum.split_asm)

lemma strict_entry_in_text:
  assumes "load_with_strict_parser mem_addr bytes loader = Okay ex" and "length bytes < 2 ^ 63"
    and "get_text_bytes ex = Some (vaddr, code)"
  shows "entry_pc ex < insn_count code \<and> length code \<le> length bytes"
  using strict_load [OF assms(1,2)] get_text_bytes_length [OF assms(3)] by (auto simp: well_placed_def)

lemma lenient_entry_in_text:
  assumes "load_with_lenient_parser h src_addr mem_addr bytes loader = Okay ex" and len: "length bytes < 2 ^ 63"
    and code: "get_text_bytes ex = Some (vaddr, code)" "length code mod 8 = 0" "code \<noteq> []"
  shows "entry_pc ex < insn_count code \<and> length code \<le> length bytes"
  using assms(1)
proof (rule lenient_load_cases)
  fix base elf config ts relocated ro
  assume valid: "validate elf bytes = Okay ()" and ts: "get_section elf (str_bytes ''.text'') = Okay ts"
    and ex: "text_section_range ex = range_or_default (shdr_file_range ts)"
      "entry_pc ex = unat (saturating_sub (e_entry (file_header elf)) (sh_addr ts)) div 8"
  have "unat (sh_offset ts) + unat (sh_size ts) \<le> length bytes"
    using validate_in_file [OF valid] get_section_in_table [OF ts] .
  then have "length code = unat (sh_size ts)" "length code \<le> length bytes"
    using get_text_bytes_length [OF code(1)] code(3) len
    by (auto simp: ex range_or_default_def shdr_file_range_def usize_saturating_add_def split: if_split_asm)
  moreover have "unat (e_entry (file_header elf)) - unat (sh_addr ts) < unat (sh_size ts)"
    using validate_entry [OF valid ts] by (auto simp: shdr_vm_range_def in_range_iff unat_saturating_add)
  ultimately show ?thesis
    using code(2) by (auto simp: ex unat_saturating_sub)
qed

section \<open>Reading the text\<close>

lemma get_section_name:
  assumes "get_section elf name = Okay s"
  shows "name_ok elf s = Some name"
proof -
  have "get_section_from elf name ss = Okay s \<Longrightarrow> section_name elf (sh_name s) = Okay name" for ss
    by (induction ss) (auto simp: result_iff split: if_split_asm)
  then show ?thesis
    using assms by (simp add: get_section_def name_ok_def)
qed

lemma try_fold_reaches:
  assumes "try_fold f s xs = Okay t" and "x \<in> set xs"
    and "\<And>s t. f s x = Okay t \<Longrightarrow> Q t" and "\<And>s y t. Q s \<Longrightarrow> f s y = Okay t \<Longrightarrow> Q t"
  shows "Q t"
  using assms(1,2)
proof (induction xs arbitrary: s)
  case (Cons y ys)
  then obtain u where u: "f s y = Okay u" "try_fold f u ys = Okay t"
    by (auto simp: result_iff)
  show ?case
  proof (cases "x = y")
    case True
    then show ?thesis
      using try_fold_invariant [OF u(2), of Q] assms(3,4) u(1) by blast
  next
    case False
    then show ?thesis
      using Cons u by auto
  qed
qed simp

text \<open>What the owned data holds: every read-only section of the file.\<close>

lemma owned_covers:
  assumes ro: "parse_ro_sections config sections bytes = Okay (Owned offset data)" and len: "length bytes < 2 ^ 63"
    and mem: "(Some name, s) \<in> set sections" "name \<in> set ro_section_names"
    and low: "unat (sh_addr s) < 2 ^ 32" and range: "range_or_default (shdr_file_range s) = (a, b)"
  shows "offset \<le> unat (sh_addr s) + 2 ^ 32 \<and> unat (sh_addr s) + 2 ^ 32 - offset + (b - a) \<le> length data"
proof -
  define init where "init = \<lparr>lowest_addr = usize_max, highest_addr = 0, ro_fill_length = 0, invalid_offsets = False,
    first_ro_section = 0, last_ro_section = 0, n_ro_sections = 0, ro_slices = []\<rparr>"
  obtain st where st: "try_fold (parse_ro_section config bytes) init (zip [0..<length sections] sections) = Okay st"
    using ro by (auto simp: parse_ro_sections_def result_iff init_def)
  have col: "collected (length bytes) st"
    using try_fold_invariant [OF st, of "collected (length bytes)"] parse_ro_section_collected len
    by (fastforce simp: collected_def init_def)
  obtain i where i: "(i, Some name, s) \<in> set (zip [0..<length sections] sections)"
    using mem(1) by (fastforce simp: in_set_conv_nth)
  have "\<exists>d. (unat (sh_addr s), d) \<in> set (ro_slices st) \<and> length d = b - a"
    by (rule try_fold_reaches [OF st i])
      (use mem(2) range in \<open>auto simp: parse_ro_section_def result_iff Let_def slice_opt_eq_Some_iff split: if_split_asm prod.split_asm\<close>)
  with col have bounds: "lowest_addr st \<le> unat (sh_addr s)" "unat (sh_addr s) + (b - a) \<le> highest_addr st"
    by (fastforce simp: collected_def)+
  have copied: "length buf' = length buf" if "try_fold (copy_slice lowest) buf xs = Okay buf'" for lowest buf xs buf'
    using try_fold_invariant [OF that, of "\<lambda>b. length b = length buf"] copy_slice_length by fastforce
  have "\<exists>lowest. lowest \<le> unat (sh_addr s) \<and> offset = lowest + 2 ^ 32 \<and> length data = highest_addr st - lowest"
    using ro st bounds low
    by (auto simp: parse_ro_sections_def result_iff init_def Let_def region_offset_def usize_saturating_add_def
        usize_saturating_sub_def opcode_values(1) dest!: copied split: if_split_asm)
  then show ?thesis
    using bounds by auto
qed

lemma strict_text_readable:
  assumes "load_with_strict_parser mem_addr bytes loader = Okay ex" and "length bytes < 2 ^ 63"
  shows "get_text_bytes ex \<noteq> None"
  using strict_load [OF assms] by (auto simp: well_placed_def get_text_bytes_def slice_opt_def)

lemma lenient_text_readable:
  assumes "load_with_lenient_parser h src_addr mem_addr bytes loader = Okay ex" and len: "length bytes < 2 ^ 63"
    and place: "text_section_vaddr ex \<noteq> MM_STACK_START"
  shows "get_text_bytes ex \<noteq> None"
  using assms(1)
proof (rule lenient_load_cases)
  fix base elf config ts relocated ro
  assume valid: "validate elf bytes = Okay ()" and ts: "get_section elf (str_bytes ''.text'') = Okay ts"
    and stack: "saturating_add (sh_addr ts) MM_REGION_SIZE \<le> MM_STACK_START" and reloc: "length relocated = length bytes"
    and ro: "parse_ro_sections config (map (\<lambda>s. (name_ok elf s, s)) (section_header_table elf)) relocated = Okay ro"
    and ex: "elf_bytes ex = relocated" "ro_section ex = ro" "text_section_vaddr ex = saturating_add (sh_addr ts) MM_REGION_SIZE"
      "text_section_range ex = range_or_default (shdr_file_range ts)"
  obtain a b where ab: "range_or_default (shdr_file_range ts) = (a, b)"
    by fastforce
  have "unat (text_section_vaddr ex) \<noteq> unat MM_STACK_START"
    using place unsigned_word_eqI [of "text_section_vaddr ex" MM_STACK_START, where 'a = nat] by blast
  then have addr: "unat (sh_addr ts) < 2 ^ 32" "unat (text_section_vaddr ex) = unat (sh_addr ts) + 2 ^ 32"
    using stack ex(3) by (simp_all add: opcode_values(1,4) word_le_nat_alt unat_saturating_add min_def split: if_split_asm)
  show ?thesis
  proof (cases ro)
    case (Owned offset data)
    have "(Some (str_bytes ''.text''), ts) \<in> set (map (\<lambda>s. (name_ok elf s, s)) (section_header_table elf))"
      using get_section_name [OF ts] get_section_in_table [OF ts] by force
    with owned_covers [OF ro [unfolded Owned] _ this _ addr(1) ab] len reloc show ?thesis
      by (auto simp: get_text_bytes_def ex Owned ab addr(2) [unfolded ex] slice_opt_def ro_section_names_def)
  next
    case (Borrowed offset rng)
    have "a \<le> b \<and> b \<le> length bytes"
      using validate_in_file [OF valid get_section_in_table [OF ts]] ab len
      by (auto simp: range_or_default_def shdr_file_range_def usize_saturating_add_def split: if_split_asm)
    then show ?thesis
      by (simp add: get_text_bytes_def ex Borrowed ab slice_opt_def reloc)
  qed
qed

lemma strict_keeps_loader:
  assumes "load_with_strict_parser mem_addr bytes loader = Okay ex" and "length bytes < 2 ^ 63"
  shows "ex_loader ex = loader"
  using strict_load [OF assms] by simp

lemma lenient_keeps_loader:
  assumes "load_with_lenient_parser h src_addr mem_addr bytes loader = Okay ex"
  shows "ex_loader ex = loader"
  using assms by (rule lenient_load_cases)

section \<open>The interface to the verifier and the interpreter\<close>

text \<open>What the caller of \<open>execute_program\<close> provides, apart from the program.\<close>

definition machine_ready :: "Config \<Rightarrow> BuiltinProgram \<Rightarrow> CallFrame list \<Rightarrow> 'c EbpfVm \<Rightarrow> bool" where
  "machine_ready config loader frames m \<longleftrightarrow>
     get_config loader = Some config \<and> vm_loader m = loader \<and> enable_instruction_meter config \<and>
     2 * stack_frame_size config \<le> usize_max \<and> 0 < max_call_depth config \<and> max_call_depth config \<le> usize_max \<and>
     max_call_depth config \<le> length frames \<and> call_depth m = 0 \<and> length (registers m) = 12 \<and>
     mapping_ok (memory_mapping m)"

text \<open>\<open>loads bytes loader ex\<close> says that loading the file \<open>bytes\<close> for \<open>loader\<close> returns \<open>ex\<close>.\<close>

locale image_loader =
  fixes loads :: "u8 list \<Rightarrow> BuiltinProgram \<Rightarrow> Executable \<Rightarrow> bool"
  assumes entry_in_text: "loads bytes loader ex \<Longrightarrow> length bytes < 2 ^ 63 \<Longrightarrow> get_text_bytes ex = Some (vaddr, code) \<Longrightarrow>
      length code mod 8 = 0 \<Longrightarrow> code \<noteq> [] \<Longrightarrow> entry_pc ex < insn_count code \<and> length code \<le> length bytes"
    and text_readable: "loads bytes loader ex \<Longrightarrow> length bytes < 2 ^ 63 \<Longrightarrow> text_section_vaddr ex \<noteq> MM_STACK_START \<Longrightarrow>
      get_text_bytes ex \<noteq> None"
    and keeps_loader: "loads bytes loader ex \<Longrightarrow> length bytes < 2 ^ 63 \<Longrightarrow> ex_loader ex = loader"
begin

lemma launch:
  assumes "loads bytes loader ex" and "length bytes < 2 ^ 63" and "ex_verify ex = Some (Inr ())"
    and "machine_ready config loader frames m"
  shows "launch_ok config ex frames m"
  using assms(3)
proof (rule verified_text)
  fix vaddr code
  assume "get_text_bytes ex = Some (vaddr, code)" "length code mod 8 = 0" "code \<noteq> []"
  with entry_in_text [OF assms(1,2) this] keeps_loader [OF assms(1,2)] assms(2-4) show ?thesis
    by (auto simp: launch_ok_def machine_ready_def ex_get_config_def get_loader_def intro!: exI)
qed

lemma verify_returns:
  assumes "loads bytes loader ex" and "length bytes < 2 ^ 63" and "text_section_vaddr ex \<noteq> MM_STACK_START"
    and "get_config loader = Some config"
  shows "\<exists>res. ex_verify ex = Some res"
proof -
  obtain vaddr code where code: "get_text_bytes ex = Some (vaddr, code)"
    using text_readable [OF assms(1-3)] by auto
  then have "length code < usize_max \<or> length code mod 8 \<noteq> 0 \<or> code = []"
    using entry_in_text [OF assms(1,2)] assms(2) by force
  then have "\<exists>r. verify code config (get_sbpf_version ex) = Some r"
    using verify_total [of code config "get_sbpf_version ex"] by (auto simp: verify_def check_prog_len_def)
  with code keeps_loader [OF assms(1,2)] assms(4) show ?thesis
    by (auto simp: ex_verify_def ex_get_config_def)
qed

end

interpretation strict: image_loader "\<lambda>bytes loader ex. load_with_strict_parser mem_addr bytes loader = Okay ex" for mem_addr
  by unfold_locales (simp_all add: strict_entry_in_text strict_text_readable strict_keeps_loader del: not_None_eq)

interpretation lenient: image_loader
    "\<lambda>bytes loader ex. load_with_lenient_parser h src_addr mem_addr bytes loader = Okay ex" for h src_addr mem_addr
  by unfold_locales (simp_all add: lenient_entry_in_text lenient_text_readable lenient_keeps_loader del: not_None_eq)

text \<open>\<open>load\<close> calls one of the two and sets the version, which none of the laws mentions.\<close>

lemma get_text_bytes_version: "get_text_bytes (ex\<lparr>sbpf_version := v\<rparr>) = get_text_bytes ex"
  by (simp add: get_text_bytes_def split: Section.split)

lemma load_cases:
  assumes "load h src_addr mem_addr bytes loader = Okay ex"
  obtains ex' v where "ex = ex'\<lparr>sbpf_version := v\<rparr>"
    "load_with_strict_parser mem_addr bytes loader = Okay ex' \<or> load_with_lenient_parser h src_addr mem_addr bytes loader = Okay ex'"
  using assms by (auto simp: load_def result_iff split: if_split_asm)

interpretation elf_image: image_loader "\<lambda>bytes loader ex. load h src_addr mem_addr bytes loader = Okay ex" for h src_addr mem_addr
proof
  fix bytes loader ex vaddr code
  assume load: "load h src_addr mem_addr bytes loader = Okay ex" and len: "length bytes < 2 ^ 63"
  obtain ex' v where ex: "ex = ex'\<lparr>sbpf_version := v\<rparr>"
    "load_with_strict_parser mem_addr bytes loader = Okay ex' \<or> load_with_lenient_parser h src_addr mem_addr bytes loader = Okay ex'"
    using load by (rule load_cases)
  show "ex_loader ex = loader"
    using ex strict.keeps_loader lenient.keeps_loader len by auto
  show "get_text_bytes ex \<noteq> None" if "text_section_vaddr ex \<noteq> MM_STACK_START"
    using ex strict.text_readable lenient.text_readable len that by (auto simp: get_text_bytes_version)
  show "entry_pc ex < insn_count code \<and> length code \<le> length bytes"
    if "get_text_bytes ex = Some (vaddr, code)" "length code mod 8 = 0" "code \<noteq> []"
    using ex strict.entry_in_text lenient.entry_in_text len that by (auto simp: get_text_bytes_version)
qed

end
