(* ===== verification/Elf_Relocation.thy ===== *)
theory Elf_Relocation
  imports Elf_Lenient_Lemmas
begin

text \<open>
  What relocation writes: the two halves of an address in the immediates of a wide load, which the
  decoder of the instructions merges to the same address, and nothing else.
\<close>

lemma get_le_eq:
  assumes "length bytes < 2 ^ 63" and "n \<le> 8"
  shows "get_le n bytes off = (if off + n \<le> length bytes then Okay (le_word (take n (drop off bytes))) else Fail ValueOutOfBounds)"
  using assms by (auto simp: get_le_def slice_opt_def usize_saturating_add_def)

lemma put_le_eq:
  assumes "length bytes < 2 ^ 63" and "n \<le> 8"
  shows "put_le n bytes off w =
    (if off + n \<le> length bytes then Okay (take off bytes @ le_bytes n w @ drop (off + n) bytes) else Fail ValueOutOfBounds)"
  using assms by (auto simp: put_le_def slice_opt_def usize_saturating_add_def)

text \<open>The address of a symbol in the region of the program.\<close>

definition region_address :: "u64 \<Rightarrow> u64" where
  "region_address addr = (if addr < MM_REGION_SIZE then MM_REGION_SIZE + addr else addr)"

lemma region_address_eq: "(if addr < MM_REGION_SIZE then saturating_add MM_REGION_SIZE addr else addr) = region_address addr"
  by (auto simp: region_address_def saturating_add_def opcode_values(1) word_less_nat_alt)

lemma patched_lddw:
  assumes "off + 16 \<le> length bytes"
    and "prog = drop off (take (off + 4) bytes @ le_bytes 4 (ucast a :: u32) @ take 4 (drop (off + 8) bytes) @
      le_bytes 4 (ucast (drop_bit 32 a) :: u32) @ drop (off + 16) bytes)"
  obtains insn where "get_insn_unchecked prog 0 = Some insn" "i_opc insn = bytes ! off"
    "augment_lddw_unchecked prog insn = Some (insn\<lparr>i_imm := a\<rparr>)"
proof -
  define xs ys zs where "xs = take 4 (drop off bytes)" and "ys = take 4 (drop (off + 8) bytes)" and "zs = drop (off + 16) bytes"
  have len: "length xs = 4" "length ys = 4" "xs ! 0 = bytes ! off"
    using assms(1) by (simp_all add: xs_def ys_def)
  have prog: "prog = xs @ le_bytes 4 (ucast a :: u32) @ ys @ le_bytes 4 (ucast (drop_bit 32 a) :: u32) @ zs"
    using assms by (simp add: xs_def ys_def zs_def drop_take)
  then obtain insn where insn: "get_insn_unchecked prog 0 = Some insn" "i_opc insn = bytes ! off" "i_ptr insn = 0"
      "i_imm insn = scast (ucast a :: i32)"
    by (simp add: get_insn_unchecked_def index_opt_def read_le_def len nth_append le_word_le_bytes)
  moreover have "augment_lddw_unchecked prog insn = Some (insn\<lparr>i_imm := a\<rparr>)"
    by (simp add: augment_lddw_unchecked_def prog read_le_def insn(3,4) len le_word_le_bytes lddw_halves)
  ultimately show thesis
    using that by blast
qed

text \<open>Two writes at the immediates of the slots at an offset.\<close>

lemma put_address:
  assumes "length bytes < 2 ^ 63" and "put_le 4 bytes (off + 4) (ucast a :: u32) = Okay mid"
    and "put_le 4 mid (off + 12) (ucast (drop_bit 32 a) :: u32) = Okay bytes'"
  shows "off + 16 \<le> length bytes \<and>
    bytes' = take (off + 4) bytes @ le_bytes 4 (ucast a :: u32) @ take 4 (drop (off + 8) bytes) @
      le_bytes 4 (ucast (drop_bit 32 a) :: u32) @ drop (off + 16) bytes"
proof -
  have mid: "off + 8 \<le> length bytes" "mid = take (off + 4) bytes @ le_bytes 4 (ucast a :: u32) @ drop (off + 8) bytes"
    using assms(1,2) by (auto simp: put_le_eq add.commute split: if_split_asm)
  then have "length mid = length bytes"
    by simp
  then have "off + 16 \<le> length bytes \<and> bytes' = take (off + 12) mid @ le_bytes 4 (ucast (drop_bit 32 a) :: u32) @ drop (off + 16) mid"
    using assms(1,3) by (auto simp: put_le_eq add.commute split: if_split_asm)
  moreover have "min (length bytes) (off + 4) = off + 4"
    using mid(1) by simp
  ultimately show ?thesis
    by (simp add: mid(2) add.commute)
qed

lemma relocate_64_64_cases:
  assumes "relocate_64_64 elf rel bytes = Okay bytes'" and len: "length bytes < 2 ^ 63"
  obtains symbol refd mid where "dynamic_symbol elf rel = Okay symbol"
    "get_le 4 bytes (unat (r_offset rel) + 4) = Okay (refd :: u32)"
    "put_le 4 bytes (unat (r_offset rel) + 4) (ucast (region_address (saturating_add (st_value symbol) (ucast refd))) :: u32) = Okay mid"
    "put_le 4 mid (unat (r_offset rel) + 12)
       (ucast (drop_bit 32 (region_address (saturating_add (st_value symbol) (ucast refd)))) :: u32) = Okay bytes'"
proof -
  have mask: "(ucast (x AND 0xFFFFFFFF) :: u32) = ucast x" for x :: u64
    by (rule bit_word_eqI) (auto simp: bit_simps byte_masks)
  let ?off = "unat (r_offset rel)"
  obtain refd :: u32 where refd: "get_le 4 bytes (usize_saturating_add ?off 4) = Okay refd"
    using assms(1) by (auto simp: relocate_64_64_def result_iff Let_def)
  then have "usize_saturating_add ?off 4 + 4 \<le> length bytes"
    using len by (auto simp: get_le_eq split: if_split_asm)
  then have off: "usize_saturating_add ?off 4 = ?off + 4" "usize_saturating_add (?off + 4) 8 = ?off + 12"
    using len by (auto simp: usize_saturating_add_def)
  with assms(1) refd show thesis
    by (auto simp: relocate_64_64_def result_iff Let_def region_address_eq mask checked_shr_def intro: that)
qed

lemma put_address_elsewhere:
  assumes "off + 16 \<le> length bytes" and "k < length bytes" and "k \<notin> {off + 4..<off + 8} \<union> {off + 12..<off + 16}"
  shows "(take (off + 4) bytes @ le_bytes 4 (v :: u32) @ take 4 (drop (off + 8) bytes) @ le_bytes 4 (w :: u32) @ drop (off + 16) bytes) ! k
    = bytes ! k"
proof -
  consider "k < off + 4" | "off + 8 \<le> k" "k < off + 12" | "off + 16 \<le> k"
    using assms(3) by force
  then show ?thesis
    using assms(1,2) by cases (auto simp: nth_append)
qed

lemma relocate_64_64_written:
  assumes "relocate_64_64 elf rel bytes = Okay bytes'" and "length bytes < 2 ^ 63"
  obtains symbol insn and refd :: u32 where "dynamic_symbol elf rel = Okay symbol"
    "get_le 4 bytes (unat (r_offset rel) + 4) = Okay refd"
    "get_insn_unchecked (drop (unat (r_offset rel)) bytes') 0 = Some insn" "i_opc insn = bytes ! unat (r_offset rel)"
    "augment_lddw_unchecked (drop (unat (r_offset rel)) bytes') insn =
      Some (insn\<lparr>i_imm := region_address (saturating_add (st_value symbol) (ucast refd))\<rparr>)"
    "\<And>k. k < length bytes \<Longrightarrow>
      k \<notin> {unat (r_offset rel) + 4..<unat (r_offset rel) + 8} \<union> {unat (r_offset rel) + 12..<unat (r_offset rel) + 16} \<Longrightarrow>
      bytes' ! k = bytes ! k"
  using assms
proof (rule relocate_64_64_cases)
  fix symbol :: Elf64Sym and mid and refd :: u32
  let ?a = "region_address (saturating_add (st_value symbol) (ucast refd))"
  assume sym: "dynamic_symbol elf rel = Okay symbol" "get_le 4 bytes (unat (r_offset rel) + 4) = Okay refd"
    and puts: "put_le 4 bytes (unat (r_offset rel) + 4) (ucast ?a :: u32) = Okay mid"
      "put_le 4 mid (unat (r_offset rel) + 12) (ucast (drop_bit 32 ?a) :: u32) = Okay bytes'"
  note written = put_address [OF assms(2) puts]
  obtain insn where "get_insn_unchecked (drop (unat (r_offset rel)) bytes') 0 = Some insn"
    "i_opc insn = bytes ! unat (r_offset rel)"
    "augment_lddw_unchecked (drop (unat (r_offset rel)) bytes') insn = Some (insn\<lparr>i_imm := ?a\<rparr>)"
    by (rule patched_lddw [of "unat (r_offset rel)" bytes "drop (unat (r_offset rel)) bytes'" ?a]) (use written in simp_all)
  with sym show thesis
    by (rule that) (use written put_address_elsewhere in simp)
qed

end
