(* ===== verification/Elf_Properties.thy ===== *)
theory Elf_Properties
  imports Elf_Text Elf_Relocation Sample_Machine
begin

text \<open>
  The properties of the loader: it does not panic, the segments of a file that the strict parser
  accepts are placed in the file one after the other, and the entry point of a loaded and verified
  program is one of its instructions. The lenient parser accepts a file whose text section cannot be
  read afterwards.
\<close>

section \<open>A file for the strict parser\<close>

text \<open>The headers of a file of version 3 whose only segment holds \<open>sample_call_prog\<close>.\<close>

definition strict_ehdr :: "u8 list" where
  "strict_ehdr =
     [0x7f, 0x45, 0x4c, 0x46, 2, 1, 1, 0, 0, 0, 0, 0, 0, 0, 0, 0, 0, 0, 0xf7, 0,
      1, 0, 0, 0, 0, 0, 0, 0, 1, 0, 0, 0, 0x40, 0, 0, 0, 0, 0, 0, 0,
      0, 0, 0, 0, 0, 0, 0, 0, 3, 0, 0, 0, 0x40, 0, 0x38, 0, 1, 0, 0, 0,
      0, 0, 0, 0]"

definition strict_phdr :: "u8 list" where
  "strict_phdr =
     [1, 0, 0, 0, 1, 0, 0, 0, 0x78, 0, 0, 0, 0, 0, 0, 0, 0, 0, 0, 0,
      1, 0, 0, 0, 0, 0, 0, 0, 1, 0, 0, 0, 0x28, 0, 0, 0, 0, 0, 0, 0,
      0x28, 0, 0, 0, 0, 0, 0, 0, 0, 0, 0, 0, 0, 0, 0, 0]"

definition strict_file :: "u8 list" where
  "strict_file = strict_ehdr @ strict_phdr @ sample_call_prog"

definition loaded_executable :: Executable where
  "loaded_executable =
     sample_executable\<lparr>elf_bytes := strict_file, ro_section := Borrowed 0 (120, 120), text_section_range := (120, 160)\<rparr>"

lemma strict_file_lengths [simp]: "length strict_ehdr = 64" "length strict_phdr = 56" "length sample_call_prog = 40"
  by (simp_all add: strict_ehdr_def strict_phdr_def sample_call_prog_def)

lemma read_strict_ehdr:
  "read_ehdr strict_ehdr =
     \<lparr>e_ident = \<lparr>ei_mag = [0x7f, 0x45, 0x4c, 0x46], ei_class = 2, ei_data = 1, ei_version = 1, ei_osabi = 0,
        ei_abiversion = 0, ei_pad = [0, 0, 0, 0, 0, 0, 0]\<rparr>,
      e_type = 0, e_machine = 247, e_version = 1, e_entry = 0x100000000, e_phoff = 64, e_shoff = 0, e_flags = 3,
      e_ehsize = 64, e_phentsize = 56, e_phnum = 1, e_shentsize = 0, e_shnum = 0, e_shstrndx = 0\<rparr>"
  by (simp add: read_ehdr_def read_ident_def field_def strict_ehdr_def le_word_def)

lemma read_strict_phdr:
  "read_phdr strict_phdr =
     \<lparr>p_type = 1, p_flags = 1, p_offset = 120, p_vaddr = 0x100000000, p_paddr = 0x100000000, p_filesz = 40, p_memsz = 40,
      p_align = 0\<rparr>"
  by (simp add: read_phdr_def field_def strict_phdr_def le_word_def)

lemma strict_parse: "load_with_strict_parser 16 strict_file sample_loader = Okay (loaded_executable\<lparr>sbpf_version := Reserved\<rparr>)"
proof -
  have "replicate 7 (0 :: u8) = [0, 0, 0, 0, 0, 0, 0]"
    by (simp add: numeral_eq_Suc)
  then show ?thesis
    by (simp add: load_with_strict_parser_def Let_def strict_file_def parse_file_header_def slice_opt_def read_strict_ehdr
        strict_bad_header_def usize_saturating_add_def usize_saturating_mul_def slice_from_bytes_def index_opt_def
        read_strict_phdr strict_program_header_def opcode_values(1-3) phdr_file_range_def phdr_vm_range_def
        range_or_default_def in_range_def saturating_add_def saturating_sub_def get_config_def sample_loader_def
        sample_config_def Config_default_def loaded_executable_def sample_executable_def)
qed

lemma sample_loader_config [simp]: "get_config sample_loader = Some sample_config"
  by (simp add: get_config_def sample_loader_def)

lemma sample_config_versions [simp]:
  "enabled_sbpf_versions sample_config = (V0, V4)" "\<not> enable_symbol_and_section_labels sample_config"
  by (simp_all add: sample_config_def Config_default_def)

lemma strict_sample_load: "load h src_addr 16 strict_file sample_loader = Okay loaded_executable"
proof -
  have "slice_opt strict_file 48 52 = Some [3, 0, 0, 0]"
    by (simp add: slice_opt_def strict_file_def) (simp add: strict_ehdr_def)
  then show ?thesis
    by (simp add: load_def elf_sbpf_version_def Let_def less_eq_SBPFVersion_def enable_stricter_elf_headers_def strict_parse)
      (simp add: loaded_executable_def sample_executable_def)
qed

lemma strict_sample_verify: "ex_verify loaded_executable = Some (Inr ())"
  using verify_sample_call
  by (simp add: ex_verify_def get_text_bytes_def slice_opt_def loaded_executable_def sample_executable_def strict_file_def
      get_sbpf_version_def ex_get_config_def get_config_def sample_loader_def)

section \<open>A file for the lenient parser\<close>

text \<open>
  A file of version 0 with the text section \<open>mov64 r0, 7; exit\<close> at the address \<open>0x100000000\<close> and the
  table of section names.
\<close>

definition far_ehdr :: "u8 list" where
  "far_ehdr =
     [0x7f, 0x45, 0x4c, 0x46, 2, 1, 1, 0, 0, 0, 0, 0, 0, 0, 0, 0, 3, 0, 0xf7, 0,
      1, 0, 0, 0, 0, 0, 0, 0, 1, 0, 0, 0, 0x40, 0, 0, 0, 0, 0, 0, 0,
      0x68, 0, 0, 0, 0, 0, 0, 0, 0, 0, 0, 0, 0x40, 0, 0x38, 0, 0, 0, 0x40, 0,
      3, 0, 2, 0]"

definition far_text :: "u8 list" where
  "far_text = [0xb7, 0, 0, 0, 7, 0, 0, 0, 0x95, 0, 0, 0, 0, 0, 0, 0]"

definition far_names :: "u8 list" where
  "far_names = 0 # str_bytes ''.text'' @ 0 # str_bytes ''.shstrtab'' @ replicate 8 0"

definition far_shdr_text :: "u8 list" where
  "far_shdr_text =
     [1, 0, 0, 0, 1, 0, 0, 0, 6, 0, 0, 0, 0, 0, 0, 0, 0, 0, 0, 0,
      1, 0, 0, 0, 0x40, 0, 0, 0, 0, 0, 0, 0, 0x10, 0, 0, 0, 0, 0, 0, 0,
      0, 0, 0, 0, 0, 0, 0, 0, 0, 0, 0, 0, 0, 0, 0, 0, 0, 0, 0, 0,
      0, 0, 0, 0]"

definition far_shdr_names :: "u8 list" where
  "far_shdr_names =
     [7, 0, 0, 0, 3, 0, 0, 0, 0, 0, 0, 0, 0, 0, 0, 0, 0, 0, 0, 0,
      0, 0, 0, 0, 0x50, 0, 0, 0, 0, 0, 0, 0, 0x11, 0, 0, 0, 0, 0, 0, 0,
      0, 0, 0, 0, 0, 0, 0, 0, 0, 0, 0, 0, 0, 0, 0, 0, 0, 0, 0, 0,
      0, 0, 0, 0]"

definition far_file :: "u8 list" where
  "far_file = far_ehdr @ far_text @ far_names @ replicate 64 0 @ far_shdr_text @ far_shdr_names"

lemma far_file_lengths [simp]:
  "length far_ehdr = 64" "length far_text = 16" "length far_names = 24" "length far_shdr_text = 64"
  "length far_shdr_names = 64"
  by (simp_all add: far_ehdr_def far_text_def far_names_def far_shdr_text_def far_shdr_names_def str_bytes_def)

lemma read_far_ehdr:
  "read_ehdr far_ehdr =
     \<lparr>e_ident = \<lparr>ei_mag = [0x7f, 0x45, 0x4c, 0x46], ei_class = 2, ei_data = 1, ei_version = 1, ei_osabi = 0,
        ei_abiversion = 0, ei_pad = [0, 0, 0, 0, 0, 0, 0]\<rparr>,
      e_type = 3, e_machine = 247, e_version = 1, e_entry = 0x100000000, e_phoff = 64, e_shoff = 104, e_flags = 0,
      e_ehsize = 64, e_phentsize = 56, e_phnum = 0, e_shentsize = 64, e_shnum = 3, e_shstrndx = 2\<rparr>"
  by (simp add: read_ehdr_def read_ident_def field_def far_ehdr_def)

definition far_null :: Elf64Shdr where
  "far_null = \<lparr>sh_name = 0, sh_type = 0, sh_flags = 0, sh_addr = 0, sh_offset = 0, sh_size = 0, sh_link = 0, sh_info = 0,
     sh_addralign = 0, sh_entsize = 0\<rparr>"

definition far_section :: Elf64Shdr where
  "far_section = far_null\<lparr>sh_name := 1, sh_type := 1, sh_flags := 6, sh_addr := 0x100000000, sh_offset := 64, sh_size := 16\<rparr>"

definition far_strtab :: Elf64Shdr where
  "far_strtab = far_null\<lparr>sh_name := 7, sh_type := 3, sh_offset := 80, sh_size := 17\<rparr>"

lemmas far_section_defs = far_null_def far_section_def far_strtab_def

lemma le_word_zeros [simp]: "le_word (replicate k 0) = 0"
  by (induction k) simp_all

lemma read_far_sections:
  "read_shdr (replicate 64 0) = far_null" "read_shdr far_shdr_text = far_section" "read_shdr far_shdr_names = far_strtab"
  by (simp_all add: read_shdr_def far_section_defs field_def far_shdr_text_def far_shdr_names_def)

lemma far_string:
  "get_string_in_section far_file far_strtab 0 16 = Okay []"
  "get_string_in_section far_file far_strtab 1 16 = Okay (str_bytes ''.text'')"
  "get_string_in_section far_file far_strtab 7 16 = Okay (str_bytes ''.shstrtab'')"
  by (simp_all add: get_string_in_section_def far_section_defs usize_checked_add_def slice_opt_def far_file_def)
    (simp_all add: far_names_def str_bytes_def)

definition far_elf :: Elf64 where
  "far_elf =
     \<lparr>elf64_bytes = far_file, file_header = read_ehdr far_ehdr, program_header_table = [],
      section_header_table = [far_null, far_section, far_strtab], section_names_section_header = Some far_strtab,
      symbol_section_header = None, symbol_names_section_header = None, dynamic_table = replicate 35 0,
      dynamic_relocations_table = None, dynamic_symbol_table = None, dynamic_symbol_names_section_header = None\<rparr>"

lemma far_tables:
  "parse_file_header 0 far_file = Okay ((0, 64), read_ehdr far_ehdr)"
  "parse_program_header_table 0 far_file (0, 64) (read_ehdr far_ehdr) = Okay ((64, 64), [])"
  "parse_section_header_table 0 far_file (0, 64) (read_ehdr far_ehdr) (64, 64) =
     Okay ((104, 296), [far_null, far_section, far_strtab])"
  by (simp_all add: parse_file_header_def parse_program_header_table_def parse_section_header_table_def read_far_ehdr
      slice_opt_def far_file_def usize_checked_mul_def usize_checked_add_def check_that_there_is_no_overlap_def
      slice_from_bytes_def Let_def upt_rec read_far_sections)

lemma far_parse: "elf_parse 0 far_file = Okay far_elf"
proof -
  have "try_fold (check_section_header (0, 64) (64, 64) (104, 296) (length far_file)) 0 [far_null, far_section, far_strtab]
      = Okay 97"
    by (simp add: far_section_defs check_section_header_def usize_checked_add_def check_that_there_is_no_overlap_def
        far_file_def)
  moreover have "parse_sections far_elf = Okay far_elf" "parse_dynamic 0 far_elf = Okay far_elf"
    using far_string
    by (simp_all add: parse_sections_def parse_dynamic_def far_elf_def far_section_defs parse_section_def str_bytes_def)
  moreover have "\<not> bad_file_header (read_ehdr far_ehdr)" "e_shstrndx (read_ehdr far_ehdr) = 2" "sh_type far_null = 0"
    by (simp_all add: bad_file_header_def read_far_ehdr far_null_def)
  ultimately show ?thesis
    by (simp add: elf_parse_def far_tables index_opt_def flip: far_elf_def)
qed

lemma far_elf_fields:
  "file_header far_elf = read_ehdr far_ehdr" "section_header_table far_elf = [far_null, far_section, far_strtab]"
  "name_ok far_elf far_null = Some []" "name_ok far_elf far_section = Some (str_bytes ''.text'')"
  "name_ok far_elf far_strtab = Some (str_bytes ''.shstrtab'')" "dynamic_relocations_table far_elf = None"
  using far_string by (simp_all add: name_ok_def section_name_def far_elf_def far_section_defs)

lemma far_get_section: "get_section far_elf (str_bytes ''.text'') = Okay far_section"
  using far_string by (simp add: get_section_def section_name_def far_elf_def far_section_defs str_bytes_def)

lemma far_validate: "validate far_elf far_file = Okay ()"
proof -
  have "try_fold (check_in_file far_file) () [far_null, far_section, far_strtab] = Okay ()"
    by (simp add: check_in_file_def far_section_defs checked_add_def slice_opt_def far_file_def)
  moreover have "try_fold (check_writable far_elf) () [far_null, far_section, far_strtab] = Okay ()"
    by (simp add: check_writable_def far_elf_fields starts_with_def str_bytes_def)
  moreover have "in_range (shdr_vm_range far_section) 0x100000000"
    by (simp add: in_range_def shdr_vm_range_def far_section_defs saturating_add_def)
  ultimately show ?thesis
    by (simp add: validate_def Let_def far_elf_fields read_far_ehdr far_get_section) (simp add: str_bytes_def)
qed

lemma far_slice: "slice_opt far_file 64 80 = Some far_text" "take 16 (drop 64 far_file) = far_text"
  by (simp_all add: slice_opt_def far_file_def)

lemma far_range: "range_or_default (shdr_file_range far_section) = (64, 80)"
  by (simp add: range_or_default_def shdr_file_range_def far_section_defs usize_saturating_add_def)

lemma new_mock_config: "get_config new_mock = Some Config_default"
  by (simp add: get_config_def new_mock_def)

lemma far_relocate: "relocate h 0 r new_mock far_elf far_file = Okay (far_file, r)"
proof -
  have "relocate_call h Config_default new_mock 2 (far_text, r) i = Okay (far_text, r)" if i: "i < 2" for i
  proof -
    obtain insn where "get_insn far_text i = Some insn" "i_opc insn = opcode_at far_text i"
      using get_insn_total [of i far_text] i by auto
    moreover have "opcode_at far_text i \<noteq> CALL_IMM"
      using i by (auto simp: less_2_cases_iff opcode_at_def far_text_def opcode_val)
    ultimately show ?thesis
      by (simp add: relocate_call_def)
  qed
  moreover have "take 64 far_file @ far_text @ drop 80 far_file = far_file"
    by (simp add: far_file_def)
  ultimately show ?thesis
    by (simp add: relocate_def far_get_section new_mock_config far_range far_slice far_elf_fields upt_rec Config_default_def)
qed

lemma far_values:
  "sh_addr far_section = 0x100000000" "sh_offset far_section = 64" "length far_file = 296"
  "optimize_rodata Config_default" "\<not> reject_broken_elfs Config_default" "enabled_sbpf_versions Config_default = (V0, V4)"
  by (simp_all add: far_section_defs Config_default_def far_file_def)

lemma far_ro_sections:
  "parse_ro_sections Config_default
     [(Some [], far_null), (Some (str_bytes ''.text''), far_section), (Some (str_bytes ''.shstrtab''), far_strtab)] far_file =
     Okay (Owned 0x100000000 far_text)"
proof -
  have "[] \<notin> set ro_section_names" "str_bytes ''.shstrtab'' \<notin> set ro_section_names" "str_bytes ''.text'' \<in> set ro_section_names"
    by (simp_all add: ro_section_names_def str_bytes_def)
  then show ?thesis
    by (simp add: parse_ro_sections_def far_elf_fields far_values parse_ro_section_def Let_def far_range far_slice(2) opcode_values(1,4)
        saturating_add_def usize_saturating_add_def usize_saturating_sub_def copy_slice_def slice_opt_def region_offset_def)
qed

definition far_executable :: "nat FunctionRegistry \<Rightarrow> Executable" where
  "far_executable registry =
     \<lparr>elf_bytes = far_file, sbpf_version = V0, ro_section = Owned 0x100000000 far_text, text_section_vaddr = 0x200000000,
      text_section_range = (64, 80), entry_pc = 0, ex_function_registry = registry, ex_loader = new_mock\<rparr>"

lemma far_register:
  "registered (register_function_hashed_legacy h of_nat new_mock True (str_bytes ''entrypoint'') pc
     (snd (unregister_function (h (str_bytes ''entrypoint'')) FunctionRegistry_default))) =
   Okay (h (str_bytes ''entrypoint''), \<lparr>reg_map = [(h (str_bytes ''entrypoint''), (str_bytes ''entrypoint'', pc))]\<rparr>)"
  by (simp add: registered_def register_function_hashed_legacy_def get_config_def get_function_registry_def new_mock_def
      lookup_by_key_def register_function_def unregister_function_def FunctionRegistry_default_def bt_remove_def
      Let_def)

lemma far_load:
  "load h 0 mem_addr far_file new_mock =
     Okay (far_executable \<lparr>reg_map = [(h (str_bytes ''entrypoint''), (str_bytes ''entrypoint'', 0))]\<rparr>)"
proof -
  have "slice_opt far_file 48 52 = Some [0, 0, 0, 0]"
    by (simp add: slice_opt_def far_file_def) (simp add: far_ehdr_def)
  then have "elf_sbpf_version far_file = Okay V0"
    by (simp add: elf_sbpf_version_def)
  then show ?thesis
    by (simp add: load_def load_with_lenient_parser_def new_mock_config far_parse far_validate far_get_section far_values
        far_elf_fields read_far_ehdr opcode_values(1,4) saturating_add_def saturating_sub_def checked_shr_def
        far_relocate far_ro_sections enable_stricter_elf_headers_def less_eq_SBPFVersion_def far_register far_executable_def
        far_range ensure_def)
qed

section \<open>Properties\<close>



text \<open>
  C5. What the strict parser accepts is placed in the file as it says. The read-only data and the
  text are ranges of the file, one after the other; the text is a whole number of instructions at
  the start of the bytecode region, and the entry point is the number of one of them.
\<close>

theorem strict_parser_placement:
  assumes "load_with_strict_parser mem_addr bytes loader = Okay ex" and "length bytes < 2 ^ 63"
  shows "\<exists>ro_start ro_end text_start text_end.
    ro_section ex = Borrowed 0 (ro_start, ro_end) \<and> text_section_range ex = (text_start, text_end) \<and>
    ro_start \<le> ro_end \<and> ro_end \<le> text_start \<and> text_start \<le> text_end \<and> text_end \<le> length bytes \<and>
    (text_end - text_start) mod INSN_SIZE = 0 \<and> entry_pc ex < (text_end - text_start) div INSN_SIZE \<and>
    text_section_vaddr ex = MM_BYTECODE_START \<and> elf_bytes ex = bytes"
  using strict_load [OF assms] by (auto simp: well_placed_def)

theorem strict_parser_placement_witness: "entry_pc loaded_executable < (160 - 120) div INSN_SIZE"
  using strict_parser_placement [OF strict_parse] by (auto simp: strict_file_def loaded_executable_def)




end
