(* ===== verification/Spec2Isabelle.thy ===== *)
theory Spec2Isabelle
  imports Verifier Address_Translation Instruction_Semantics Safe_Jit_Properties Elf_Properties
begin

text \<open>
  Verification of the sBPF virtual machine in \<^verbatim>\<open>src/casestudy/sbpf\<close>: the loader of ELF
  files, the verifier of bytecode, the memory mapping, the interpreter, and the code generator of the
  safe mode. File names below are relative to \<^verbatim>\<open>src/casestudy/sbpf/src\<close>.

  \<^bold>\<open>How the parts interact.\<close> A file is loaded for a built-in program (the loader, which holds the
  configuration and the registered built-in functions) and gives an executable: the bytes of the file,
  the range of its text, its read-only data, the entry point and the function registry. The executable
  is verified. A machine with registers, a memory mapping, call frames and a context object that carries
  the instruction meter executes it: the interpreter decodes an instruction at the program counter,
  translates virtual addresses through the mapping, and calls built-in functions through the registry.
  The generator of the safe mode compiles a list of instructions to x86-64 machine code instead.

  \<^bold>\<open>Conventions.\<close> A machine integer is a word of its width; a length or an index of type \<open>usize\<close> is a
  natural number, with the saturating and checked operations of a width of 64 bits written out. \<open>None\<close>
  is a panic, a failed \<open>debug_assert!\<close> included; an \<open>Err\<close> is \<open>Inl\<close> of a sum (\<open>Fail\<close> of an \<open>outcome\<close>). A
  method that takes \<open>&mut self\<close> returns the changed receiver. Host memory is a function from addresses to
  bytes in the state of the machine. Code outside the repository is an argument of the definitions that
  use it: the hash function of the \<open>hash32\<close> package, the registered built-in functions, and the addresses
  at which the allocator places buffers.

  \<^bold>\<open>Foundations.\<close>
  \<^item> \<open>Rust_Prelude\<close>: integer types, saturating, checked and wrapping arithmetic, slices, little-endian
    bytes. \<open>Rust_Result\<close>: computations that may panic or return an error, loops that may end early,
    with the collection \<open>result_iff\<close> that takes them apart.
  \<^item> \<open>Btree_Map\<close>: the ordered map of the standard library; the locale \<open>ordered_map\<close> is its interface.
  \<^item> \<open>Errors\<close>: the errors of \<^verbatim>\<open>error.rs\<close>, \<^verbatim>\<open>elf.rs\<close>, \<^verbatim>\<open>verifier.rs\<close> and the stable result type.

  \<^bold>\<open>Bytecode.\<close>
  \<^item> \<open>Ebpf_Opcodes\<close> and \<open>Ebpf\<close> (\<^verbatim>\<open>ebpf.rs\<close>): the constants, and instructions with \<open>to_array\<close>, \<open>get_insn\<close>
    and \<open>augment_lddw_unchecked\<close>. Decoding and encoding are inverse on valid instructions, and the two
    slots of a wide load are merged to the constant they were split from.
  \<^item> \<open>Sbpf_Version\<close>, \<open>Vm_Config\<close>, \<open>Program\<close> (\<^verbatim>\<open>program.rs\<close>, \<^verbatim>\<open>vm.rs\<close>): versions and their features, the
    configuration, function registries and built-in programs, with the locale \<open>function_table\<close>.
  \<^item> \<open>Verifier\<close> (\<^verbatim>\<open>verifier.rs\<close>): \<open>verify\<close> and its checks. It never panics, accepts exactly the programs
    whose instructions are all acceptable, and reports the first one that is not.

  \<^bold>\<open>Memory\<close> (\<^verbatim>\<open>memory_region.rs\<close>).
  \<^item> \<open>Memory_Region\<close>: regions and \<open>vm_to_host\<close>, which stays in bounds and is injective. \<open>Eytzinger\<close>: the search
    tree of the unaligned mapping. \<open>Memory_Mapping\<close>: the aligned and the unaligned mapping with the
    lookup cache, \<open>map\<close>, \<open>load\<close>, \<open>store\<close>, \<open>replace_region\<close> and the access violation handler.
  \<^item> \<open>Mapping_Lemmas\<close>, \<open>Address_Translation\<close>: the locale \<open>region_finder\<close> with an interpretation for each
    mapping; translation is exactly what the regions say, the mappings agree, the cache is transparent,
    and every operation keeps the invariant.

  \<^bold>\<open>Loading.\<close>
  \<^item> \<open>Elf_Types\<close>, \<open>Elf_Parser\<close> (\<^verbatim>\<open>elf_parser\<close>): the layout of the headers and tables, and \<open>elf_parse\<close>.
  \<^item> \<open>Executable\<close>, \<open>Elf_Loader\<close>, \<open>Elf_Lenient\<close> (\<^verbatim>\<open>elf.rs\<close>): the executable with its operations, the strict
    and the lenient parser (validation, relocation, read-only sections), and \<open>load\<close>.
  \<^item> \<open>Elf_Lemmas\<close>, \<open>Elf_Lenient_Lemmas\<close>, \<open>Elf_Safety\<close>, \<open>Elf_Relocation\<close>, \<open>Elf_Text\<close>, \<open>Elf_Properties\<close>: loading
    does not panic on any file; what the strict parser accepts is placed as it says; a relocated wide
    load loads the address of its symbol; and the locale \<open>image_loader\<close>, which both parsers provide, is
    what the verifier and the interpreter rely on. A file with its text at the end of the bytecode
    region is accepted although its text cannot be read.

  \<^bold>\<open>Execution.\<close>
  \<^item> \<open>Vm\<close> (\<^verbatim>\<open>vm.rs\<close>, with the test context object and the test syscalls of \<^verbatim>\<open>test_utils\<close>): the machine, context
    objects with the locale \<open>instruction_meter\<close>, \<open>invoke_function\<close>. \<open>Interpreter\<close> (\<^verbatim>\<open>interpreter.rs\<close>): \<open>step\<close> with
    all arms, calls, returns and system calls, and \<open>execute_program\<close> of \<^verbatim>\<open>vm.rs\<close>.
  \<^item> \<open>Interpreter_Lemmas\<close>, \<open>Interpreter_Safety\<close>: the invariant of a verified program, which every step keeps;
    no step panics. \<open>Interpreter_Control\<close>, \<open>Frame_Pointer\<close>: calls restore the registers of the caller.
    \<open>Execution\<close>: every run ends within its budget. \<open>Memory_Isolation\<close>: a run changes writable regions only.
    \<open>Instruction_Semantics\<close>: the values of products, quotients and byte swaps, and that a load returns
    what was stored. \<open>Sample_Machine\<close>: the machine on which the witnesses run.

  \<^bold>\<open>Code generation\<close> (\<^verbatim>\<open>safe_mode/x86.rs\<close>, \<^verbatim>\<open>safe_mode/jit.rs\<close>).
  \<^item> \<open>Safe_X86\<close>, \<open>Safe_Jit\<close>: the encoder and the generator with its jump table. \<open>Safe_Jit_Layout\<close>: one-pass
    compilation with patching equals direct assembly. \<open>X86_Machine\<close>: the instructions of the processor that
    are used, the specification of the emitted bytes. \<open>Safe_Jit_Correct\<close>, \<open>Safe_Jit_Total\<close>,
    \<open>Jit_Interpreter\<close>, \<open>Safe_Jit_Properties\<close>: the machine code simulates the program and returns what the
    interpreter returns for the instructions on which both agree, and compilation succeeds on verified
    programs of them.

  \<^bold>\<open>Loops and bounds.\<close> \<open>run_interpreter\<close> is a partial function, since a program may loop when the meter is off;
  with the meter each step uses up a unit of the budget, and termination is proved from it. No fuel is used
  for the code of the repository: its other loops recurse on lists or on a decreasing measure. A run
  of the processor model is an inductive relation between a state and the result. Files and programs are shorter than
  \<open>2^63\<close> bytes, the limit of an allocation. The properties of this theory are those that span components.

  \<^bold>\<open>Not modelled.\<close>
  \<^item> \<^verbatim>\<open>jit.rs\<close>, \<^verbatim>\<open>x86.rs\<close>, \<^verbatim>\<open>aarch64.rs\<close>: the production code generators, which depend on random keys, host
    addresses and on code reached through function pointers. \<^verbatim>\<open>memory_management.rs\<close> and
    \<^verbatim>\<open>aligned_memory.rs\<close>: pages and aligned buffers of the operating system; the loader's copy of a file is
    modelled as the list of its bytes and an address.
  \<^item> \<^verbatim>\<open>asm_parser.rs\<close>, \<^verbatim>\<open>assembler.rs\<close>: built on the combinators of the \<open>combine\<close> package.
    \<^verbatim>\<open>disassembler.rs\<close>, \<^verbatim>\<open>static_analysis.rs\<close>, \<^verbatim>\<open>insn_builder.rs\<close>, \<^verbatim>\<open>debugger.rs\<close>: tools beside the machine, which
    loading and execution do not call.
  \<^item> Of the modelled files: \<open>Debug\<close> and \<open>PartialEq\<close> instances, \<open>mem_size\<close> (it depends on the capacities that the
    allocator chooses), \<open>dump_data\<close>, and the encryption of the pointer to the machine, which cancels out.
\<close>

section \<open>Properties that span the verifier, the memory mapping and the interpreter\<close>

text \<open>
  C1. Verified programs do not panic. In a state that satisfies the invariant, one step of the
  interpreter on a program that the verifier accepted has an outcome: no register number is out
  of range, no arithmetic overflows, every division is defined, every decoded slot is inside the
  program. When execution goes on, the invariant holds again.
\<close>

theorem verified_step_never_panics:
  assumes "interp_inv config st" and "syscalls_ok syscalls (executable st)"
  shows "\<exists>go_on st'. step co syscalls st = Some (go_on, st') \<and> (go_on \<longrightarrow> interp_inv config st')"
  using step_ok [OF assms] by blast

theorem verified_step_never_panics_witness:
  "\<exists>go_on st'. step test_context_object sample_syscalls (sample_state 1 0 fresh_frames 7 0x200001000 1) = Some (go_on, st') \<and>
     (go_on \<longrightarrow> interp_inv sample_config st')"
  using verified_step_never_panics [OF sample_inv, of 1 1 sample_syscalls] sample_syscalls_ok
  by (simp add: sample_state_def)

text \<open>
  C2. Executing a verified program always returns. With the instruction meter enabled and
  built-in functions that do not refund the budget, \<open>execute_program\<close> ends without a panic, and
  the instruction count it reports is exactly what the context object was charged.
\<close>

theorem execute_program_returns:
  assumes meter: "\<And>n c. get_remaining co (consume co n c) = saturating_sub (get_remaining co c) n"
    and "launch_ok config ex frames m" and "syscalls_ok syscalls ex" and "syscalls_frugal co syscalls"
  shows "\<exists>count res frames' m'.
    execute_program co syscalls compiled ex Interpreted frames m = Some (Some ((count, res), Interpreted, frames', m')) \<and>
    unat count + unat (get_remaining co (context_object m')) = unat (get_remaining co (context_object m))"
  by (rule instruction_meter.execute_returns [OF instruction_meter.intro [OF meter] assms(2-4)])

theorem execute_program_returns_witness:
  "\<exists>count res frames' m'.
    execute_program test_context_object sample_syscalls None sample_executable Interpreted fresh_frames sample_vm =
      Some (Some ((count, res), Interpreted, frames', m')) \<and>
    unat count + unat (get_remaining test_context_object (context_object m')) = 100"
  using execute_program_returns [OF test_meter.remaining_consume sample_launch sample_syscalls_ok sample_syscalls_frugal, of None]
  by (simp add: sample_vm_def test_context_object_def test_get_remaining_def)

text \<open>
  C3. From the file to the result. A file that the loader accepts, with its text before the stack
  region, is either rejected by the verifier with an error or runs: \<open>execute_program\<close> then returns
  on every machine that is set up for the loader, whatever the file holds. No step in between
  panics.
\<close>

theorem loaded_program_safe:
  assumes meter: "\<And>n c. get_remaining co (consume co n c) = saturating_sub (get_remaining co c) n"
    and "load hash_symbol_name src_addr mem_addr bytes loader = Okay ex" and "length bytes < 2 ^ 63"
    and "text_section_vaddr ex \<noteq> MM_STACK_START"
    and "machine_ready config loader frames m" and "syscalls_ok syscalls ex" and "syscalls_frugal co syscalls"
  shows "(\<exists>err. ex_verify ex = Some (Inl err)) \<or>
    ex_verify ex = Some (Inr ()) \<and>
    (\<exists>count res frames' m'.
      execute_program co syscalls compiled ex Interpreted frames m = Some (Some ((count, res), Interpreted, frames', m')))"
proof -
  obtain res where "ex_verify ex = Some res"
    using elf_image.verify_returns [OF assms(2-4)] assms(5) by (auto simp: machine_ready_def)
  then show ?thesis
    using instruction_meter.execute_returns [OF instruction_meter.intro [OF meter] elf_image.launch [OF assms(2,3) _ assms(5)]]
      assms(6,7) by (cases res; fastforce)
qed

theorem loaded_program_safe_witness:
  "\<exists>count res frames' m'.
    execute_program test_context_object sample_syscalls None loaded_executable Interpreted fresh_frames sample_vm =
      Some (Some ((count, res), Interpreted, frames', m'))"
proof -
  have "machine_ready sample_config sample_loader fresh_frames sample_vm"
    using sample_launch
    by (simp add: machine_ready_def launch_ok_def sample_executable_def get_loader_def ex_get_config_def)
  moreover have "syscalls_ok sample_syscalls loaded_executable"
    using sample_syscalls_ok by (simp add: syscalls_ok_def get_loader_def loaded_executable_def)
  moreover have "text_section_vaddr loaded_executable \<noteq> MM_STACK_START" "length strict_file < 2 ^ 63"
    by (simp_all add: loaded_executable_def sample_executable_def opcode_values strict_file_def)
  ultimately show ?thesis
    using loaded_program_safe [OF test_meter.remaining_consume strict_sample_load _ _ _ _ sample_syscalls_frugal, of _ _ _ None]
      strict_sample_verify by simp
qed

text \<open>
  C7. The host is isolated from the program. After a whole execution of a verified program the
  only bytes of host memory that may differ lie inside a region of the mapping that is writable,
  provided the built-in functions keep to this rule as well.
\<close>

theorem run_confined_to_writable_regions:
  assumes "\<And>n c. get_remaining co (consume co n c) = saturating_sub (get_remaining co c) n"
    and "launch_ok config ex frames m" and "syscalls_ok syscalls ex" and "syscalls_frugal co syscalls"
    and "syscalls_confined syscalls" and "regions_hosted (get_regions (memory_mapping m))"
    and "execute_program co syscalls compiled ex Interpreted frames m = Some (Some (res, mode, frames', m'))"
    and "host_mem m' x \<noteq> host_mem m x"
  shows "\<exists>r \<in> set (get_regions (memory_mapping m)).
    writable r \<and> unat (host_addr r) \<le> unat x \<and> unat x < unat (host_addr r) + unat (mr_len r)"
  using execute_memory [OF instruction_meter.intro [OF assms(1)] assms(2-7)] assms(8)
  by (simp add: confined_def in_writable_def)

theorem run_confined_to_writable_regions_witness:
  "\<exists>r \<in> set (get_regions (memory_mapping sample_vm)).
    writable r \<and> unat (host_addr r) \<le> 0x20004 \<and> 0x20004 < unat (host_addr r) + unat (mr_len r)"
proof -
  obtain frames' m' where run:
      "execute_program test_context_object sample_syscalls None store_executable Interpreted fresh_frames sample_vm =
         Some (Some ((3, Ok 0), Interpreted, frames', m'))" "host_mem m' 0x20004 = 9"
    using store_execute by blast
  have "regions_hosted (get_regions (memory_mapping sample_vm))"
    by (simp add: regions_hosted_def sample_vm_def sample_mapping_def get_regions_def sample_regions_def)
  moreover have "syscalls_ok sample_syscalls store_executable"
    using sample_syscalls_ok by (simp add: syscalls_ok_def store_executable_def get_loader_def)
  moreover have "host_mem m' 0x20004 \<noteq> host_mem sample_vm 0x20004"
    using run(2) by (simp add: sample_vm_def)
  ultimately show ?thesis
    using run_confined_to_writable_regions [OF test_meter.remaining_consume store_launch _ sample_syscalls_frugal
        sample_syscalls_confined _ run(1)]
    by fastforce
qed

text \<open>
  C8. Calls return to their callers. Whatever a called function does, nested calls included,
  when execution comes back to the caller's depth the callee-saved registers \<open>r6\<close> to \<open>r9\<close>
  and the frame pointer are those of the caller, and execution goes on after the call.
\<close>

theorem call_restores_caller:
  assumes "interp_inv config caller" and "syscalls_ok syscalls (executable caller)"
    and "step co syscalls caller = Some (True, callee)"
    and "unat (call_depth (vm callee)) = unat (call_depth (vm caller)) + 1"
    and "inside co syscalls (unat (call_depth (vm caller))) callee leaf"
    and "step co syscalls leaf = Some (True, st')" and "call_depth (vm st') = call_depth (vm caller)"
  shows "reg st' ! 6 = reg caller ! 6 \<and> reg st' ! 7 = reg caller ! 7 \<and> reg st' ! 8 = reg caller ! 8 \<and>
    reg st' ! 9 = reg caller ! 9 \<and> reg st' ! 10 = reg caller ! 10 \<and> reg st' ! 11 = reg caller ! 11 + 1"
proof -
  have "length (reg caller) = 12"
    using assms(1) by (simp add: interp_inv_def run_inv_def image_ok_def)
  moreover have saved: "reg st' ! (6 + i) = take 4 (drop 6 (reg caller)) ! i" if "i < 4" for i
    using call_frame_restored [OF assms] that by (simp add: saved_frame_def)
  ultimately show ?thesis
    using saved [of 0] saved [of 1] saved [of 2] saved [of 3] call_frame_restored [OF assms]
    by (simp add: saved_frame_def)
qed

theorem call_restores_caller_witness:
  "reg (sample_state 4 0 [call_frame, CallFrame_default] 7 0x200001000 2) ! 6 = 7"
proof -
  let ?caller = "sample_state 1 0 fresh_frames 7 0x200001000 1"
  let ?callee = "sample_state 2 1 [call_frame, CallFrame_default] 7 0x200002000 3"
  let ?leaf = "sample_state 3 1 [call_frame, CallFrame_default] 1 0x200002000 4"
  have "inside test_context_object sample_syscalls 0 ?callee ?leaf"
    by (rule inside.proceeds [OF inside.entered sample_callee]) (simp_all add: sample_state_def)
  then have "reg (sample_state 4 0 [call_frame, CallFrame_default] 7 0x200001000 2) ! 6 = reg ?caller ! 6"
    using call_restores_caller [OF sample_inv _ sample_call _ _ sample_return] sample_syscalls_ok
    by (simp add: sample_state_def)
  then show ?thesis
    by (simp add: sample_state_def)
qed



text \<open>
  C10. The meter bounds the number of instructions: a verified program executes at most as many
  instructions as the context object had left when it was started, built-in calls included.
\<close>

theorem instructions_bounded_by_meter:
  assumes meter: "\<And>n c. get_remaining co (consume co n c) = saturating_sub (get_remaining co c) n"
    and "launch_ok config ex frames m" and "syscalls_ok syscalls ex" and "syscalls_frugal co syscalls"
    and "interpreter_new (launched co ex m) ex (registers (launched co ex m)) frames = Some st"
    and "steps co syscalls st n st'"
  shows "n \<le> unat (get_remaining co (context_object m))"
proof -
  obtain st0 where "interpreter_new (launched co ex m) ex (registers (launched co ex m)) frames = Some st0"
      "interp_inv config st0" "metered co st0" "executable st0 = ex"
      "budget st0 = unat (get_remaining co (context_object m))"
    using launch_inv [OF assms(2)] by metis
  then show ?thesis
    using instruction_meter.steps_bound [OF instruction_meter.intro [OF meter] assms(6)] assms(3-5) by fastforce
qed

theorem instructions_bounded_by_meter_witness:
  "2 \<le> unat (get_remaining test_context_object (context_object sample_vm))"
proof -
  have two: "steps test_context_object sample_syscalls (store_state 0 0 0 (\<lambda>_. 0) (Ok 0)) (Suc (Suc 0))
      (store_state 2 0x100000000 3 ((\<lambda>_. 0)(0x20004 := 9)) (Ok 0))"
    by (rule steps.one_more [OF steps.one_more [OF steps.none sample_store_steps(1)] sample_store_steps(2)])
  have "syscalls_ok sample_syscalls store_executable"
    using sample_syscalls_ok by (simp add: syscalls_ok_def store_executable_def get_loader_def)
  then show ?thesis
    using instructions_bounded_by_meter [OF test_meter.remaining_consume store_launch _ sample_syscalls_frugal
        store_interpreter two]
    by simp
qed

definition meterless_loader :: BuiltinProgram where
  "meterless_loader = sample_loader\<lparr>bp_config := Some (sample_config\<lparr>enable_instruction_meter := False\<rparr>)\<rparr>"

definition meterless_prog :: "u8 list" where
  "meterless_prog = [0x85, 0, 0, 0, 5, 0, 0, 0, 0x95, 0, 0, 0, 0, 0, 0, 0]"

definition meterless_executable :: Executable where
  "meterless_executable =
     sample_executable\<lparr>elf_bytes := meterless_prog, ro_section := Borrowed 0 (0, 16), text_section_range := (0, 16),
       ex_loader := meterless_loader\<rparr>"

definition meterless_vm :: "TestContextObject EbpfVm" where
  "meterless_vm = sample_vm\<lparr>context_object := \<lparr>remaining = 0\<rparr>, vm_loader := meterless_loader\<rparr>"

text \<open>
  C35. With the instruction meter disabled a built-in call can panic: \<open>dispatch_syscall\<close>
  subtracts the number of executed instructions from the previous value of the meter without
  looking at the configuration, which overflows as soon as the program has executed more
  instructions than the context object reported, here for a verified program whose first
  instruction is the call.
\<close>

theorem meterless_syscall_overflows:
  "ex_verify meterless_executable = Some (Inr ()) \<and>
   execute_program test_context_object sample_syscalls None meterless_executable Interpreted fresh_frames meterless_vm = Some None"
proof
  show "ex_verify meterless_executable = Some (Inr ())"
    by (simp add: ex_verify_def get_text_bytes_def slice_opt_def meterless_executable_def sample_executable_def
        meterless_prog_def ex_get_config_def get_config_def meterless_loader_def get_sbpf_version_def verify_eval)
  let ?m = "launched test_context_object meterless_executable meterless_vm"
  let ?st = "\<lparr>vm = ?m, executable = meterless_executable, program = meterless_prog,
    program_vm_addr = MM_BYTECODE_START, call_frames = fresh_frames, reg = registers ?m\<rparr>"
  have cfg: "ex_get_config meterless_executable = Some (sample_config\<lparr>enable_instruction_meter := False\<rparr>)"
    by (simp add: ex_get_config_def get_config_def meterless_executable_def meterless_loader_def)
  have new: "interpreter_new ?m meterless_executable (registers ?m) fresh_frames = Some ?st"
    using cfg by (simp add: interpreter_new_def get_text_bytes_def slice_opt_def meterless_executable_def sample_executable_def
        meterless_prog_def sample_config_def Config_default_def)
  have "step test_context_object sample_syscalls ?st = None"
    using cfg
    by (simp add: step_eval launched_def meterless_vm_def sample_vm_def meterless_executable_def sample_executable_def
        meterless_loader_def sample_loader_def meterless_prog_def sample_config_def Config_default_def
        test_context_object_def test_get_remaining_def lookup_by_key_def get_function_registry_def bt_get_def
        dispatch_syscall_def word_le_nat_alt)
  then show "execute_program test_context_object sample_syscalls None meterless_executable Interpreted fresh_frames
      meterless_vm = Some None"
    by (rule execute_program_panic [OF cfg new])
qed

section \<open>Properties that span the interpreter and the code generator\<close>

text \<open>
  C11. Compiled code computes what the interpreter computes. When the interpreter runs a program of
  instructions on which generator and interpreter agree to the result \<open>Ok r\<close>, then the machine code
  that \<open>compile_sbpf\<close> emits for it, started with the same register contents, returns with \<open>r\<close> in \<open>rax\<close>.
\<close>

theorem compiled_code_returns_interpreter_result:
  assumes "run_interpreter co syscalls st = Some (Some st')" and "program_result (vm st') = Ok r"
    and "decodes_to (program st) insns" and "\<forall>insn \<in> set insns. agrees (get_sbpf_version (executable st)) insn"
    and "compile_sbpf insns = Okay code" and "length insns < 2 ^ 60 - 1"
    and "call_depth (vm st) = 0" and "length (reg st) = 12" and "reg st ! 11 = 0"
    and "mapped (\<lambda>k. reg st ! k) s" and "stack s = []" and "rip s = 0"
  shows "\<exists>s'. x86_run code s (Returned s') \<and> regs s' (register_code RAX) = r"
  by (rule compiled_code_result [OF assms])

theorem compiled_code_returns_interpreter_result_witness:
  "\<exists>s'. x86_run jit_sample_code x86_sample (Returned s') \<and> regs s' 0 = 42"
  using compiled_code_returns_interpreter_result [OF jit_sample_interpreted _ _ _ jit_sample_compiles_sbpf, of 42 x86_sample]
    jit_sample_mapped jit_sample_decodes jit_sample_agrees
  by (simp add: jit_sample_state_def x86_sample_def sample_vm_def jit_sample_executable_def get_sbpf_version_def)
    (simp add: jit_sample_insns_def)

text \<open>
  C12. Verified programs compile. The code generator accepts every program that the verifier accepted
  and that consists of such instructions, up to the length at which jumps are sure to reach, and emits
  at most sixteen bytes per instruction.
\<close>

theorem verified_programs_compile:
  assumes "verify prog config v = Some (Inr ())" and "decodes_to prog insns"
    and "\<forall>insn \<in> set insns. agrees v insn" and "length insns < 2 ^ 27"
  shows "\<exists>code. compile_sbpf insns = Okay code \<and> length code \<le> 16 * length insns"
  by (rule verified_compiles [OF assms])

theorem verified_programs_compile_witness:
  "\<exists>code. compile_sbpf jit_sample_insns = Okay code \<and> length code \<le> 80"
  using verified_programs_compile [OF jit_sample_verified jit_sample_decodes jit_sample_agrees]
  by (simp add: jit_sample_insns_def)

end
